(* ===== verification/Prelude.thy ===== *)
theory Prelude
  imports Main
    "HOL-Library.Finite_Map"
    "HOL-Library.List_Lexorder"
    "HOL-Library.Char_ord"
    "HOL-Library.Signed_Division"
    "HOL-Library.Multiset"
begin

text \<open>
  What every component of the model shares: errors and outcomes of Go functions, the
  state-passing operations in which the methods of the reconciliation context are
  written, the loops of the code, and the rules to reason about them.

  A Go function \<open>f() (T, error)\<close> is an operation of type \<open>('s, T) op\<close>: it takes the state
  and returns an outcome and the new state. \<open>Fail e\<close> is a non-nil \<open>error\<close> result, \<open>Panic\<close>
  a run-time panic (nil dereference, write to a nil map, index out of range, division by
  zero). \<open>attempt\<close> gives the error back as a value, for the callers that inspect or ignore
  it; a panic is never given back.
\<close>

section \<open>Errors and outcomes\<close>

datatype error =
    NotFound string
  | AlreadyExists string
  | ApiError string
  | Errorf string
  | Wrapf string error

fun IsNotFound :: "error \<Rightarrow> bool" where
  "IsNotFound (NotFound _) = True"
| "IsNotFound _ = False"

datatype 'a outcome = Return 'a | Fail error | Panic

definition obind :: "'a outcome \<Rightarrow> ('a \<Rightarrow> 'b outcome) \<Rightarrow> 'b outcome" where
  "obind r f = (case r of Return a \<Rightarrow> f a | Fail e \<Rightarrow> Fail e | Panic \<Rightarrow> Panic)"

lemma obind_simps [simp]:
  "obind (Return a) f = f a"
  "obind (Fail e) f = Fail e"
  "obind Panic f = Panic"
  by (simp_all add: obind_def)

lemma obind_eq_Return_iff: "obind r f = Return b \<longleftrightarrow> (\<exists>a. r = Return a \<and> f a = Return b)"
  by (cases r) auto

type_synonym ('s, 'a) op = "'s \<Rightarrow> 'a outcome \<times> 's"

definition ret :: "'a \<Rightarrow> ('s, 'a) op" where
  "ret a = (\<lambda>s. (Return a, s))"

definition fail :: "error \<Rightarrow> ('s, 'a) op" where
  "fail e = (\<lambda>s. (Fail e, s))"

definition panic :: "('s, 'a) op" where
  "panic = (\<lambda>s. (Panic, s))"

definition gets :: "('s \<Rightarrow> 'a) \<Rightarrow> ('s, 'a) op" where
  "gets f = (\<lambda>s. (Return (f s), s))"

definition modify :: "('s \<Rightarrow> 's) \<Rightarrow> ('s, unit) op" where
  "modify f = (\<lambda>s. (Return (), f s))"

definition bindM :: "('s, 'a) op \<Rightarrow> ('a \<Rightarrow> ('s, 'b) op) \<Rightarrow> ('s, 'b) op" where
  "bindM m f = (\<lambda>s. case m s of
      (Return a, t) \<Rightarrow> f a t
    | (Fail e, t) \<Rightarrow> (Fail e, t)
    | (Panic, t) \<Rightarrow> (Panic, t))"

definition thenM :: "('s, 'a) op \<Rightarrow> ('s, 'b) op \<Rightarrow> ('s, 'b) op" where
  "thenM m k = bindM m (\<lambda>_. k)"

definition attempt :: "('s, 'a) op \<Rightarrow> ('s, error + 'a) op" where
  "attempt m = (\<lambda>s. case m s of
      (Return a, t) \<Rightarrow> (Return (Inr a), t)
    | (Fail e, t) \<Rightarrow> (Return (Inl e), t)
    | (Panic, t) \<Rightarrow> (Panic, t))"

definition lift :: "'a outcome \<Rightarrow> ('s, 'a) op" where
  "lift r = (\<lambda>s. (r, s))"

definition of_sum :: "error + 'a \<Rightarrow> 'a outcome" where
  "of_sum x = (case x of Inl e \<Rightarrow> Fail e | Inr a \<Rightarrow> Return a)"

text \<open>
  A loop whose body may return from the enclosing function: \<open>Some v\<close> is such a return,
  \<open>None\<close> goes on with the next element; falling out of the loop is \<open>None\<close>. \<open>foldM\<close> is a
  loop that carries local variables and returns only by an error.
\<close>

fun forM :: "'x list \<Rightarrow> ('x \<Rightarrow> ('s, 'r option) op) \<Rightarrow> ('s, 'r option) op" where
  "forM [] body = ret None"
| "forM (x # xs) body =
     bindM (body x) (\<lambda>r. case r of Some v \<Rightarrow> ret (Some v) | None \<Rightarrow> forM xs body)"

definition returning :: "('s, 'r option) op \<Rightarrow> ('s, 'r) op \<Rightarrow> ('s, 'r) op" where
  "returning loop rest =
     bindM loop (\<lambda>r. case r of Some v \<Rightarrow> ret v | None \<Rightarrow> rest)"

fun foldM :: "('acc \<Rightarrow> 'x \<Rightarrow> ('s, 'acc) op) \<Rightarrow> 'acc \<Rightarrow> 'x list \<Rightarrow> ('s, 'acc) op" where
  "foldM f a [] = ret a"
| "foldM f a (x # xs) = bindM (f a x) (\<lambda>b. foldM f b xs)"

text \<open>A loop with both: \<open>Inl\<close> is the value of the local variables, \<open>Inr\<close> a return.\<close>

fun loopM :: "('acc \<Rightarrow> 'x \<Rightarrow> ('s, 'acc + 'r) op) \<Rightarrow> 'acc \<Rightarrow> 'x list \<Rightarrow> ('s, 'acc + 'r) op" where
  "loopM f a [] = ret (Inl a)"
| "loopM f a (x # xs) =
     bindM (f a x) (\<lambda>r. case r of Inl b \<Rightarrow> loopM f b xs | Inr v \<Rightarrow> ret (Inr v))"

section \<open>Reasoning about operations\<close>

named_theorems op_simps \<open>one-step evaluation of operations\<close>
named_theorems preserves_intros \<open>rules of \<open>preserves\<close>\<close>

lemma ret_run [op_simps]: "ret a s = (Return a, s)"
  and fail_run [op_simps]: "fail e s = (Fail e, s)"
  and panic_run [op_simps]: "panic s = (Panic, s)"
  and gets_run [op_simps]: "gets g s = (Return (g s), s)"
  and modify_run [op_simps]: "modify f s = (Return (), f s)"
  and lift_run [op_simps]: "lift r s = (r, s)"
  by (simp_all add: ret_def fail_def panic_def gets_def modify_def lift_def)

lemma bindM_ret [simp]: "bindM (ret a) f = f a"
  by (simp add: bindM_def ret_def)

lemma bindM_gets: "bindM (gets f) k s = k (f s) s"
  by (simp add: bindM_def gets_def)

lemma bindM_modify: "bindM (modify f) k s = k () (f s)"
  by (simp add: bindM_def modify_def)

lemma bindM_fail [simp]: "bindM (fail e) f = fail e"
  by (simp add: bindM_def fail_def)

lemma bindM_panic [simp]: "bindM panic f = panic"
  by (simp add: bindM_def panic_def)

lemma bindM_Return: "m s = (Return a, t) \<Longrightarrow> bindM m f s = f a t"
  by (simp add: bindM_def)

lemma bindM_Fail: "m s = (Fail e, t) \<Longrightarrow> bindM m f s = (Fail e, t)"
  by (simp add: bindM_def)

lemma bindM_assoc: "bindM (bindM m f) g = bindM m (\<lambda>a. bindM (f a) g)"
  by (auto simp: bindM_def fun_eq_iff split: prod.splits outcome.splits)

lemma bindM_ret_right [simp]: "bindM m ret = m"
  by (auto simp: bindM_def ret_def fun_eq_iff split: prod.splits outcome.splits)

lemma bindM_eq_Return_iff:
  "bindM m f s = (Return b, t) \<longleftrightarrow> (\<exists>a u. m s = (Return a, u) \<and> f a u = (Return b, t))"
  by (auto simp: bindM_def split: prod.splits outcome.splits)

lemma attempt_run:
  "attempt m s = (case m s of (Return a, t) \<Rightarrow> (Return (Inr a), t)
     | (Fail e, t) \<Rightarrow> (Return (Inl e), t) | (Panic, t) \<Rightarrow> (Panic, t))"
  by (simp add: attempt_def)

lemma attempt_ret [simp]: "attempt (ret a) = ret (Inr a)"
  by (simp add: attempt_def ret_def)

lemma attempt_fail [simp]: "attempt (fail e) = ret (Inl e)"
  by (simp add: attempt_def ret_def fail_def)

lemmas op_eval = op_simps bindM_def thenM_def attempt_def returning_def

text \<open>
  \<open>preserves I m\<close>: from every state with \<open>I\<close>, \<open>m\<close> ends in a state with \<open>I\<close>, whatever its outcome.
\<close>

definition preserves :: "('s \<Rightarrow> bool) \<Rightarrow> ('s, 'a) op \<Rightarrow> bool" where
  "preserves I m \<longleftrightarrow> (\<forall>s. I s \<longrightarrow> I (snd (m s)))"

lemma preservesD: "preserves I m \<Longrightarrow> I s \<Longrightarrow> m s = (r, t) \<Longrightarrow> I t"
  by (auto simp: preserves_def)

lemma preserves_pure [preserves_intros]:
  "preserves I (ret a)" "preserves I (fail e)" "preserves I panic" "preserves I (gets f)" "preserves I (lift r)"
  by (simp_all add: preserves_def op_simps)

lemma preserves_modify [preserves_intros]: "(\<And>s. I s \<Longrightarrow> I (f s)) \<Longrightarrow> preserves I (modify f)"
  by (simp add: preserves_def op_simps)

lemma preserves_bindM [preserves_intros]:
  "preserves I m \<Longrightarrow> (\<And>a. preserves I (f a)) \<Longrightarrow> preserves I (bindM m f)"
  unfolding preserves_def bindM_def by (fastforce split: prod.splits outcome.splits)

lemma preserves_thenM [preserves_intros]: "preserves I m \<Longrightarrow> preserves I k \<Longrightarrow> preserves I (thenM m k)"
  by (simp add: thenM_def preserves_bindM)

lemma preserves_attempt [preserves_intros]: "preserves I m \<Longrightarrow> preserves I (attempt m)"
  unfolding preserves_def attempt_def by (fastforce split: prod.splits outcome.splits)

lemma preserves_cases [preserves_intros]:
  "preserves I m \<Longrightarrow> preserves I k \<Longrightarrow> preserves I (if b then m else k)"
  "preserves I m \<Longrightarrow> (\<And>a. preserves I (f a)) \<Longrightarrow> preserves I (case x of None \<Rightarrow> m | Some a \<Rightarrow> f a)"
  "(\<And>e. preserves I (g e)) \<Longrightarrow> (\<And>a. preserves I (f a)) \<Longrightarrow>
     preserves I (case y of Inl e \<Rightarrow> g e | Inr a \<Rightarrow> f a)"
  "(\<And>a b. preserves I (h a b)) \<Longrightarrow> preserves I (case z of (a, b) \<Rightarrow> h a b)"
  "preserves I (f v) \<Longrightarrow> preserves I (Let v f)"
  "preserves I m \<Longrightarrow> (\<And>c cs. preserves I (l c cs)) \<Longrightarrow> preserves I (case w of [] \<Rightarrow> m | c # cs \<Rightarrow> l c cs)"
  by (auto split: option.split sum.split prod.split list.split)

lemma preserves_foldM [preserves_intros]: "(\<And>a x. preserves I (f a x)) \<Longrightarrow> preserves I (foldM f a xs)"
  by (induction xs arbitrary: a) (auto intro: preserves_intros)

end
