(* ===== verification/GoLib.thy ===== *)
theory GoLib
  imports Prelude
begin

text \<open>
  The parts of the Go language and of its standard library that the operator's code uses:
  nil-able maps, the functions of package \<open>strings\<close>, decimal formatting
  (\<open>fmt.Sprintf\<close> with \<open>%d\<close> and \<open>%v\<close>), conversion to \<open>int32\<close>, truncated division.
  Strings are lists of bytes, as in Go.
\<close>

section \<open>Maps\<close>

text \<open>
  A Go map is a finite map or nil (\<open>None\<close>). Reading nil gives the zero value, deleting
  from nil does nothing, writing to nil panics. Equality is \<open>reflect.DeepEqual\<close>: a nil map
  and an empty map differ.
\<close>

type_synonym 'v gomap = "(string, 'v) fmap option"

definition mfind :: "'v gomap \<Rightarrow> string \<Rightarrow> 'v option" where
  "mfind m k = (case m of None \<Rightarrow> None | Some f \<Rightarrow> fmlookup f k)"

definition mget :: "string gomap \<Rightarrow> string \<Rightarrow> string" where
  "mget m k = (case mfind m k of None \<Rightarrow> [] | Some v \<Rightarrow> v)"

definition mput :: "'v gomap \<Rightarrow> string \<Rightarrow> 'v \<Rightarrow> 'v gomap outcome" where
  "mput m k v = (case m of None \<Rightarrow> Panic | Some f \<Rightarrow> Return (Some (fmupd k v f)))"

definition mdel :: "'v gomap \<Rightarrow> string \<Rightarrow> 'v gomap" where
  "mdel m k = map_option (fmdrop k) m"

definition mlen :: "'v gomap \<Rightarrow> nat" where
  "mlen m = (case m of None \<Rightarrow> 0 | Some f \<Rightarrow> card (fset (fmdom f)))"

definition contents :: "'v gomap \<Rightarrow> (string, 'v) fmap" where
  "contents m = (case m of None \<Rightarrow> fmempty | Some f \<Rightarrow> f)"

definition mapOf :: "(string \<times> 'v) list \<Rightarrow> 'v gomap" where
  "mapOf kvs = Some (fold (\<lambda>(k, v) f. fmupd k v f) kvs fmempty)"

lemma mfind_None [simp]: "mfind None k = None"
  by (simp add: mfind_def)

lemma mfind_Some [simp]: "mfind (Some f) k = fmlookup f k"
  by (simp add: mfind_def)

lemma mget_None [simp]: "mget None k = []"
  by (simp add: mget_def)

lemma mfind_contents: "mfind m k = fmlookup (contents m) k"
  by (cases m) (simp_all add: contents_def)

lemma mget_ne_empty: "mget m k \<noteq> [] \<Longrightarrow> mfind m k = Some (mget m k)"
  by (simp add: mget_def split: option.splits)

lemma mget_eq: "v \<noteq> [] \<Longrightarrow> mget m k = v \<longleftrightarrow> mfind m k = Some v"
  by (auto simp: mget_def split: option.splits)

lemma mfind_mdel [simp]: "mfind (mdel m k) k' = (if k' = k then None else mfind m k')"
  by (cases m) (auto simp: mdel_def)

lemma mput_Return: "mput m k v = Return m' \<longleftrightarrow> (\<exists>f. m = Some f \<and> m' = Some (fmupd k v f))"
  by (auto simp: mput_def split: option.splits)

lemma mput_not_Fail [simp]: "mput m k v \<noteq> Fail e"
  by (simp add: mput_def split: option.splits)

lemma mget_upd [simp]: "mget (Some (fmupd k v f)) k' = (if k' = k then v else mget (Some f) k')"
  by (simp add: mget_def)

lemma mget_fmempty [simp]: "mget (Some fmempty) k = []"
  by (simp add: mget_def)

section \<open>Strings\<close>

definition HasPrefix :: "string \<Rightarrow> string \<Rightarrow> bool" where
  "HasPrefix s p = (length p \<le> length s \<and> take (length p) s = p)"

definition HasSuffix :: "string \<Rightarrow> string \<Rightarrow> bool" where
  "HasSuffix s x = (length x \<le> length s \<and> drop (length s - length x) s = x)"

definition TrimSuffix :: "string \<Rightarrow> string \<Rightarrow> string" where
  "TrimSuffix s x = (if HasSuffix s x then take (length s - length x) s else s)"

definition TrimRightChar :: "string \<Rightarrow> char \<Rightarrow> string" where
  "TrimRightChar s c = rev (dropWhile (\<lambda>x. x = c) (rev s))"

text \<open>\<open>strings.Split\<close> at a one-byte separator, \<open>strings.Join\<close>, \<open>strings.Contains\<close>.\<close>

fun Split :: "string \<Rightarrow> char \<Rightarrow> string list" where
  "Split [] c = [[]]"
| "Split (x # xs) c =
     (if x = c then [] # Split xs c
      else case Split xs c of y # ys \<Rightarrow> (x # y) # ys | [] \<Rightarrow> [[x]])"

fun Join :: "string list \<Rightarrow> string \<Rightarrow> string" where
  "Join [] sep = []"
| "Join [x] sep = x"
| "Join (x # y # ys) sep = x @ sep @ Join (y # ys) sep"

definition isSpace :: "char \<Rightarrow> bool" where
  "isSpace c = (c \<in> {CHR '' '', CHR 0x09, CHR 0x0A, CHR 0x0B, CHR 0x0C, CHR 0x0D})"

definition TrimSpace :: "string \<Rightarrow> string" where
  "TrimSpace s = rev (dropWhile isSpace (rev (dropWhile isSpace s)))"

text \<open>A string between single quotes, as the error messages have it.\<close>

definition quoted :: "string \<Rightarrow> string" where
  "quoted s = [CHR 0x27] @ s @ [CHR 0x27]"

lemma HasPrefix_iff: "HasPrefix s p \<longleftrightarrow> (\<exists>r. s = p @ r)"
proof
  assume "HasPrefix s p"
  then have "s = p @ drop (length p) s"
    by (metis HasPrefix_def append_take_drop_id)
  then show "\<exists>r. s = p @ r" ..
qed (auto simp: HasPrefix_def)

lemma HasSuffix_iff: "HasSuffix s x \<longleftrightarrow> (\<exists>r. s = r @ x)"
proof
  assume "HasSuffix s x"
  then have "s = take (length s - length x) s @ x"
    by (metis HasSuffix_def append_take_drop_id)
  then show "\<exists>r. s = r @ x" ..
qed (auto simp: HasSuffix_def)

lemma TrimSuffix_append [simp]: "TrimSuffix (s @ x) x = s"
  by (simp add: TrimSuffix_def HasSuffix_def)

lemma Split_nonempty [simp]: "Split s c \<noteq> []"
  by (induction s c rule: Split.induct) (auto split: list.splits)

lemma Split_no_sep: "c \<notin> set s \<Longrightarrow> Split s c = [s]"
  by (induction s c rule: Split.induct) auto

lemma Split_append_sep: "Split (s @ c # t) c = Split s c @ Split t c"
  by (induction s c rule: Split.induct) (auto split: list.splits)

lemma last_Split_append_sep: "c \<notin> set t \<Longrightarrow> last (Split (s @ c # t) c) = t"
  by (simp add: Split_append_sep Split_no_sep)

lemma Join_Split: "Join (Split s c) [c] = s"
proof (induction s c rule: Split.induct)
  case (2 x xs c)
  show ?case
  proof (cases "Split xs c")
    case Nil
    then show ?thesis by simp
  next
    case (Cons y ys)
    with 2 show ?thesis by (cases ys) auto
  qed
qed simp

section \<open>Decimal formatting\<close>

definition digit :: "nat \<Rightarrow> char" where
  "digit d = char_of (48 + d)"

fun decimal :: "nat \<Rightarrow> string" where
  "decimal n = (if n < 10 then [digit n] else decimal (n div 10) @ [digit (n mod 10)])"

declare decimal.simps [simp del]

definition showInt :: "int \<Rightarrow> string" where
  "showInt i = (if i < 0 then CHR ''-'' # decimal (nat (- i)) else decimal (nat i))"

definition digitVal :: "char \<Rightarrow> nat" where
  "digitVal c = of_char c - 48"

definition undecimal :: "string \<Rightarrow> nat" where
  "undecimal s = foldl (\<lambda>a c. 10 * a + digitVal c) 0 s"

lemma digitVal_digit [simp]: "d < 10 \<Longrightarrow> digitVal (digit d) = d"
  by (simp add: digitVal_def digit_def)

lemma undecimal_decimal [simp]: "undecimal (decimal n) = n"
proof (induction n rule: decimal.induct)
  case (1 n)
  show ?case
  proof (cases "n < 10")
    case True
    then show ?thesis by (subst decimal.simps) (simp add: undecimal_def)
  next
    case False
    with 1 have "foldl (\<lambda>a c. 10 * a + digitVal c) 0 (decimal (n div 10)) = n div 10"
      by (simp add: undecimal_def)
    with False show ?thesis
      by (subst decimal.simps) (simp add: undecimal_def)
  qed
qed

lemma decimal_inject [simp]: "decimal m = decimal n \<longleftrightarrow> m = n"
  by (metis undecimal_decimal)

lemma decimal_digits: "c \<in> set (decimal n) \<Longrightarrow> \<exists>d<10. c = digit d"
proof (induction n rule: decimal.induct)
  case (1 n)
  have "\<exists>d<10. digit (n mod 10) = digit d"
    by (rule exI [of _ "n mod 10"]) simp
  with 1 show ?case
    by (cases "n < 10") (auto simp: decimal.simps [of n])
qed

lemma digit_neq_minus: "d < 10 \<Longrightarrow> digit d \<noteq> CHR ''-''"
proof
  assume d: "d < 10" and eq: "digit d = CHR ''-''"
  have "of_char (digit d) = 48 + d" using d by (simp add: digit_def)
  with eq show False by simp
qed

lemma minus_notin_decimal: "CHR ''-'' \<notin> set (decimal n)"
  using decimal_digits [of "CHR ''-''" n] digit_neq_minus by metis

lemma decimal_nonempty [simp]: "decimal n \<noteq> []"
  by (subst decimal.simps) simp

lemma showInt_inject [simp]: "showInt i = showInt j \<longleftrightarrow> i = j"
proof
  assume eq: "showInt i = showInt j"
  have mixed: "CHR ''-'' # xs \<noteq> decimal n" for xs n
    using minus_notin_decimal [of n] by (metis list.set_intros(1))
  from eq show "i = j"
    using mixed mixed [symmetric]
    by (auto simp: showInt_def split: if_splits)
qed simp

text \<open>The text after the last minus sign of a name is determined by the name.\<close>

lemma append_sep_inject:
  fixes r s x y :: string
  shows "c \<notin> set x \<Longrightarrow> c \<notin> set y \<Longrightarrow> r @ c # x = s @ c # y \<longleftrightarrow> r = s \<and> x = y"
proof
  assume c: "c \<notin> set x" "c \<notin> set y" and eq: "r @ c # x = s @ c # y"
  have "last (Split (r @ c # x) c) = x" "last (Split (s @ c # y) c) = y"
    using c by (simp_all add: last_Split_append_sep)
  with eq have "x = y" by simp
  with eq show "r = s \<and> x = y" by simp
qed simp

section \<open>Integers\<close>

text \<open>
  Conversion of an \<open>int\<close> to \<open>int32\<close> keeps the low 32 bits as a two's complement number;
  arithmetic on \<open>int32\<close> values is arithmetic followed by this conversion. Division of
  \<open>int\<close> truncates, and panics on zero.
\<close>

definition int32 :: "int \<Rightarrow> int" where
  "int32 x = (x + 2 ^ 31) mod 2 ^ 32 - 2 ^ 31"

definition goDiv :: "int \<Rightarrow> int \<Rightarrow> int outcome" where
  "goDiv a b = (if b = 0 then Panic else Return (a sdiv b))"

definition goMod :: "int \<Rightarrow> int \<Rightarrow> int outcome" where
  "goMod a b = (if b = 0 then Panic else Return (a smod b))"

lemma int32_id [simp]: "- (2 ^ 31) \<le> x \<Longrightarrow> x < 2 ^ 31 \<Longrightarrow> int32 x = x"
  by (simp add: int32_def)

lemma int32_range: "- (2 ^ 31) \<le> int32 x" "int32 x < 2 ^ 31"
  by (simp_all add: int32_def)

end
