(* ===== verification/Objects.thy ===== *)
theory Objects
  imports GoLib
begin

text \<open>
  The Kubernetes objects the operator reads and writes, with the fields its code reads or
  sets. Every object extends \<open>ObjectMeta\<close>, as the Go structs embed \<open>metav1.ObjectMeta\<close>; a
  function on \<open>metav1.Object\<close> is a function on \<open>'a ObjectMeta_scheme\<close>. A nil slice and an
  empty one are the same list; a nil map and an empty one differ. A time is an \<open>int\<close>,
  nanoseconds since the epoch; \<open>zeroTime\<close> is the zero \<open>metav1.Time\<close>.
\<close>

definition zeroTime :: int where
  "zeroTime = - 62135596800000000000"

definition Second :: int where "Second = 1000000000"
definition Minute :: int where "Minute = 60 * Second"

section \<open>Metadata\<close>

record OwnerReference =
  or_Kind :: string
  or_Name :: string
  or_Controller :: bool

record ObjectMeta =
  Name :: string
  Namespace :: string
  Labels :: "string gomap"
  Annotations :: "string gomap"
  Generation :: int
  ResourceVersion :: string
  CreationTimestamp :: int
  DeletionTimestamp :: "int option"
  Finalizers :: "string list"
  OwnerReferences :: "OwnerReference list"

definition emptyMeta :: ObjectMeta where
  "emptyMeta = \<lparr>Name = [], Namespace = [], Labels = None, Annotations = None, Generation = 0,
     ResourceVersion = [], CreationTimestamp = zeroTime, DeletionTimestamp = None,
     Finalizers = [], OwnerReferences = []\<rparr>"

type_synonym NamespacedName = "string \<times> string"

text \<open>\<open>types.NamespacedName\<close> is a pair: namespace, name.\<close>

definition namespacedNameOf :: "'a ObjectMeta_scheme \<Rightarrow> NamespacedName" where
  "namespacedNameOf o1 = (Namespace o1, Name o1)"

section \<open>Quantities and resources\<close>

text \<open>
  A \<open>resource.Quantity\<close> is an unscaled integer and a decimal scale, its value the unscaled
  integer divided by 10 to the scale.
\<close>

record Quantity =
  q_Unscaled :: int
  q_Scale :: int

record ResourceRequirements =
  Limits :: "Quantity gomap"
  Requests :: "Quantity gomap"

definition noResources :: ResourceRequirements where
  "noResources = \<lparr>Limits = None, Requests = None\<rparr>"

section \<open>Volumes and containers\<close>

datatype VolumeSource =
    NoSource
  | EmptyDir
  | SecretSource string
  | ClaimSource string
  | ConfigMapSource string
  | OtherSource string

record Volume =
  v_Name :: string
  v_Source :: VolumeSource

record VolumeMount =
  vm_Name :: string
  vm_MountPath :: string
  vm_ReadOnly :: bool

datatype EnvSource = FieldRef string | SecretKeyRef string string | OtherRef string

record EnvVar =
  ev_Name :: string
  ev_Value :: string
  ev_From :: "EnvSource option"

record ContainerPort =
  cp_Name :: string
  cp_Port :: int

datatype Handler =
    NoHandler
  | HTTPGet int string
  | TCPSocket int
  | Exec "string list"

record Probe =
  pr_Handler :: Handler
  pr_InitialDelaySeconds :: int
  pr_PeriodSeconds :: int
  pr_TimeoutSeconds :: int

record Container =
  c_Name :: string
  c_Image :: string
  c_ImagePullPolicy :: string
  c_Args :: "string list"
  c_Env :: "EnvVar list"
  c_Ports :: "ContainerPort list"
  c_VolumeMounts :: "VolumeMount list"
  c_Resources :: ResourceRequirements
  c_LivenessProbe :: "Probe option"
  c_ReadinessProbe :: "Probe option"
  c_PreStop :: "Handler option option"

definition emptyContainer :: Container where
  "emptyContainer = \<lparr>c_Name = [], c_Image = [], c_ImagePullPolicy = [], c_Args = [], c_Env = [],
     c_Ports = [], c_VolumeMounts = [], c_Resources = noResources, c_LivenessProbe = None,
     c_ReadinessProbe = None, c_PreStop = None\<rparr>"

section \<open>Pods\<close>

record PodCondition =
  pc_Type :: string
  pc_Status :: string
  pc_Reason :: string
  pc_LastTransitionTime :: int

text \<open>
  \<open>cs_Running\<close> is \<open>State.Running.StartedAt\<close> when \<open>State.Running\<close> is not nil,
  \<open>cs_LastTerminated\<close> is \<open>LastTerminationState.Terminated.FinishedAt\<close> likewise.
\<close>

record ContainerStatus =
  cs_Name :: string
  cs_Ready :: bool
  cs_Running :: "int option"
  cs_LastTerminated :: "int option"

record Pod = ObjectMeta +
  NodeName :: string
  Volumes :: "Volume list"
  Phase :: string
  PodIP :: string
  HostIP :: string
  PodConditions :: "PodCondition list"
  ContainerStatuses :: "ContainerStatus list"

record Toleration =
  tol_Key :: string
  tol_Operator :: string
  tol_Value :: string
  tol_Effect :: string

record NodeSelectorRequirement =
  nsr_Key :: string
  nsr_Operator :: string
  nsr_Values :: "string list"

text \<open>
  The affinity the operator builds: required node-selector terms (each a conjunction of
  requirements) and required pod anti-affinity terms, each a label selector with
  expressions and a topology key.
\<close>

record PodAffinityTerm =
  pat_Expressions :: "NodeSelectorRequirement list"
  pat_TopologyKey :: string

record Affinity =
  af_NodeTerms :: "NodeSelectorRequirement list list option"
  af_AntiAffinity :: "PodAffinityTerm list option"

record PodSecurityContext =
  psc_RunAsUser :: "int option"
  psc_RunAsGroup :: "int option"
  psc_FSGroup :: "int option"

record PodTemplateSpec = ObjectMeta +
  ts_ServiceAccountName :: string
  ts_HostNetwork :: bool
  ts_DNSPolicy :: string
  ts_TerminationGracePeriodSeconds :: "int option"
  ts_SecurityContext :: "PodSecurityContext option"
  ts_ImagePullSecrets :: "string list"
  ts_Affinity :: "Affinity option"
  ts_Tolerations :: "Toleration list"
  ts_NodeSelector :: "string gomap"
  ts_Volumes :: "Volume list"
  ts_InitContainers :: "Container list"
  ts_Containers :: "Container list"

definition emptyTemplate :: PodTemplateSpec where
  "emptyTemplate = ObjectMeta.extend emptyMeta
     \<lparr>ts_ServiceAccountName = [], ts_HostNetwork = False, ts_DNSPolicy = [],
      ts_TerminationGracePeriodSeconds = None, ts_SecurityContext = None, ts_ImagePullSecrets = [],
      ts_Affinity = None, ts_Tolerations = [], ts_NodeSelector = None, ts_Volumes = [],
      ts_InitContainers = [], ts_Containers = []\<rparr>"

section \<open>The other kinds\<close>

record PVCSpec =
  StorageClassName :: "string option"
  AccessModes :: "string list"
  PVCRequests :: "Quantity gomap"
  VolumeName :: string

record PersistentVolumeClaim = ObjectMeta +
  pvc_Spec :: PVCSpec
  pvc_Phase :: string

record PersistentVolume = ObjectMeta +
  Capacity :: "Quantity gomap"

record UpdateStrategy =
  us_Type :: string
  us_Partition :: "int option"

record StatefulSet = ObjectMeta +
  Replicas :: "int option"
  Selector :: "string gomap"
  ServiceName :: string
  PodManagementPolicy :: string
  Template :: PodTemplateSpec
  VolumeClaimTemplates :: "PersistentVolumeClaim list"
  UpdateStrategy :: UpdateStrategy
  ss_ObservedGeneration :: int
  ss_Replicas :: int
  ss_ReadyReplicas :: int
  ss_CurrentReplicas :: int
  ss_UpdatedReplicas :: int

record Taint =
  taint_Key :: string
  taint_Value :: string
  taint_Effect :: string

record Node = ObjectMeta +
  Taints :: "Taint list"

record Secret = ObjectMeta +
  secret_Type :: string
  Data :: "string gomap"

record PodDisruptionBudget = ObjectMeta +
  MinAvailable :: int
  pdb_Selector :: "string gomap"

record ServicePort =
  sp_Name :: string
  sp_Port :: int
  sp_TargetPort :: int
  sp_NodePort :: int

record Service = ObjectMeta +
  svc_Type :: string
  svc_ClusterIP :: string
  svc_Selector :: "string gomap"
  svc_Ports :: "ServicePort list"
  svc_PublishNotReady :: bool
  svc_ExternalTrafficPolicy :: string

record EndpointAddress =
  ea_IP :: string

record Endpoints = ObjectMeta +
  Subsets :: "EndpointAddress list list"

record ConfigMap = ObjectMeta +
  cm_Data :: "string gomap"
  cm_BinaryData :: "string gomap"

text \<open>An ingress rule is the list of the peers it allows; the operator writes the empty rule.\<close>

record NetworkPolicy = ObjectMeta +
  np_PodSelector :: "string gomap"
  np_PolicyTypes :: "string list"
  np_Ingress :: "string list list"

text \<open>What \<open>deepHashString\<close> is applied to.\<close>

datatype hashable =
    HashStatefulSet StatefulSet
  | HashPDB PodDisruptionBudget
  | HashService Service
  | HashEndpoints Endpoints
  | HashNetworkPolicy NetworkPolicy
  | HashSecret Secret
  | HashConfigMap ConfigMap

end
