(* ===== verification/Utilities.thy ===== *)
theory Utilities
  imports Objects
begin

text \<open>
  Package \<open>pkg/utils\<close> (\<open>utilities.go\<close>, \<open>hash_annotation.go\<close>, \<open>k8s_utils.go\<close>) and package
  \<open>pkg/oplabels\<close>: list and map helpers, the hash annotation, the string sets and the filters
  over pods, nodes and claims that the maintenance-mode code is written with. A \<open>StringSet\<close>
  is a \<open>string set\<close>; the code never stores \<open>false\<close> in one.
\<close>

section \<open>Lists (utilities.go)\<close>

definition IsPSPEnabled :: "(string \<Rightarrow> string option) \<Rightarrow> bool" where
  "IsPSPEnabled LookupEnv =
     (case LookupEnv ''ENABLE_VMWARE_PSP'' of
        None \<Rightarrow> False
      | Some value \<Rightarrow> ''true'' = TrimSpace value)"

text \<open>
  The ceiling is taken of a floating-point quotient; a zero step gives an infinite size,
  and a negative size makes \<open>make\<close> panic.
\<close>

definition RangeInt :: "int \<Rightarrow> int \<Rightarrow> int \<Rightarrow> int list outcome" where
  "RangeInt lo hi step =
     (if step = 0 then Panic
      else let size = - ((lo - hi) div step)
           in if size < 0 then Panic
              else Return (map (\<lambda>i. lo + int i * step) [0..<nat size]))"

fun firstIndex :: "('a \<Rightarrow> bool) \<Rightarrow> 'a list \<Rightarrow> nat option" where
  "firstIndex P [] = None"
| "firstIndex P (x # xs) = (if P x then Some 0 else map_option Suc (firstIndex P xs))"

fun elementsLoop :: "'a list \<Rightarrow> 'a list \<Rightarrow> int list \<Rightarrow> bool" where
  "elementsLoop [] b idxs = True"
| "elementsLoop (e1 # a) b idxs =
     (case firstIndex (\<lambda>bIndex. e1 = b ! nat bIndex) idxs of
        Some foundIndex \<Rightarrow> elementsLoop a b (take foundIndex idxs @ drop (Suc foundIndex) idxs)
      | None \<Rightarrow> False)"

definition ElementsMatch :: "'a list \<Rightarrow> 'a list \<Rightarrow> bool outcome" where
  "ElementsMatch a b =
     (if length a \<noteq> length b then Return False
      else case RangeInt 0 (int (length b)) 1 of
          Return idxs \<Rightarrow> Return (elementsLoop a b idxs)
        | Fail e \<Rightarrow> Fail e
        | Panic \<Rightarrow> Panic)"

fun indexOfFrom :: "int \<Rightarrow> string list \<Rightarrow> string \<Rightarrow> int" where
  "indexOfFrom idx [] v = - 1"
| "indexOfFrom idx (item # a) v = (if item = v then idx else indexOfFrom (idx + 1) a v)"

definition IndexOfString :: "string list \<Rightarrow> string \<Rightarrow> int" where
  "IndexOfString a v = indexOfFrom 0 a v"

text \<open>
  The array behind the argument is shifted in place; every caller stores the returned slice
  where it took the argument from, so only that slice is modelled.
\<close>

definition RemoveValueFromStringArray :: "string list \<Rightarrow> string \<Rightarrow> string list" where
  "RemoveValueFromStringArray a v =
     (let foundIdx = IndexOfString a v
      in if foundIdx > - 1 then take (nat foundIdx) a @ drop (Suc (nat foundIdx)) a else a)"

fun AppendValuesToStringArrayIfNotPresent :: "string list \<Rightarrow> string list \<Rightarrow> string list" where
  "AppendValuesToStringArrayIfNotPresent a [] = a"
| "AppendValuesToStringArrayIfNotPresent a (v # values) =
     AppendValuesToStringArrayIfNotPresent
       (if IndexOfString a v < 0 then a @ [v] else a) values"

text \<open>
  \<open>MergeMap\<close> writes the entries of each source into the destination: a nil destination
  panics at the first entry. The order of the entries of one source does not matter.
\<close>

fun MergeMap :: "'v gomap \<Rightarrow> 'v gomap list \<Rightarrow> 'v gomap outcome" where
  "MergeMap destination [] = Return destination"
| "MergeMap destination (source # sources) =
     (if contents source = fmempty then MergeMap destination sources
      else case destination of
          None \<Rightarrow> Panic
        | Some d \<Rightarrow> MergeMap (Some (fmadd d (contents source))) sources)"

section \<open>Hash annotation (hash\_annotation.go)\<close>

definition resourceHashAnnotationKey :: string where
  "resourceHashAnnotationKey = ''cassandra.datastax.com/resource-hash''"

definition ResourcesHaveSameHash :: "'a ObjectMeta_scheme \<Rightarrow> 'b ObjectMeta_scheme \<Rightarrow> bool" where
  "ResourcesHaveSameHash r1 r2 =
     (if Annotations r1 = None \<or> Annotations r2 = None then False
      else mget (Annotations r1) resourceHashAnnotationKey =
           mget (Annotations r2) resourceHashAnnotationKey)"

text \<open>\<open>deepHashString\<close> (SHA-256 of a dump of the object) is the argument \<open>h\<close>.\<close>

definition AddHashAnnotation ::
    "('a ObjectMeta_scheme \<Rightarrow> string) \<Rightarrow> 'a ObjectMeta_scheme \<Rightarrow> 'a ObjectMeta_scheme" where
  "AddHashAnnotation h r =
     r\<lparr>Annotations := Some (fmupd resourceHashAnnotationKey (h r) (contents (Annotations r)))\<rparr>"

section \<open>Sets and filters (k8s\_utils.go)\<close>

definition UnionStringSet :: "string set \<Rightarrow> string set \<Rightarrow> string set" where
  "UnionStringSet a b = a \<union> b"

definition SubtractStringSet :: "string set \<Rightarrow> string set \<Rightarrow> string set" where
  "SubtractStringSet a b = Set.filter (\<lambda>k. k \<notin> b) a"

definition IntersectionStringSet :: "string set \<Rightarrow> string set \<Rightarrow> string set" where
  "IntersectionStringSet a b = Set.filter (\<lambda>k. k \<in> b) a"

definition GetNodeNameSet :: "Node list \<Rightarrow> string set" where
  "GetNodeNameSet nodes = set (map Name nodes)"

definition hasTaint :: "Node \<Rightarrow> string \<Rightarrow> string \<Rightarrow> string \<Rightarrow> bool" where
  "hasTaint node taintKey value effect =
     list_ex (\<lambda>taint. taint_Key taint = taintKey \<and> taint_Effect taint = effect
        \<and> taint_Value taint = value) (Taints node)"

definition FilterNodesWithTaintKeyValueEffect ::
    "Node list \<Rightarrow> string \<Rightarrow> string \<Rightarrow> string \<Rightarrow> Node list" where
  "FilterNodesWithTaintKeyValueEffect nodes taintKey value effect =
     filter (\<lambda>node. hasTaint node taintKey value effect) nodes"

definition IsPodUnschedulable :: "Pod \<Rightarrow> bool" where
  "IsPodUnschedulable pod =
     list_ex (\<lambda>c. pc_Reason c = ''Unschedulable'' \<and> pc_Type c = ''PodScheduled''
        \<and> pc_Status c = ''False'') (PodConditions pod)"

definition GetPodNameSet :: "Pod list \<Rightarrow> string set" where
  "GetPodNameSet pods = set (map Name pods)"

definition GetPodNodeNameSet :: "Pod list \<Rightarrow> string set" where
  "GetPodNodeNameSet pods = set (map NodeName pods)"

definition FilterPodsWithFn :: "Pod list \<Rightarrow> (Pod \<Rightarrow> bool) \<Rightarrow> Pod list" where
  "FilterPodsWithFn pods fn = filter fn pods"

definition FilterPodsWithNodeInNameSet :: "Pod list \<Rightarrow> string set \<Rightarrow> Pod list" where
  "FilterPodsWithNodeInNameSet pods nameSet = FilterPodsWithFn pods (\<lambda>pod. NodeName pod \<in> nameSet)"

definition FilterPodsWithAnnotationKey :: "Pod list \<Rightarrow> string \<Rightarrow> Pod list" where
  "FilterPodsWithAnnotationKey pods key =
     FilterPodsWithFn pods (\<lambda>pod. mfind (Annotations pod) key \<noteq> None)"

definition FilterPodsWithLabel :: "Pod list \<Rightarrow> string \<Rightarrow> string \<Rightarrow> Pod list" where
  "FilterPodsWithLabel pods label val =
     FilterPodsWithFn pods (\<lambda>pod. mfind (Labels pod) label = Some val)"

definition GetPVCSelectedNodeName :: "PersistentVolumeClaim \<Rightarrow> string" where
  "GetPVCSelectedNodeName pvc = mget (Annotations pvc) ''volume.kubernetes.io/selected-node''"

section \<open>Managed-by label (oplabels)\<close>

definition ManagedByLabel :: string where
  "ManagedByLabel = ''app.kubernetes.io/managed-by''"

definition ManagedByLabelValue :: string where
  "ManagedByLabelValue = ''cass-operator''"

definition AddManagedByLabel :: "string gomap \<Rightarrow> string gomap outcome" where
  "AddManagedByLabel m = mput m ManagedByLabel ManagedByLabelValue"

definition HasManagedByCassandraOperatorLabel :: "string gomap \<Rightarrow> bool" where
  "HasManagedByCassandraOperatorLabel m = (mfind m ManagedByLabel = Some ManagedByLabelValue)"

section \<open>Lemmas\<close>

lemma firstIndex_None_iff: "firstIndex P xs = None \<longleftrightarrow> (\<forall>x\<in>set xs. \<not> P x)"
  by (induction xs) auto

lemma firstIndex_Some: "firstIndex P xs = Some i \<Longrightarrow> i < length xs \<and> P (xs ! i)"
  by (induction xs arbitrary: i) (auto split: if_splits)

lemma RangeInt_0_1: "RangeInt 0 (int n) 1 = Return (map int [0..<n])"
  by (simp add: RangeInt_def Let_def)

lemma mset_remove_nth:
  "k < length xs \<Longrightarrow> mset xs = add_mset (xs ! k) (mset (take k xs @ drop (Suc k) xs))"
  by (metis id_take_nth_drop mset.simps(2) mset_append union_mset_add_mset_right)

lemma elementsLoop_iff: "elementsLoop a b idxs \<longleftrightarrow> mset a \<subseteq># mset (map (\<lambda>i. b ! nat i) idxs)"
proof (induction a arbitrary: idxs)
  case (Cons e a)
  show ?case
  proof (cases "firstIndex (\<lambda>i. e = b ! nat i) idxs")
    case None
    then have "e \<notin># mset (map (\<lambda>i. b ! nat i) idxs)" by (auto simp: firstIndex_None_iff)
    then show ?thesis using None by (auto dest: mset_subset_eqD)
  next
    case (Some k)
    then have k: "k < length idxs" "e = b ! nat (idxs ! k)" using firstIndex_Some by fastforce+
    have "mset (map (\<lambda>i. b ! nat i) idxs) = image_mset (\<lambda>i. b ! nat i) (mset idxs)" by simp
    also have "\<dots> = add_mset e (mset (map (\<lambda>i. b ! nat i) (take k idxs @ drop (Suc k) idxs)))"
      by (subst mset_remove_nth [OF k(1)]) (simp add: k(2))
    finally show ?thesis using Cons.IH Some by simp
  qed
qed simp

lemma ElementsMatch_mset: "ElementsMatch a b = Return (mset a = mset b)"
proof -
  have "map (\<lambda>i. b ! nat i) (map int [0..<length b]) = b" by (simp add: map_nth comp_def)
  then have "elementsLoop a b (map int [0..<length b]) \<longleftrightarrow> mset a = mset b" if "length a = length b"
    using that by (metis elementsLoop_iff mset_subset_eq_exists_conv size_mset subset_mset.order_refl
        mset_subset_size nat_less_le subset_mset.le_less)
  then show ?thesis
    by (auto simp: ElementsMatch_def RangeInt_0_1 dest: mset_eq_length)
qed

lemma indexOfFrom_bounds: "v \<in> set a \<Longrightarrow> idx \<le> indexOfFrom idx a v \<and> indexOfFrom idx a v < idx + int (length a)"
proof (induction a arbitrary: idx)
  case (Cons x a)
  show ?case
  proof (cases "x = v")
    case False
    then have "v \<in> set a" using Cons.prems by simp
    from Cons.IH [OF this, of "idx + 1"] False show ?thesis by simp
  qed simp
qed simp

lemma indexOfFrom_notin: "v \<notin> set a \<Longrightarrow> indexOfFrom idx a v = - 1"
  by (induction a arbitrary: idx) auto

lemma IndexOfString_neg_iff [simp]: "IndexOfString a v < 0 \<longleftrightarrow> v \<notin> set a"
  using indexOfFrom_bounds [of v a 0] indexOfFrom_notin [of v a 0]
  by (cases "v \<in> set a") (auto simp: IndexOfString_def)

lemma indexOfFrom_shift: "v \<in> set a \<Longrightarrow> indexOfFrom (idx + 1) a v = indexOfFrom idx a v + 1"
proof (induction a arbitrary: idx)
  case (Cons x a)
  then show ?case using Cons.IH [of "idx + 1"] by auto
qed simp

lemma RemoveValue_remove1: "RemoveValueFromStringArray a v = remove1 v a"
proof (induction a)
  case (Cons x a)
  show ?case
  proof (cases "v \<in> set a \<and> x \<noteq> v")
    case True
    then have "indexOfFrom 1 a v = indexOfFrom 0 a v + 1" "0 \<le> indexOfFrom 0 a v"
      using indexOfFrom_shift [of v a 0] indexOfFrom_bounds [of v a 0] by auto
    then show ?thesis using Cons True
      by (auto simp: RemoveValueFromStringArray_def IndexOfString_def Let_def nat_add_distrib
          split: if_splits)
  next
    case False
    then show ?thesis
      by (auto simp: RemoveValueFromStringArray_def IndexOfString_def indexOfFrom_notin remove1_idem)
  qed
qed (simp add: RemoveValueFromStringArray_def IndexOfString_def)

lemma AppendValues_set [simp]:
  "set (AppendValuesToStringArrayIfNotPresent a vs) = set a \<union> set vs"
  by (induction a vs rule: AppendValuesToStringArrayIfNotPresent.induct) auto

lemma AppendValues_distinct:
  "distinct a \<Longrightarrow> distinct (AppendValuesToStringArrayIfNotPresent a vs)"
  by (induction a vs rule: AppendValuesToStringArrayIfNotPresent.induct) auto

lemma AppendValues_prefix:
  "\<exists>ws. AppendValuesToStringArrayIfNotPresent a vs = a @ ws \<and> set ws \<subseteq> set vs"
proof (induction a vs rule: AppendValuesToStringArrayIfNotPresent.induct)
  case (2 a v vs)
  then show ?case by (cases "v \<in> set a") force+
qed simp

lemma MergeMap_Some:
  "MergeMap (Some d) ss = Return (Some (foldl (\<lambda>d s. fmadd d (contents s)) d ss))"
  by (induction ss arbitrary: d) auto

lemma mfind_MergeMap_one:
  "MergeMap (Some d) [s] = Return m \<Longrightarrow>
     mfind m k = (case mfind s k of None \<Rightarrow> fmlookup d k | Some v \<Rightarrow> Some v)"
  unfolding MergeMap_Some
  by (auto simp: mfind_contents contents_def fmlookup_dom_iff split: option.splits)

lemma ResourcesHaveSameHash_added:
  "ResourcesHaveSameHash (AddHashAnnotation h r) (AddHashAnnotation h' s) \<longleftrightarrow> h r = h' s"
  by (simp add: ResourcesHaveSameHash_def AddHashAnnotation_def)

lemma StringSet_simps [simp]:
  "UnionStringSet a b = a \<union> b"
  "SubtractStringSet a b = a - b"
  "IntersectionStringSet a b = a \<inter> b"
  by (auto simp: UnionStringSet_def SubtractStringSet_def IntersectionStringSet_def)

end
