(* ===== verification/Datacenter.thy ===== *)
theory Datacenter
  imports Utilities
begin

text \<open>
  The custom resource of \<open>pkg/apis/cassandra/v1beta1/cassandradatacenter_types.go\<close>: its
  spec and status, the labels, service names and ports derived from them, the condition
  list of the status, and \<open>SplitRacks\<close>, the split of the nodes over the racks that the
  webhook, the rack calculation and the decommission all rely on.
\<close>

section \<open>Labels\<close>

definition ClusterLabel :: string where "ClusterLabel = ''cassandra.datastax.com/cluster''"
definition DatacenterLabel :: string where "DatacenterLabel = ''cassandra.datastax.com/datacenter''"
definition SeedNodeLabel :: string where "SeedNodeLabel = ''cassandra.datastax.com/seed-node''"
definition RackLabel :: string where "RackLabel = ''cassandra.datastax.com/rack''"
definition CassOperatorProgressLabel :: string where
  "CassOperatorProgressLabel = ''cassandra.datastax.com/operator-progress''"
definition PromMetricsLabel :: string where
  "PromMetricsLabel = ''cassandra.datastax.com/prom-metrics''"
definition ConfigHashAnnotation :: string where
  "ConfigHashAnnotation = ''cassandra.datastax.com/config-hash''"
definition CassNodeState :: string where "CassNodeState = ''cassandra.datastax.com/node-state''"

lemmas label_defs = ClusterLabel_def DatacenterLabel_def SeedNodeLabel_def RackLabel_def
  CassOperatorProgressLabel_def PromMetricsLabel_def CassNodeState_def ManagedByLabel_def

lemma distinct_labels:
  "distinct [ClusterLabel, DatacenterLabel, SeedNodeLabel, RackLabel, CassOperatorProgressLabel,
     PromMetricsLabel, CassNodeState, ManagedByLabel]"
  by (simp add: label_defs)

lemma distinct_labels_rev:
  "distinct [ManagedByLabel, CassNodeState, PromMetricsLabel, CassOperatorProgressLabel, RackLabel,
     SeedNodeLabel, DatacenterLabel, ClusterLabel]"
  by (simp add: label_defs)

lemmas label_neqs [simp] = distinct_labels [simplified] distinct_labels_rev [simplified]

section \<open>Spec\<close>

record CassandraUser =
  SecretName :: string
  Superuser :: bool

record NodePortConfig =
  Native :: int
  NativeSSL :: int
  Internode :: int
  InternodeSSL :: int

record NetworkingConfig =
  NodePort :: "NodePortConfig option"
  HostNetwork :: bool

record DseWorkloads =
  AnalyticsEnabled :: bool
  GraphEnabled :: bool
  SearchEnabled :: bool

record AdditionalVolumes =
  av_MountPath :: string
  av_Name :: string
  av_PVCSpec :: PVCSpec

record StorageConfig =
  CassandraDataVolumeClaimSpec :: "PVCSpec option"
  AdditionalVolumesSlice :: "AdditionalVolumes list"

record ServiceConfigAdditions =
  sca_Labels :: "string gomap"
  sca_Annotations :: "string gomap"

record ServiceConfig =
  sc_DatacenterService :: ServiceConfigAdditions
  sc_SeedService :: ServiceConfigAdditions
  sc_AllPodsService :: ServiceConfigAdditions
  sc_AdditionalSeedService :: ServiceConfigAdditions
  sc_NodePortService :: ServiceConfigAdditions

record Rack =
  rack_Name :: string
  rack_Zone :: string
  rack_NodeAffinityLabels :: "string gomap"

record ManagementApiAuthManualConfig =
  ClientSecretName :: string
  ServerSecretName :: string
  SkipSecretValidation :: bool

record ManagementApiAuthConfig =
  Insecure :: bool
  Manual :: "ManagementApiAuthManualConfig option"

text \<open>\<open>Insecure\<close> says that the pointer of that name is not nil.\<close>

record ReaperConfig =
  reaper_Enabled :: bool
  reaper_Image :: string
  reaper_ImagePullPolicy :: string
  reaper_Resources :: ResourceRequirements

record CassandraDatacenterSpec =
  Size :: int
  ServerVersion :: string
  ServerImage :: string
  ServerType :: string
  DockerImageRunsAsCassandra :: "bool option"
  Config :: "string option"
  ConfigSecret :: string
  ManagementApiAuth :: ManagementApiAuthConfig
  NodeAffinityLabels :: "string gomap"
  Resources :: ResourceRequirements
  SystemLoggerResources :: ResourceRequirements
  ConfigBuilderResources :: ResourceRequirements
  Racks :: "Rack list"
  StorageConfig :: StorageConfig
  ReplaceNodes :: "string list"
  ClusterName :: string
  Stopped :: bool
  ConfigBuilderImage :: string
  CanaryUpgrade :: bool
  CanaryUpgradeCount :: int
  AllowMultipleNodesPerWorker :: bool
  SuperuserSecretName :: string
  ServiceAccount :: string
  RollingRestartRequested :: bool
  NodeSelector :: "string gomap"
  ForceUpgradeRacks :: "string list"
  DseWorkloads :: "DseWorkloads option"
  SpecPodTemplate :: "PodTemplateSpec option"
  Users :: "CassandraUser list"
  Networking :: "NetworkingConfig option"
  AdditionalSeeds :: "string list"
  Reaper :: "ReaperConfig option"
  DisableSystemLoggerSidecar :: bool
  SystemLoggerImage :: string
  AdditionalServiceConfig :: ServiceConfig
  Tolerations :: "Toleration list"

section \<open>Status\<close>

datatype ConditionStatus = ConditionTrue | ConditionFalse | ConditionUnknown

datatype DatacenterConditionType =
    DatacenterReady
  | DatacenterInitialized
  | DatacenterReplacingNodes
  | DatacenterScalingUp
  | DatacenterScalingDown
  | DatacenterUpdating
  | DatacenterStopped
  | DatacenterResuming
  | DatacenterRollingRestart
  | DatacenterValid

record DatacenterCondition =
  cond_Type :: DatacenterConditionType
  cond_Status :: ConditionStatus
  cond_Reason :: string
  cond_Message :: string
  LastTransitionTime :: int

datatype ProgressState = ProgressNone | ProgressUpdating | ProgressReady

text \<open>A \<open>CassandraNodeStatus\<close> is its only field, the host id.\<close>

record CassandraDatacenterStatus =
  Conditions :: "DatacenterCondition list"
  SuperUserUpserted :: int
  UsersUpserted :: int
  LastServerNodeStarted :: int
  CassandraOperatorProgress :: ProgressState
  LastRollingRestart :: int
  NodeStatuses :: "string gomap"
  NodeReplacements :: "string list"
  QuietPeriod :: int
  ObservedGeneration :: int

record CassandraDatacenter = ObjectMeta +
  Spec :: CassandraDatacenterSpec
  Status :: CassandraDatacenterStatus

section \<open>Getters\<close>

definition IsNodePortEnabled :: "CassandraDatacenter \<Rightarrow> bool" where
  "IsNodePortEnabled dc =
     (case Networking (Spec dc) of None \<Rightarrow> False | Some n \<Rightarrow> NodePort n \<noteq> None)"

definition IsHostNetworkEnabled :: "CassandraDatacenter \<Rightarrow> bool" where
  "IsHostNetworkEnabled dc =
     (case Networking (Spec dc) of None \<Rightarrow> False | Some n \<Rightarrow> HostNetwork n)"

definition GetRacks :: "CassandraDatacenter \<Rightarrow> Rack list" where
  "GetRacks dc =
     (if length (Racks (Spec dc)) \<ge> 1 then Racks (Spec dc)
      else [\<lparr>rack_Name = ''default'', rack_Zone = [], rack_NodeAffinityLabels = None\<rparr>])"

definition GetClusterLabels :: "CassandraDatacenter \<Rightarrow> string gomap" where
  "GetClusterLabels dc = Some (fmupd ClusterLabel (ClusterName (Spec dc)) fmempty)"

definition GetDatacenterLabels :: "CassandraDatacenter \<Rightarrow> string gomap" where
  "GetDatacenterLabels dc =
     map_option (fmupd DatacenterLabel (Name dc)) (GetClusterLabels dc)"

definition GetRackLabels :: "CassandraDatacenter \<Rightarrow> string \<Rightarrow> string gomap" where
  "GetRackLabels dc rackName = map_option (fmupd RackLabel rackName) (GetDatacenterLabels dc)"

definition GetSeedServiceName :: "CassandraDatacenter \<Rightarrow> string" where
  "GetSeedServiceName dc = ClusterName (Spec dc) @ ''-seed-service''"

definition GetAdditionalSeedsServiceName :: "CassandraDatacenter \<Rightarrow> string" where
  "GetAdditionalSeedsServiceName dc =
     ClusterName (Spec dc) @ ''-'' @ Name dc @ ''-additional-seed-service''"

definition GetAllPodsServiceName :: "CassandraDatacenter \<Rightarrow> string" where
  "GetAllPodsServiceName dc = ClusterName (Spec dc) @ ''-'' @ Name dc @ ''-all-pods-service''"

definition GetDatacenterServiceName :: "CassandraDatacenter \<Rightarrow> string" where
  "GetDatacenterServiceName dc = ClusterName (Spec dc) @ ''-'' @ Name dc @ ''-service''"

definition GetNodePortServiceName :: "CassandraDatacenter \<Rightarrow> string" where
  "GetNodePortServiceName dc = ClusterName (Spec dc) @ ''-'' @ Name dc @ ''-node-port-service''"

definition ShouldGenerateSuperuserSecret :: "CassandraDatacenter \<Rightarrow> bool" where
  "ShouldGenerateSuperuserSecret dc = (length (SuperuserSecretName (Spec dc)) = 0)"

definition GetSuperuserSecretNamespacedName :: "CassandraDatacenter \<Rightarrow> NamespacedName" where
  "GetSuperuserSecretNamespacedName dc =
     (Namespace dc,
      if length (SuperuserSecretName (Spec dc)) > 0 then SuperuserSecretName (Spec dc)
      else ClusterName (Spec dc) @ ''-superuser'')"

section \<open>Conditions\<close>

definition NewDatacenterCondition ::
    "DatacenterConditionType \<Rightarrow> ConditionStatus \<Rightarrow> DatacenterCondition" where
  "NewDatacenterCondition conditionType status =
     \<lparr>cond_Type = conditionType, cond_Status = status, cond_Reason = [], cond_Message = [],
      LastTransitionTime = zeroTime\<rparr>"

definition NewDatacenterConditionWithReason ::
    "DatacenterConditionType \<Rightarrow> ConditionStatus \<Rightarrow> string \<Rightarrow> string \<Rightarrow> DatacenterCondition" where
  "NewDatacenterConditionWithReason conditionType status reason message =
     \<lparr>cond_Type = conditionType, cond_Status = status, cond_Reason = reason, cond_Message = message,
      LastTransitionTime = zeroTime\<rparr>"

definition status_GetConditionStatus ::
    "CassandraDatacenterStatus \<Rightarrow> DatacenterConditionType \<Rightarrow> ConditionStatus" where
  "status_GetConditionStatus status conditionType =
     (case find (\<lambda>c. cond_Type c = conditionType) (Conditions status) of
        Some condition \<Rightarrow> cond_Status condition
      | None \<Rightarrow> ConditionUnknown)"

definition GetConditionStatus ::
    "CassandraDatacenter \<Rightarrow> DatacenterConditionType \<Rightarrow> ConditionStatus" where
  "GetConditionStatus dc conditionType = status_GetConditionStatus (Status dc) conditionType"

definition GetCondition ::
    "CassandraDatacenter \<Rightarrow> DatacenterConditionType \<Rightarrow> DatacenterCondition option" where
  "GetCondition dc conditionType = find (\<lambda>c. cond_Type c = conditionType) (Conditions (Status dc))"

text \<open>\<open>GetCondition\<close> returns \<open>(condition, true)\<close> as \<open>Some condition\<close>.\<close>

definition status_SetCondition ::
    "CassandraDatacenterStatus \<Rightarrow> DatacenterCondition \<Rightarrow> CassandraDatacenterStatus" where
  "status_SetCondition status condition =
     (let updated = map (\<lambda>c. if cond_Type c = cond_Type condition then condition else c) (Conditions status);
          added = list_ex (\<lambda>c. cond_Type c = cond_Type condition) (Conditions status)
      in status\<lparr>Conditions := if \<not> added then updated @ [condition] else updated\<rparr>)"

definition SetCondition :: "CassandraDatacenter \<Rightarrow> DatacenterCondition \<Rightarrow> CassandraDatacenter" where
  "SetCondition dc condition = dc\<lparr>Status := status_SetCondition (Status dc) condition\<rparr>"

section \<open>Ports\<close>

definition DefaultNativePort :: int where "DefaultNativePort = 9042"
definition DefaultInternodePort :: int where "DefaultInternodePort = 7000"

definition GetNodePortNativePort :: "CassandraDatacenter \<Rightarrow> int" where
  "GetNodePortNativePort dc =
     (case Networking (Spec dc) of
        None \<Rightarrow> 0
      | Some n \<Rightarrow>
          (case NodePort n of
             None \<Rightarrow> 0
           | Some np \<Rightarrow>
               if NativeSSL np \<noteq> 0 then NativeSSL np
               else if Native np \<noteq> 0 then Native np
               else DefaultNativePort))"

definition GetNodePortInternodePort :: "CassandraDatacenter \<Rightarrow> int" where
  "GetNodePortInternodePort dc =
     (case Networking (Spec dc) of
        None \<Rightarrow> 0
      | Some n \<Rightarrow>
          (case NodePort n of
             None \<Rightarrow> 0
           | Some np \<Rightarrow>
               if InternodeSSL np \<noteq> 0 then InternodeSSL np
               else if Internode np \<noteq> 0 then Internode np
               else DefaultInternodePort))"

definition namedPort :: "string \<Rightarrow> int \<Rightarrow> ContainerPort" where
  "namedPort name port = \<lparr>cp_Name = name, cp_Port = int32 port\<rparr>"

definition GetContainerPorts :: "CassandraDatacenter \<Rightarrow> ContainerPort list outcome" where
  "GetContainerPorts dc =
     (let ports =
        [namedPort ''native'' DefaultNativePort,
         namedPort ''tls-native'' 9142,
         namedPort ''internode'' DefaultInternodePort,
         namedPort ''tls-internode'' 7001,
         namedPort ''jmx'' 7199,
         namedPort ''mgmt-api-http'' 8080,
         namedPort ''prometheus'' 9103,
         namedPort ''thrift'' 9160];
      ports =
        (if ServerType (Spec dc) = ''dse'' then ports @ [namedPort ''internode-msg'' 8609] else ports)
      in case DseWorkloads (Spec dc) of
          None \<Rightarrow> Return ports
        | Some w \<Rightarrow>
            (let ports =
              (if AnalyticsEnabled w then ports @
                [namedPort ''spark-app-4040'' 4040,
                 namedPort ''spark-app-4041'' 4041,
                 namedPort ''spark-app-4042'' 4042,
                 namedPort ''spark-app-4043'' 4043,
                 namedPort ''spark-app-4044'' 4044,
                 namedPort ''spark-app-4045'' 4045,
                 namedPort ''spark-app-4046'' 4046,
                 namedPort ''spark-app-4047'' 4047,
                 namedPort ''spark-app-4048'' 4048,
                 namedPort ''spark-app-4049'' 4049,
                 namedPort ''spark-app-4050'' 4050,
                 namedPort ''dsefs-public'' 5598,
                 namedPort ''dsefs-internode'' 5599,
                 namedPort ''spark-internode'' 7077,
                 namedPort ''spark-master'' 7080,
                 namedPort ''spark-worker'' 7081,
                 namedPort ''jobserver'' 8090,
                 namedPort ''always-on-sql'' 9077,
                 namedPort ''jobserver-jmx'' 9999,
                 namedPort ''sql-thrift'' 10000,
                 namedPort ''spark-history'' 18080]
               else ports);
              ports = (if GraphEnabled w then ports @ [namedPort ''gremlin'' 8182] else ports);
              ports = (if SearchEnabled w then ports @ [namedPort ''solr'' 8983] else ports)
             in Return ports))"

section \<open>Rack split\<close>

definition SplitRacks :: "int \<Rightarrow> int \<Rightarrow> int list outcome" where
  "SplitRacks nodeCount rackCount =
     obind (goDiv nodeCount rackCount) (\<lambda>nodesPerRack.
     obind (goMod nodeCount rackCount) (\<lambda>extraNodes.
       Return (map (\<lambda>rackIdx. if int rackIdx < extraNodes then nodesPerRack + 1 else nodesPerRack)
         [0..<nat rackCount])))"

section \<open>Lemmas: labels and conditions\<close>

lemma mfind_GetClusterLabels [simp]:
  "mfind (GetClusterLabels dc) k = (if k = ClusterLabel then Some (ClusterName (Spec dc)) else None)"
  by (simp add: GetClusterLabels_def)

lemma mfind_GetDatacenterLabels [simp]:
  "mfind (GetDatacenterLabels dc) k =
     (if k = DatacenterLabel then Some (Name dc) else mfind (GetClusterLabels dc) k)"
  by (simp add: GetDatacenterLabels_def GetClusterLabels_def)

lemma mfind_GetRackLabels [simp]:
  "mfind (GetRackLabels dc r) k =
     (if k = RackLabel then Some r else mfind (GetDatacenterLabels dc) k)"
  by (simp add: GetRackLabels_def GetDatacenterLabels_def GetClusterLabels_def)

lemma GetRacks_nonempty [simp]: "GetRacks dc \<noteq> []"
  by (auto simp: GetRacks_def Suc_le_eq)

lemma find_map_replace:
  "cond_Type c = t \<Longrightarrow> find (\<lambda>x. cond_Type x = t') (map (\<lambda>x. if cond_Type x = t then c else x) cs) =
     (if t' = t then (if \<exists>x\<in>set cs. cond_Type x = t then Some c else None) else find (\<lambda>x. cond_Type x = t') cs)"
  by (induction cs) auto

lemma find_append: "find P (xs @ ys) = (case find P xs of None \<Rightarrow> find P ys | Some x \<Rightarrow> Some x)"
  by (induction xs) auto

lemma find_Conditions_SetCondition:
  "find (\<lambda>x. cond_Type x = t) (Conditions (status_SetCondition st c)) =
     (if t = cond_Type c then Some c else find (\<lambda>x. cond_Type x = t) (Conditions st))"
  by (auto simp: status_SetCondition_def Let_def find_append find_map_replace list_ex_iff
      split: option.splits)

lemma status_GetConditionStatus_SetCondition [simp]:
  "status_GetConditionStatus (status_SetCondition st c) t =
     (if t = cond_Type c then cond_Status c else status_GetConditionStatus st t)"
  by (simp add: status_GetConditionStatus_def find_Conditions_SetCondition)

lemma GetConditionStatus_SetCondition [simp]:
  "GetConditionStatus (SetCondition dc c) t =
     (if t = cond_Type c then cond_Status c else GetConditionStatus dc t)"
  by (simp add: GetConditionStatus_def SetCondition_def)

lemma SetCondition_fields [simp]:
  "Spec (SetCondition dc c) = Spec dc"
  "Name (SetCondition dc c) = Name dc"
  "Namespace (SetCondition dc c) = Namespace dc"
  "Labels (SetCondition dc c) = Labels dc"
  "NodeReplacements (Status (SetCondition dc c)) = NodeReplacements (Status dc)"
  by (simp_all add: SetCondition_def status_SetCondition_def Let_def)

text \<open>A status never holds two conditions of one type, if it did not before.\<close>

definition condTypesDistinct :: "CassandraDatacenterStatus \<Rightarrow> bool" where
  "condTypesDistinct st = distinct (map cond_Type (Conditions st))"

lemma map_ct_replace: "map (cond_Type \<circ> (\<lambda>x. if cond_Type x = cond_Type c then c else x)) cs = map cond_Type cs"
  by (induction cs) auto

lemma condTypesDistinct_SetCondition:
  "condTypesDistinct st \<Longrightarrow> condTypesDistinct (status_SetCondition st c)"
  unfolding condTypesDistinct_def status_SetCondition_def
  by (auto simp: map_ct_replace list_ex_iff Let_def)

section \<open>Lemmas: the split of nodes over racks\<close>

lemma sdiv_nonneg: "0 \<le> a \<Longrightarrow> 0 < b \<Longrightarrow> a sdiv b = a div b" for a b :: int
  by (cases "a = 0") (simp_all add: signed_divide_int_def)

lemma smod_nonneg: "0 \<le> a \<Longrightarrow> 0 < b \<Longrightarrow> a smod b = a mod b" for a b :: int
  by (cases "a = 0") (simp_all add: signed_modulo_int_def)

lemma SplitRacks_eq:
  "0 \<le> n \<Longrightarrow> 0 < r \<Longrightarrow> SplitRacks n r =
     Return (map (\<lambda>i. n div r + (if int i < n mod r then 1 else 0)) [0..<nat r])"
  by (auto simp: SplitRacks_def goDiv_def goMod_def sdiv_nonneg smod_nonneg)

lemma sum_list_extra:
  "e \<le> m \<Longrightarrow> sum_list (map (\<lambda>i. q + (if i < e then 1 else 0 :: int)) [0..<m]) = q * int m + int e"
proof (induction m)
  case (Suc m)
  show ?case
  proof (cases "e = Suc m")
    case True
    have "map (\<lambda>i. q + (if i < e then 1 else 0)) [0..<Suc m] = map (\<lambda>i. q + 1) [0..<Suc m]"
      unfolding True by (rule map_cong) auto
    also have "sum_list \<dots> = (q + 1) * int (Suc m)"
      by (simp add: sum_list_const_mult [symmetric] map_replicate_const sum_list_replicate algebra_simps)
    finally show ?thesis by (simp add: True algebra_simps)
  next
    case False
    with Suc show ?thesis by (simp add: algebra_simps)
  qed
qed simp

text \<open>
  What the clients of the split rely on: as many entries as racks, that add up to the
  number of nodes, never increasing along the rack list, and within one of each other.
\<close>

locale rack_split =
  fixes split :: "int \<Rightarrow> int \<Rightarrow> int list outcome"
  assumes split_total: "0 \<le> n \<Longrightarrow> 0 < r \<Longrightarrow> \<exists>t. split n r = Return t"
    and split_length: "0 \<le> n \<Longrightarrow> 0 < r \<Longrightarrow> split n r = Return t \<Longrightarrow> int (length t) = r"
    and split_sum: "0 \<le> n \<Longrightarrow> 0 < r \<Longrightarrow> split n r = Return t \<Longrightarrow> sum_list t = n"
    and split_balanced: "0 \<le> n \<Longrightarrow> 0 < r \<Longrightarrow> split n r = Return t \<Longrightarrow> i < j \<Longrightarrow> j < length t
      \<Longrightarrow> t ! j \<le> t ! i \<and> t ! i \<le> t ! j + 1"

begin

lemma descending_form:
  fixes t :: "int list"
  assumes "t \<noteq> []" "\<And>i j. i < j \<Longrightarrow> j < length t \<Longrightarrow> t ! j \<le> t ! i \<and> t ! i \<le> t ! j + 1"
  shows "\<exists>q e. e < length t \<and> t = replicate e (q + 1) @ replicate (length t - e) q"
  using assms
proof (induction t)
  case (Cons x t)
  show ?case
  proof (cases "t = []")
    case True
    then show ?thesis by (intro exI [of _ x] exI [of _ 0]) simp
  next
    case False
    have "t ! j \<le> t ! i \<and> t ! i \<le> t ! j + 1" if "i < j" "j < length t" for i j
      using Cons.prems(2) [of "Suc i" "Suc j"] that by simp
    then obtain q e where e: "e < length t" and t: "t = replicate e (q + 1) @ replicate (length t - e) q"
      using Cons.IH False by blast
    have lst: "t ! (length t - 1) = q"
      using e by (subst t) (simp add: nth_append)
    have x: "q \<le> x" "x \<le> q + 1" "t ! 0 \<le> x"
      using Cons.prems(2) [of 0 "length t"] Cons.prems(2) [of 0 1] False lst
      by (simp_all add: nth_Cons')
    show ?thesis
    proof (cases "x = q + 1")
      case True
      then show ?thesis using e t
        by (intro exI [of _ q] exI [of _ "Suc e"]) simp
    next
      case False
      then have "x = q" using x by simp
      moreover have "e = 0"
      proof (rule ccontr)
        assume "e \<noteq> 0"
        then have "t ! 0 = q + 1" by (subst t) (simp add: nth_append)
        with x \<open>x = q\<close> show False by simp
      qed
      ultimately show ?thesis using e t
        by (intro exI [of _ q] exI [of _ 0]) simp
    qed
  qed
qed simp

text \<open>The contract determines every entry.\<close>

lemma split_nth:
  assumes "0 \<le> n" "0 < r" "split n r = Return t" "i < length t"
  shows "t ! i = n div r + (if int i < n mod r then 1 else 0)"
proof -
  have "t \<noteq> []" using assms(4) by auto
  then obtain q e where e: "e < length t" and t: "t = replicate e (q + 1) @ replicate (length t - e) q"
    using descending_form split_balanced [OF assms(1-3)] by blast
  have len: "int (length t) = r" using split_length assms by blast
  have "n = sum_list t" using split_sum assms by blast
  also have "\<dots> = (q + 1) * int e + q * int (length t - e)"
    by (subst t) (simp add: sum_list_replicate)
  also have "\<dots> = r * q + int e"
    using e len by (simp add: of_nat_diff algebra_simps)
  finally have "n = r * q + int e" .
  moreover have "0 \<le> int e" "int e < r" using e len by auto
  ultimately have "n div r = q" "n mod r = int e" by auto
  with e assms(4) show ?thesis by (subst t) (simp add: nth_append)
qed

lemma split_nonneg:
  assumes "0 \<le> n" "0 < r" "split n r = Return t" "x \<in> set t"
  shows "0 \<le> x"
  using assms split_nth [OF assms(1-3)]
  by (auto simp: in_set_conv_nth pos_imp_zdiv_nonneg_iff)

lemma split_mono:
  assumes "0 \<le> n" "n \<le> n'" "0 < r" "split n r = Return t" "split n' r = Return t'" "i < length t"
  shows "t ! i \<le> t' ! i"
proof -
  have len: "length t' = length t"
    using split_length [of n r t] split_length [of n' r t'] assms by simp
  have le: "n div r \<le> n' div r" using assms by (simp add: zdiv_mono1)
  have "n mod r \<le> n' mod r" if "n div r = n' div r"
    using that assms(2) by (metis add_le_cancel_left mult_div_mod_eq)
  moreover have "n div r + 1 \<le> n' div r" if "n div r \<noteq> n' div r" using le that by simp
  ultimately show ?thesis
    using assms len split_nth [of n r t i] split_nth [of n' r t' i]
    by (cases "n div r = n' div r") auto
qed

text \<open>
  Adding racks with enough extra nodes to fill each of them to the smallest old rack leaves
  no old rack smaller.
\<close>

lemma split_add_racks:
  assumes n: "0 \<le> n" and r: "0 < r" and k: "0 \<le> k"
    and old: "split n r = Return t" and new: "split n' (r + k) = Return t'"
    and enough: "n + last t * k \<le> n'" and i: "i < length t"
  shows "t ! i \<le> t' ! i"
proof -
  have len: "int (length t) = r" using split_length n r old by blast
  have "last t = t ! (length t - 1)" using i by (intro last_conv_nth) auto
  moreover have "\<not> int (length t - 1) < n mod r" using len r pos_mod_bound [of r n] by linarith
  ultimately have last: "last t = n div r" using split_nth [OF n r old, of "length t - 1"] len r by simp
  let ?m = "(r + k) * (n div r) + n mod r"
  have m: "?m = n + last t * k" by (simp add: last algebra_simps)
  have "0 \<le> n div r" using n r by (simp add: pos_imp_zdiv_nonneg_iff)
  then have m0: "0 \<le> ?m" using r k by simp
  obtain u where u: "split ?m (r + k) = Return u" using split_total m0 r k by fastforce
  have ulen: "int (length u) = r + k" using split_length m0 r k u by fastforce
  have "n mod r < r + k" using r k pos_mod_bound [of r n] by linarith
  then have "?m div (r + k) = n div r" "?m mod (r + k) = n mod r" using r k by simp_all
  then have "u ! i = t ! i"
    using split_nth [OF m0 _ u, of i] split_nth [OF n r old i] i len ulen r k by simp
  moreover have "u ! i \<le> t' ! i"
    using split_mono [OF m0 _ _ u new] enough m i len ulen r k by simp
  ultimately show ?thesis by simp
qed

end

interpretation sr: rack_split SplitRacks
proof (unfold_locales, goal_cases)
  case (1 n r)
  then show ?case by (simp add: SplitRacks_eq)
next
  case (2 n r t)
  then show ?case by (auto simp: SplitRacks_eq)
next
  case (3 n r t)
  have "int (nat (n mod r)) = n mod r" using 3 by simp
  moreover have "nat (n mod r) \<le> nat r" using 3 by (simp add: less_imp_le)
  ultimately have "sum_list t = (n div r) * int (nat r) + n mod r"
    using 3 sum_list_extra [of "nat (n mod r)" "nat r" "n div r"]
    by (auto simp: SplitRacks_eq zless_nat_conj nat_less_iff zless_nat_eq_int_zless)
  then show ?case using 3 by simp
next
  case (4 n r t i j)
  then show ?case by (auto simp: SplitRacks_eq)
qed

end
