(* ===== verification/Cluster.thy ===== *)
theory Cluster
  imports Datacenter
begin

text \<open>
  The reconciliation context (\<open>pkg/reconciliation/context.go\<close>) and the world its methods act
  on. Every call that leaves the process (the Kubernetes API, the management API of a node,
  the event recorder, a sleep) is appended to the log of the state, and what it answers is
  given by an environment \<open>env\<close>, an arbitrary function of the calls made so far and of the
  call. Nothing is assumed of the environment except where a theorem says so; in particular
  a read may return anything, and any call may fail.

  A write of the Kubernetes client decodes the server's answer into the object it was given;
  so a write returns the object, and the operations below store it back where the Go code
  holds the pointer. The pods of the context are pointers into one array: \<open>podStore\<close> is the
  array, \<open>clusterPods\<close> and \<open>dcPods\<close> are lists of indices into it, so that a change made
  through one of them is seen through the other.
\<close>

section \<open>Calls\<close>

datatype json =
    JNull
  | JBool bool
  | JInt int
  | JString string
  | JArray "json list"
  | JObject "(string \<times> json) list"

record nodeMgmtRequest =
  rq_endpoint :: string
  rq_host :: string
  rq_method :: string
  rq_timeout :: int
  rq_body :: "json option"

text \<open>
  \<open>PatchX base obj\<close> is \<open>client.Patch(ctx, obj, client.MergeFrom(base))\<close>, \<open>StatusPatchDc\<close> the same
  on the status subresource.
\<close>

datatype call =
    GetSts NamespacedName | CreateSts StatefulSet | UpdateSts StatefulSet
  | PatchSts StatefulSet StatefulSet
  | GetPod NamespacedName | ListPods string "string gomap" | PatchPod Pod Pod | UpdatePodCall Pod
  | DeletePod Pod
  | GetDc NamespacedName | UpdateDc CassandraDatacenter
  | PatchDc CassandraDatacenter CassandraDatacenter
  | StatusPatchDc CassandraDatacenter CassandraDatacenter
  | GetPVC NamespacedName | ListPVCs string "string gomap" | DeletePVC PersistentVolumeClaim
  | PatchPVC PersistentVolumeClaim PersistentVolumeClaim
  | GetPV NamespacedName
  | GetSecret NamespacedName | ListSecrets string "string gomap" | CreateSecret Secret
  | UpdateSecret Secret
  | PatchSecret Secret Secret
  | GetNode NamespacedName | ListNodes
  | GetPDB NamespacedName | CreatePDB PodDisruptionBudget | DeletePDB PodDisruptionBudget
  | GetService NamespacedName | CreateService Service | UpdateService Service
  | GetEndpoints NamespacedName | CreateEndpoints Endpoints | UpdateEndpoints Endpoints
  | GetConfigMap NamespacedName | CreateConfigMap ConfigMap | UpdateConfigMap ConfigMap
  | GetNetworkPolicy NamespacedName | CreateNetworkPolicy NetworkPolicy
  | UpdateNetworkPolicy NetworkPolicy
  | Http string nodeMgmtRequest string
  | Event string string string
  | Sleep int

text \<open>The calls that change nothing in the cluster.\<close>

fun isRead :: "call \<Rightarrow> bool" where
  "isRead (GetSts _) = True"
| "isRead (GetPod _) = True"
| "isRead (ListPods _ _) = True"
| "isRead (GetDc _) = True"
| "isRead (GetPVC _) = True"
| "isRead (ListPVCs _ _) = True"
| "isRead (GetPV _) = True"
| "isRead (GetSecret _) = True"
| "isRead (ListSecrets _ _) = True"
| "isRead (GetNode _) = True"
| "isRead ListNodes = True"
| "isRead (GetPDB _) = True"
| "isRead (GetService _) = True"
| "isRead (GetEndpoints _) = True"
| "isRead (GetConfigMap _) = True"
| "isRead (GetNetworkPolicy _) = True"
| "isRead _ = False"

section \<open>Answers\<close>

record EndpointState =
  HostID :: string
  IsAlive :: string
  NativeTransportAddress :: string
  RpcAddress :: string
  EpStatus :: string
  Load :: string

text \<open>
  A body as the decoder of \<open>encoding/json\<close> sees it: an object with an \<open>entity\<close> list, the
  literal \<open>null\<close>, or anything else; or a body that cannot be read.
\<close>

datatype responseBody =
    EndpointsJson "EndpointState list"
  | NullJson
  | OtherBody string
  | Unreadable error

record HttpResponse =
  StatusCode :: int
  RespBody :: responseBody

text \<open>
  What the code uses of \<open>encoding/pem\<close>, \<open>crypto/x509\<close> and \<open>crypto/tls\<close>: the blocks that repeated
  decoding yields (type and bytes), the parsers, the check of a key pair and of a signature, and
  the verification of a leaf against intermediates and the roots of a PEM text.
\<close>

record Certificate =
  CommonName :: string
  RawBytes :: string

record x509lib =
  x_pemBlocks :: "string \<Rightarrow> (string \<times> string) list"
  x_parsePKCS8 :: "string \<Rightarrow> error option"
  x_parseCertificates :: "string \<Rightarrow> error + Certificate list"
  x_keyPair :: "string \<Rightarrow> string \<Rightarrow> error option"
  x_checkSignatureFrom :: "Certificate \<Rightarrow> Certificate \<Rightarrow> error option"
  x_verify :: "Certificate \<Rightarrow> Certificate list \<Rightarrow> string \<Rightarrow> error + Certificate list list"
  x_poolHasCerts :: "string \<Rightarrow> bool"

text \<open>
  What \<open>utils/crypto.go\<close> uses of \<open>crypto/rand\<close>, \<open>crypto/rsa\<close>, \<open>crypto/x509\<close>, \<open>encoding/asn1\<close>,
  \<open>encoding/pem\<close> and of the key store library. The first argument of what draws random numbers
  counts the draws. A parsed key that is not an RSA key is \<open>None\<close>.
\<close>

type_synonym PrivateKey = string

datatype KeyUsage = KeyUsageDigitalSignature | KeyUsageKeyEncipherment | KeyUsageCertSign
datatype ExtKeyUsage = ExtKeyUsageServerAuth

record CertTemplate =
  t_SerialNumber :: int
  t_CommonName :: string
  t_Organization :: "string list"
  t_NotBefore :: int
  t_NotAfter :: int
  t_IsCA :: bool
  t_KeyUsage :: "KeyUsage set"
  t_ExtKeyUsage :: "ExtKeyUsage list"
  t_BasicConstraintsValid :: bool
  t_DNSNames :: "string list"

datatype CertParent = SelfSigned CertTemplate | IssuedBy Certificate

datatype KeyStoreEntry =
    PrivateKeyEntry int string "(string \<times> string) list"
  | TrustedCertificateEntry int "string \<times> string"

record cryptolib =
  c_randInt :: "nat \<Rightarrow> int \<Rightarrow> error + int"
  c_GenerateKey :: "nat \<Rightarrow> int \<Rightarrow> error + PrivateKey"
  c_MarshalPKCS8 :: "PrivateKey \<Rightarrow> error + string"
  c_MarshalPKCS1 :: "PrivateKey \<Rightarrow> string"
  c_pemEncode :: "string \<Rightarrow> string \<Rightarrow> error + string"
  c_CreateCertificate :: "nat \<Rightarrow> CertTemplate \<Rightarrow> CertParent \<Rightarrow> PrivateKey \<Rightarrow> PrivateKey \<Rightarrow> error + string"
  c_ParsePKCS8 :: "string \<Rightarrow> error + PrivateKey option"
  c_ParseCertificate :: "string \<Rightarrow> error + Certificate"
  c_asn1Marshal :: "int \<times> int list list \<times> string \<Rightarrow> error + string"
  c_keystoreEncode :: "nat \<Rightarrow> KeyStoreEntry gomap \<Rightarrow> string \<Rightarrow> error + string"

text \<open>The health data of \<open>pkg/psp/psp_status.go\<close>, which a YAML library reads and writes.\<close>

datatype HealthStatus = HealthGreen | HealthYellow | HealthRed

record InstanceHealth =
  ih_Instance :: string
  ih_Namespace :: string
  ih_Health :: HealthStatus

record Health =
  h_Spec :: json
  h_InstanceHealth :: "InstanceHealth list"

text \<open>
  Besides the answers of the cluster, an environment gives the clock, the environment variables,
  the hash of objects, the order of map iteration, the owner reference of the controller
  library, \<open>strconv.ParseFloat\<close>, random bytes, the JSON and YAML libraries, the cryptographic
  libraries, name resolution and the namespace of the operator.
\<close>

record env =
  e_now :: "nat \<Rightarrow> int"
  e_rand :: "nat \<Rightarrow> error + string"
  e_marshal :: "json \<Rightarrow> string"
  e_parseJson :: "string \<Rightarrow> error + json"
  e_mergeJson :: "json \<Rightarrow> json \<Rightarrow> error + json"
  e_marshalHealth :: "Health \<Rightarrow> error + string"
  e_unmarshalHealth :: "string \<Rightarrow> error + Health"
  e_crypto :: cryptolib
  e_x509 :: x509lib
  e_parseIP :: "string \<Rightarrow> bool"
  e_lookupIP :: "string \<Rightarrow> error + (string \<times> bool) list"
  e_operatorNs :: "error + string"
  e_getenv :: "string \<Rightarrow> string option"
  e_hash :: "hashable \<Rightarrow> string"
  e_order :: "string set \<Rightarrow> string list"
  e_setOwner :: "CassandraDatacenter \<Rightarrow> ObjectMeta \<Rightarrow> error + OwnerReference list"
  e_parseFloat :: "string \<Rightarrow> error + int"
  e_http :: "call list \<Rightarrow> call \<Rightarrow> error + HttpResponse"
  e_sts :: "call list \<Rightarrow> call \<Rightarrow> error + StatefulSet"
  e_pod :: "call list \<Rightarrow> call \<Rightarrow> error + Pod"
  e_pods :: "call list \<Rightarrow> call \<Rightarrow> error + Pod list"
  e_dc :: "call list \<Rightarrow> call \<Rightarrow> error + CassandraDatacenter"
  e_pvc :: "call list \<Rightarrow> call \<Rightarrow> error + PersistentVolumeClaim"
  e_pvcs :: "call list \<Rightarrow> call \<Rightarrow> error + PersistentVolumeClaim list"
  e_pv :: "call list \<Rightarrow> call \<Rightarrow> error + PersistentVolume"
  e_secret :: "call list \<Rightarrow> call \<Rightarrow> error + Secret"
  e_secrets :: "call list \<Rightarrow> call \<Rightarrow> error + Secret list"
  e_node :: "call list \<Rightarrow> call \<Rightarrow> error + Node"
  e_nodes :: "call list \<Rightarrow> call \<Rightarrow> error + Node list"
  e_pdb :: "call list \<Rightarrow> call \<Rightarrow> error + PodDisruptionBudget"
  e_service :: "call list \<Rightarrow> call \<Rightarrow> error + Service"
  e_endpoints :: "call list \<Rightarrow> call \<Rightarrow> error + Endpoints"
  e_configmap :: "call list \<Rightarrow> call \<Rightarrow> error + ConfigMap"
  e_networkpolicy :: "call list \<Rightarrow> call \<Rightarrow> error + NetworkPolicy"
  e_unit :: "call list \<Rightarrow> call \<Rightarrow> error + unit"

section \<open>State\<close>

record RackInformation =
  RackName :: string
  NodeCount :: int
  SeedCount :: int

record world =
  Datacenter :: CassandraDatacenter
  Protocol :: string
  desiredRackInformation :: "RackInformation list"
  statefulSets :: "StatefulSet option list"
  podStore :: "Pod list"
  clusterPods :: "nat list"
  dcPods :: "nat list"
  rcServices :: "Service list"
  rcEndpoints :: "Endpoints option"
  nodeToDc :: "(string, NamespacedName list) fmap"
  log :: "call list"
  ticks :: nat

definition perform :: "(call list \<Rightarrow> call \<Rightarrow> error + 'a) \<Rightarrow> call \<Rightarrow> (world, 'a) op" where
  "perform answer c = (\<lambda>s. (of_sum (answer (log s) c), s\<lparr>log := log s @ [c]\<rparr>))"

definition Now :: "env \<Rightarrow> (world, int) op" where
  "Now E = (\<lambda>s. (Return (e_now E (ticks s)), s\<lparr>ticks := Suc (ticks s)\<rparr>))"

text \<open>A use of a source of randomness.\<close>

definition Random :: "(nat \<Rightarrow> error + 'a) \<Rightarrow> (world, 'a) op" where
  "Random source = (\<lambda>s. (of_sum (source (ticks s)), s\<lparr>ticks := Suc (ticks s)\<rparr>))"

text \<open>A computation that only reads the clock and draws random numbers.\<close>

definition ticking :: "(nat, 'a) op \<Rightarrow> (world, 'a) op" where
  "ticking m = (\<lambda>s. case m (ticks s) of (r, n) \<Rightarrow> (r, s\<lparr>ticks := n\<rparr>))"

definition Eventf :: "string \<Rightarrow> string \<Rightarrow> string \<Rightarrow> (world, unit) op" where
  "Eventf eventtype reason message = modify (\<lambda>s. s\<lparr>log := log s @ [Event eventtype reason message]\<rparr>)"

definition sleep :: "int \<Rightarrow> (world, unit) op" where
  "sleep d = modify (\<lambda>s. s\<lparr>log := log s @ [Sleep d]\<rparr>)"

definition NormalEvent :: string where "NormalEvent = ''Normal''"
definition WarningEvent :: string where "WarningEvent = ''Warning''"

text \<open>The datacenter of the context, and writes of it.\<close>

definition getDc :: "(world, CassandraDatacenter) op" where
  "getDc = gets Datacenter"

definition modifyDc :: "(CassandraDatacenter \<Rightarrow> CassandraDatacenter) \<Rightarrow> (world, unit) op" where
  "modifyDc f = modify (\<lambda>s. s\<lparr>Datacenter := f (Datacenter s)\<rparr>)"

definition writeDc :: "env \<Rightarrow> (CassandraDatacenter \<Rightarrow> call) \<Rightarrow> (world, unit) op" where
  "writeDc E mk =
     bindM getDc (\<lambda>dc.
     bindM (perform (e_dc E) (mk dc)) (\<lambda>dc'.
     modifyDc (\<lambda>_. dc')))"

definition patchDcStatus :: "env \<Rightarrow> CassandraDatacenter \<Rightarrow> (world, unit) op" where
  "patchDcStatus E base = writeDc E (StatusPatchDc base)"

definition patchDc :: "env \<Rightarrow> CassandraDatacenter \<Rightarrow> (world, unit) op" where
  "patchDc E base = writeDc E (PatchDc base)"

text \<open>A pod of the context, by its index, and the patch of one.\<close>

definition getPod :: "nat \<Rightarrow> (world, Pod) op" where
  "getPod i = gets (\<lambda>s. podStore s ! i)"

definition setPod :: "nat \<Rightarrow> Pod \<Rightarrow> (world, unit) op" where
  "setPod i p = modify (\<lambda>s. s\<lparr>podStore := (podStore s)[i := p]\<rparr>)"

definition patchPod :: "env \<Rightarrow> nat \<Rightarrow> Pod \<Rightarrow> (world, unit) op" where
  "patchPod E i new =
     bindM (getPod i) (\<lambda>base.
     bindM (setPod i new) (\<lambda>_.
     bindM (perform (e_pod E) (PatchPod base new)) (\<lambda>p.
     setPod i p)))"

definition podsAt :: "world \<Rightarrow> nat list \<Rightarrow> Pod list" where
  "podsAt s is = map (\<lambda>i. podStore s ! i) is"

section \<open>Evaluation\<close>

text \<open>One-step evaluation of the primitive operations.\<close>

lemma perform_run [op_simps]: "perform answer c s = (of_sum (answer (log s) c), s\<lparr>log := log s @ [c]\<rparr>)"
  and Now_run [op_simps]: "Now E s = (Return (e_now E (ticks s)), s\<lparr>ticks := Suc (ticks s)\<rparr>)"
  and Random_run [op_simps]: "Random src s = (of_sum (src (ticks s)), s\<lparr>ticks := Suc (ticks s)\<rparr>)"
  and Eventf_run [op_simps]: "Eventf t r m s = (Return (), s\<lparr>log := log s @ [Event t r m]\<rparr>)"
  and sleep_run [op_simps]: "sleep d s = (Return (), s\<lparr>log := log s @ [Sleep d]\<rparr>)"
  and getDc_run [op_simps]: "getDc s = (Return (Datacenter s), s)"
  and modifyDc_run [op_simps]: "modifyDc f s = (Return (), s\<lparr>Datacenter := f (Datacenter s)\<rparr>)"
  and getPod_run [op_simps]: "getPod i s = (Return (podStore s ! i), s)"
  and setPod_run [op_simps]: "setPod i p s = (Return (), s\<lparr>podStore := (podStore s)[i := p]\<rparr>)"
  by (simp_all add: perform_def Now_def Random_def Eventf_def sleep_def getDc_def modifyDc_def getPod_def
      setPod_def op_simps)

lemma of_sum_simps [simp]: "of_sum (Inl e) = Fail e" "of_sum (Inr a) = Return a"
  by (simp_all add: of_sum_def)

lemmas rc_eval = op_simps bindM_def thenM_def attempt_def returning_def

end
