(* ===== verification/ConfigGen.thy ===== *)
theory ConfigGen
  imports Cluster
begin

text \<open>
  The configuration given to the config builder (\<open>pkg/serverconfig/configgen.go\<close> and
  \<open>GetConfigAsJSON\<close> of the resource types): the values of the model, into which the user's
  configuration is merged. Reading, merging and printing of JSON are the environment's.
\<close>

definition GetModelValues ::
    "string list \<Rightarrow> string \<Rightarrow> string \<Rightarrow> int \<Rightarrow> int \<Rightarrow> int \<Rightarrow> int \<Rightarrow> int \<Rightarrow> int \<Rightarrow> int \<Rightarrow> json" where
  "GetModelValues seeds clusterName dcName graphEnabled solrEnabled sparkEnabled
     nativePort nativeSSLPort internodePort internodeSSLPort =
     (let native =
        (if nativeSSLPort \<noteq> 0 then [(''native_transport_port_ssl'', JInt nativeSSLPort)]
         else if nativePort \<noteq> 0 then [(''native_transport_port'', JInt nativePort)] else []);
      internode =
        (if internodeSSLPort \<noteq> 0 then [(''ssl_storage_port'', JInt internodeSSLPort)]
         else if internodePort \<noteq> 0 then [(''storage_port'', JInt internodePort)] else [])
      in JObject
        [(''cluster-info'', JObject
           [(''name'', JString clusterName), (''seeds'', JString (Join seeds '',''))]),
         (''datacenter-info'', JObject
           [(''name'', JString dcName), (''graph-enabled'', JInt graphEnabled),
            (''solr-enabled'', JInt solrEnabled), (''spark-enabled'', JInt sparkEnabled)]),
         (''cassandra-yaml'', JObject (native @ internode))])"

definition modelOf :: "CassandraDatacenter \<Rightarrow> json" where
  "modelOf dc =
     (let seeds = [GetSeedServiceName dc] @
        (if length (AdditionalSeeds (Spec dc)) > 0 then [GetAdditionalSeedsServiceName dc] else []);
      flag = (\<lambda>b. if b then 1 else 0);
      workload = (\<lambda>f. case DseWorkloads (Spec dc) of
          None \<Rightarrow> 0 | Some w \<Rightarrow> if ServerType (Spec dc) = ''dse'' then flag (f w) else 0);
      port = (\<lambda>f. case Networking (Spec dc) of
          None \<Rightarrow> 0 | Some n \<Rightarrow> (case NodePort n of None \<Rightarrow> 0 | Some np \<Rightarrow> f np))
      in GetModelValues seeds (ClusterName (Spec dc)) (Name dc)
        (workload GraphEnabled) (workload SearchEnabled) (workload AnalyticsEnabled)
        (port Native) (port NativeSSL) (port Internode) (port InternodeSSL))"

definition wrapError :: "string \<Rightarrow> error + 'a \<Rightarrow> 'a outcome" where
  "wrapError msg r = (case r of Inl e \<Rightarrow> Fail (Wrapf msg e) | Inr a \<Rightarrow> Return a)"

definition GetConfigAsJSON :: "env \<Rightarrow> CassandraDatacenter \<Rightarrow> string option \<Rightarrow> string outcome" where
  "GetConfigAsJSON E dc config =
     obind (wrapError ''Model information for CassandraDatacenter resource was not properly configured''
       (e_parseJson E (e_marshal E (modelOf dc)))) (\<lambda>modelParsed.
     case config of
       None \<Rightarrow> Return (e_marshal E modelParsed)
     | Some c \<Rightarrow>
         obind (wrapError ''Error parsing Spec.Config for CassandraDatacenter resource'' (e_parseJson E c)) (\<lambda>configParsed.
         obind (wrapError ''Error merging Spec.Config for CassandraDatacenter resource''
           (e_mergeJson E modelParsed configParsed)) (\<lambda>merged.
         Return (e_marshal E merged))))"

end
