(* ===== verification/Security.thy ===== *)
theory Security
  imports Cluster
begin

text \<open>
  How the management API is secured (\<open>pkg/httphelper/security.go\<close>): the choice of a provider, the
  commands and the pod template it needs, and the validation of the secrets with the
  certificates. Parsing and verifying of certificates are the functions of \<open>x509lib\<close>.
\<close>

section \<open>Providers\<close>

datatype ManagementApiSecurityProvider =
    InsecureManagementApiSecurityProvider
  | ManualManagementApiSecurityProvider string ManagementApiAuthManualConfig

definition WgetNodeDrainEndpoint :: string where
  "WgetNodeDrainEndpoint = ''localhost:8080/api/v0/ops/node/drain''"
definition livenessEndpoint :: string where
  "livenessEndpoint = ''localhost:8080/api/v0/probes/liveness''"
definition readinessEndpoint :: string where
  "readinessEndpoint = ''localhost:8080/api/v0/probes/readiness''"
definition caCertPath :: string where "caCertPath = ''/management-api-certs/ca.crt''"
definition tlsCrt :: string where "tlsCrt = ''/management-api-certs/tls.crt''"
definition tlsKey :: string where "tlsKey = ''/management-api-certs/tls.key''"

definition buildInsecureManagementApiSecurityProvider ::
    "CassandraDatacenter \<Rightarrow> ManagementApiSecurityProvider option" where
  "buildInsecureManagementApiSecurityProvider dc =
     (let auth = ManagementApiAuth (Spec dc)
      in if Insecure auth \<or> (Manual auth = None \<and> \<not> Insecure auth)
         then Some InsecureManagementApiSecurityProvider else None)"

definition buildManualApiSecurityProvider ::
    "CassandraDatacenter \<Rightarrow> ManagementApiSecurityProvider option" where
  "buildManualApiSecurityProvider dc =
     map_option (ManualManagementApiSecurityProvider (Namespace dc)) (Manual (ManagementApiAuth (Spec dc)))"

fun selectProvider ::
    "ManagementApiSecurityProvider option \<Rightarrow> ManagementApiSecurityProvider option list \<Rightarrow>
     ManagementApiSecurityProvider option outcome" where
  "selectProvider selectedProvider [] = Return selectedProvider"
| "selectProvider selectedProvider (provider # rest) =
     (if provider \<noteq> None \<and> selectedProvider \<noteq> None
      then Fail (Errorf ''Multiple options specified for 'managementApiAuth', but expected exactly one.'')
      else selectProvider (if provider \<noteq> None then provider else selectedProvider) rest)"

definition BuildManagmenetApiSecurityProvider ::
    "CassandraDatacenter \<Rightarrow> ManagementApiSecurityProvider outcome" where
  "BuildManagmenetApiSecurityProvider dc =
     obind (selectProvider None
       [buildManualApiSecurityProvider dc, buildInsecureManagementApiSecurityProvider dc]) (\<lambda>selectedProvider.
     case selectedProvider of
       None \<Rightarrow> Fail (Errorf ''No security strategy specified for 'managementApiAuth'.'')
     | Some provider \<Rightarrow> Return provider)"

fun GetProtocol :: "ManagementApiSecurityProvider \<Rightarrow> string" where
  "GetProtocol InsecureManagementApiSecurityProvider = ''http''"
| "GetProtocol (ManualManagementApiSecurityProvider ns config) = ''https''"

definition GetManagementApiProtocol :: "CassandraDatacenter \<Rightarrow> string outcome" where
  "GetManagementApiProtocol dc =
     obind (BuildManagmenetApiSecurityProvider dc) (\<lambda>provider. Return (GetProtocol provider))"

section \<open>Commands and the pod template\<close>

fun BuildMgmtApiWgetAction :: "ManagementApiSecurityProvider \<Rightarrow> string \<Rightarrow> string list" where
  "BuildMgmtApiWgetAction InsecureManagementApiSecurityProvider ep =
     [''wget'', ''--output-document'', ''/dev/null'', ''--no-check-certificate'', ''http://'' @ ep]"
| "BuildMgmtApiWgetAction (ManualManagementApiSecurityProvider ns config) ep =
     [''wget'', ''--output-document'', ''/dev/null'', ''--no-check-certificate'',
      ''--certificate'', tlsCrt, ''--private-key'', tlsKey, ''--ca-certificate'', caCertPath,
      ''https://'' @ ep]"

fun BuildMgmtApiWgetPostAction ::
    "ManagementApiSecurityProvider \<Rightarrow> string \<Rightarrow> string \<Rightarrow> string list" where
  "BuildMgmtApiWgetPostAction InsecureManagementApiSecurityProvider ep postData =
     [''wget'', ''--output-document'', ''/dev/null'', ''--no-check-certificate'',
      ''--post-data='' @ quoted postData, ''http://'' @ ep]"
| "BuildMgmtApiWgetPostAction (ManualManagementApiSecurityProvider ns config) ep postData =
     [''wget'', ''--output-document'', ''/dev/null'', ''--no-check-certificate'',
      ''--certificate'', tlsCrt, ''--private-key'', tlsKey, ''--ca-certificate'', caCertPath,
      ''--post-data='' @ quoted postData, ''https://'' @ ep]"

definition GetMgmtApiWgetAction :: "CassandraDatacenter \<Rightarrow> string \<Rightarrow> string list outcome" where
  "GetMgmtApiWgetAction dc ep =
     obind (BuildManagmenetApiSecurityProvider dc) (\<lambda>provider. Return (BuildMgmtApiWgetAction provider ep))"

definition GetMgmtApiWgetPostAction :: "CassandraDatacenter \<Rightarrow> string \<Rightarrow> string \<Rightarrow> string list outcome" where
  "GetMgmtApiWgetPostAction dc ep postData =
     obind (BuildManagmenetApiSecurityProvider dc) (\<lambda>provider.
     Return (BuildMgmtApiWgetPostAction provider ep postData))"

definition plainEnv :: "string \<Rightarrow> string \<Rightarrow> EnvVar" where
  "plainEnv n v = \<lparr>ev_Name = n, ev_Value = v, ev_From = None\<rparr>"

definition emptyProbe :: Probe where
  "emptyProbe = \<lparr>pr_Handler = NoHandler, pr_InitialDelaySeconds = 0, pr_PeriodSeconds = 0, pr_TimeoutSeconds = 0\<rparr>"

text \<open>The probe with its handler replaced by the command, or a new one.\<close>

definition execProbe :: "string list \<Rightarrow> Probe option \<Rightarrow> Probe option" where
  "execProbe command probe =
     Some ((case probe of None \<Rightarrow> emptyProbe | Some p \<Rightarrow> p)\<lparr>pr_Handler := Exec command\<rparr>)"

definition secureContainer :: "ManagementApiSecurityProvider \<Rightarrow> Container \<Rightarrow> Container" where
  "secureContainer provider container =
     container\<lparr>
       c_VolumeMounts := c_VolumeMounts container @
         [\<lparr>vm_Name = ''management-api-server-certs-volume'', vm_MountPath = ''/management-api-certs'',
           vm_ReadOnly = True\<rparr>],
       c_Env :=
         [plainEnv ''MGMT_API_TLS_CA_CERT_FILE'' caCertPath,
          plainEnv ''MGMT_API_TLS_CERT_FILE'' tlsCrt,
          plainEnv ''MGMT_API_TLS_KEY_FILE'' tlsKey,
          plainEnv ''DSE_MGMT_TLS_CA_CERT_FILE'' caCertPath,
          plainEnv ''DSE_MGMT_TLS_CERT_FILE'' tlsCrt,
          plainEnv ''DSE_MGMT_TLS_KEY_FILE'' tlsKey] @ c_Env container,
       c_LivenessProbe := execProbe (BuildMgmtApiWgetAction provider livenessEndpoint) (c_LivenessProbe container),
       c_ReadinessProbe := execProbe (BuildMgmtApiWgetAction provider readinessEndpoint) (c_ReadinessProbe container)\<rparr>"

text \<open>The index of the last element with the property, as a loop without a break leaves it.\<close>

definition lastIndex :: "('a \<Rightarrow> bool) \<Rightarrow> 'a list \<Rightarrow> nat option" where
  "lastIndex P xs = (case filter (\<lambda>i. P (xs ! i)) [0..<length xs] of [] \<Rightarrow> None | is \<Rightarrow> Some (last is))"

fun AddServerSecurity ::
    "ManagementApiSecurityProvider \<Rightarrow> PodTemplateSpec \<Rightarrow> PodTemplateSpec outcome" where
  "AddServerSecurity InsecureManagementApiSecurityProvider pod = Return pod"
| "AddServerSecurity (ManualManagementApiSecurityProvider ns config) pod =
     (case lastIndex (\<lambda>c. c_Name c = ''cassandra'') (ts_Containers pod) of
        None \<Rightarrow> Fail (Errorf ''Could not find cassandra container'')
      | Some i \<Rightarrow> Return (pod\<lparr>
          ts_Volumes := ts_Volumes pod @
            [\<lparr>v_Name = ''management-api-server-certs-volume'', v_Source = SecretSource (ServerSecretName config)\<rparr>],
          ts_Containers := (ts_Containers pod)
            [i := secureContainer (ManualManagementApiSecurityProvider ns config) (ts_Containers pod ! i)]\<rparr>))"

definition AddManagementApiServerSecurity ::
    "CassandraDatacenter \<Rightarrow> PodTemplateSpec \<Rightarrow> PodTemplateSpec outcome" where
  "AddManagementApiServerSecurity dc pod =
     obind (BuildManagmenetApiSecurityProvider dc) (\<lambda>provider. AddServerSecurity provider pod)"

section \<open>Validation of certificates\<close>

definition privateKeyExpect :: string where
  "privateKeyExpect =
     ''Private key should be unencrypted PKCS#8 format using PEM encoding with preamble '' @
     quoted ''PRIVATE KEY''"

fun strContains :: "string \<Rightarrow> string \<Rightarrow> bool" where
  "strContains [] part = (part = [])"
| "strContains (c # s) part = (HasPrefix (c # s) part \<or> strContains s part)"

definition validatePrivateKeyBlock :: "x509lib \<Rightarrow> string \<times> string \<Rightarrow> error list" where
  "validatePrivateKeyBlock X block =
     (case block of (blockType, bytes) \<Rightarrow>
        if blockType \<noteq> ''PRIVATE KEY'' then
          if blockType = ''RSA PRIVATE KEY'' then
            [Errorf (privateKeyExpect @ '', but found PKCS#1 format using preamble '' @ quoted blockType @ ''.'')]
          else if blockType = ''CERTIFICATE'' then
            [Errorf (privateKeyExpect @ '', but found certificate using preamble '' @ quoted blockType @ ''.'')]
          else if strContains blockType ''ENCRYPTED'' then
            [Errorf (privateKeyExpect @ '', but found certificate using preamble '' @ quoted blockType @ ''.'')]
          else [Errorf (privateKeyExpect @ '', but found preamble '' @ quoted blockType)]
        else (case x_parsePKCS8 X bytes of
            None \<Rightarrow> []
          | Some e \<Rightarrow> [Wrapf (privateKeyExpect @
              '', correct preamble was found but does not appear to be in PKCS#8 format. '') e]))"

definition validatePrivateKey :: "x509lib \<Rightarrow> string \<Rightarrow> error list" where
  "validatePrivateKey X data =
     (let blocks = x_pemBlocks X data
      in concat (map (validatePrivateKeyBlock X) blocks) @
         (if blocks = [] then
            [Errorf (privateKeyExpect @ '', but provided key does not appear to be PEM encoded.'')] else []))"

definition validateCertificateBlock :: "x509lib \<Rightarrow> string \<times> string \<Rightarrow> error list" where
  "validateCertificateBlock X block =
     (case block of (blockType, bytes) \<Rightarrow>
        if blockType \<noteq> ''CERTIFICATE'' then
          [Errorf (''Certificate should be PEM encoded with preamble 'CERTIFICATE', but found preamble '' @
            quoted blockType @ ''.'')]
        else (case x_parseCertificates X bytes of
            Inr _ \<Rightarrow> []
          | Inl e \<Rightarrow> [Wrapf (''Found PEM block with correct preamble of 'CERTIFICATE', but content does '' @
              ''not appear to be a valid certificate. '') e]))"

definition validateCertificate :: "x509lib \<Rightarrow> string \<Rightarrow> error list" where
  "validateCertificate X data =
     (let blocks = x_pemBlocks X data
      in concat (map (validateCertificateBlock X) blocks) @
         (if blocks = [] then [Errorf ''Did not find any certificates.''] else []))"

definition validateKeyAndCertificate :: "x509lib \<Rightarrow> string \<Rightarrow> string \<Rightarrow> string \<Rightarrow> error list" where
  "validateKeyAndCertificate X certificate privateKey caCertificate =
     validatePrivateKey X privateKey @ validateCertificate X certificate @
     validateCertificate X caCertificate @
     (case x_keyPair X certificate privateKey of
        None \<Rightarrow> []
      | Some e \<Rightarrow> [Wrapf ''Could not load x509 key pair. '' e])"

fun certificatesOf :: "x509lib \<Rightarrow> (string \<times> string) list \<Rightarrow> Certificate list outcome" where
  "certificatesOf X [] = Return []"
| "certificatesOf X ((blockType, bytes) # blocks) =
     (if blockType = ''CERTIFICATE'' then
        (case x_parseCertificates X bytes of
           Inl e \<Rightarrow> Fail e
         | Inr certs \<Rightarrow> obind (certificatesOf X blocks) (\<lambda>rest. Return (certs @ rest)))
      else certificatesOf X blocks)"

definition pemToCertificateChain :: "x509lib \<Rightarrow> string \<Rightarrow> Certificate list outcome" where
  "pemToCertificateChain X certificate = certificatesOf X (x_pemBlocks X certificate)"

fun validateCertificateChain :: "x509lib \<Rightarrow> Certificate list \<Rightarrow> unit outcome" where
  "validateCertificateChain X (certificateA # certificateB # chain) =
     (case x_checkSignatureFrom X certificateA certificateB of
        Some e \<Rightarrow> Fail (Wrapf (''Failed to validate chain, certificate '' @ CommonName certificateA @
          '' not signed by certificate '' @ CommonName certificateB @ ''. '') e)
      | None \<Rightarrow> validateCertificateChain X (certificateB # chain))"
| "validateCertificateChain X _ = Return ()"

text \<open>\<open>certificates[1:]\<close> of an empty slice panics.\<close>

definition verifyPeerCertificateNoHostCheck ::
    "x509lib \<Rightarrow> Certificate list \<Rightarrow> string \<Rightarrow> Certificate list list outcome" where
  "verifyPeerCertificateNoHostCheck X certificates rootCAs =
     (case certificates of
        [] \<Rightarrow> Panic
      | leaf # intermediates \<Rightarrow> of_sum (x_verify X leaf intermediates rootCAs))"

fun firstVerified :: "x509lib \<Rightarrow> string \<Rightarrow> error option \<Rightarrow> Certificate list list \<Rightarrow> unit outcome" where
  "firstVerified X peerBCa lastError [] =
     (case lastError of
        None \<Rightarrow> Fail (Errorf ''No candidate chains found to check.'')
      | Some e \<Rightarrow> Fail e)"
| "firstVerified X peerBCa lastError (candidateChain # rest) =
     (case verifyPeerCertificateNoHostCheck X candidateChain peerBCa of
        Return _ \<Rightarrow> Return ()
      | Fail e \<Rightarrow> firstVerified X peerBCa (Some e) rest
      | Panic \<Rightarrow> Panic)"

definition validatePeerACertificateSignedByPeerBCa ::
    "x509lib \<Rightarrow> string \<Rightarrow> string \<Rightarrow> string \<Rightarrow> unit outcome" where
  "validatePeerACertificateSignedByPeerBCa X peerACertificate peerACa peerBCa =
     obind (pemToCertificateChain X peerACertificate) (\<lambda>chain.
     obind (validateCertificateChain X chain) (\<lambda>_.
     case verifyPeerCertificateNoHostCheck X chain peerACa of
       Return found \<Rightarrow> firstVerified X peerBCa None (chain # found)
     | Fail e \<Rightarrow> firstVerified X peerBCa None [chain]
     | Panic \<Rightarrow> Panic))"

section \<open>Validation of secrets\<close>

definition nameString :: "NamespacedName \<Rightarrow> string" where
  "nameString n = fst n @ ''/'' @ snd n"

definition validateSecretStructure :: "Secret \<Rightarrow> unit outcome" where
  "validateSecretStructure secret =
     (if secret_Type secret \<noteq> ''kubernetes.io/tls'' then
        Fail (Errorf (''Expected Secret '' @ nameString (namespacedNameOf secret) @
          '' to have type 'kubernetes.io/tls' but was '' @ quoted (secret_Type secret)))
      else case find (\<lambda>key. mfind (Data secret) key = None) [''ca.crt'', ''tls.crt'', ''tls.key''] of
          None \<Rightarrow> Return ()
        | Some key \<Rightarrow> Fail (Errorf (''Expected Secret '' @ nameString (namespacedNameOf secret) @
            '' to have data key '' @ quoted key @ '' but was not found'')))"

definition loadSecret :: "env \<Rightarrow> string \<Rightarrow> string \<Rightarrow> (world, Secret) op" where
  "loadSecret E namespace name = perform (e_secret E) (GetSecret (namespace, name))"

definition validateSecret :: "x509lib \<Rightarrow> Secret \<Rightarrow> error list" where
  "validateSecret X secret =
     (case validateSecretStructure secret of
        Fail e \<Rightarrow> [e]
      | _ \<Rightarrow> validateKeyAndCertificate X (mget (Data secret) ''tls.crt'') (mget (Data secret) ''tls.key'')
               (mget (Data secret) ''ca.crt''))"

definition signingErrors :: "x509lib \<Rightarrow> Secret \<Rightarrow> Secret \<Rightarrow> string \<Rightarrow> error list outcome" where
  "signingErrors X peerA peerB configKey =
     (case validatePeerACertificateSignedByPeerBCa X (mget (Data peerA) ''tls.crt'')
         (mget (Data peerA) ''ca.crt'') (mget (Data peerB) ''ca.crt'') of
        Return _ \<Rightarrow> Return []
      | Fail e \<Rightarrow> Return [Wrapf (''Loaded Management API client secret specified at '' @ configKey @
          '' with value '' @ quoted (Name peerA) @ '' is not properly signed. '') e]
      | Panic \<Rightarrow> Panic)"

text \<open>
  The result is the list of errors. A secret that cannot be loaded ends the validation; an
  invalid one does not.
\<close>

definition validateManualConfig ::
    "env \<Rightarrow> string \<Rightarrow> ManagementApiAuthManualConfig \<Rightarrow> (world, error list) op" where
  "validateManualConfig E ns config =
     (if SkipSecretValidation config then ret []
      else
        let X = e_x509 E;
            clientKey = ''.managementApiAuth.manual.clientSecretName'';
            serverKey = ''.managementApiAuth.manual.serverSecretName'';
            loadError = (\<lambda>key name. Wrapf (''Failed to load Management API secret specified at '' @ key @
              '' with value '' @ quoted name @ ''. ''));
            invalid = (\<lambda>key name secret. map (Wrapf (''Loaded Management API secret specified at '' @ key @
              '' with value '' @ quoted name @ '' is not valid. '')) (validateSecret X secret))
        in bindM (attempt (loadSecret E ns (ClientSecretName config))) (\<lambda>r.
           case r of
             Inl e \<Rightarrow> ret [loadError clientKey (ClientSecretName config) e]
           | Inr clientSecret \<Rightarrow>
               bindM (attempt (loadSecret E ns (ServerSecretName config))) (\<lambda>r.
               case r of
                 Inl e \<Rightarrow> ret (invalid clientKey (ClientSecretName config) clientSecret @
                            [loadError serverKey (ServerSecretName config) e])
               | Inr serverSecret \<Rightarrow>
                   bindM (lift (signingErrors X clientSecret serverSecret clientKey)) (\<lambda>clientErrors.
                   bindM (lift (signingErrors X serverSecret clientSecret serverKey)) (\<lambda>serverErrors.
                   ret (invalid clientKey (ClientSecretName config) clientSecret @
                        invalid serverKey (ServerSecretName config) serverSecret @
                        clientErrors @ serverErrors))))))"

fun ValidateConfig :: "env \<Rightarrow> ManagementApiSecurityProvider \<Rightarrow> (world, error list) op" where
  "ValidateConfig E InsecureManagementApiSecurityProvider = ret []"
| "ValidateConfig E (ManualManagementApiSecurityProvider ns config) = validateManualConfig E ns config"

definition ValidateManagementApiConfig :: "env \<Rightarrow> CassandraDatacenter \<Rightarrow> (world, error list) op" where
  "ValidateManagementApiConfig E dc =
     (case BuildManagmenetApiSecurityProvider dc of
        Return provider \<Rightarrow> ValidateConfig E provider
      | Fail e \<Rightarrow> ret [e]
      | Panic \<Rightarrow> panic)"

section \<open>The HTTP client\<close>

text \<open>The client itself is opaque; building it can fail.\<close>

fun BuildHttpClient :: "env \<Rightarrow> ManagementApiSecurityProvider \<Rightarrow> (world, unit) op" where
  "BuildHttpClient E InsecureManagementApiSecurityProvider = ret ()"
| "BuildHttpClient E (ManualManagementApiSecurityProvider ns config) =
     bindM (perform (e_secret E) (GetSecret (ns, ClientSecretName config))) (\<lambda>secret.
     bindM (lift (validateSecretStructure secret)) (\<lambda>_.
       if \<not> x_poolHasCerts (e_x509 E) (mget (Data secret) ''ca.crt'') then
         fail (Errorf (''No certificates found in '' @ nameString (ns, ClientSecretName config) @
           '' when parsing 'ca.crt' value: '' @ mget (Data secret) ''ca.crt''))
       else case x_keyPair (e_x509 E) (mget (Data secret) ''tls.crt'') (mget (Data secret) ''tls.key'') of
           Some e \<Rightarrow> fail e
         | None \<Rightarrow> ret ()))"

definition BuildManagementApiHttpClient :: "env \<Rightarrow> CassandraDatacenter \<Rightarrow> (world, unit) op" where
  "BuildManagementApiHttpClient E dc =
     bindM (lift (BuildManagmenetApiSecurityProvider dc)) (BuildHttpClient E)"

section \<open>Lemmas\<close>

text \<open>Exactly one strategy is chosen: manual, insecure, or the default; both is an error.\<close>

lemma BuildManagmenetApiSecurityProvider_cases:
  "BuildManagmenetApiSecurityProvider dc =
     (case Manual (ManagementApiAuth (Spec dc)) of
        None \<Rightarrow> Return InsecureManagementApiSecurityProvider
      | Some config \<Rightarrow>
          if Insecure (ManagementApiAuth (Spec dc))
          then Fail (Errorf ''Multiple options specified for 'managementApiAuth', but expected exactly one.'')
          else Return (ManualManagementApiSecurityProvider (Namespace dc) config))"
  by (simp add: BuildManagmenetApiSecurityProvider_def buildManualApiSecurityProvider_def
      buildInsecureManagementApiSecurityProvider_def split: option.split)

lemma lastIndex_Some:
  assumes "lastIndex P xs = Some i"
  shows "i < length xs \<and> P (xs ! i) \<and> (\<forall>j<length xs. P (xs ! j) \<longrightarrow> j \<le> i)"
proof -
  let ?is = "filter (\<lambda>i. P (xs ! i)) [0..<length xs]"
  have ne: "?is \<noteq> []" and i: "i = last ?is"
    using assms by (auto simp: lastIndex_def split: list.splits)
  have "i \<in> set ?is" using ne i last_in_set by metis
  moreover have "sorted ?is" by (simp add: sorted_filter [where f = "\<lambda>x. x", simplified])
  then have "j \<le> i" if "j \<in> set ?is" for j
    using that ne unfolding i by (metis append_butlast_last_id sorted_append in_set_conv_nth last_in_set
      set_append Un_iff list.set_intros empty_set singletonD list.simps(15) order_refl)
  ultimately show ?thesis by auto
qed

lemma lastIndex_None: "lastIndex P xs = None \<longleftrightarrow> (\<forall>x\<in>set xs. \<not> P x)"
proof -
  have "lastIndex P xs = None \<longleftrightarrow> filter (\<lambda>i. P (xs ! i)) [0..<length xs] = []"
    by (auto simp: lastIndex_def split: list.splits)
  then show ?thesis by (auto simp: filter_empty_conv all_set_conv_all_nth)
qed

text \<open>A secret whose certificate has no certificate block panics the validation.\<close>

lemma validatePeer_no_certificate:
  assumes "\<forall>b\<in>set (x_pemBlocks X cert). fst b \<noteq> ''CERTIFICATE''"
  shows "validatePeerACertificateSignedByPeerBCa X cert ca ca' = Panic"
proof -
  have "certificatesOf X bs = Return []" if "\<forall>b\<in>set bs. fst b \<noteq> ''CERTIFICATE''" for bs
    using that by (induction X bs rule: certificatesOf.induct) auto
  then show ?thesis
    using assms by (simp add: validatePeerACertificateSignedByPeerBCa_def pemToCertificateChain_def
        verifyPeerCertificateNoHostCheck_def)
qed

end
