(* ===== verification/Images.thy ===== *)
theory Images
  imports Utilities
begin

text \<open>
  Package \<open>pkg/images\<close>: the table of container images, the version checks, and the registry
  override. The process environment is the argument \<open>env\<close> of the functions that read it
  (\<open>None\<close> is an unset variable).
\<close>

datatype Image =
    Cassandra_3_11_7 | Cassandra_3_11_8 | Cassandra_3_11_9 | Cassandra_3_11_10 | Cassandra_4_0_0
  | UBICassandra_3_11_6 | UBICassandra_3_11_7 | UBICassandra_4_0_0
  | DSE_6_8_0 | DSE_6_8_1 | DSE_6_8_2 | DSE_6_8_3 | DSE_6_8_4
  | UBIDSE_6_8_0 | UBIDSE_6_8_1 | UBIDSE_6_8_2 | UBIDSE_6_8_3 | UBIDSE_6_8_4
  | ConfigBuilder | UBIConfigBuilder
  | BusyBox | BaseImageOS | SystemLogger

fun imageLookupMap :: "Image \<Rightarrow> string option" where
  "imageLookupMap Cassandra_3_11_7 = Some ''k8ssandra/cass-management-api:3.11.7-v0.1.25''"
| "imageLookupMap Cassandra_3_11_8 = Some ''k8ssandra/cass-management-api:3.11.8-v0.1.25''"
| "imageLookupMap Cassandra_3_11_9 = Some ''k8ssandra/cass-management-api:3.11.9-v0.1.25''"
| "imageLookupMap Cassandra_3_11_10 = Some ''k8ssandra/cass-management-api:3.11.10-v0.1.25''"
| "imageLookupMap Cassandra_4_0_0 = Some ''k8ssandra/cass-management-api:4.0.0-v0.1.25''"
| "imageLookupMap UBICassandra_3_11_6 = Some ''datastax/cassandra:3.11.6-ubi7''"
| "imageLookupMap UBICassandra_3_11_7 = Some ''datastax/cassandra:3.11.7-ubi7''"
| "imageLookupMap UBICassandra_4_0_0 = Some ''datastax/cassandra:4.0-ubi7''"
| "imageLookupMap DSE_6_8_0 = Some ''datastax/dse-server:6.8.0''"
| "imageLookupMap DSE_6_8_1 = Some ''datastax/dse-server:6.8.1''"
| "imageLookupMap DSE_6_8_2 = Some ''datastax/dse-server:6.8.2''"
| "imageLookupMap DSE_6_8_3 = Some ''datastax/dse-server:6.8.3''"
| "imageLookupMap DSE_6_8_4 = Some ''datastax/dse-server:6.8.4''"
| "imageLookupMap UBIDSE_6_8_0 = Some ''datastax/dse-server:6.8.0-ubi7''"
| "imageLookupMap UBIDSE_6_8_1 = Some ''datastax/dse-server:6.8.1-ubi7''"
| "imageLookupMap UBIDSE_6_8_2 = Some ''datastax/dse-server:6.8.2-ubi7''"
| "imageLookupMap UBIDSE_6_8_3 = Some ''datastax/dse-server:6.8.3-ubi7''"
| "imageLookupMap UBIDSE_6_8_4 = Some ''datastax/dse-server:6.8.4-ubi7''"
| "imageLookupMap ConfigBuilder = Some ''datastax/cass-config-builder:1.0.3''"
| "imageLookupMap UBIConfigBuilder = Some ''datastax/cass-config-builder:1.0.3-ubi7''"
| "imageLookupMap BusyBox = Some ''busybox:1.32.0-uclibc''"
| "imageLookupMap SystemLogger = Some ''k8ssandra/system-logger:9c4c3692''"
| "imageLookupMap BaseImageOS = None"

definition versionToOSSCassandra :: "(string \<times> Image) list" where
  "versionToOSSCassandra =
     [(''3.11.7'', Cassandra_3_11_7), (''3.11.8'', Cassandra_3_11_8), (''3.11.9'', Cassandra_3_11_9),
      (''3.11.10'', Cassandra_3_11_10), (''4.0.0'', Cassandra_4_0_0)]"

definition versionToUBIOSSCassandra :: "(string \<times> Image) list" where
  "versionToUBIOSSCassandra =
     [(''3.11.6'', UBICassandra_3_11_6), (''3.11.7'', UBICassandra_3_11_7),
      (''4.0.0'', UBICassandra_4_0_0)]"

definition versionToDSE :: "(string \<times> Image) list" where
  "versionToDSE =
     [(''6.8.0'', DSE_6_8_0), (''6.8.1'', DSE_6_8_1), (''6.8.2'', DSE_6_8_2),
      (''6.8.3'', DSE_6_8_3), (''6.8.4'', DSE_6_8_4)]"

definition versionToUBIDSE :: "(string \<times> Image) list" where
  "versionToUBIDSE =
     [(''6.8.0'', UBIDSE_6_8_0), (''6.8.1'', UBIDSE_6_8_1), (''6.8.2'', UBIDSE_6_8_2),
      (''6.8.3'', UBIDSE_6_8_3), (''6.8.4'', UBIDSE_6_8_4)]"

text \<open>
  \<open>MatchString\<close> of an unanchored expression made of a literal followed by one or more
  digits: some suffix of the text starts with the literal and a digit.
\<close>

definition isDigit :: "char \<Rightarrow> bool" where
  "isDigit c = (48 \<le> (of_char c :: nat) \<and> (of_char c :: nat) \<le> 57)"

definition startsWithVersion :: "string \<Rightarrow> string \<Rightarrow> bool" where
  "startsWithVersion lit s =
     (HasPrefix s lit \<and> (case drop (length lit) s of [] \<Rightarrow> False | c # _ \<Rightarrow> isDigit c))"

fun matchSomewhere :: "(string \<Rightarrow> bool) \<Rightarrow> string \<Rightarrow> bool" where
  "matchSomewhere P [] = P []"
| "matchSomewhere P (c # s) = (P (c # s) \<or> matchSomewhere P s)"

definition IsDseVersionSupported :: "string \<Rightarrow> bool" where
  "IsDseVersionSupported version = matchSomewhere (startsWithVersion ''6.8.'') version"

definition IsOssVersionSupported :: "string \<Rightarrow> bool" where
  "IsOssVersionSupported version =
     matchSomewhere (\<lambda>s. startsWithVersion ''3.11.'' s \<or> startsWithVersion ''4.0.'' s) version"

definition Getenv :: "(string \<Rightarrow> string option) \<Rightarrow> string \<Rightarrow> string" where
  "Getenv env k = (case env k of None \<Rightarrow> [] | Some v \<Rightarrow> v)"

text \<open>In \<open>len(comps) > 1 && a || b\<close> the conjunction binds tighter.\<close>

definition stripRegistry :: "string \<Rightarrow> string" where
  "stripRegistry img =
     (let comps = Split img (CHR ''/'')
      in if length comps > 1 \<and> CHR ''.'' \<in> set (hd comps) \<or> CHR '':'' \<in> set (hd comps)
         then Join (tl comps) ''/''
         else img)"

definition applyDefaultRegistryOverride :: "(string \<Rightarrow> string option) \<Rightarrow> string \<Rightarrow> string" where
  "applyDefaultRegistryOverride env img =
     (let customRegistry = TrimSuffix (Getenv env ''DEFAULT_CONTAINER_REGISTRY_OVERRIDE'') ''/''
      in if customRegistry = [] then img
         else customRegistry @ ''/'' @ stripRegistry img)"

definition CalculateDockerImageRunsAsCassandra :: "string \<Rightarrow> bool" where
  "CalculateDockerImageRunsAsCassandra version = True"

definition GetImage :: "(string \<Rightarrow> string option) \<Rightarrow> Image \<Rightarrow> string" where
  "GetImage env name =
     (let img = (case imageLookupMap name of
          Some img \<Rightarrow> img
        | None \<Rightarrow> if name = BaseImageOS then Getenv env ''BASE_IMAGE_OS'' else [])
      in if img \<noteq> [] then applyDefaultRegistryOverride env img else [])"

definition shouldUseUBI :: "(string \<Rightarrow> string option) \<Rightarrow> bool" where
  "shouldUseUBI env = (Getenv env ''BASE_IMAGE_OS'' \<noteq> [])"

definition fallbackImage :: "(string \<Rightarrow> string option) \<Rightarrow> string \<Rightarrow> string outcome" where
  "fallbackImage env name = Return (if shouldUseUBI env then name @ ''-ubi7'' else name)"

definition GetCassandraImage ::
    "(string \<Rightarrow> string option) \<Rightarrow> string \<Rightarrow> string \<Rightarrow> string outcome" where
  "GetCassandraImage env serverType version =
     (let dseMap = (if shouldUseUBI env then versionToUBIDSE else versionToDSE);
          cassandraMap = (if shouldUseUBI env then versionToUBIOSSCassandra else versionToOSSCassandra)
      in if serverType = ''dse'' then
           (case map_of dseMap version of
              Some imageKey \<Rightarrow> Return (GetImage env imageKey)
            | None \<Rightarrow>
                if \<not> IsDseVersionSupported version
                then Fail (Errorf (''server '' @ quoted ''dse'' @ '' and version '' @ quoted version @ '' do not work together''))
                else fallbackImage env (''datastax/dse-server:'' @ version))
         else if serverType = ''cassandra'' then
           (case map_of cassandraMap version of
              Some imageKey \<Rightarrow> Return (GetImage env imageKey)
            | None \<Rightarrow>
                if \<not> IsOssVersionSupported version
                then Fail (Errorf (''server '' @ quoted ''cassandra'' @ '' and version '' @ quoted version @ '' do not work together''))
                else fallbackImage env (''datastax/cassandra-mgmtapi:'' @ version))
         else Fail (Errorf (''Unknown server type '' @ quoted serverType)))"

definition GetConfigBuilderImage :: "(string \<Rightarrow> string option) \<Rightarrow> string" where
  "GetConfigBuilderImage env =
     (if shouldUseUBI env then GetImage env UBIConfigBuilder else GetImage env ConfigBuilder)"

definition GetSystemLoggerImage :: "(string \<Rightarrow> string option) \<Rightarrow> string" where
  "GetSystemLoggerImage env = GetImage env SystemLogger"

definition AddDefaultRegistryImagePullSecrets ::
    "(string \<Rightarrow> string option) \<Rightarrow> PodTemplateSpec \<Rightarrow> bool \<times> PodTemplateSpec" where
  "AddDefaultRegistryImagePullSecrets env podSpec =
     (let secretName = Getenv env ''DEFAULT_CONTAINER_REGISTRY_OVERRIDE_PULL_SECRETS''
      in if secretName \<noteq> []
         then (True, podSpec\<lparr>ts_ImagePullSecrets := ts_ImagePullSecrets podSpec @ [secretName]\<rparr>)
         else (False, podSpec))"

section \<open>Lemmas\<close>

lemma matchSomewhere_iff: "matchSomewhere P s \<longleftrightarrow> (\<exists>a b. s = a @ b \<and> P b)"
proof (induction s)
  case (Cons c s)
  then show ?case by (auto simp: append_eq_Cons_conv Cons_eq_append_conv)
qed simp

lemma versionToDSE_supported:
  "map_of versionToDSE v = Some i \<Longrightarrow> IsDseVersionSupported v"
  "map_of versionToUBIDSE v = Some i \<Longrightarrow> IsDseVersionSupported v"
  by (auto simp: versionToDSE_def versionToUBIDSE_def IsDseVersionSupported_def startsWithVersion_def
      HasPrefix_def isDigit_def split: if_splits)

lemma versionToOSS_supported:
  "map_of versionToOSSCassandra v = Some i \<Longrightarrow> IsOssVersionSupported v"
  "map_of versionToUBIOSSCassandra v = Some i \<Longrightarrow> IsOssVersionSupported v"
  by (auto simp: versionToOSSCassandra_def versionToUBIOSSCassandra_def IsOssVersionSupported_def
      startsWithVersion_def HasPrefix_def isDigit_def split: if_splits)

lemma fallbackImage_not_Fail [simp]: "fallbackImage env n \<noteq> Fail e"
  by (simp add: fallbackImage_def)

lemma GetCassandraImage_supported:
  "(\<exists>img. GetCassandraImage env serverType version = Return img) \<longleftrightarrow>
     serverType = ''dse'' \<and> IsDseVersionSupported version \<or>
     serverType = ''cassandra'' \<and> IsOssVersionSupported version"
  using versionToDSE_supported [of version] versionToOSS_supported [of version]
  by (auto simp: GetCassandraImage_def Let_def fallbackImage_def split: option.splits)

end
