(* ===== verification/Effects.thy ===== *)
theory Effects
  imports Cluster
begin

text \<open>
  Rules to reason about the calls an operation makes: \<open>emits\<close>, which calls it may make at all,
  and \<open>once\<close>, that it makes an action at most once. Each primitive operation and each
  combinator has its rule, collected in \<open>emits_intros\<close>.
\<close>

section \<open>What an operation may call\<close>

text \<open>
  What the steps of one reconciliation leave alone once the racks are calculated and the pods
  are listed: the desired racks, the pointers to the pods, the number of pods and of stateful
  sets.
\<close>

definition static :: "world \<Rightarrow> RackInformation list \<times> nat list \<times> nat list \<times> nat \<times> nat \<times> string" where
  "static s = (desiredRackInformation s, clusterPods s, dcPods s, length (podStore s),
     length (statefulSets s), Protocol s)"

definition ofStatic :: "(world \<Rightarrow> bool) \<Rightarrow> bool" where
  "ofStatic I \<longleftrightarrow> (\<forall>s t. static s = static t \<longrightarrow> I s \<longrightarrow> I t)"

text \<open>
  \<open>emits A m\<close>: from every state, \<open>m\<close> keeps the static part, only appends to the log, and
  appends only calls that satisfy \<open>A\<close>.
\<close>

definition emits :: "(call \<Rightarrow> bool) \<Rightarrow> (world, 'a) op \<Rightarrow> bool" where
  "emits A m \<longleftrightarrow> (\<forall>s r t. m s = (r, t) \<longrightarrow>
     static t = static s \<and> (\<exists>cs. log t = log s @ cs \<and> list_all A cs))"

named_theorems emits_intros \<open>rules of \<open>emits\<close>\<close>

lemma emitsD:
  assumes "emits A m" "m s = (r, t)"
  obtains cs where "static t = static s" "log t = log s @ cs" "list_all A cs"
  using assms unfolding emits_def by blast

lemma emits_weaken: "emits A m \<Longrightarrow> (\<And>c. A c \<Longrightarrow> B c) \<Longrightarrow> emits B m"
  unfolding emits_def list_all_iff by metis

lemma emits_ret [emits_intros]: "emits A (ret a)"
  and emits_fail [emits_intros]: "emits A (fail e)"
  and emits_panic [emits_intros]: "emits A panic"
  and emits_gets [emits_intros]: "emits A (gets f)"
  and emits_lift [emits_intros]: "emits A (lift r')"
  by (auto simp: emits_def op_simps)

lemma emits_modify [emits_intros]:
  "(\<And>s. log (f s) = log s) \<Longrightarrow> (\<And>s. static (f s) = static s) \<Longrightarrow> emits A (modify f)"
  by (auto simp: emits_def op_simps)

lemma emits_bindM [emits_intros]:
  assumes "emits A m" "\<And>a. emits A (f a)"
  shows "emits A (bindM m f)"
  unfolding emits_def
proof (intro allI impI)
  fix s r t
  assume eq: "bindM m f s = (r, t)"
  obtain ra u where m: "m s = (ra, u)" by fastforce
  with assms(1) obtain cs where cs: "static u = static s" "log u = log s @ cs" "list_all A cs"
    by (rule emitsD)
  show "static t = static s \<and> (\<exists>cs. log t = log s @ cs \<and> list_all A cs)"
  proof (cases ra)
    case (Return a)
    with eq m have "f a u = (r, t)" by (simp add: bindM_def)
    with assms(2) obtain ds where "static t = static u" "log t = log u @ ds" "list_all A ds"
      by (rule emitsD)
    with cs show ?thesis by auto
  next
    case (Fail e)
    with eq m cs show ?thesis by (auto simp: bindM_def)
  next
    case Panic
    with eq m cs show ?thesis by (auto simp: bindM_def)
  qed
qed

lemma emits_attempt [emits_intros]: "emits A m \<Longrightarrow> emits A (attempt m)"
  unfolding emits_def attempt_def by (auto split: prod.splits outcome.splits)

lemma emits_if [emits_intros]:
  "(b \<Longrightarrow> emits A m) \<Longrightarrow> (\<not> b \<Longrightarrow> emits A k) \<Longrightarrow> emits A (if b then m else k)"
  by simp

lemma emits_case_option [emits_intros]:
  "(x = None \<Longrightarrow> emits A m) \<Longrightarrow> (\<And>y. x = Some y \<Longrightarrow> emits A (k y)) \<Longrightarrow>
     emits A (case x of None \<Rightarrow> m | Some y \<Rightarrow> k y)"
  by (cases x) auto

lemma emits_case_sum [emits_intros]:
  "(\<And>e. x = Inl e \<Longrightarrow> emits A (m e)) \<Longrightarrow> (\<And>y. x = Inr y \<Longrightarrow> emits A (k y)) \<Longrightarrow>
     emits A (case x of Inl e \<Rightarrow> m e | Inr y \<Rightarrow> k y)"
  by (cases x) auto

lemma emits_case_prod [emits_intros]:
  "(\<And>a b. x = (a, b) \<Longrightarrow> emits A (k a b)) \<Longrightarrow> emits A (case x of (a, b) \<Rightarrow> k a b)"
  by (cases x) auto

lemma emits_Let [emits_intros]: "emits A (f x) \<Longrightarrow> emits A (Let x f)"
  by simp

lemma emits_forM [emits_intros]:
  "(\<And>x. x \<in> set xs \<Longrightarrow> emits A (body x)) \<Longrightarrow> emits A (forM xs body)"
  by (induction xs) (auto intro!: emits_intros)

lemma emits_foldM [emits_intros]:
  "(\<And>a x. x \<in> set xs \<Longrightarrow> emits A (f a x)) \<Longrightarrow> emits A (foldM f a xs)"
  by (induction xs arbitrary: a) (auto intro!: emits_intros)

lemma emits_loopM [emits_intros]:
  "(\<And>a x. x \<in> set xs \<Longrightarrow> emits A (f a x)) \<Longrightarrow> emits A (loopM f a xs)"
  by (induction xs arbitrary: a) (auto intro!: emits_intros)

lemma emits_returning [emits_intros]:
  "emits A loop \<Longrightarrow> emits A rest \<Longrightarrow> emits A (returning loop rest)"
  unfolding returning_def by (intro emits_intros)

lemma emits_thenM [emits_intros]: "emits A m \<Longrightarrow> emits A k \<Longrightarrow> emits A (thenM m k)"
  unfolding thenM_def by (intro emits_intros)

lemma emits_perform [emits_intros]: "A c \<Longrightarrow> emits A (perform answer c)"
  by (auto simp: emits_def perform_def static_def)

lemma emits_Now [emits_intros]: "emits A (Now E)"
  by (auto simp: emits_def Now_def static_def)

lemma emits_Random [emits_intros]: "emits A (Random src)"
  by (auto simp: emits_def Random_def static_def)

lemma emits_ticking [emits_intros]: "emits A (ticking m)"
  by (auto simp: emits_def ticking_def static_def split: prod.splits)

lemma emits_Eventf [emits_intros]: "A (Event t r m) \<Longrightarrow> emits A (Eventf t r m)"
  by (auto simp: emits_def op_simps static_def)

lemma emits_sleep [emits_intros]: "A (Sleep d) \<Longrightarrow> emits A (sleep d)"
  by (auto simp: emits_def op_simps static_def)

lemma emits_dc_pod [emits_intros]:
  "emits A getDc" "emits A (modifyDc f)" "emits A (getPod i)" "emits A (setPod i p)"
  by (auto simp: getDc_def modifyDc_def getPod_def setPod_def static_def intro!: emits_intros)

lemma emits_writeDc [emits_intros]: "(\<And>dc. A (mk dc)) \<Longrightarrow> emits A (writeDc E mk)"
  unfolding writeDc_def by (intro emits_intros)

lemma emits_patchDc [emits_intros]:
  "(\<And>dc. A (PatchDc base dc)) \<Longrightarrow> emits A (patchDc E base)"
  "(\<And>dc. A (StatusPatchDc base dc)) \<Longrightarrow> emits A (patchDcStatus E base)"
  by (auto simp: patchDc_def patchDcStatus_def intro!: emits_writeDc)

lemma emits_patchPod [emits_intros]: "(\<And>b. A (PatchPod b new)) \<Longrightarrow> emits A (patchPod E i new)"
  unfolding patchPod_def by (intro emits_intros)

text \<open>
  \<open>once I P Q m\<close>: from a state with \<open>I\<close>, \<open>m\<close> makes at most one call that satisfies \<open>P\<close>, and
  makes it only with an outcome that satisfies \<open>Q\<close>. With \<open>Q\<close> the outcomes that end the caller,
  this is what the early returns after an action give.
\<close>

definition once ::
    "(world \<Rightarrow> bool) \<Rightarrow> (call \<Rightarrow> bool) \<Rightarrow> ('a outcome \<Rightarrow> bool) \<Rightarrow> (world, 'a) op \<Rightarrow> bool" where
  "once I P Q m \<longleftrightarrow> (\<forall>s r t. I s \<longrightarrow> m s = (r, t) \<longrightarrow> static t = static s \<and>
     (\<exists>cs. log t = log s @ cs \<and> length (filter P cs) \<le> 1 \<and> (0 < length (filter P cs) \<longrightarrow> Q r)))"

lemma onceD:
  assumes "once I P Q m" "I s" "m s = (r, t)"
  obtains cs where "static t = static s" "log t = log s @ cs" "length (filter P cs) \<le> 1"
    "0 < length (filter P cs) \<longrightarrow> Q r"
  using assms unfolding once_def by blast

lemma onceI_emits:
  assumes "emits (\<lambda>c. \<not> P c) m"
  shows "once I P Q m"
  unfolding once_def
proof (intro allI impI)
  fix s r t
  assume "m s = (r, t)"
  with assms obtain cs where "static t = static s" "log t = log s @ cs" "list_all (\<lambda>c. \<not> P c) cs"
    by (rule emitsD)
  then show "static t = static s \<and> (\<exists>cs. log t = log s @ cs \<and> length (filter P cs) \<le> 1 \<and>
      (0 < length (filter P cs) \<longrightarrow> Q r))"
    by (auto simp: list_all_iff)
qed

lemma once_ret: "once I P Q (ret a)"
  by (rule onceI_emits) (rule emits_ret)

lemma once_perform:
  "(\<And>a. Q (Return a)) \<Longrightarrow> (\<And>e. Q (Fail e)) \<Longrightarrow> once I P Q (perform answer c)"
  by (auto simp: once_def perform_def static_def of_sum_def split: sum.splits)

lemma once_weaken: "once I P Q m \<Longrightarrow> (\<And>r. Q r \<Longrightarrow> Q' r) \<Longrightarrow> once I P Q' m"
  unfolding once_def by blast

text \<open>
  In a sequence: after an action the rest makes no further one and ends as it must, and
  without one the rest may still make it.
\<close>

lemma once_bindM:
  assumes I: "ofStatic I"
    and m: "once I P Q m"
    and stop: "\<And>a. Q (Return a) \<Longrightarrow> emits (\<lambda>c. \<not> P c) (f a) \<and> (\<forall>s. Q' (fst (f a s)))"
    and go: "\<And>a. \<not> Q (Return a) \<Longrightarrow> once I P Q' (f a)"
    and bad: "\<And>e. Q (Fail e) \<Longrightarrow> Q' (Fail e)" "Q Panic \<Longrightarrow> Q' Panic"
  shows "once I P Q' (bindM m f)"
  unfolding once_def
proof (intro allI impI)
  fix s r t
  assume s: "I s" and eq: "bindM m f s = (r, t)"
  obtain ra u where ms: "m s = (ra, u)" by fastforce
  with m s obtain cs where cs: "static u = static s" "log u = log s @ cs" "length (filter P cs) \<le> 1"
    "0 < length (filter P cs) \<longrightarrow> Q ra" by (rule onceD)
  show "static t = static s \<and> (\<exists>cs. log t = log s @ cs \<and> length (filter P cs) \<le> 1 \<and>
      (0 < length (filter P cs) \<longrightarrow> Q' r))"
  proof (cases ra)
    case (Return a)
    then have fa: "f a u = (r, t)" using eq ms by (simp add: bindM_def)
    show ?thesis
    proof (cases "Q (Return a)")
      case True
      have "emits (\<lambda>c. \<not> P c) (f a)" and "Q' r"
        using stop [OF True] fa by (simp, metis fst_conv)
      then obtain ds where "static t = static u" "log t = log u @ ds" "list_all (\<lambda>c. \<not> P c) ds"
        using fa by (elim emitsD)
      then show ?thesis using cs \<open>Q' r\<close> by (auto intro!: exI [of _ "cs @ ds"] simp: list_all_iff)
    next
      case False
      have "I u" using I cs(1) s unfolding ofStatic_def by metis
      with go False obtain ds where ds: "static t = static u" "log t = log u @ ds"
        "length (filter P ds) \<le> 1" "0 < length (filter P ds) \<longrightarrow> Q' r" using fa by (metis onceD)
      have "filter P cs = []" using cs(4) False Return by auto
      then show ?thesis using cs ds by (auto intro!: exI [of _ "cs @ ds"])
    qed
  next
    case (Fail e)
    then show ?thesis using eq ms cs bad(1) by (auto simp: bindM_def)
  next
    case Panic
    then show ?thesis using eq ms cs bad(2) by (auto simp: bindM_def)
  qed
qed

text \<open>A preparation that makes no such call.\<close>

lemma once_prefix:
  assumes "ofStatic I" "emits (\<lambda>c. \<not> P c) m" "\<And>a. once I P Q (f a)"
  shows "once I P Q (bindM m f)"
  by (rule once_bindM [OF assms(1) onceI_emits [OF assms(2), where Q = "\<lambda>_. False"]])
     (simp_all add: assms(3))

text \<open>A value read from a state with the invariant.\<close>

lemma once_gets:
  assumes "\<And>s. I s \<Longrightarrow> once I P Q (k (f s))"
  shows "once I P Q (bindM (gets f) k)"
  using assms unfolding once_def bindM_gets by blast

text \<open>A call followed by none, whatever the outcome.\<close>

lemma once_suffix:
  assumes "ofStatic I" "once I P (\<lambda>_. True) m" "\<And>a. emits (\<lambda>c. \<not> P c) (f a)"
  shows "once I P (\<lambda>_. True) (bindM m f)"
  by (rule once_bindM [OF assms(1,2)]) (simp_all add: assms(3))

lemma once_if:
  "(b \<Longrightarrow> once I P Q m) \<Longrightarrow> (\<not> b \<Longrightarrow> once I P Q k) \<Longrightarrow> once I P Q (if b then m else k)"
  by simp

lemma once_attempt:
  assumes "once I P Q m"
    and "\<And>a. Q (Return a) \<Longrightarrow> Q' (Return (Inr a))" "\<And>e. Q (Fail e) \<Longrightarrow> Q' (Return (Inl e))"
    and "Q Panic \<Longrightarrow> Q' Panic"
  shows "once I P Q' (attempt m)"
  using assms unfolding once_def attempt_def
  by (fastforce split: prod.splits outcome.splits)

lemma once_forM:
  assumes I: "ofStatic I" and Q: "\<not> Q (Return None)"
    and "\<And>x. x \<in> set xs \<Longrightarrow> once I P Q (body x)"
  shows "once I P Q (forM xs body)"
  using assms(3)
proof (induction xs)
  case Nil
  show ?case by (auto intro: onceI_emits emits_intros)
next
  case (Cons x xs)
  show ?case unfolding forM.simps
  proof (rule once_bindM [OF I Cons.prems])
    show "once I P Q (case r of Some v \<Rightarrow> ret (Some v) | None \<Rightarrow> forM xs body)" for r
      using Cons by (cases r) (auto intro!: onceI_emits emits_intros)
  qed (use Q in \<open>auto intro!: emits_intros simp: ret_run split: option.splits\<close>)
qed

lemma once_loopM:
  assumes I: "ofStatic I" and Q: "\<And>b. \<not> Q (Return (Inl b))"
    and "\<And>a x. x \<in> set xs \<Longrightarrow> once I P Q (f a x)"
  shows "once I P Q (loopM f a xs)"
  using assms(3)
proof (induction xs arbitrary: a)
  case Nil
  show ?case by (auto intro: onceI_emits emits_intros)
next
  case (Cons x xs)
  show ?case unfolding loopM.simps
  proof (rule once_bindM [OF I Cons.prems])
    show "once I P Q (case r of Inl b \<Rightarrow> loopM f b xs | Inr v \<Rightarrow> ret (Inr v))" for r
      using Cons by (cases r) (auto intro!: onceI_emits emits_intros)
  qed (use Q in \<open>auto intro!: emits_intros simp: ret_run split: sum.splits\<close>)
qed

lemma once_returning:
  assumes "ofStatic I" "once I P (\<lambda>r. r \<noteq> Return None) loop" "once I P Q rest"
    and "\<And>v. Q (Return v)" "\<And>e. Q (Fail e)" "Q Panic"
  shows "once I P Q (returning loop rest)"
  unfolding returning_def
  by (rule once_bindM [OF assms(1,2)])
     (use assms in \<open>auto intro!: emits_intros simp: ret_run split: option.splits\<close>)

lemma ofStatic_True [simp]: "ofStatic (\<lambda>_. True)"
  by (simp add: ofStatic_def)

section \<open>What it may call from a given state\<close>

text \<open>
  \<open>quiet A m\<close>: of the state, \<open>m\<close> changes only the log, by calls that satisfy \<open>A\<close>, and the
  clock. \<open>calls I A m Q\<close>: from a state with \<open>I\<close>, \<open>m\<close> makes only calls that satisfy \<open>A\<close>, and a
  returned value satisfies \<open>Q\<close> together with the final state.
\<close>

definition quiet :: "(call \<Rightarrow> bool) \<Rightarrow> (world, 'a) op \<Rightarrow> bool" where
  "quiet A m \<longleftrightarrow> (\<forall>s r t. m s = (r, t) \<longrightarrow>
     (\<exists>cs k. t = s\<lparr>log := log s @ cs, ticks := k\<rparr> \<and> list_all A cs))"

definition calls ::
    "(world \<Rightarrow> bool) \<Rightarrow> (call \<Rightarrow> bool) \<Rightarrow> (world, 'a) op \<Rightarrow> ('a \<Rightarrow> world \<Rightarrow> bool) \<Rightarrow> bool" where
  "calls I A m Q \<longleftrightarrow> (\<forall>s r t. I s \<longrightarrow> m s = (r, t) \<longrightarrow>
     (\<exists>cs. log t = log s @ cs \<and> list_all A cs) \<and> (\<forall>a. r = Return a \<longrightarrow> Q a t))"

definition untimed :: "(world \<Rightarrow> bool) \<Rightarrow> bool" where
  "untimed I \<longleftrightarrow> (\<forall>s cs k. I s \<longrightarrow> I (s\<lparr>log := cs, ticks := k\<rparr>))"

named_theorems quiet_intros \<open>rules of \<open>quiet\<close>\<close>

lemma quietD:
  assumes "quiet A m" "m s = (r, t)"
  obtains cs k where "t = s\<lparr>log := log s @ cs, ticks := k\<rparr>" "list_all A cs"
  using assms unfolding quiet_def by blast

lemma quiet_weaken: "quiet A m \<Longrightarrow> (\<And>c. A c \<Longrightarrow> B c) \<Longrightarrow> quiet B m"
  unfolding quiet_def list_all_iff by metis

lemma quietI_same: "(\<And>s. snd (m s) = s) \<Longrightarrow> quiet A m"
  unfolding quiet_def
proof (intro allI impI)
  fix s r t
  assume same: "\<And>s. snd (m s) = s" and "m s = (r, t)"
  then have "t = s\<lparr>log := log s @ [], ticks := ticks s\<rparr>" using same [of s] by simp
  then show "\<exists>cs k. t = s\<lparr>log := log s @ cs, ticks := k\<rparr> \<and> list_all A cs"
    by (intro exI [of _ "[]"] exI [of _ "ticks s"]) simp
qed

lemma quiet_pure [quiet_intros]:
  "quiet A (ret a)" "quiet A (fail e)" "quiet A panic" "quiet A (lift r)" "quiet A (gets f)"
  "quiet A getDc" "quiet A (getPod i)"
  by (rule quietI_same, simp add: op_simps)+

lemma quiet_log: "(\<And>s. snd (m s) = s\<lparr>log := log s @ [c]\<rparr>) \<Longrightarrow> A c \<Longrightarrow> quiet A m"
  unfolding quiet_def
proof (intro allI impI)
  fix s r t
  assume m: "\<And>s. snd (m s) = s\<lparr>log := log s @ [c]\<rparr>" and "A c" and "m s = (r, t)"
  then have "t = s\<lparr>log := log s @ [c], ticks := ticks s\<rparr>" using m [of s] by simp
  then show "\<exists>cs k. t = s\<lparr>log := log s @ cs, ticks := k\<rparr> \<and> list_all A cs"
    using \<open>A c\<close> by (intro exI [of _ "[c]"] exI [of _ "ticks s"]) simp
qed

lemma quiet_perform [quiet_intros]: "A c \<Longrightarrow> quiet A (perform answer c)"
  by (rule quiet_log) (simp_all add: op_simps)

lemma quiet_Eventf [quiet_intros]: "A (Event x y z) \<Longrightarrow> quiet A (Eventf x y z)"
  by (rule quiet_log) (simp_all add: op_simps)

lemma quiet_Now [quiet_intros]: "quiet A (Now E)"
  unfolding quiet_def by (auto simp: op_simps intro!: exI [of _ "[]"] exI [of _ "Suc (ticks s)" for s])

lemma quiet_Random [quiet_intros]: "quiet A (Random src)"
  unfolding quiet_def by (auto simp: op_simps intro!: exI [of _ "[]"] exI [of _ "Suc (ticks s)" for s])

lemma quiet_bindM [quiet_intros]:
  assumes "quiet A m" "\<And>a. quiet A (f a)"
  shows "quiet A (bindM m f)"
  unfolding quiet_def
proof (intro allI impI)
  fix s r t
  assume eq: "bindM m f s = (r, t)"
  obtain ra u where m: "m s = (ra, u)" by fastforce
  with assms(1) obtain cs k where cs: "u = s\<lparr>log := log s @ cs, ticks := k\<rparr>" "list_all A cs"
    by (rule quietD)
  show "\<exists>cs k. t = s\<lparr>log := log s @ cs, ticks := k\<rparr> \<and> list_all A cs"
  proof (cases ra)
    case (Return a)
    with eq m have "f a u = (r, t)" by (simp add: bindM_def)
    with assms(2) obtain ds k' where "t = u\<lparr>log := log u @ ds, ticks := k'\<rparr>" "list_all A ds"
      by (rule quietD)
    with cs show ?thesis by (auto intro!: exI [of _ "cs @ ds"])
  qed (use eq m cs in \<open>auto simp: bindM_def\<close>)
qed

lemma quiet_attempt [quiet_intros]: "quiet A m \<Longrightarrow> quiet A (attempt m)"
  unfolding quiet_def attempt_def by (auto split: prod.splits outcome.splits)

lemma quiet_if [quiet_intros]:
  "(b \<Longrightarrow> quiet A m) \<Longrightarrow> (\<not> b \<Longrightarrow> quiet A k) \<Longrightarrow> quiet A (if b then m else k)"
  by simp

lemma quiet_case_option [quiet_intros]:
  "quiet A m \<Longrightarrow> (\<And>y. quiet A (k y)) \<Longrightarrow> quiet A (case x of None \<Rightarrow> m | Some y \<Rightarrow> k y)"
  by (cases x) auto

lemma quiet_thenM [quiet_intros]: "quiet A m \<Longrightarrow> quiet A k \<Longrightarrow> quiet A (thenM m k)"
  unfolding thenM_def by (intro quiet_intros)

lemma quiet_foldM [quiet_intros]:
  "(\<And>a x. x \<in> set xs \<Longrightarrow> quiet A (f a x)) \<Longrightarrow> quiet A (foldM f a xs)"
  by (induction xs arbitrary: a) (auto intro!: quiet_intros)

lemma callsD:
  assumes "calls I A m Q" "I s" "m s = (r, t)"
  obtains cs where "log t = log s @ cs" "list_all A cs" "\<forall>a. r = Return a \<longrightarrow> Q a t"
proof -
  have "(\<exists>cs. log t = log s @ cs \<and> list_all A cs) \<and> (\<forall>a. r = Return a \<longrightarrow> Q a t)"
    using assms(1) [unfolded calls_def, THEN spec, THEN spec, THEN spec, THEN mp, THEN mp, OF assms(2,3)] .
  with that show thesis by (elim conjE exE) simp
qed

lemma callsI:
  "(\<And>s r t. I s \<Longrightarrow> m s = (r, t) \<Longrightarrow>
      (\<exists>cs. log t = log s @ cs \<and> list_all A cs) \<and> (\<forall>a. r = Return a \<longrightarrow> Q a t)) \<Longrightarrow> calls I A m Q"
  unfolding calls_def by blast

lemma calls_pre: "calls I A m Q \<Longrightarrow> (\<And>s. J s \<Longrightarrow> I s) \<Longrightarrow> calls J A m Q"
  unfolding calls_def by blast

lemma calls_post: "calls I A m Q \<Longrightarrow> (\<And>a s. Q a s \<Longrightarrow> R a s) \<Longrightarrow> calls I A m R"
  unfolding calls_def by blast

lemma calls_weaken: "calls I A m Q \<Longrightarrow> (\<And>c. A c \<Longrightarrow> B c) \<Longrightarrow> calls I B m Q"
  unfolding calls_def list_all_iff by metis

lemma calls_bindM:
  assumes m: "calls I A m Q" and f: "\<And>a. calls (Q a) A (f a) R"
  shows "calls I A (bindM m f) R"
proof (rule callsI)
  fix s r t
  assume I: "I s" and eq: "bindM m f s = (r, t)"
  obtain ra u where ms: "m s = (ra, u)" by fastforce
  from m I ms obtain cs where cs: "log u = log s @ cs" "list_all A cs" "\<forall>a. ra = Return a \<longrightarrow> Q a u"
    by (rule callsD)
  show "(\<exists>cs. log t = log s @ cs \<and> list_all A cs) \<and> (\<forall>a. r = Return a \<longrightarrow> R a t)"
  proof (cases ra)
    case (Return a)
    then have "Q a u" "f a u = (r, t)" using cs(3) eq ms by (auto simp: bindM_def)
    with f [of a] obtain ds where "log t = log u @ ds" "list_all A ds" "\<forall>b. r = Return b \<longrightarrow> R b t"
      by (elim callsD)
    with cs show ?thesis by auto
  qed (use eq ms cs in \<open>auto simp: bindM_def\<close>)
qed

lemma calls_ret: "(\<And>s. I s \<Longrightarrow> Q a s) \<Longrightarrow> calls I A (ret a) Q"
  by (simp add: calls_def ret_def)

lemma calls_gets: "calls I A (gets f) (\<lambda>a s. I s \<and> a = f s)"
  by (auto simp: calls_def gets_def)

lemma calls_if:
  "(b \<Longrightarrow> calls I A m Q) \<Longrightarrow> (\<not> b \<Longrightarrow> calls I A k Q) \<Longrightarrow> calls I A (if b then m else k) Q"
  by simp

text \<open>A value known in the invariant, and a fact of the invariant about values only.\<close>

lemma calls_fixed: "calls I A (f b) Q \<Longrightarrow> calls (\<lambda>s. I s \<and> a = b) A (f a) Q"
  by (cases "a = b") (auto simp: calls_def)

lemma calls_given: "(b \<Longrightarrow> calls I A m Q) \<Longrightarrow> calls (\<lambda>s. I s \<and> b) A m Q"
  by (cases b) (auto simp: calls_def)

lemma calls_quiet:
  assumes "quiet A m" "untimed I"
  shows "calls I A m (\<lambda>_. I)"
proof (rule callsI)
  fix s r t
  assume "I s" and "m s = (r, t)"
  with assms(1) obtain cs k where "t = s\<lparr>log := log s @ cs, ticks := k\<rparr>" "list_all A cs"
    by (elim quietD)
  with assms(2) \<open>I s\<close>
  show "(\<exists>cs. log t = log s @ cs \<and> list_all A cs) \<and> (\<forall>a. r = Return a \<longrightarrow> I t)"
    by (auto simp: untimed_def)
qed

lemma calls_emits: "emits A m \<Longrightarrow> calls I A m (\<lambda>_ _. True)"
  unfolding calls_def emits_def by blast

lemma calls_foldM:
  assumes "\<And>a x. x \<in> set xs \<Longrightarrow> calls (J a) A (f a x) J"
  shows "calls (J a) A (foldM f a xs) J"
  using assms
proof (induction xs arbitrary: a)
  case (Cons x xs)
  show ?case unfolding foldM.simps by (rule calls_bindM [where Q = J]) (use Cons in auto)
qed (auto intro: calls_ret)

text \<open>
  \<open>callsOne I A m\<close>: the calls of one run satisfy \<open>A n\<close> for one \<open>n\<close>. A preparation that
  satisfies all of them may come first; in a loop, an iteration that goes on to the next one
  makes only such calls.
\<close>

definition callsOne :: "(world \<Rightarrow> bool) \<Rightarrow> ('n \<Rightarrow> call \<Rightarrow> bool) \<Rightarrow> (world, 'a) op \<Rightarrow> bool" where
  "callsOne I A m \<longleftrightarrow> (\<forall>s r t. I s \<longrightarrow> m s = (r, t) \<longrightarrow>
     (\<exists>n cs. log t = log s @ cs \<and> list_all (A n) cs))"

lemma callsOneD:
  assumes "callsOne I A m" "I s" "m s = (r, t)"
  obtains n cs where "log t = log s @ cs" "list_all (A n) cs"
  using assms unfolding callsOne_def by blast

lemma callsOne_calls: "calls I (A n) m Q \<Longrightarrow> callsOne I A m"
  unfolding calls_def callsOne_def by blast

lemma callsOne_if:
  "(b \<Longrightarrow> callsOne I A m) \<Longrightarrow> (\<not> b \<Longrightarrow> callsOne I A k) \<Longrightarrow> callsOne I A (if b then m else k)"
  by simp

lemma callsOne_bindM:
  assumes m: "calls I B m Q" and f: "\<And>a. callsOne (Q a) A (f a)" and B: "\<And>n c. B c \<Longrightarrow> A n c"
  shows "callsOne I A (bindM m f)"
  unfolding callsOne_def
proof (intro allI impI)
  fix s r t
  assume I: "I s" and eq: "bindM m f s = (r, t)"
  obtain ra u where ms: "m s = (ra, u)" by fastforce
  from m I ms obtain cs where cs: "log u = log s @ cs" "list_all B cs" "\<forall>a. ra = Return a \<longrightarrow> Q a u"
    by (rule callsD)
  have all: "list_all (A n) cs" for n using cs(2) B by (auto simp: list_all_iff)
  show "\<exists>n cs. log t = log s @ cs \<and> list_all (A n) cs"
  proof (cases ra)
    case (Return a)
    then have "Q a u" "f a u = (r, t)" using cs(3) eq ms by (auto simp: bindM_def)
    with f [of a] obtain n ds where "log t = log u @ ds" "list_all (A n) ds" by (elim callsOneD)
    with cs all show ?thesis by (auto intro!: exI [of _ n])
  qed (use eq ms cs all in \<open>auto simp: bindM_def\<close>)
qed

lemma callsOne_forM:
  assumes step: "\<And>x. x \<in> set xs \<Longrightarrow> calls I (A (g x)) (body x) (\<lambda>r s. r = None \<longrightarrow> I s)"
    and skip: "\<And>x s t. x \<in> set xs \<Longrightarrow> I s \<Longrightarrow> body x s = (Return None, t) \<Longrightarrow> log t = log s"
  shows "callsOne I A (forM xs body)"
  using assms
proof (induction xs)
  case Nil
  show ?case by (auto simp: callsOne_def ret_run)
next
  case (Cons x xs)
  show ?case unfolding callsOne_def
  proof (intro allI impI)
    fix s r t
    assume I: "I s" and eq: "forM (x # xs) body s = (r, t)"
    obtain ra u where b: "body x s = (ra, u)" by fastforce
    have "calls I (A (g x)) (body x) (\<lambda>r s. r = None \<longrightarrow> I s)" using Cons.prems(1) by simp
    from this I b obtain cs where cs: "log u = log s @ cs" "list_all (A (g x)) cs"
      "\<forall>a. ra = Return a \<longrightarrow> a = None \<longrightarrow> I u"
      by (rule callsD)
    show "\<exists>n cs. log t = log s @ cs \<and> list_all (A n) cs"
    proof (cases "ra = Return None")
      case True
      then have "log u = log s" "I u" "forM xs body u = (r, t)"
        using Cons.prems(2) I b cs(3) eq by (auto simp: bindM_def)
      moreover have "callsOne I A (forM xs body)"
        by (rule Cons.IH) (use Cons.prems in \<open>meson list.set_intros(2)\<close>)+
      ultimately show ?thesis by (metis callsOneD)
    next
      case False
      then have "t = u" using eq b by (auto simp: bindM_def ret_run split: outcome.splits option.splits)
      with cs show ?thesis by blast
    qed
  qed
qed

lemma callsOne_returning:
  assumes "callsOne I A loop" "\<And>s. log (snd (rest s)) = log s"
  shows "callsOne I A (returning loop rest)"
  unfolding callsOne_def
proof (intro allI impI)
  fix s r t
  assume "I s" and eq: "returning loop rest s = (r, t)"
  obtain ra u where l: "loop s = (ra, u)" by fastforce
  from assms(1) \<open>I s\<close> l obtain n cs where cs: "log u = log s @ cs" "list_all (A n) cs" by (rule callsOneD)
  have "log t = log u"
    using eq l assms(2) [of u]
    by (auto simp: returning_def bindM_def ret_run split: outcome.splits option.splits)
  with cs show "\<exists>n cs. log t = log s @ cs \<and> list_all (A n) cs" by auto
qed

lemma callsOne_fixed: "callsOne I A (f b) \<Longrightarrow> callsOne (\<lambda>s. I s \<and> a = b) A (f a)"
  by (cases "a = b") (auto simp: callsOne_def)

end
