(* ===== verification/Results.thy ===== *)
theory Results
  imports Effects
begin

text \<open>
  Package \<open>internal/result\<close>: what a step of the reconciliation answers, and how it is turned
  into the answer of the controller. \<open>Output\<close> of \<open>Continue\<close> panics.
\<close>

datatype ReconcileResult = Continue | Done | RequeueSoon int | ErrorOut error

record Result =
  Requeue :: bool
  RequeueAfter :: int

fun Completed :: "ReconcileResult \<Rightarrow> bool" where
  "Completed Continue = False"
| "Completed Done = True"
| "Completed (RequeueSoon secs) = True"
| "Completed (ErrorOut e) = True"

fun Output :: "ReconcileResult \<Rightarrow> (Result \<times> error option) outcome" where
  "Output Continue = Panic"
| "Output Done = Return (\<lparr>Requeue = False, RequeueAfter = 0\<rparr>, None)"
| "Output (RequeueSoon secs) = Return (\<lparr>Requeue = True, RequeueAfter = secs * Second\<rparr>, None)"
| "Output (ErrorOut e) = Return (\<lparr>Requeue = False, RequeueAfter = 0\<rparr>, Some e)"

text \<open>
  \<open>orError m k\<close>: call \<open>m\<close>; on an error return \<open>result.Error(err)\<close>, otherwise go on with \<open>k\<close>.
  \<open>orElse\<close> is the same for a caller that ends with another result.
\<close>

definition orError :: "(world, 'a) op \<Rightarrow> ('a \<Rightarrow> (world, ReconcileResult) op) \<Rightarrow> (world, ReconcileResult) op" where
  "orError m k = bindM (attempt m) (\<lambda>r. case r of Inl e \<Rightarrow> ret (ErrorOut e) | Inr a \<Rightarrow> k a)"

text \<open>
  \<open>check m k\<close>: run a step; when it is completed return its output, otherwise go on. This is
  \<open>if recResult := m; recResult.Completed() { return recResult.Output() }\<close>.
\<close>

definition check ::
    "(world, ReconcileResult) op \<Rightarrow> (world, Result \<times> error option) op \<Rightarrow> (world, Result \<times> error option) op" where
  "check m k = bindM m (\<lambda>r. if Completed r then lift (Output r) else k)"

lemma Output_Panic_iff [simp]: "Output r = Panic \<longleftrightarrow> \<not> Completed r"
  by (cases r) auto

lemma not_Completed_iff: "\<not> Completed r \<longleftrightarrow> r = Continue"
  by (cases r) auto

lemma emits_orError [emits_intros]:
  "emits A m \<Longrightarrow> (\<And>a. emits A (k a)) \<Longrightarrow> emits A (orError m k)"
  unfolding orError_def by (intro emits_intros)

lemma emits_check [emits_intros]: "emits A m \<Longrightarrow> emits A k \<Longrightarrow> emits A (check m k)"
  unfolding check_def by (intro emits_intros)

lemma orError_ret [simp]: "orError (ret a) k = k a"
  by (simp add: orError_def)

lemma orError_run:
  "orError m k s = (case m s of (Return a, t) \<Rightarrow> k a t
     | (Fail e, t) \<Rightarrow> (Return (ErrorOut e), t) | (Panic, t) \<Rightarrow> (Panic, t))"
  by (simp add: orError_def bindM_def attempt_def ret_run split: prod.splits outcome.splits)

lemma check_run:
  "check m k s = (case m s of (Return r, t) \<Rightarrow> (if Completed r then (Output r, t) else k t)
     | (Fail e, t) \<Rightarrow> (Fail e, t) | (Panic, t) \<Rightarrow> (Panic, t))"
  by (simp add: check_def bindM_def lift_run split: prod.splits outcome.splits)

lemma once_orError:
  assumes I: "ofStatic I" and m: "once I P Q m"
    and stop: "\<And>a. Q (Return a) \<Longrightarrow> emits (\<lambda>c. \<not> P c) (k a) \<and> (\<forall>s. Q' (fst (k a s)))"
    and go: "\<And>a. \<not> Q (Return a) \<Longrightarrow> once I P Q' (k a)"
    and bad: "\<And>e. Q' (Return (ErrorOut e))" "Q Panic \<Longrightarrow> Q' Panic"
  shows "once I P Q' (orError m k)"
proof -
  let ?Q = "\<lambda>r. case r of Return (Inr a) \<Rightarrow> Q (Return a) | Return (Inl e) \<Rightarrow> True | Fail e \<Rightarrow> False | Panic \<Rightarrow> Q Panic"
  have "once I P ?Q (attempt m)" by (rule once_attempt [OF m]) auto
  then show ?thesis unfolding orError_def
    by (rule once_bindM [OF I])
       (use stop go bad in \<open>auto intro!: emits_intros onceI_emits simp: ret_run split: sum.splits\<close>)
qed

text \<open>A step that makes no such call, before the rest.\<close>

lemma once_orError_prefix:
  assumes "ofStatic I" "emits (\<lambda>c. \<not> P c) m" "\<And>a. once I P Q (k a)" "\<And>e. Q (Return (ErrorOut e))"
  shows "once I P Q (orError m k)"
  by (rule once_orError [OF assms(1) onceI_emits [OF assms(2), where Q = "\<lambda>_. False"]])
     (simp_all add: assms)

lemma orError_eq_Return_iff:
  "orError m k s = (Return r, t) \<longleftrightarrow>
     (\<exists>a u. m s = (Return a, u) \<and> k a u = (Return r, t)) \<or> (\<exists>e. m s = (Fail e, t) \<and> r = ErrorOut e)"
  by (auto simp: orError_run split: prod.splits outcome.splits)

lemma calls_orError:
  assumes "calls I A m Q" "\<And>a. calls (Q a) A (k a) (\<lambda>_ _. True)"
  shows "calls I A (orError m k) (\<lambda>_ _. True)"
proof -
  have "calls I A (attempt m) (\<lambda>r s. case r of Inl e \<Rightarrow> True | Inr a \<Rightarrow> Q a s)"
    using assms(1) unfolding calls_def attempt_def by (fastforce split: prod.splits outcome.splits)
  then show ?thesis unfolding orError_def
    by (rule calls_bindM) (auto split: sum.split intro: assms(2) calls_ret)
qed

lemma callsOne_orError:
  assumes m: "calls I B m Q" and k: "\<And>a. callsOne (Q a) A (k a)" and B: "\<And>n c. B c \<Longrightarrow> A n c"
  shows "callsOne I A (orError m k)"
proof -
  have "calls I B (attempt m) (\<lambda>r s. case r of Inl e \<Rightarrow> True | Inr a \<Rightarrow> Q a s)"
    using m unfolding calls_def attempt_def by (fastforce split: prod.splits outcome.splits)
  moreover have "callsOne (\<lambda>s. case r of Inl e \<Rightarrow> True | Inr a \<Rightarrow> Q a s) A
      (case r of Inl e \<Rightarrow> ret (ErrorOut e) | Inr a \<Rightarrow> k a)" for r
    using k by (cases r) (auto intro: callsOne_calls [OF calls_ret])
  ultimately show ?thesis unfolding orError_def by (rule callsOne_bindM [OF _ _ B])
qed

text \<open>A last action after which no call is made.\<close>

lemma callsOne_orError_last:
  assumes m: "callsOne I A m" and k: "\<And>a s. log (snd (k a s)) = log s"
  shows "callsOne I A (orError m k)"
  unfolding callsOne_def
proof (intro allI impI)
  fix s r t
  assume "I s" and eq: "orError m k s = (r, t)"
  obtain ra u where ms: "m s = (ra, u)" by fastforce
  from m \<open>I s\<close> ms obtain n cs where cs: "log u = log s @ cs" "list_all (A n) cs" by (rule callsOneD)
  have "log t = log u"
    using eq ms k [of _ u] by (auto simp: orError_run split: outcome.splits) (metis snd_conv)
  with cs show "\<exists>n cs. log t = log s @ cs \<and> list_all (A n) cs" by auto
qed

end
