(* ===== verification/NodeMgmt.thy ===== *)
theory NodeMgmt
  imports Results
begin

text \<open>
  The management-API client (\<open>pkg/httphelper/client.go\<close>): each method builds a request and
  sends it to port 8080 of the pod; an answer outside 200--299 is an error. A failure to
  build the request is part of the failures of the transport.
\<close>

section \<open>URL encoding (net/url)\<close>

definition unreserved :: "char \<Rightarrow> bool" where
  "unreserved c =
     (let n = (of_char c :: nat)
      in (97 \<le> n \<and> n \<le> 122) \<or> (65 \<le> n \<and> n \<le> 90) \<or> (48 \<le> n \<and> n \<le> 57) \<or>
         c \<in> {CHR ''-'', CHR ''_'', CHR ''.'', CHR ''~''})"

definition upperhex :: "nat \<Rightarrow> char" where
  "upperhex d = (if d < 10 then char_of (48 + d) else char_of (55 + d))"

definition QueryEscape :: "string \<Rightarrow> string" where
  "QueryEscape s =
     concat (map (\<lambda>c. if unreserved c then [c]
        else if c = CHR '' '' then ''+''
        else let n = of_char c in [CHR ''%'', upperhex (n div 16), upperhex (n mod 16)]) s)"

text \<open>\<open>url.Values.Encode\<close> sorts by key; every key has one value.\<close>

definition Encode :: "(string \<times> string) list \<Rightarrow> string" where
  "Encode params =
     Join (map (\<lambda>(k, v). QueryEscape k @ ''='' @ QueryEscape v) (sort_key fst params)) ''&''"

text \<open>
  The key-value pairs of \<open>buildEndpoint\<close>: a later pair replaces an earlier one of the same
  key, an odd last argument is dropped.
\<close>

fun queryPairs :: "string list \<Rightarrow> (string \<times> string) list" where
  "queryPairs (k # v # rest) = (if k \<in> set (map fst (queryPairs rest)) then queryPairs rest
     else (k, v) # queryPairs rest)"
| "queryPairs _ = []"

definition buildEndpoint :: "string \<Rightarrow> string list \<Rightarrow> string" where
  "buildEndpoint path queryParams =
     (let q = Encode (queryPairs queryParams) in if q = [] then path else path @ ''?'' @ q)"

section \<open>Requests\<close>

definition GetRpcAddress :: "EndpointState \<Rightarrow> string" where
  "GetRpcAddress x =
     (if NativeTransportAddress x \<noteq> [] then NativeTransportAddress x else RpcAddress x)"

definition BuildPodHostFromPod :: "Pod \<Rightarrow> string outcome" where
  "BuildPodHostFromPod pod =
     (if length (PodIP pod) = 0 then Fail (Errorf (''pod '' @ Name pod @ '' has no IP''))
      else Return (PodIP pod))"

definition GetPodHost :: "string \<Rightarrow> string \<Rightarrow> string \<Rightarrow> string \<Rightarrow> string" where
  "GetPodHost podName clusterName dcName namespace =
     podName @ ''.'' @ clusterName @ ''-'' @ dcName @ ''-service.'' @ namespace"

definition callNodeMgmtEndpoint ::
    "env \<Rightarrow> nodeMgmtRequest \<Rightarrow> string \<Rightarrow> (world, responseBody) op" where
  "callNodeMgmtEndpoint E request contentType =
     bindM (gets Protocol) (\<lambda>protocol.
     let url = protocol @ ''://'' @ rq_host request @ '':8080'' @ rq_endpoint request;
         request = (if rq_timeout request = 0 then request\<lparr>rq_timeout := 60 * Second\<rparr> else request)
     in bindM (perform (e_http E) (Http url request contentType)) (\<lambda>res.
       case RespBody res of
         Unreadable e \<Rightarrow> fail e
       | b \<Rightarrow>
           if StatusCode res \<ge> 200 \<and> StatusCode res < 300 then ret b
           else fail (Errorf (''incorrect status code of '' @ showInt (StatusCode res) @
             '' when calling endpoint''))))"

definition simpleRequest :: "string \<Rightarrow> string \<Rightarrow> string \<Rightarrow> int \<Rightarrow> nodeMgmtRequest" where
  "simpleRequest ep hst meth tmo =
     \<lparr>rq_endpoint = ep, rq_host = hst, rq_method = meth, rq_timeout = tmo, rq_body = None\<rparr>"

text \<open>
  Decoding the body of the metadata endpoint: the literal \<open>null\<close> makes the decoded pointer
  nil, which the caller then dereferences.
\<close>

definition parseMetadataEndpointsResponseBody :: "responseBody \<Rightarrow> EndpointState list option outcome" where
  "parseMetadataEndpointsResponseBody b =
     (case b of
        EndpointsJson es \<Rightarrow> Return (Some es)
      | NullJson \<Rightarrow> Return None
      | OtherBody s \<Rightarrow> Fail (Errorf (''cannot decode '' @ s))
      | Unreadable e \<Rightarrow> Fail e)"

definition CallMetadataEndpointsEndpoint :: "env \<Rightarrow> Pod \<Rightarrow> (world, EndpointState list) op" where
  "CallMetadataEndpointsEndpoint E pod =
     bindM (lift (BuildPodHostFromPod pod)) (\<lambda>podHost.
     bindM (callNodeMgmtEndpoint E (simpleRequest ''/api/v0/metadata/endpoints'' podHost ''GET'' 0) []) (\<lambda>b.
     bindM (lift (parseMetadataEndpointsResponseBody b)) (\<lambda>endpoints.
       case endpoints of None \<Rightarrow> panic | Some es \<Rightarrow> ret es)))"

definition CallCreateRoleEndpoint ::
    "env \<Rightarrow> Pod \<Rightarrow> string \<Rightarrow> string \<Rightarrow> bool \<Rightarrow> (world, unit) op" where
  "CallCreateRoleEndpoint E pod username password superuser =
     (let postData =
        [(''username'', username), (''password'', password), (''can_login'', ''true''),
         (''is_superuser'', if superuser then ''true'' else ''false'')]
      in bindM (lift (BuildPodHostFromPod pod)) (\<lambda>podHost.
         thenM (callNodeMgmtEndpoint E
           (simpleRequest (''/api/v0/ops/auth/role?'' @ Encode postData) podHost ''POST'' 0) [])
         (ret ())))"

definition CallProbeClusterEndpoint ::
    "env \<Rightarrow> Pod \<Rightarrow> string \<Rightarrow> int \<Rightarrow> (world, unit) op" where
  "CallProbeClusterEndpoint E pod consistencyLevel rfPerDc =
     bindM (lift (BuildPodHostFromPod pod)) (\<lambda>podHost.
     thenM (callNodeMgmtEndpoint E
       (simpleRequest (''/api/v0/probes/cluster?consistency_level='' @ consistencyLevel @
          ''&rf_per_dc='' @ showInt rfPerDc) podHost ''GET'' 0) [])
     (ret ()))"

definition CallDrainEndpoint :: "env \<Rightarrow> Pod \<Rightarrow> (world, unit) op" where
  "CallDrainEndpoint E pod =
     bindM (lift (BuildPodHostFromPod pod)) (\<lambda>podHost.
     thenM (callNodeMgmtEndpoint E
       (simpleRequest ''/api/v0/ops/node/drain'' podHost ''POST'' (Minute * 2)) [])
     (ret ()))"

definition CallKeyspaceCleanupEndpoint ::
    "env \<Rightarrow> Pod \<Rightarrow> int \<Rightarrow> string \<Rightarrow> string list \<Rightarrow> (world, unit) op" where
  "CallKeyspaceCleanupEndpoint E pod jobs keyspaceName tables =
     (let postData =
        (if jobs > - 1 then [(''jobs'', JString (showInt jobs))] else []) @
        (if keyspaceName \<noteq> [] then [(''keyspace_name'', JString keyspaceName)] else []) @
        (if length tables > 0 then [(''tables'', JArray (map JString tables))] else [])
      in bindM (lift (BuildPodHostFromPod pod)) (\<lambda>podHost.
         thenM (callNodeMgmtEndpoint E
           ((simpleRequest ''/api/v0/ops/keyspace/cleanup'' podHost ''POST'' (Second * 20))
              \<lparr>rq_body := Some (JObject postData)\<rparr>) ''application/json'')
         (ret ())))"

text \<open>\<open>replicationSettings\<close> is \<open>None\<close> when nil.\<close>

definition modifyKeyspace ::
    "env \<Rightarrow> string \<Rightarrow> Pod \<Rightarrow> string \<Rightarrow> (string \<times> string) list list option \<Rightarrow> (world, unit) op" where
  "modifyKeyspace E ep pod keyspaceName replicationSettings =
     (case replicationSettings of
        None \<Rightarrow> fail (Errorf ''Keyspacename and replication settings are required'')
      | Some settings \<Rightarrow>
          if keyspaceName = [] then fail (Errorf ''Keyspacename and replication settings are required'')
          else
            let postData =
              [(''keyspace_name'', JString keyspaceName),
               (''replication_settings'',
                 JArray (map (\<lambda>m. JObject (map (\<lambda>(k, v). (k, JString v)) m)) settings))]
            in bindM (lift (BuildPodHostFromPod pod)) (\<lambda>podHost.
               thenM (callNodeMgmtEndpoint E
                 ((simpleRequest (''/api/v0/ops/keyspace/'' @ ep) podHost ''POST'' (Second * 20))
                    \<lparr>rq_body := Some (JObject postData)\<rparr>) ''application/json'')
               (ret ())))"

definition CreateKeyspace ::
    "env \<Rightarrow> Pod \<Rightarrow> string \<Rightarrow> (string \<times> string) list list option \<Rightarrow> (world, unit) op" where
  "CreateKeyspace E = modifyKeyspace E ''create''"

definition AlterKeyspace ::
    "env \<Rightarrow> Pod \<Rightarrow> string \<Rightarrow> (string \<times> string) list list option \<Rightarrow> (world, unit) op" where
  "AlterKeyspace E = modifyKeyspace E ''alter''"

definition CallLifecycleStartEndpointWithReplaceIp :: "env \<Rightarrow> Pod \<Rightarrow> string \<Rightarrow> (world, unit) op" where
  "CallLifecycleStartEndpointWithReplaceIp E pod replaceIp =
     (let ep = (if replaceIp \<noteq> [] then buildEndpoint ''/api/v0/lifecycle/start'' [''replace_ip'', replaceIp]
                else ''/api/v0/lifecycle/start'')
      in thenM (callNodeMgmtEndpoint E (simpleRequest ep (PodIP pod) ''POST'' (10 * Second)) []) (ret ()))"

definition CallLifecycleStartEndpoint :: "env \<Rightarrow> Pod \<Rightarrow> (world, unit) op" where
  "CallLifecycleStartEndpoint E pod = CallLifecycleStartEndpointWithReplaceIp E pod []"

definition CallReloadSeedsEndpoint :: "env \<Rightarrow> Pod \<Rightarrow> (world, unit) op" where
  "CallReloadSeedsEndpoint E pod =
     bindM (lift (BuildPodHostFromPod pod)) (\<lambda>podHost.
     thenM (callNodeMgmtEndpoint E (simpleRequest ''/api/v0/ops/seeds/reload'' podHost ''POST'' 0) [])
     (ret ()))"

definition CallDecommissionNodeEndpoint :: "env \<Rightarrow> Pod \<Rightarrow> (world, unit) op" where
  "CallDecommissionNodeEndpoint E pod =
     bindM (lift (BuildPodHostFromPod pod)) (\<lambda>podHost.
     thenM (callNodeMgmtEndpoint E (simpleRequest ''/api/v0/ops/node/decommission'' podHost ''POST'' 0) [])
     (ret ()))"

section \<open>Lemmas\<close>

text \<open>Which management endpoint a call goes to.\<close>

fun callsEndpoint :: "string \<Rightarrow> call \<Rightarrow> bool" where
  "callsEndpoint ep (Http url rq ctype) = HasPrefix (rq_endpoint rq) ep"
| "callsEndpoint ep _ = False"

abbreviation isStartCall :: "call \<Rightarrow> bool" where
  "isStartCall \<equiv> callsEndpoint ''/api/v0/lifecycle/start''"

abbreviation isDecommissionCall :: "call \<Rightarrow> bool" where
  "isDecommissionCall \<equiv> callsEndpoint ''/api/v0/ops/node/decommission''"

abbreviation isDrainCall :: "call \<Rightarrow> bool" where
  "isDrainCall \<equiv> callsEndpoint ''/api/v0/ops/node/drain''"

lemma emits_callNodeMgmtEndpoint [emits_intros]:
  "(\<And>u rq. rq_endpoint rq = rq_endpoint request \<Longrightarrow> rq_host rq = rq_host request \<Longrightarrow>
      A (Http u rq ct)) \<Longrightarrow> emits A (callNodeMgmtEndpoint E request ct)"
  unfolding callNodeMgmtEndpoint_def Let_def
  by (intro emits_intros) (auto split: responseBody.split intro!: emits_intros)

end
