(* ===== verification/PodState.thy ===== *)
theory PodState
  imports NodeMgmt
begin

text \<open>
  What the operator reads off a pod (\<open>reconcile_racks.go\<close> and \<open>reconcile_racks_helpers.go\<close>):
  its node-state label, the state of its \<open>cassandra\<close> container, the time since it changed,
  and the filters over lists of pods. The predicates that look at the clock take the
  current time as the argument \<open>now\<close>.
\<close>

definition stateReadyToStart :: string where "stateReadyToStart = ''Ready-to-Start''"
definition stateStartedNotReady :: string where "stateStartedNotReady = ''Started-not-Ready''"
definition stateStarted :: string where "stateStarted = ''Started''"
definition stateStarting :: string where "stateStarting = ''Starting''"
definition stateDecommissioning :: string where "stateDecommissioning = ''Decommissioning''"

lemmas state_defs = stateReadyToStart_def stateStartedNotReady_def stateStarted_def
  stateStarting_def stateDecommissioning_def

lemma distinct_states:
  "distinct [stateReadyToStart, stateStartedNotReady, stateStarted, stateStarting,
     stateDecommissioning, []]"
  "distinct [[], stateDecommissioning, stateStarting, stateStarted, stateStartedNotReady,
     stateReadyToStart]"
  by (simp_all add: state_defs)

lemmas state_neqs [simp] = distinct_states(1) [simplified] distinct_states(2) [simplified]

section \<open>The label of the node state\<close>

abbreviation nodeState :: "Pod \<Rightarrow> string" where
  "nodeState pod \<equiv> mget (Labels pod) CassNodeState"

definition isNodeDecommissioning :: "Pod \<Rightarrow> bool" where
  "isNodeDecommissioning pod = (nodeState pod = stateDecommissioning)"

definition isServerStarting :: "Pod \<Rightarrow> bool" where
  "isServerStarting pod = (nodeState pod = stateStarting)"

definition isServerStarted :: "Pod \<Rightarrow> bool" where
  "isServerStarted pod = (nodeState pod = stateStarted \<or> nodeState pod = stateStartedNotReady)"

definition isServerStartedNotReady :: "Pod \<Rightarrow> bool" where
  "isServerStartedNotReady pod = (nodeState pod = stateStartedNotReady)"

definition isServerReadyToStart :: "Pod \<Rightarrow> bool" where
  "isServerReadyToStart pod = (nodeState pod = stateReadyToStart)"

section \<open>The container\<close>

definition getCassContainerStatus :: "Pod \<Rightarrow> ContainerStatus option" where
  "getCassContainerStatus pod = find (\<lambda>status. cs_Name status = ''cassandra'') (ContainerStatuses pod)"

definition isServerReady :: "Pod \<Rightarrow> bool" where
  "isServerReady pod =
     (case find (\<lambda>status. cs_Name status = ''cassandra'') (ContainerStatuses pod) of
        None \<Rightarrow> False
      | Some status \<Rightarrow> cs_Ready status)"

definition didServerLoseReadiness :: "Pod \<Rightarrow> bool" where
  "didServerLoseReadiness pod = (if nodeState pod = stateStarted then \<not> isServerReady pod else False)"

text \<open>
  A \<open>cassandra\<close> container that is not running does not end the loop of \<open>isMgmtApiRunning\<close>, a
  running one does.
\<close>

definition isMgmtApiRunning :: "int \<Rightarrow> Pod \<Rightarrow> bool" where
  "isMgmtApiRunning now pod =
     (case find (\<lambda>status. cs_Name status = ''cassandra'' \<and> cs_Running status \<noteq> None)
        (ContainerStatuses pod) of
        None \<Rightarrow> False
      | Some status \<Rightarrow>
          (case cs_Running status of
             None \<Rightarrow> False
           | Some startedAt \<Rightarrow> startedAt < now + Second * (- 10)))"

definition hasBeenXMinutes :: "int \<Rightarrow> int \<Rightarrow> int \<Rightarrow> bool" where
  "hasBeenXMinutes now x sinceTime = (sinceTime < now + Minute * (- x))"

definition hasBeenXMinutesSinceReady :: "int \<Rightarrow> int \<Rightarrow> Pod \<Rightarrow> bool" where
  "hasBeenXMinutesSinceReady now x pod =
     (case find (\<lambda>c. pc_Type c = ''Ready'' \<and> pc_Status c = ''False'') (PodConditions pod) of
        None \<Rightarrow> False
      | Some c \<Rightarrow> hasBeenXMinutes now x (pc_LastTransitionTime c))"

definition hasBeenXMinutesSinceStarted :: "int \<Rightarrow> int \<Rightarrow> Pod \<Rightarrow> bool" where
  "hasBeenXMinutesSinceStarted now x pod =
     (case getCassContainerStatus pod of
        None \<Rightarrow> False
      | Some status \<Rightarrow>
          (case cs_Running status of
             None \<Rightarrow> False
           | Some startedAt \<Rightarrow> hasBeenXMinutes now x startedAt))"

definition hasBeenXMinutesSinceTerminated :: "int \<Rightarrow> int \<Rightarrow> Pod \<Rightarrow> bool" where
  "hasBeenXMinutesSinceTerminated now x pod =
     (case getCassContainerStatus pod of
        None \<Rightarrow> False
      | Some status \<Rightarrow>
          (case cs_LastTerminated status of
             None \<Rightarrow> False
           | Some finishedAt \<Rightarrow> hasBeenXMinutes now x finishedAt))"

definition isNodeStuckAfterTerminating :: "int \<Rightarrow> Pod \<Rightarrow> bool" where
  "isNodeStuckAfterTerminating now pod =
     (if isServerReady pod \<or> isServerReadyToStart pod then False
      else hasBeenXMinutesSinceTerminated now 10 pod)"

definition isNodeStuckAfterLosingReadiness :: "int \<Rightarrow> Pod \<Rightarrow> bool" where
  "isNodeStuckAfterLosingReadiness now pod =
     (if \<not> isServerStartedNotReady pod \<or> isServerReadyToStart pod then False
      else hasBeenXMinutesSinceReady now 10 pod)"

section \<open>Filters\<close>

definition mapContains :: "string gomap \<Rightarrow> string gomap \<Rightarrow> bool" where
  "mapContains base submap =
     fBall (fmdom (contents submap)) (\<lambda>k. mfind base k = mfind submap k)"

definition FilterPodListByLabels :: "Pod list \<Rightarrow> string gomap \<Rightarrow> Pod list" where
  "FilterPodListByLabels pods labelMap = filter (\<lambda>p. mapContains (Labels p) labelMap) pods"

definition FilterPodListByLabel :: "Pod list \<Rightarrow> string \<Rightarrow> string \<Rightarrow> Pod list" where
  "FilterPodListByLabel pods labelName labelVal =
     FilterPodListByLabels pods (Some (fmupd labelName labelVal fmempty))"

definition FilterPodListByCassNodeState :: "Pod list \<Rightarrow> string \<Rightarrow> Pod list" where
  "FilterPodListByCassNodeState pods state = filter (\<lambda>p. nodeState p = state) pods"

definition ListAllStartedPods :: "Pod list \<Rightarrow> Pod list" where
  "ListAllStartedPods pods = FilterPodListByCassNodeState pods stateStarted"

definition findAllPodsNotReady :: "Pod list \<Rightarrow> Pod list" where
  "findAllPodsNotReady pods = filter (\<lambda>pod. \<not> isServerReady pod) pods"

definition hasPodPotentiallyBootstrapped :: "Pod \<Rightarrow> string gomap \<Rightarrow> bool" where
  "hasPodPotentiallyBootstrapped pod nodeStatuses =
     (if mfind nodeStatuses (Name pod) \<noteq> None \<and> mget nodeStatuses (Name pod) \<noteq> [] then True
      else case mfind (Labels pod) CassNodeState of
          None \<Rightarrow> False
        | Some state \<Rightarrow> state \<noteq> stateReadyToStart)"

definition findAllPodsNotReadyAndPotentiallyBootstrapped :: "Pod list \<Rightarrow> string gomap \<Rightarrow> Pod list" where
  "findAllPodsNotReadyAndPotentiallyBootstrapped pods nodeStatuses =
     filter (\<lambda>pod. \<not> isServerReady pod \<and> hasPodPotentiallyBootstrapped pod nodeStatuses) pods"

text \<open>The same filters on the pointers of the context.\<close>

definition indicesByLabels :: "world \<Rightarrow> nat list \<Rightarrow> string gomap \<Rightarrow> nat list" where
  "indicesByLabels s is labelMap = filter (\<lambda>i. mapContains (Labels (podStore s ! i)) labelMap) is"

definition indicesByState :: "world \<Rightarrow> nat list \<Rightarrow> string \<Rightarrow> nat list" where
  "indicesByState s is state = filter (\<lambda>i. nodeState (podStore s ! i) = state) is"

definition getStatefulSetPodNameForIdx :: "StatefulSet \<Rightarrow> int \<Rightarrow> string" where
  "getStatefulSetPodNameForIdx sts idx = Name sts @ ''-'' @ showInt idx"

definition getStatefulSetPodNames :: "StatefulSet \<Rightarrow> string set" where
  "getStatefulSetPodNames sts =
     set (map (\<lambda>i. getStatefulSetPodNameForIdx sts (int i)) [0..<nat (ss_Replicas sts)])"

definition getPodNamesFromPods :: "Pod list \<Rightarrow> string set" where
  "getPodNamesFromPods pods = set (map Name pods)"

fun hasStatefulSetControllerCaughtUp :: "StatefulSet option list \<Rightarrow> Pod list \<Rightarrow> bool" where
  "hasStatefulSetControllerCaughtUp [] pods = True"
| "hasStatefulSetControllerCaughtUp (None # rest) pods = hasStatefulSetControllerCaughtUp rest pods"
| "hasStatefulSetControllerCaughtUp (Some sts # rest) pods =
     (if Generation sts \<noteq> ss_ObservedGeneration sts then False
      else if SubtractStringSet (getStatefulSetPodNames sts) (getPodNamesFromPods pods) \<noteq> {}
      then False
      else hasStatefulSetControllerCaughtUp rest pods)"

text \<open>Returns the node name and whether all pods that have a node share it.\<close>

fun sameNodeFrom :: "string \<Rightarrow> Pod list \<Rightarrow> string \<times> bool" where
  "sameNodeFrom nodeName [] = (nodeName, True)"
| "sameNodeFrom nodeName (pod # pods) =
     (let name = NodeName pod
      in if name \<noteq> [] then
           let nodeName' = (if nodeName = [] then name else nodeName)
           in if nodeName' \<noteq> name then (nodeName', False) else sameNodeFrom nodeName' pods
         else sameNodeFrom nodeName pods)"

definition allPodsBelongToSameNodeOrHaveNoNode :: "Pod list \<Rightarrow> string \<times> bool" where
  "allPodsBelongToSameNodeOrHaveNoNode pods = sameNodeFrom [] pods"

section \<open>Endpoint data\<close>

definition findHostIdForIpFromEndpointsData :: "EndpointState list \<Rightarrow> string \<Rightarrow> string" where
  "findHostIdForIpFromEndpointsData endpointsData ip =
     (case find (\<lambda>d. GetRpcAddress d = ip) endpointsData of None \<Rightarrow> [] | Some d \<Rightarrow> HostID d)"

definition FindIpForHostId :: "EndpointState list \<Rightarrow> string \<Rightarrow> string outcome" where
  "FindIpForHostId endpointData hostId =
     (if length endpointData < 1
      then Fail (Errorf (''No pods available to ask for the IP address of '' @ hostId))
      else case find (\<lambda>ep. HostID ep = hostId \<and> length (GetRpcAddress ep) > 0) endpointData of
          Some ep \<Rightarrow> Return (GetRpcAddress ep)
        | None \<Rightarrow> Return [])"

definition getRpcAddress :: "CassandraDatacenter \<Rightarrow> Pod \<Rightarrow> string" where
  "getRpcAddress dc pod =
     (case Networking (Spec dc) of
        None \<Rightarrow> PodIP pod
      | Some nc \<Rightarrow>
          if HostNetwork nc then HostIP pod
          else (case NodePort nc of
              None \<Rightarrow> PodIP pod
            | Some np \<Rightarrow> if Internode np > 0 \<or> InternodeSSL np > 0 then HostIP pod else PodIP pod))"

text \<open>
  The inner loop of \<open>MapPodsToEndpointDataByName\<close> ends with \<open>continue\<close>, so the last match of a
  pod is the one kept.
\<close>

definition MapPodsToEndpointDataByName :: "Pod list \<Rightarrow> EndpointState list \<Rightarrow> EndpointState gomap" where
  "MapPodsToEndpointDataByName pods epData =
     Some (foldl (\<lambda>result pod.
       foldl (\<lambda>result d. if GetRpcAddress d = PodIP pod then fmupd (Name pod) d result else result)
         result epData) fmempty pods)"

section \<open>Lemmas\<close>

lemma mapContains_iff: "mapContains base sub \<longleftrightarrow> (\<forall>k v. mfind sub k = Some v \<longrightarrow> mfind base k = Some v)"
  by (auto simp: mapContains_def mfind_contents [of sub] fmlookup_dom_iff)

lemma podsAt_indicesByLabels: "podsAt s (indicesByLabels s is m) = FilterPodListByLabels (podsAt s is) m"
  by (simp add: podsAt_def indicesByLabels_def FilterPodListByLabels_def filter_map comp_def)

lemma podsAt_indicesByState:
  "podsAt s (indicesByState s is st) = FilterPodListByCassNodeState (podsAt s is) st"
  by (simp add: podsAt_def indicesByState_def FilterPodListByCassNodeState_def filter_map comp_def)

lemma mapContains_upd:
  "k \<notin> fset (fmdom f) \<Longrightarrow> mapContains base (Some (fmupd k v f)) \<longleftrightarrow>
     mfind base k = Some v \<and> mapContains base (Some f)"
  by (simp add: mapContains_def contents_def) (metis mfind_Some fmupd_lookup)

lemma mapContains_empty [simp]: "mapContains base (Some fmempty)"
  by (simp add: mapContains_def contents_def)

lemma mapContains_GetDatacenterLabels:
  "mapContains base (GetDatacenterLabels dc) \<longleftrightarrow>
     mfind base ClusterLabel = Some (ClusterName (Spec dc)) \<and> mfind base DatacenterLabel = Some (Name dc)"
  by (auto simp: GetDatacenterLabels_def GetClusterLabels_def mapContains_upd)

lemma mapContains_GetRackLabels:
  "mapContains base (GetRackLabels dc r) \<longleftrightarrow>
     mapContains base (GetDatacenterLabels dc) \<and> mfind base RackLabel = Some r"
  by (auto simp: GetRackLabels_def GetDatacenterLabels_def GetClusterLabels_def mapContains_upd)

text \<open>Two indices of one stateful set never name the same pod.\<close>

lemma getStatefulSetPodNameForIdx_inject [simp]:
  "getStatefulSetPodNameForIdx sts i = getStatefulSetPodNameForIdx sts j \<longleftrightarrow> i = j"
  by (simp add: getStatefulSetPodNameForIdx_def)

text \<open>
  The pod names of different stateful sets differ: the number after the last minus sign is
  not negative, and what precedes it is the name of the set.
\<close>

lemma getStatefulSetPodNameForIdx_eq_iff:
  "0 \<le> i \<Longrightarrow> 0 \<le> j \<Longrightarrow>
     getStatefulSetPodNameForIdx sts i = getStatefulSetPodNameForIdx sts' j \<longleftrightarrow>
     Name sts = Name sts' \<and> i = j"
  using append_sep_inject [of "CHR ''-''" "decimal (nat i)" "decimal (nat j)" "Name sts" "Name sts'"]
  by (auto simp: getStatefulSetPodNameForIdx_def showInt_def minus_notin_decimal)

lemma hasStatefulSetControllerCaughtUp_iff:
  "hasStatefulSetControllerCaughtUp stss pods \<longleftrightarrow>
     (\<forall>sts. Some sts \<in> set stss \<longrightarrow> Generation sts = ss_ObservedGeneration sts \<and>
        getStatefulSetPodNames sts \<subseteq> getPodNamesFromPods pods)"
  by (induction stss pods rule: hasStatefulSetControllerCaughtUp.induct) auto

lemma sameNodeFrom_True_iff:
  "snd (sameNodeFrom n pods) \<longleftrightarrow>
     (\<exists>m. (n \<noteq> [] \<longrightarrow> m = n) \<and> (\<forall>p\<in>set pods. NodeName p = [] \<or> NodeName p = m))"
  by (induction n pods rule: sameNodeFrom.induct) (auto simp: Let_def)

lemma allPodsBelongToSameNode_iff:
  "snd (allPodsBelongToSameNodeOrHaveNoNode pods) \<longleftrightarrow>
     (\<exists>m. \<forall>p\<in>set pods. NodeName p = [] \<or> NodeName p = m)"
  by (simp add: allPodsBelongToSameNodeOrHaveNoNode_def sameNodeFrom_True_iff)

end
