(* ===== verification/Construct.thy ===== *)
theory Construct
  imports ConfigGen Security Images PodState
begin

text \<open>
  The construction of the pod template and of the stateful set of a rack
  (\<open>construct_podtemplatespec.go\<close>, \<open>construct_statefulset.go\<close>, \<open>defaults.go\<close>, \<open>utils.go\<close>), of the
  disruption budget (\<open>constructor.go\<close>), and the labels for vSphere
  (\<open>pkg/psp/labels_annotations.go\<close>).
\<close>

definition ServerConfigContainerName :: string where
  "ServerConfigContainerName = ''server-config-init''"
definition CassandraContainerName :: string where "CassandraContainerName = ''cassandra''"
definition PvcName :: string where "PvcName = ''server-data''"
definition SystemLoggerContainerName :: string where
  "SystemLoggerContainerName = ''server-system-logger''"
definition DefaultTerminationGracePeriodSeconds :: int where
  "DefaultTerminationGracePeriodSeconds = 120"
definition zoneLabel :: string where "zoneLabel = ''failure-domain.beta.kubernetes.io/zone''"

section \<open>Resources\<close>

definition buildResourceRequirements :: "int \<Rightarrow> int \<Rightarrow> ResourceRequirements" where
  "buildResourceRequirements cpuMillis memoryMB =
     (let rs = mapOf [(''cpu'', \<lparr>q_Unscaled = cpuMillis, q_Scale = 3\<rparr>),
                      (''memory'', \<lparr>q_Unscaled = memoryMB, q_Scale = - 6\<rparr>)]
      in \<lparr>Limits = rs, Requests = rs\<rparr>)"

definition isResourceRequirementsNotSpecified :: "ResourceRequirements \<Rightarrow> bool" where
  "isResourceRequirementsNotSpecified res =
     (if Limits res = None \<and> Requests res = None then False else True)"

definition getResourcesOrDefault ::
    "ResourceRequirements \<Rightarrow> ResourceRequirements \<Rightarrow> ResourceRequirements" where
  "getResourcesOrDefault res defaultRes =
     (if \<not> isResourceRequirementsNotSpecified res then defaultRes else res)"

definition emptyMapIfNil :: "string gomap \<Rightarrow> string gomap" where
  "emptyMapIfNil m = (case m of None \<Rightarrow> Some fmempty | Some f \<Rightarrow> Some f)"

definition DefaultsLoggerContainer :: ResourceRequirements where
  "DefaultsLoggerContainer = buildResourceRequirements 100 64"

definition DefaultsConfigInitContainer :: ResourceRequirements where
  "DefaultsConfigInitContainer = buildResourceRequirements 1000 256"

section \<open>Affinity and probes\<close>

definition calculateNodeAffinity :: "string gomap \<Rightarrow> NodeSelectorRequirement list list option" where
  "calculateNodeAffinity labels =
     (if mlen labels = 0 then None
      else Some [map (\<lambda>key. \<lparr>nsr_Key = key, nsr_Operator = ''In'', nsr_Values = [mget labels key]\<rparr>)
        (sorted_list_of_set (fset (fmdom (contents labels))))])"

definition exists :: "string \<Rightarrow> NodeSelectorRequirement" where
  "exists key = \<lparr>nsr_Key = key, nsr_Operator = ''Exists'', nsr_Values = []\<rparr>"

definition calculatePodAntiAffinity :: "bool \<Rightarrow> PodAffinityTerm list option" where
  "calculatePodAntiAffinity allowMultipleNodesPerWorker =
     (if allowMultipleNodesPerWorker then None
      else Some [\<lparr>pat_Expressions = [exists ClusterLabel, exists DatacenterLabel, exists RackLabel],
        pat_TopologyKey = ''kubernetes.io/hostname''\<rparr>])"

definition selectorFromFieldPath :: "string \<Rightarrow> EnvSource" where
  "selectorFromFieldPath fieldPath = FieldRef fieldPath"

definition probe :: "int \<Rightarrow> string \<Rightarrow> int \<Rightarrow> int \<Rightarrow> Probe" where
  "probe port path initDelay period =
     \<lparr>pr_Handler = HTTPGet port path, pr_InitialDelaySeconds = int32 initDelay,
      pr_PeriodSeconds = int32 period, pr_TimeoutSeconds = 0\<rparr>"

text \<open>The caller has checked that the workloads are not nil.\<close>

definition getJvmExtraOpts :: "DseWorkloads \<Rightarrow> string" where
  "getJvmExtraOpts w =
     (if AnalyticsEnabled w then ''-Dspark-trackers=true '' else []) @
     (if GraphEnabled w then ''-Dgraph-enabled=true '' else []) @
     (if SearchEnabled w then ''-Dsearch-service=true'' else [])"

section \<open>Defaults and overrides\<close>

text \<open>
  The four functions that combine defaults with overrides are one loop: the overrides come
  first, then the defaults whose name no override has.
\<close>

definition combineSlices :: "('a \<Rightarrow> string) \<Rightarrow> 'a list \<Rightarrow> 'a list \<Rightarrow> 'a list" where
  "combineSlices nm defaults overrides =
     overrides @ filter (\<lambda>d. \<not> list_ex (\<lambda>o1. nm d = nm o1) overrides) defaults"

definition combineVolumeMountSlices :: "VolumeMount list \<Rightarrow> VolumeMount list \<Rightarrow> VolumeMount list" where
  "combineVolumeMountSlices = combineSlices vm_Name"

definition combineVolumeSlices :: "Volume list \<Rightarrow> Volume list \<Rightarrow> Volume list" where
  "combineVolumeSlices = combineSlices v_Name"

definition combinePortSlices :: "ContainerPort list \<Rightarrow> ContainerPort list \<Rightarrow> ContainerPort list" where
  "combinePortSlices = combineSlices cp_Name"

definition combineEnvSlices :: "EnvVar list \<Rightarrow> EnvVar list \<Rightarrow> EnvVar list" where
  "combineEnvSlices = combineSlices ev_Name"

definition mount :: "string \<Rightarrow> string \<Rightarrow> VolumeMount" where
  "mount n path = \<lparr>vm_Name = n, vm_MountPath = path, vm_ReadOnly = False\<rparr>"

definition generateStorageConfigVolumesMount :: "CassandraDatacenter \<Rightarrow> VolumeMount list" where
  "generateStorageConfigVolumesMount cc =
     map (\<lambda>storage. mount (av_Name storage) (av_MountPath storage))
       (AdditionalVolumesSlice (StorageConfig (Spec cc)))"

definition generateStorageConfigEmptyVolumes :: "CassandraDatacenter \<Rightarrow> Volume list" where
  "generateStorageConfigEmptyVolumes cc =
     map (\<lambda>storage. \<lparr>v_Name = av_Name storage, v_Source = NoSource\<rparr>)
       (AdditionalVolumesSlice (StorageConfig (Spec cc)))"

definition symmetricDifference :: "Volume list \<Rightarrow> Volume list \<Rightarrow> Volume list" where
  "symmetricDifference list1 list2 =
     filter (\<lambda>v. \<not> list_ex (\<lambda>storage. v_Name storage = v_Name v) list2) list1"

definition addVolumes :: "CassandraDatacenter \<Rightarrow> PodTemplateSpec \<Rightarrow> PodTemplateSpec" where
  "addVolumes dc baseTemplate =
     (let volumeDefaults =
        [\<lparr>v_Name = ''server-config'', v_Source = EmptyDir\<rparr>,
         \<lparr>v_Name = ''server-logs'', v_Source = EmptyDir\<rparr>,
         \<lparr>v_Name = ''encryption-cred-storage'', v_Source = SecretSource (Name dc @ ''-keystore'')\<rparr>]
      in baseTemplate\<lparr>ts_Volumes := symmetricDifference
           (combineVolumeSlices volumeDefaults (ts_Volumes baseTemplate))
           (generateStorageConfigEmptyVolumes dc)\<rparr>)"

section \<open>Init containers\<close>

definition getDatacenterConfigSecretName :: "CassandraDatacenter \<Rightarrow> string" where
  "getDatacenterConfigSecretName dc = ClusterName (Spec dc) @ ''-'' @ Name dc @ ''-config''"

definition getConfigDataEnVars :: "env \<Rightarrow> CassandraDatacenter \<Rightarrow> EnvVar list outcome" where
  "getConfigDataEnVars E dc =
     (if length (ConfigSecret (Spec dc)) > 0 then
        let fileData = \<lparr>ev_Name = ''CONFIG_FILE_DATA'', ev_Value = [],
          ev_From = Some (SecretKeyRef (getDatacenterConfigSecretName dc) ''config'')\<rparr>
        in case mfind (Annotations dc) ConfigHashAnnotation of
            Some configHash \<Rightarrow> Return [fileData, plainEnv ''CONFIG_HASH'' configHash]
          | None \<Rightarrow> Fail (Errorf (''datacenter '' @ Name dc @ '' is missing '' @ ConfigHashAnnotation @
              '' annotation''))
      else obind (GetConfigAsJSON E dc (Config (Spec dc))) (\<lambda>configData.
        Return [plainEnv ''CONFIG_FILE_DATA'' configData]))"

definition fieldEnv :: "string \<Rightarrow> string \<Rightarrow> EnvVar" where
  "fieldEnv n path = \<lparr>ev_Name = n, ev_Value = [], ev_From = Some (selectorFromFieldPath path)\<rparr>"

definition configContainer ::
    "env \<Rightarrow> CassandraDatacenter \<Rightarrow> string \<Rightarrow> EnvVar list \<Rightarrow> Container \<Rightarrow> Container" where
  "configContainer E dc rackName configEnvVar serverCfg =
     serverCfg\<lparr>
       c_Name := ServerConfigContainerName,
       c_Image := (if c_Image serverCfg = [] then
           (if ConfigBuilderImage (Spec dc) \<noteq> [] then ConfigBuilderImage (Spec dc)
            else GetConfigBuilderImage (e_getenv E))
         else c_Image serverCfg),
       c_VolumeMounts := combineVolumeMountSlices [mount ''server-config'' ''/config''] (c_VolumeMounts serverCfg),
       c_Resources := getResourcesOrDefault (ConfigBuilderResources (Spec dc)) DefaultsConfigInitContainer,
       c_Env := combineEnvSlices
         ([fieldEnv ''POD_IP'' ''status.podIP'',
           fieldEnv ''HOST_IP'' ''status.hostIP'',
           plainEnv ''USE_HOST_IP_FOR_BROADCAST'' (if IsNodePortEnabled dc then ''true'' else ''false''),
           plainEnv ''RACK_NAME'' rackName,
           plainEnv ''PRODUCT_VERSION'' (ServerVersion (Spec dc)),
           plainEnv ''PRODUCT_NAME'' (ServerType (Spec dc)),
           plainEnv ''DSE_VERSION'' (ServerVersion (Spec dc))] @ configEnvVar) (c_Env serverCfg)\<rparr>"

definition buildInitContainers ::
    "env \<Rightarrow> CassandraDatacenter \<Rightarrow> string \<Rightarrow> PodTemplateSpec \<Rightarrow> PodTemplateSpec outcome" where
  "buildInitContainers E dc rackName baseTemplate =
     (case getConfigDataEnVars E dc of
        Fail e \<Rightarrow> Fail (Wrapf ''failed to get config env vars'' e)
      | Panic \<Rightarrow> Panic
      | Return configEnvVar \<Rightarrow>
          (let cs = ts_InitContainers baseTemplate
           in case firstIndex (\<lambda>c. c_Name c = ServerConfigContainerName) cs of
               Some i \<Rightarrow> Return (baseTemplate\<lparr>ts_InitContainers :=
                 cs[i := configContainer E dc rackName configEnvVar (cs ! i)]\<rparr>)
             | None \<Rightarrow> Return (baseTemplate\<lparr>ts_InitContainers :=
                 cs @ [configContainer E dc rackName configEnvVar emptyContainer]\<rparr>)))"

section \<open>Containers\<close>

definition makeImage :: "env \<Rightarrow> CassandraDatacenter \<Rightarrow> string outcome" where
  "makeImage E dc =
     (if ServerImage (Spec dc) = []
      then GetCassandraImage (e_getenv E) (ServerType (Spec dc)) (ServerVersion (Spec dc))
      else Return (ServerImage (Spec dc)))"

definition cassandraContainer :: "env \<Rightarrow> CassandraDatacenter \<Rightarrow> Container \<Rightarrow> Container outcome" where
  "cassandraContainer E dc cassContainer =
     obind (if c_Image cassContainer = [] then makeImage E dc else Return (c_Image cassContainer)) (\<lambda>serverImage.
     obind (case c_PreStop cassContainer of
         Some (Some h) \<Rightarrow> Return h
       | _ \<Rightarrow> obind (GetMgmtApiWgetPostAction dc WgetNodeDrainEndpoint []) (\<lambda>action. Return (Exec action))) (\<lambda>preStop.
     obind (GetContainerPorts dc) (\<lambda>portDefaults.
     let envDefaults =
        [plainEnv ''DS_LICENSE'' ''accept'',
         plainEnv ''DSE_AUTO_CONF_OFF'' ''all'',
         plainEnv ''USE_MGMT_API'' ''true'',
         plainEnv ''MGMT_API_EXPLICIT_START'' ''true'',
         plainEnv ''DSE_MGMT_EXPLICIT_START'' ''true''] @
        (case DseWorkloads (Spec dc) of
           Some w \<Rightarrow> if ServerType (Spec dc) = ''dse'' then [plainEnv ''JVM_EXTRA_OPTS'' (getJvmExtraOpts w)] else []
         | None \<Rightarrow> []);
      volumeMounts = combineVolumeMountSlices [mount ''server-config'' ''/config'']
        [mount ''server-logs'' ''/var/log/cassandra'', mount PvcName ''/var/lib/cassandra'',
         mount ''encryption-cred-storage'' ''/etc/encryption/'']
     in Return (cassContainer\<lparr>
       c_Name := CassandraContainerName,
       c_Image := serverImage,
       c_Resources := (if c_Resources cassContainer = noResources then Resources (Spec dc)
         else c_Resources cassContainer),
       c_LivenessProbe := (case c_LivenessProbe cassContainer of
           None \<Rightarrow> Some (probe 8080 ''/api/v0/probes/liveness'' 15 15) | Some p \<Rightarrow> Some p),
       c_ReadinessProbe := (case c_ReadinessProbe cassContainer of
           None \<Rightarrow> Some (probe 8080 ''/api/v0/probes/readiness'' 20 10) | Some p \<Rightarrow> Some p),
       c_PreStop := Some (Some preStop),
       c_Env := combineEnvSlices envDefaults (c_Env cassContainer),
       c_Ports := combinePortSlices portDefaults (c_Ports cassContainer),
       c_VolumeMounts := combineVolumeMountSlices
         (combineVolumeMountSlices volumeMounts (c_VolumeMounts cassContainer))
         (generateStorageConfigVolumesMount dc)\<rparr>))))"

definition systemLoggerContainer :: "env \<Rightarrow> CassandraDatacenter \<Rightarrow> Container \<Rightarrow> Container" where
  "systemLoggerContainer E dc loggerContainer =
     (let defaultImage = (c_Image loggerContainer = [] \<and> SystemLoggerImage (Spec dc) = [])
      in loggerContainer\<lparr>
        c_Name := SystemLoggerContainerName,
        c_Image := (if c_Image loggerContainer = [] then
            (if SystemLoggerImage (Spec dc) \<noteq> [] then SystemLoggerImage (Spec dc)
             else GetSystemLoggerImage (e_getenv E))
          else c_Image loggerContainer),
        c_ImagePullPolicy := (if defaultImage then ''IfNotPresent'' else c_ImagePullPolicy loggerContainer),
        c_VolumeMounts := combineVolumeMountSlices
          (combineVolumeMountSlices [mount ''server-logs'' ''/var/log/cassandra''] (c_VolumeMounts loggerContainer))
          (generateStorageConfigVolumesMount dc),
        c_Resources := getResourcesOrDefault (SystemLoggerResources (Spec dc)) DefaultsLoggerContainer\<rparr>)"

definition buildContainers ::
    "env \<Rightarrow> CassandraDatacenter \<Rightarrow> PodTemplateSpec \<Rightarrow> PodTemplateSpec outcome" where
  "buildContainers E dc baseTemplate =
     (let cs = ts_Containers baseTemplate;
          cass = lastIndex (\<lambda>c. c_Name c = CassandraContainerName) cs;
          logger = lastIndex (\<lambda>c. c_Name c = SystemLoggerContainerName) cs;
          at = (\<lambda>i. case i of None \<Rightarrow> emptyContainer | Some i \<Rightarrow> cs ! i)
      in obind (cassandraContainer E dc (at cass)) (\<lambda>cassContainer.
         let loggerContainer = systemLoggerContainer E dc (at logger);
             cs = (case cass of None \<Rightarrow> cs | Some i \<Rightarrow> cs[i := cassContainer]);
             cs = (case logger of None \<Rightarrow> cs | Some i \<Rightarrow> cs[i := loggerContainer]);
             cs = (if cass = None then cs @ [cassContainer] else cs);
             cs = (if \<not> DisableSystemLoggerSidecar (Spec dc) \<and> logger = None then cs @ [loggerContainer] else cs)
         in Return (baseTemplate\<lparr>ts_Containers := cs\<rparr>)))"

section \<open>The pod template\<close>

definition shouldDefineSecurityContext :: "CassandraDatacenter \<Rightarrow> bool" where
  "shouldDefineSecurityContext dc =
     (case DockerImageRunsAsCassandra (Spec dc) of
        Some b \<Rightarrow> b
      | None \<Rightarrow> ServerType (Spec dc) = ''dse'' \<or> CalculateDockerImageRunsAsCassandra (ServerVersion (Spec dc)))"

text \<open>The template of the user with the defaults of the operator, before labels and containers.\<close>

definition podDefaults :: "env \<Rightarrow> CassandraDatacenter \<Rightarrow> PodTemplateSpec" where
  "podDefaults E dc =
     (let t = (case SpecPodTemplate (Spec dc) of None \<Rightarrow> emptyTemplate | Some t \<Rightarrow> t);
          t = t\<lparr>ts_ServiceAccountName := (if ServiceAccount (Spec dc) \<noteq> [] then ServiceAccount (Spec dc)
            else ''default'')\<rparr>;
          t = (if IsHostNetworkEnabled dc
            then t\<lparr>ts_HostNetwork := True, ts_DNSPolicy := ''ClusterFirstWithHostNet''\<rparr> else t);
          t = (if ts_TerminationGracePeriodSeconds t = None
            then t\<lparr>ts_TerminationGracePeriodSeconds := Some DefaultTerminationGracePeriodSeconds\<rparr> else t);
          t = (if ts_SecurityContext t = None \<and> shouldDefineSecurityContext dc
            then t\<lparr>ts_SecurityContext := Some \<lparr>psc_RunAsUser = Some 999, psc_RunAsGroup = Some 999,
              psc_FSGroup = Some 999\<rparr>\<rparr> else t)
      in snd (AddDefaultRegistryImagePullSecrets (e_getenv E) t))"

definition buildPodTemplateSpec ::
    "env \<Rightarrow> CassandraDatacenter \<Rightarrow> string gomap \<Rightarrow> string \<Rightarrow> PodTemplateSpec outcome" where
  "buildPodTemplateSpec E dc nodeAffinityLabels rackName =
     obind (AddManagedByLabel (GetRackLabels dc rackName)) (\<lambda>podLabels.
     obind (mput podLabels CassNodeState stateReadyToStart) (\<lambda>podLabels.
     obind (MergeMap (emptyMapIfNil (Labels (podDefaults E dc))) [podLabels]) (\<lambda>labels.
     obind (MergeMap (emptyMapIfNil (Annotations (podDefaults E dc))) [Some fmempty]) (\<lambda>annotations.
     obind (buildInitContainers E dc rackName (addVolumes dc ((podDefaults E dc)\<lparr>Labels := labels,
       Annotations := annotations,
       ts_Affinity := Some \<lparr>af_NodeTerms = calculateNodeAffinity nodeAffinityLabels,
         af_AntiAffinity = calculatePodAntiAffinity (AllowMultipleNodesPerWorker (Spec dc))\<rparr>,
       ts_Tolerations := Tolerations (Spec dc)\<rparr>))) (\<lambda>t.
     buildContainers E dc t)))))"

section \<open>The stateful set of a rack\<close>

definition ManagedByLabelDefunctValue :: string where
  "ManagedByLabelDefunctValue = ''cassandra-operator''"

definition AddDefunctManagedByLabel :: "string gomap \<Rightarrow> string gomap outcome" where
  "AddDefunctManagedByLabel m = mput m ManagedByLabel ManagedByLabelDefunctValue"

definition usesDefunctPvcManagedByLabel :: "StatefulSet \<Rightarrow> bool" where
  "usesDefunctPvcManagedByLabel sts =
     list_ex (\<lambda>pvc. mfind (Labels pvc) ManagedByLabel = Some ManagedByLabelDefunctValue) (VolumeClaimTemplates sts)"

definition newNamespacedNameForStatefulSet :: "CassandraDatacenter \<Rightarrow> string \<Rightarrow> NamespacedName" where
  "newNamespacedNameForStatefulSet dc rackName =
     (Namespace dc, ClusterName (Spec dc) @ ''-'' @ Name dc @ ''-'' @ rackName @ ''-sts'')"

text \<open>
  \<open>MergeMap\<close> writes into its first argument. When the rack has a map of its own, that is the map
  in the spec: the labels of the datacenter and the zone are written into it. The second
  component is the datacenter after the call.
\<close>

definition rackNodeAffinitylabels ::
    "CassandraDatacenter \<Rightarrow> string \<Rightarrow> string gomap outcome \<times> CassandraDatacenter" where
  "rackNodeAffinitylabels dc rackName =
     (case firstIndex (\<lambda>rack. rack_Name rack = rackName) (GetRacks dc) of
        None \<Rightarrow> (Return None, dc)
      | Some i \<Rightarrow>
          let rack = GetRacks dc ! i;
              merged = obind (MergeMap (emptyMapIfNil (rack_NodeAffinityLabels rack))
                [emptyMapIfNil (NodeAffinityLabels (Spec dc))]) (\<lambda>m.
                if rack_Zone rack \<noteq> []
                then MergeMap (emptyMapIfNil m) [Some (fmupd zoneLabel (rack_Zone rack) fmempty)]
                else Return m)
          in (merged,
              case (merged, rack_NodeAffinityLabels rack) of
                (Return m, Some _) \<Rightarrow> dc\<lparr>Spec := (Spec dc)\<lparr>Racks :=
                  (Racks (Spec dc))[i := rack\<lparr>rack_NodeAffinityLabels := m\<rparr>]\<rparr>\<rparr>
              | _ \<Rightarrow> dc))"

definition ExtensionIDLabel :: string where "ExtensionIDLabel = ''appplatform.vmware.com/extension-id''"
definition InstanceIDLabel :: string where "InstanceIDLabel = ''appplatform.vmware.com/instance-id''"
definition EMMIntegratedAnnotation :: string where
  "EMMIntegratedAnnotation = ''appplatform.vmware.com/vsphere-emm-integrated''"

definition GetExtensionID :: "env \<Rightarrow> string" where
  "GetExtensionID E =
     (let value = Getenv (e_getenv E) ''PSP_EXTENSION_ID''
      in if value = [] then ''com.datastax.vulcan'' else value)"

definition addAnnotations :: "'a ObjectMeta_scheme \<Rightarrow> 'a ObjectMeta_scheme" where
  "addAnnotations obj =
     obj\<lparr>Annotations := Some (fmupd EMMIntegratedAnnotation ''true'' (contents (Annotations obj)))\<rparr>"

definition addLabels :: "env \<Rightarrow> string \<Rightarrow> 'a ObjectMeta_scheme \<Rightarrow> 'a ObjectMeta_scheme" where
  "addLabels E dcName obj =
     obj\<lparr>Labels := Some (fmupd InstanceIDLabel dcName
       (fmupd ExtensionIDLabel (GetExtensionID E) (contents (Labels obj))))\<rparr>"

definition AddStatefulSetChanges :: "env \<Rightarrow> CassandraDatacenter \<Rightarrow> StatefulSet \<Rightarrow> StatefulSet" where
  "AddStatefulSetChanges E dc sts =
     sts\<lparr>VolumeClaimTemplates := map (addLabels E (Name dc)) (VolumeClaimTemplates sts),
         Template := addAnnotations (addLabels E (Name dc) (Template sts))\<rparr>"

definition newPVC :: "string \<Rightarrow> string gomap \<Rightarrow> PVCSpec \<Rightarrow> PersistentVolumeClaim" where
  "newPVC name labels spec =
     ObjectMeta.extend (emptyMeta\<lparr>Name := name, Labels := labels\<rparr>) \<lparr>pvc_Spec = spec, pvc_Phase = []\<rparr>"

text \<open>The object itself, from its claim, the labels of claims and set, and the template.\<close>

definition rackStatefulSet ::
    "CassandraDatacenter \<Rightarrow> string \<Rightarrow> int \<Rightarrow> PVCSpec \<Rightarrow> string gomap \<Rightarrow> string gomap \<Rightarrow> PodTemplateSpec \<Rightarrow> StatefulSet" where
  "rackStatefulSet dc rackName replicaCount claim pvcLabels statefulSetLabels template =
     (let nsName = newNamespacedNameForStatefulSet dc rackName
      in ObjectMeta.extend
           (emptyMeta\<lparr>Name := snd nsName, Namespace := fst nsName, Labels := statefulSetLabels,
              Annotations := Some fmempty\<rparr>)
           \<lparr>Replicas = Some (int32 replicaCount), Selector = GetRackLabels dc rackName,
            ServiceName = GetAllPodsServiceName dc, PodManagementPolicy = ''Parallel'',
            Template = template,
            VolumeClaimTemplates = newPVC PvcName pvcLabels claim #
              map (\<lambda>storage. newPVC (av_Name storage) pvcLabels (av_PVCSpec storage))
                (AdditionalVolumesSlice (StorageConfig (Spec dc))),
            UpdateStrategy = \<lparr>us_Type = [], us_Partition = None\<rparr>,
            ss_ObservedGeneration = 0, ss_Replicas = 0, ss_ReadyReplicas = 0,
            ss_CurrentReplicas = 0, ss_UpdatedReplicas = 0\<rparr>)"

text \<open>The part after the affinity labels: it does not change the datacenter.\<close>

definition buildStatefulSet ::
    "env \<Rightarrow> string \<Rightarrow> CassandraDatacenter \<Rightarrow> int \<Rightarrow> bool \<Rightarrow> string gomap \<Rightarrow> StatefulSet outcome" where
  "buildStatefulSet E rackName dc replicaCount useDefunctManagedByForPvc nodeAffinityLabels =
     obind (if useDefunctManagedByForPvc then AddDefunctManagedByLabel (GetRackLabels dc rackName)
       else AddManagedByLabel (GetRackLabels dc rackName)) (\<lambda>pvcLabels.
     obind (AddManagedByLabel (GetRackLabels dc rackName)) (\<lambda>statefulSetLabels.
     case CassandraDataVolumeClaimSpec (StorageConfig (Spec dc)) of
       None \<Rightarrow> Fail (Errorf ''StorageConfig.cassandraDataVolumeClaimSpec is required'')
     | Some claim \<Rightarrow>
         obind (buildPodTemplateSpec E dc nodeAffinityLabels rackName) (\<lambda>template.
         obind (if mlen (NodeSelector (Spec dc)) > 0
           then obind (MergeMap (Some fmempty) [NodeSelector (Spec dc)]) (\<lambda>ns.
             Return (template\<lparr>ts_NodeSelector := ns\<rparr>))
           else Return template) (\<lambda>template.
         obind (case AddManagementApiServerSecurity dc template of
             Fail _ \<Rightarrow> Return template | r \<Rightarrow> r) (\<lambda>template.
         let result = rackStatefulSet dc rackName replicaCount claim pvcLabels statefulSetLabels template;
             result = (if IsPSPEnabled (e_getenv E) then AddStatefulSetChanges E dc result else result)
         in Return (AddHashAnnotation (\<lambda>r. e_hash E (HashStatefulSet r)) result))))))"

definition newStatefulSetForCassandraDatacenterHelper ::
    "env \<Rightarrow> string \<Rightarrow> CassandraDatacenter \<Rightarrow> int \<Rightarrow> bool \<Rightarrow> StatefulSet outcome \<times> CassandraDatacenter" where
  "newStatefulSetForCassandraDatacenterHelper E rackName dc replicaCount useDefunctManagedByForPvc =
     (let (labels, dc') = rackNodeAffinitylabels dc rackName
      in (obind labels (buildStatefulSet E rackName dc' replicaCount useDefunctManagedByForPvc), dc'))"

definition newStatefulSetForCassandraDatacenter ::
    "env \<Rightarrow> string \<Rightarrow> CassandraDatacenter \<Rightarrow> int \<Rightarrow> StatefulSet outcome \<times> CassandraDatacenter" where
  "newStatefulSetForCassandraDatacenter E rackName dc replicaCount =
     newStatefulSetForCassandraDatacenterHelper E rackName dc replicaCount False"

definition newStatefulSetForCassandraDatacenterWithDefunctPvcManagedBy ::
    "env \<Rightarrow> string \<Rightarrow> CassandraDatacenter \<Rightarrow> int \<Rightarrow> StatefulSet outcome \<times> CassandraDatacenter" where
  "newStatefulSetForCassandraDatacenterWithDefunctPvcManagedBy E rackName dc replicaCount =
     newStatefulSetForCassandraDatacenterHelper E rackName dc replicaCount True"

section \<open>The disruption budget\<close>

definition newPodDisruptionBudgetForDatacenter :: "env \<Rightarrow> CassandraDatacenter \<Rightarrow> PodDisruptionBudget outcome" where
  "newPodDisruptionBudgetForDatacenter E dc =
     obind (AddManagedByLabel (GetDatacenterLabels dc)) (\<lambda>labels.
     Return (AddHashAnnotation (\<lambda>r. e_hash E (HashPDB r))
       (ObjectMeta.extend (emptyMeta\<lparr>Name := Name dc @ ''-pdb'', Namespace := Namespace dc, Labels := labels,
          Annotations := Some fmempty\<rparr>)
        \<lparr>MinAvailable = int32 (Size (Spec dc) - 1), pdb_Selector = GetDatacenterLabels dc\<rparr>)))"

end
