(* ===== verification/PodsReady.thy ===== *)
theory PodsReady
  imports PodState
begin

text \<open>
  \<open>CheckPodsReady\<close> and what it calls (\<open>reconcile_racks.go\<close>): the labels that record the state
  of a node, the seeds, and the start of Cassandra on one node at a time.
\<close>

section \<open>Labelling\<close>

definition labelNodeState :: "env \<Rightarrow> nat \<Rightarrow> string \<Rightarrow> (world, unit) op" where
  "labelNodeState E i state =
     bindM (getPod i) (\<lambda>pod.
     bindM (lift (mput (Labels pod) CassNodeState state)) (\<lambda>labels.
     patchPod E i (pod\<lparr>Labels := labels\<rparr>)))"

definition labelServerPodStarting :: "env \<Rightarrow> nat \<Rightarrow> (world, unit) op" where
  "labelServerPodStarting E i =
     bindM (labelNodeState E i stateStarting) (\<lambda>_.
     bindM getDc (\<lambda>base.
     bindM (Now E) (\<lambda>now.
     bindM (modifyDc (\<lambda>dc. dc\<lparr>Status := (Status dc)\<lparr>LastServerNodeStarted := now\<rparr>\<rparr>)) (\<lambda>_.
     patchDcStatus E base))))"

definition labelServerPodStarted :: "env \<Rightarrow> nat \<Rightarrow> (world, unit) op" where
  "labelServerPodStarted E i = labelNodeState E i stateStarted"

definition labelServerPodStartedNotReady :: "env \<Rightarrow> nat \<Rightarrow> (world, unit) op" where
  "labelServerPodStartedNotReady E i = labelNodeState E i stateStartedNotReady"

definition findStartedNotReadyNodes :: "env \<Rightarrow> (world, bool) op" where
  "findStartedNotReadyNodes E =
     bindM (gets dcPods) (\<lambda>is.
     returning (forM is (\<lambda>i.
       bindM (getPod i) (\<lambda>pod.
         if didServerLoseReadiness pod then
           bindM (labelServerPodStartedNotReady E i) (\<lambda>_. ret (Some True))
         else if isServerStartedNotReady pod \<and> isServerReady pod then
           bindM (labelServerPodStarted E i) (\<lambda>_. ret (Some False))
         else ret None)))
     (ret False))"

definition deleteStuckNodes :: "env \<Rightarrow> (world, bool) op" where
  "deleteStuckNodes E =
     bindM (gets dcPods) (\<lambda>is.
     returning (forM is (\<lambda>i.
       bindM (getPod i) (\<lambda>pod.
       bindM (Now E) (\<lambda>now.
       let reason =
         (if isNodeStuckAfterTerminating now pod
          then Some ''Pod got stuck after Cassandra container terminated''
          else if isNodeStuckAfterLosingReadiness now pod
          then Some ''Pod got stuck after losing readiness''
          else None)
       in case reason of
            None \<Rightarrow> ret None
          | Some r \<Rightarrow>
              bindM (Eventf WarningEvent ''DeletingStuckPod'' r) (\<lambda>_.
              bindM (perform (e_unit E) (DeletePod pod)) (\<lambda>_. ret (Some True)))))))
     (ret False))"

section \<open>Seeds\<close>

text \<open>One pod of the loop of \<open>labelSeedPods\<close>; the accumulator counts the ready seeds.\<close>

definition labelSeedPod :: "env \<Rightarrow> RackInformation \<Rightarrow> int \<Rightarrow> nat \<Rightarrow> (world, int) op" where
  "labelSeedPod E rackInfo cnt i =
     bindM (getPod i) (\<lambda>pod.
     let newLabels = contents (Labels pod);
         ready = isServerReady pod;
         starting = isServerStarting pod;
         isSeed = (ready \<and> cnt < SeedCount rackInfo);
         currentVal = mget (Labels pod) SeedNodeLabel;
         cnt = (if isSeed then cnt + 1 else cnt)
     in if isSeed \<and> currentVal \<noteq> ''true'' then
          bindM (Eventf NormalEvent ''LabeledPodAsSeed'' (''Labeled as seed node pod '' @ Name pod)) (\<lambda>_.
          bindM (patchPod E i (pod\<lparr>Labels := Some (fmupd SeedNodeLabel ''true'' newLabels)\<rparr>)) (\<lambda>_.
          ret cnt))
        else if \<not> isSeed \<and> currentVal = ''true'' \<and> \<not> starting then
          bindM (Eventf NormalEvent ''UnlabeledPodAsSeed'' (''Unlabled as seed node pod '' @ Name pod)) (\<lambda>_.
          bindM (patchPod E i (pod\<lparr>Labels := Some (fmdrop SeedNodeLabel newLabels)\<rparr>)) (\<lambda>_.
          ret cnt))
        else ret cnt)"

definition labelSeedPods :: "env \<Rightarrow> RackInformation \<Rightarrow> (world, int) op" where
  "labelSeedPods E rackInfo =
     bindM (gets (\<lambda>s. sort_key (\<lambda>i. Name (podStore s ! i))
       (indicesByLabels s (dcPods s) (GetRackLabels (Datacenter s) (RackName rackInfo))))) (\<lambda>rackPods.
     foldM (labelSeedPod E rackInfo) 0 rackPods)"

definition checkSeedLabels :: "env \<Rightarrow> (world, int) op" where
  "checkSeedLabels E =
     bindM (gets desiredRackInformation) (\<lambda>infos.
     foldM (\<lambda>seedCount rackInfo.
       bindM (labelSeedPods E rackInfo) (\<lambda>n. ret (seedCount + n))) 0 infos)"

definition refreshSeeds :: "env \<Rightarrow> (world, unit) op" where
  "refreshSeeds E =
     bindM getDc (\<lambda>dc.
       if Stopped (Spec dc) then ret ()
       else
         bindM (gets (\<lambda>s. indicesByState s (clusterPods s) stateStarted)) (\<lambda>startedPods.
         foldM (\<lambda>_ i. bindM (getPod i) (\<lambda>pod. CallReloadSeedsEndpoint E pod)) () startedPods))"

section \<open>Starting nodes\<close>

text \<open>Returns whether a node is starting, and whether one has just become started.\<close>

definition findStartingNodes :: "env \<Rightarrow> (world, bool \<times> bool) op" where
  "findStartingNodes E =
     bindM (gets clusterPods) (\<lambda>is.
     returning (forM is (\<lambda>i.
       bindM (getPod i) (\<lambda>pod.
         if nodeState pod = stateStarting then
           if isServerReady pod then
             bindM (Eventf NormalEvent ''StartedCassandra'' (''Started Cassandra for pod '' @ Name pod)) (\<lambda>_.
             bindM (labelServerPodStarted E i) (\<lambda>_. ret (Some (False, True))))
           else ret (Some (True, False))
         else ret None)))
     (ret (False, False)))"

definition startCassandra :: "env \<Rightarrow> EndpointState list \<Rightarrow> nat \<Rightarrow> (world, unit) op" where
  "startCassandra E endpointData i =
     bindM getDc (\<lambda>dc.
     bindM (getPod i) (\<lambda>pod.
     let shouldReplacePod = (IndexOfString (NodeReplacements (Status dc)) (Name pod) > - 1);
         hostId = mget (NodeStatuses (Status dc)) (Name pod)
     in bindM (if shouldReplacePod \<and> hostId \<noteq> [] then
            bindM (attempt (lift (FindIpForHostId endpointData hostId))) (\<lambda>r.
              case r of
                Inl e \<Rightarrow> fail (Wrapf (''Failed to start replace of cassandra node '' @ hostId @
                  '' for pod '' @ Name pod @ '' due to error: '') e)
              | Inr ip \<Rightarrow> ret ip)
          else ret []) (\<lambda>replaceAddress.
        bindM (if shouldReplacePod \<and> replaceAddress \<noteq> [] then
            bindM (Eventf NormalEvent ''StartingCassandraAndReplacingNode''
              (''Starting Cassandra for pod '' @ Name pod @
               '' to replace Cassandra node with address '' @ replaceAddress)) (\<lambda>_.
            CallLifecycleStartEndpointWithReplaceIp E pod replaceAddress)
          else
            bindM (Eventf NormalEvent ''StartingCassandra'' (''Starting Cassandra for pod '' @ Name pod)) (\<lambda>_.
            CallLifecycleStartEndpoint E pod)) (\<lambda>_.
        labelServerPodStarting E i))))"

text \<open>
  \<open>rackReadyCount\<close>: zero for every desired rack, then one more for each ready pod, under the
  rack label of the pod.
\<close>

definition rackReadyCount :: "RackInformation list \<Rightarrow> Pod list \<Rightarrow> (string, int) fmap" where
  "rackReadyCount infos pods =
     foldl (\<lambda>m pod.
         if isServerReady pod then
           let rackName = mget (Labels pod) RackLabel
           in fmupd rackName ((case fmlookup m rackName of None \<Rightarrow> 0 | Some n \<Rightarrow> n) + 1) m
         else m)
       (foldl (\<lambda>m info. fmupd (RackName info) 0 m) fmempty infos) pods"

text \<open>The inner loop: the first pod of the rack that can be started is started.\<close>

definition startNodeOfRack ::
    "env \<Rightarrow> EndpointState list \<Rightarrow> bool \<Rightarrow> string \<Rightarrow> nat list \<Rightarrow> (world, string option) op" where
  "startNodeOfRack E endpointData labelSeedBeforeStart rackName is =
     forM is (\<lambda>i.
       bindM (getPod i) (\<lambda>pod.
       bindM (Now E) (\<lambda>now.
         if \<not> isServerReadyToStart pod \<or> \<not> isMgmtApiRunning now pod then ret None
         else if mget (Labels pod) RackLabel = rackName then
           bindM (if labelSeedBeforeStart then
               bindM (lift (mput (Labels pod) SeedNodeLabel ''true'')) (\<lambda>labels.
               bindM (patchPod E i (pod\<lparr>Labels := labels\<rparr>)) (\<lambda>_.
               bindM (Eventf NormalEvent ''LabeledPodAsSeed'' (''Labeled pod a seed node '' @ Name pod)) (\<lambda>_.
               sleep (5 * Second))))
             else ret ()) (\<lambda>_.
           bindM (startCassandra E endpointData i) (\<lambda>_.
           ret (Some rackName)))
         else ret None)))"

definition startOneNodePerRack :: "env \<Rightarrow> EndpointState list \<Rightarrow> int \<Rightarrow> (world, string) op" where
  "startOneNodePerRack E endpointData readySeeds =
     bindM (gets (\<lambda>s. rackReadyCount (desiredRackInformation s) (podsAt s (dcPods s)))) (\<lambda>readyCount.
     bindM getDc (\<lambda>dc.
     bindM (gets dcPods) (\<lambda>is.
     let labelSeedBeforeStart = (readySeeds = 0 \<and> length (AdditionalSeeds (Spec dc)) = 0)
     in bindM (loopM (\<lambda>rackThatNeedsNode rackName.
            if (case fmlookup readyCount rackName of None \<Rightarrow> 0 | Some n \<Rightarrow> n) > 0
            then ret (Inl rackThatNeedsNode)
            else
              bindM (startNodeOfRack E endpointData labelSeedBeforeStart rackName is) (\<lambda>r.
                case r of None \<Rightarrow> ret (Inl rackName) | Some name \<Rightarrow> ret (Inr name)))
          [] (e_order E (fset (fmdom readyCount)))) (\<lambda>r.
        case r of Inl rackThatNeedsNode \<Rightarrow> ret rackThatNeedsNode | Inr name \<Rightarrow> ret name))))"

definition isClusterHealthy :: "env \<Rightarrow> (world, bool) op" where
  "isClusterHealthy E =
     bindM (gets (\<lambda>s. indicesByState s (clusterPods s) stateStarted)) (\<lambda>pods.
     bindM getDc (\<lambda>dc.
     returning (forM pods (\<lambda>i.
       bindM (getPod i) (\<lambda>pod.
       bindM (attempt (CallProbeClusterEndpoint E pod ''LOCAL_QUORUM'' (int (length (GetRacks dc))))) (\<lambda>r.
         case r of Inl e \<Rightarrow> ret (Some False) | Inr _ \<Rightarrow> ret None))))
     (ret True)))"

definition startAllNodes :: "env \<Rightarrow> EndpointState list \<Rightarrow> (world, bool) op" where
  "startAllNodes E endpointData =
     bindM (gets dcPods) (\<lambda>is.
     returning (forM is (\<lambda>i.
       bindM (getPod i) (\<lambda>pod.
       bindM (Now E) (\<lambda>now.
         if isMgmtApiRunning now pod \<and> \<not> isServerReady pod \<and> \<not> isServerStarted pod then
           bindM (startCassandra E endpointData i) (\<lambda>_. ret (Some True))
         else ret None))))
     (returning (forM is (\<lambda>i.
       bindM (getPod i) (\<lambda>pod.
       bindM (Now E) (\<lambda>now.
         if \<not> isMgmtApiRunning now pod then ret (Some True) else ret None))))
     (ret False)))"

definition countReadyAndStarted :: "Pod list \<Rightarrow> int \<times> int" where
  "countReadyAndStarted pods =
     (int (length (filter isServerReady pods)), int (length (filter isServerStarted pods)))"

definition CheckPodsReady :: "env \<Rightarrow> EndpointState list \<Rightarrow> (world, ReconcileResult) op" where
  "CheckPodsReady E endpointData =
     bindM getDc (\<lambda>dc0.
     if Stopped (Spec dc0) then ret Continue
     else
       orError (findStartedNotReadyNodes E) (\<lambda>nodeStartedNotReady.
       if nodeStartedNotReady then ret (RequeueSoon 2)
       else
       orError (deleteStuckNodes E) (\<lambda>deletedNode.
       if deletedNode then ret Done
       else
       orError (checkSeedLabels E) (\<lambda>seedCount.
       orError (refreshSeeds E) (\<lambda>_.
       orError (findStartingNodes E) (\<lambda>(nodeIsStarting, _).
       if nodeIsStarting then ret (RequeueSoon 2)
       else
       orError (startOneNodePerRack E endpointData seedCount) (\<lambda>rackWaitingForANode.
       if rackWaitingForANode \<noteq> [] then ret (RequeueSoon 2)
       else
       bindM (isClusterHealthy E) (\<lambda>healthy.
       if \<not> healthy then ret (RequeueSoon 2)
       else
       orError (startAllNodes E endpointData) (\<lambda>needsMoreNodes.
       if needsMoreNodes then ret (RequeueSoon 2)
       else
       bindM getDc (\<lambda>dc.
       if length (NodeReplacements (Status dc)) > 0 then ret (RequeueSoon 2)
       else
       bindM (gets (\<lambda>s. countReadyAndStarted (podsAt s (dcPods s)))) (\<lambda>(readyPodCount, startedLabelCount).
       let desiredSize = Size (Spec dc)
       in if desiredSize \<le> readyPodCount \<and> desiredSize \<le> startedLabelCount then ret Continue
          else ret (ErrorOut (Errorf (''checks failed desired:'' @ showInt desiredSize @ '', ready:'' @
            showInt readyPodCount @ '', started:'' @ showInt startedLabelCount))))))))))))))"

section \<open>Lemmas: which calls are made\<close>

abbreviation noStart :: "call \<Rightarrow> bool" where
  "noStart c \<equiv> \<not> isStartCall c"

lemma emits_labelNodeState [emits_intros]:
  "(\<And>b n. A (PatchPod b n)) \<Longrightarrow> emits A (labelNodeState E i st)"
  unfolding labelNodeState_def by (intro emits_intros)

lemma emits_labelServerPod [emits_intros]:
  "(\<And>b n. A (PatchPod b n)) \<Longrightarrow> emits A (labelServerPodStarted E i)"
  "(\<And>b n. A (PatchPod b n)) \<Longrightarrow> emits A (labelServerPodStartedNotReady E i)"
  unfolding labelServerPodStarted_def labelServerPodStartedNotReady_def by (rule emits_intros, simp)+

lemma emits_labelServerPodStarting [emits_intros]:
  "(\<And>b n. A (PatchPod b n)) \<Longrightarrow> (\<And>b n. A (StatusPatchDc b n)) \<Longrightarrow>
     emits A (labelServerPodStarting E i)"
  unfolding labelServerPodStarting_def by (intro emits_intros)

lemma emits_endpoint_calls [emits_intros]:
  "emits noStart (CallReloadSeedsEndpoint E pod)"
  "emits noStart (CallProbeClusterEndpoint E pod cl rf)"
  "emits noStart (CallDrainEndpoint E pod)"
  "emits noStart (CallDecommissionNodeEndpoint E pod)"
  "emits noStart (CallMetadataEndpointsEndpoint E pod)"
  unfolding CallReloadSeedsEndpoint_def CallProbeClusterEndpoint_def CallDrainEndpoint_def
    CallDecommissionNodeEndpoint_def CallMetadataEndpointsEndpoint_def
  by (auto intro!: emits_intros simp: simpleRequest_def HasPrefix_def)

lemma noStart_findStartedNotReadyNodes [emits_intros]: "emits noStart (findStartedNotReadyNodes E)"
  unfolding findStartedNotReadyNodes_def by (intro emits_intros) auto

lemma noStart_deleteStuckNodes [emits_intros]: "emits noStart (deleteStuckNodes E)"
  unfolding deleteStuckNodes_def by (intro emits_intros) auto

lemma noStart_labelSeedPod [emits_intros]: "emits noStart (labelSeedPod E ri n i)"
  unfolding labelSeedPod_def Let_def by (intro emits_intros) auto

lemma noStart_checkSeedLabels [emits_intros]: "emits noStart (checkSeedLabels E)"
  unfolding checkSeedLabels_def labelSeedPods_def by (intro emits_intros)

lemma noStart_refreshSeeds [emits_intros]: "emits noStart (refreshSeeds E)"
  unfolding refreshSeeds_def by (intro emits_intros)

lemma noStart_findStartingNodes [emits_intros]: "emits noStart (findStartingNodes E)"
  unfolding findStartingNodes_def by (intro emits_intros) auto

lemma noStart_isClusterHealthy [emits_intros]: "emits noStart (isClusterHealthy E)"
  unfolding isClusterHealthy_def by (intro emits_intros)

text \<open>Starting a node calls the lifecycle endpoint once.\<close>

lemma once_callNodeMgmtEndpoint:
  "ofStatic I \<Longrightarrow> once I P (\<lambda>_. True) (callNodeMgmtEndpoint E rq ctype)"
  unfolding callNodeMgmtEndpoint_def Let_def
  by (rule once_prefix once_suffix once_perform emits_intros TrueI | assumption)+
     (auto split: responseBody.split intro!: emits_intros)

lemma once_start:
  "ofStatic I \<Longrightarrow> once I isStartCall (\<lambda>_. True) (CallLifecycleStartEndpointWithReplaceIp E pod ip)"
  unfolding CallLifecycleStartEndpointWithReplaceIp_def thenM_def Let_def
  by (rule once_suffix [OF _ once_callNodeMgmtEndpoint emits_ret])

lemma once_startCassandra: "ofStatic I \<Longrightarrow> once I isStartCall (\<lambda>_. True) (startCassandra E eps i)"
  unfolding startCassandra_def Let_def CallLifecycleStartEndpoint_def
  apply (rule once_prefix, assumption, rule emits_intros)
  apply (rule once_prefix, assumption, rule emits_intros)
  apply (rule once_prefix, assumption, (rule emits_intros)+)
  apply (rule once_suffix, assumption)
   apply (rule once_if; rule once_prefix; (assumption | (rule once_start, assumption) | (rule emits_intros, simp)))
  apply (rule emits_intros; simp)
  done

lemma once_startNodeOfRack:
  assumes I: "ofStatic I" and rack: "rack \<noteq> []"
  shows "once I isStartCall (\<lambda>r. r \<noteq> Return None \<and> r \<noteq> Return (Some []))
    (startNodeOfRack E eps b rack idxs)"
  unfolding startNodeOfRack_def
  apply (rule once_forM [OF I], simp)
  apply (rule once_prefix [OF I], rule emits_intros)
  apply (rule once_prefix [OF I], rule emits_intros)
  apply (rule once_if, rule onceI_emits, rule emits_intros)
  apply (rule once_if)
   apply (rule once_prefix [OF I], (rule emits_intros, simp?)+)
   apply (rule once_bindM [OF I once_startCassandra [OF I]])
  using rack apply (auto intro!: emits_intros onceI_emits simp: ret_run)
  done

text \<open>
  The racks of the desired rack information have names, and the order in which a map is
  traversed has its keys only.
\<close>

definition rackNamesOk :: "world \<Rightarrow> bool" where
  "rackNamesOk s = ([] \<notin> RackName ` set (desiredRackInformation s))"

definition orderOk :: "env \<Rightarrow> bool" where
  "orderOk E \<longleftrightarrow> (\<forall>K. finite K \<longrightarrow> set (e_order E K) = K \<and> distinct (e_order E K))"

lemma ofStatic_rackNamesOk [simp]: "ofStatic rackNamesOk"
  by (auto simp: ofStatic_def rackNamesOk_def static_def)

lemma fmlookup_rackReadyCount:
  "fmlookup (rackReadyCount infos pods) k =
     (let ready = filter (\<lambda>p. isServerReady p \<and> mget (Labels p) RackLabel = k) pods
      in if k \<in> RackName ` set infos \<or> ready \<noteq> [] then Some (int (length ready)) else None)"
proof (induction pods rule: rev_induct)
  case Nil
  have "fmlookup (foldl (\<lambda>m info. fmupd (RackName info) 0 m) m infos) k =
      (if k \<in> RackName ` set infos then Some 0 else fmlookup m k)" for m :: "(string, int) fmap"
    by (induction infos arbitrary: m) auto
  then show ?case by (simp add: rackReadyCount_def)
next
  case (snoc p pods)
  then show ?case by (auto simp: rackReadyCount_def Let_def split: option.splits if_splits)
qed

text \<open>A rack without a name is never one that waits for a node.\<close>

lemma rackReadyCount_named:
  assumes "[] \<notin> RackName ` set infos" "rack \<in> fset (fmdom (rackReadyCount infos pods))"
    "\<not> 0 < (case fmlookup (rackReadyCount infos pods) rack of None \<Rightarrow> 0 | Some n \<Rightarrow> n)"
  shows "rack \<noteq> []"
proof
  assume "rack = []"
  moreover from assms(2) obtain n where "fmlookup (rackReadyCount infos pods) rack = Some n"
    by (auto simp: fmlookup_dom_iff)
  ultimately show False using assms(1,3)
    by (auto simp: fmlookup_rackReadyCount Let_def split: if_splits)
qed

lemma once_startOneNodePerRack:
  assumes E: "orderOk E"
  shows "once rackNamesOk isStartCall (\<lambda>r. r \<noteq> Return []) (startOneNodePerRack E eps n)"
proof -
  have loop: "once rackNamesOk isStartCall (\<lambda>r. (\<forall>b. r \<noteq> Return (Inl b)) \<and> r \<noteq> Return (Inr []))
      (loopM (\<lambda>rackThatNeedsNode rackName.
            if (case fmlookup m rackName of None \<Rightarrow> 0 | Some n \<Rightarrow> n) > 0
            then ret (Inl rackThatNeedsNode)
            else
              bindM (startNodeOfRack E eps b rackName idxs) (\<lambda>r.
                case r of None \<Rightarrow> ret (Inl rackName) | Some name \<Rightarrow> ret (Inr name)))
          [] (e_order E (fset (fmdom m))))"
    if m: "m = rackReadyCount infos pods" "[] \<notin> RackName ` set infos" for m infos pods b idxs
  proof (rule once_loopM, simp, simp, rule once_if)
    fix rack
    assume "rack \<in> set (e_order E (fset (fmdom m)))"
    then have "rack \<in> fset (fmdom m)" using E by (simp add: orderOk_def)
    moreover assume "\<not> 0 < (case fmlookup m rack of None \<Rightarrow> 0 | Some n \<Rightarrow> n)"
    ultimately have "rack \<noteq> []" using m rackReadyCount_named by blast
    then show "once rackNamesOk isStartCall (\<lambda>r. (\<forall>b. r \<noteq> Return (Inl b)) \<and> r \<noteq> Return (Inr []))
       (bindM (startNodeOfRack E eps b rack idxs) (\<lambda>r.
          case r of None \<Rightarrow> ret (Inl rack) | Some name \<Rightarrow> ret (Inr name)))"
      by (intro once_bindM [OF _ once_startNodeOfRack])
         (auto intro!: emits_intros onceI_emits simp: ret_run split: option.splits)
  qed (auto intro!: emits_intros onceI_emits)
  show ?thesis
    unfolding startOneNodePerRack_def Let_def
    apply (rule once_gets, rule once_prefix, simp, rule emits_intros, rule once_prefix, simp, rule emits_intros)
    apply (rule once_bindM [OF _ loop [OF refl]])
    by (auto intro!: emits_intros onceI_emits simp: ret_run rackNamesOk_def split: sum.splits)
qed

lemma once_startAllNodes:
  assumes I: "ofStatic I"
  shows "once I isStartCall (\<lambda>r. r \<noteq> Return False) (startAllNodes E eps)"
proof -
  have loop: "once I isStartCall (\<lambda>r. r \<noteq> Return None \<and> r \<noteq> Return (Some False))
     (forM idxs (\<lambda>i. bindM (getPod i) (\<lambda>pod. bindM (Now E) (\<lambda>now.
         if isMgmtApiRunning now pod \<and> \<not> isServerReady pod \<and> \<not> isServerStarted pod then
           bindM (startCassandra E eps i) (\<lambda>_. ret (Some True))
         else ret None))))" for idxs
    apply (rule once_forM [OF I], simp)
    apply (rule once_prefix [OF I], rule emits_intros)
    apply (rule once_prefix [OF I], rule emits_intros)
    apply (rule once_if)
     apply (rule once_bindM [OF I once_startCassandra [OF I]])
    by (auto intro!: emits_intros onceI_emits simp: ret_run)
  show ?thesis
    unfolding startAllNodes_def returning_def
    apply (rule once_prefix [OF I emits_gets])
    apply (rule once_bindM [OF I loop])
    by (auto intro!: emits_intros onceI_emits simp: ret_run split: option.splits)
qed

lemma once_CheckPodsReady:
  assumes "orderOk E"
  shows "once rackNamesOk isStartCall (\<lambda>r. r \<noteq> Return Continue) (CheckPodsReady E eps)"
proof -
  note prefix = once_orError_prefix [OF ofStatic_rackNamesOk]
  note starts = once_startOneNodePerRack [OF assms] once_startAllNodes [OF ofStatic_rackNamesOk]
  have stop: "\<forall>s. fst (ret r s) \<noteq> Return Continue" if "r \<noteq> Continue" for r
    using that by (simp add: ret_run)
  show ?thesis
    unfolding CheckPodsReady_def Let_def
    apply (rule once_prefix [OF ofStatic_rackNamesOk emits_dc_pod(1)])
    apply (rule once_if, rule once_ret)
    apply (rule prefix [OF noStart_findStartedNotReadyNodes], rule once_if, rule once_ret)
     apply (rule prefix [OF noStart_deleteStuckNodes], rule once_if, rule once_ret)
      apply (rule prefix [OF noStart_checkSeedLabels])
       apply (rule prefix [OF noStart_refreshSeeds])
        apply (rule prefix [OF noStart_findStartingNodes], simp only: case_prod_unfold, rule once_if, rule once_ret)
         apply (rule once_orError [OF ofStatic_rackNamesOk starts(1)])
            apply (simp add: emits_ret stop)
           apply simp
           apply (rule once_prefix [OF ofStatic_rackNamesOk noStart_isClusterHealthy])
           apply (rule once_if, rule once_ret)
           apply (rule once_orError [OF ofStatic_rackNamesOk starts(2)])
              apply (simp add: emits_ret stop)
    by (auto intro!: onceI_emits emits_intros)
qed

section \<open>Lemmas: what a step that goes on has seen\<close>

lemma ret_eq_iff: "ret a s = (r, t) \<longleftrightarrow> r = Return a \<and> t = s"
  by (auto simp: ret_run)

lemma gets_eq_iff: "gets f s = (r, t) \<longleftrightarrow> r = Return (f s) \<and> t = s"
  by (auto simp: gets_run)

lemma getDc_eq_iff: "getDc s = (r, t) \<longleftrightarrow> r = Return (Datacenter s) \<and> t = s"
  by (auto simp: getDc_run)

lemma CheckPodsReady_Continue:
  assumes "CheckPodsReady E eps s = (Return Continue, t)" "\<not> Stopped (Spec (Datacenter s))"
  shows "NodeReplacements (Status (Datacenter t)) = []"
    and "Size (Spec (Datacenter t)) \<le> int (length (filter isServerReady (podsAt t (dcPods t))))"
    and "Size (Spec (Datacenter t)) \<le> int (length (filter isServerStarted (podsAt t (dcPods t))))"
  using assms
  by (auto simp: CheckPodsReady_def bindM_eq_Return_iff orError_eq_Return_iff ret_eq_iff gets_eq_iff
      getDc_eq_iff countReadyAndStarted_def Let_def split: if_splits prod.splits)

lemma buildEndpoint_replace_ip:
  "buildEndpoint ''/api/v0/lifecycle/start'' [''replace_ip'', ip] =
     ''/api/v0/lifecycle/start?replace_ip='' @ QueryEscape ip"
  by (simp add: buildEndpoint_def Encode_def QueryEscape_def unreserved_def)

text \<open>When no node can be asked for the address, nothing is started.\<close>

lemma startCassandra_no_endpoints:
  assumes "Name (podStore s ! i) \<in> set (NodeReplacements (Status (Datacenter s)))"
    and "mget (NodeStatuses (Status (Datacenter s))) (Name (podStore s ! i)) \<noteq> []" "eps = []"
  shows "\<exists>e. startCassandra E eps i s = (Fail e, s)"
proof -
  let ?pod = "podStore s ! i"
  have idx: "- 1 < IndexOfString (NodeReplacements (Status (Datacenter s))) (Name ?pod)"
    using assms(1) IndexOfString_neg_iff [of "NodeReplacements (Status (Datacenter s))" "Name ?pod"] by linarith
  show ?thesis using assms idx
    by (simp add: startCassandra_def bindM_def getDc_run getPod_run Let_def FindIpForHostId_def
        attempt_run lift_run fail_run)
qed

end
