(* ===== verification/Status.thy ===== *)
theory Status
  imports PodsReady
begin

text \<open>
  The steps that read and write the status of the datacenter (\<open>reconcile_racks.go\<close> and
  \<open>setOperatorProgressStatus\<close> of \<open>constructor.go\<close>): conditions, progress, node statuses, node
  replacements, the rolling restart, and the clearing of conditions at the end.
\<close>

section \<open>Conditions and progress\<close>

definition setCondition :: "env \<Rightarrow> DatacenterCondition \<Rightarrow> (world, bool) op" where
  "setCondition E condition =
     bindM getDc (\<lambda>dc.
       if GetConditionStatus dc (cond_Type condition) \<noteq> cond_Status condition then
         bindM (Now E) (\<lambda>now.
         bindM (modifyDc (\<lambda>dc. SetCondition dc (condition\<lparr>LastTransitionTime := now\<rparr>))) (\<lambda>_.
         ret True))
       else ret False)"

definition setOperatorProgressStatus :: "env \<Rightarrow> ProgressState \<Rightarrow> (world, unit) op" where
  "setOperatorProgressStatus E newState =
     bindM getDc (\<lambda>base.
       if CassandraOperatorProgress (Status base) = newState then ret ()
       else
         bindM (modifyDc (\<lambda>dc. dc\<lparr>Status := (Status dc)\<lparr>CassandraOperatorProgress := newState\<rparr>\<rparr>)) (\<lambda>_.
         bindM (if newState = ProgressReady
             then modifyDc (\<lambda>dc. dc\<lparr>Status := (Status dc)\<lparr>ObservedGeneration := Generation dc\<rparr>\<rparr>)
             else ret ()) (\<lambda>_.
         patchDcStatus E base)))"

definition enableQuietPeriod :: "env \<Rightarrow> int \<Rightarrow> (world, unit) op" where
  "enableQuietPeriod E seconds =
     bindM getDc (\<lambda>base.
     bindM (Now E) (\<lambda>now.
     bindM (modifyDc (\<lambda>dc. dc\<lparr>Status := (Status dc)\<lparr>QuietPeriod := now + Second * seconds\<rparr>\<rparr>)) (\<lambda>_.
     patchDcStatus E base)))"

text \<open>
  The pattern \<open>updated := rc.setCondition(...); if updated { Status().Patch }\<close> for a list of
  conditions: the patch is made when at least one of them changed.
\<close>

definition setConditions :: "env \<Rightarrow> (DatacenterConditionType \<times> ConditionStatus) list \<Rightarrow> bool \<Rightarrow> (world, bool) op" where
  "setConditions E conds updated =
     foldM (\<lambda>updated (conditionType, status).
       bindM (setCondition E (NewDatacenterCondition conditionType status)) (\<lambda>changed.
       ret (changed \<or> updated))) updated conds"

section \<open>Node statuses and replacements\<close>

definition UpdateCassandraNodeStatus :: "env \<Rightarrow> (world, unit) op" where
  "UpdateCassandraNodeStatus E =
     bindM (modifyDc (\<lambda>dc.
       if NodeStatuses (Status dc) = None then dc\<lparr>Status := (Status dc)\<lparr>NodeStatuses := Some fmempty\<rparr>\<rparr>
       else dc)) (\<lambda>_.
     bindM (gets dcPods) (\<lambda>idxs.
     foldM (\<lambda>_ i.
       bindM getDc (\<lambda>dc.
       bindM (getPod i) (\<lambda>pod.
       bindM (Now E) (\<lambda>now.
       let hostId = mget (NodeStatuses (Status dc)) (Name pod)
       in bindM (if PodIP pod \<noteq> [] \<and> isMgmtApiRunning now pod \<and> hostId = [] then
              bindM (attempt (CallMetadataEndpointsEndpoint E pod)) (\<lambda>r.
                case r of
                  Inl e \<Rightarrow> ret hostId
                | Inr endpointsResponse \<Rightarrow>
                    ret (findHostIdForIpFromEndpointsData endpointsResponse (getRpcAddress dc pod)))
            else ret hostId) (\<lambda>hostId.
          bindM (lift (mput (NodeStatuses (Status dc)) (Name pod) hostId)) (\<lambda>statuses.
          modifyDc (\<lambda>dc. dc\<lparr>Status := (Status dc)\<lparr>NodeStatuses := statuses\<rparr>\<rparr>))))))) () idxs))"

definition getTimeStartedReplacingNodes :: "CassandraDatacenter \<Rightarrow> int option" where
  "getTimeStartedReplacingNodes dc =
     (case GetCondition dc DatacenterReplacingNodes of
        None \<Rightarrow> None
      | Some c \<Rightarrow> if cond_Status c = ConditionTrue then Some (LastTransitionTime c) else None)"

definition updateCurrentReplacePodsProgress :: "env \<Rightarrow> (world, unit) op" where
  "updateCurrentReplacePodsProgress E =
     bindM (gets (\<lambda>s. indicesByState s (dcPods s) stateStarted)) (\<lambda>startedPods.
     bindM getDc (\<lambda>dc0.
       if length (NodeReplacements (Status dc0)) > 0 then
         foldM (\<lambda>_ i.
           bindM getDc (\<lambda>dc.
           bindM (getPod i) (\<lambda>pod.
             if IndexOfString (NodeReplacements (Status dc)) (Name pod) > - 1 then
               (case getTimeStartedReplacingNodes dc of
                  None \<Rightarrow> ret ()
                | Some timeStartedReplacing \<Rightarrow>
                    bindM (Now E) (\<lambda>now.
                      if hasBeenXMinutes now 30 timeStartedReplacing \<or>
                         timeStartedReplacing \<le> CreationTimestamp pod then
                        bindM (Eventf NormalEvent ''FinishedReplaceNode''
                          (''Finished replacing pod '' @ Name pod)) (\<lambda>_.
                        modifyDc (\<lambda>dc. dc\<lparr>Status := (Status dc)\<lparr>NodeReplacements :=
                          RemoveValueFromStringArray (NodeReplacements (Status dc)) (Name pod)\<rparr>\<rparr>))
                      else ret ()))
             else ret ()))) () startedPods
       else ret ()))"

definition startReplacePodsIfReplacePodsSpecified :: "env \<Rightarrow> (world, unit) op" where
  "startReplacePodsIfReplacePodsSpecified E =
     bindM getDc (\<lambda>dc.
       if length (ReplaceNodes (Spec dc)) > 0 then
         let podNamesString = Join (ReplaceNodes (Spec dc)) '', ''
         in bindM (setCondition E (NewDatacenterCondition DatacenterReplacingNodes ConditionTrue)) (\<lambda>_.
            bindM (Eventf NormalEvent ''ReplacingNode''
              (''Replacing Cassandra nodes for pods '' @ podNamesString)) (\<lambda>_.
            modifyDc (\<lambda>dc. dc\<lparr>Status := (Status dc)\<lparr>NodeReplacements :=
                AppendValuesToStringArrayIfNotPresent (NodeReplacements (Status dc)) (ReplaceNodes (Spec dc))\<rparr>,
              Spec := (Spec dc)\<lparr>ReplaceNodes := []\<rparr>\<rparr>)))
       else ret ())"

definition UpdateStatusForUserActions :: "env \<Rightarrow> (world, unit) op" where
  "UpdateStatusForUserActions E =
     bindM (updateCurrentReplacePodsProgress E) (\<lambda>_. startReplacePodsIfReplacePodsSpecified E)"

definition UpdateStatus :: "env \<Rightarrow> (world, ReconcileResult) op" where
  "UpdateStatus E =
     bindM getDc (\<lambda>oldDc.
     orError (UpdateCassandraNodeStatus E) (\<lambda>_.
     orError (UpdateStatusForUserActions E) (\<lambda>_.
     bindM getDc (\<lambda>newDc.
     let status = Status newDc
     in bindM (modifyDc (\<lambda>dc. dc\<lparr>Status := Status oldDc\<rparr>)) (\<lambda>_.
        bindM getDc (\<lambda>dc.
        orError (if dc \<noteq> oldDc then patchDc E oldDc else ret ()) (\<lambda>_.
        if status \<noteq> Status oldDc then
          bindM getDc (\<lambda>oldDcForStatus.
          bindM (modifyDc (\<lambda>dc. dc\<lparr>Status := status\<rparr>)) (\<lambda>_.
          orError (patchDcStatus E oldDcForStatus) (\<lambda>_. ret Continue)))
        else ret Continue))))))) "

section \<open>Stuck pods\<close>

definition GetPodPVC :: "env \<Rightarrow> string \<Rightarrow> string \<Rightarrow> (world, PersistentVolumeClaim) op" where
  "GetPodPVC E podNamespace podName =
     perform (e_pvc E) (GetPVC (podNamespace, ''server-data-'' @ podName))"

definition isNodeStuckWithoutPVC :: "env \<Rightarrow> Pod \<Rightarrow> (world, bool) op" where
  "isNodeStuckWithoutPVC E pod =
     (if Phase pod = ''Pending'' then
        bindM (attempt (GetPodPVC E (Namespace pod) (Name pod))) (\<lambda>r.
          case r of
            Inl e \<Rightarrow> ret (IsNotFound e)
          | Inr _ \<Rightarrow> ret False)
      else ret False)"

definition fixMissingPVC :: "env \<Rightarrow> (world, bool) op" where
  "fixMissingPVC E =
     bindM (gets dcPods) (\<lambda>idxs.
     returning (forM idxs (\<lambda>i.
       bindM (getPod i) (\<lambda>pod.
       bindM (isNodeStuckWithoutPVC E pod) (\<lambda>stuck.
         if stuck then
           bindM (Eventf WarningEvent ''DeletingStuckPod''
             ''Pod got stuck waiting for PersistentValueClaim'') (\<lambda>_.
           bindM (perform (e_unit E) (DeletePod pod)) (\<lambda>_. ret (Some True)))
         else ret None))))
     (ret False))"

definition CheckStatefulSetControllerCaughtUp :: "env \<Rightarrow> (world, ReconcileResult) op" where
  "CheckStatefulSetControllerCaughtUp E =
     bindM (gets (\<lambda>s. hasStatefulSetControllerCaughtUp (statefulSets s) (podsAt s (dcPods s)))) (\<lambda>caughtUp.
       if caughtUp then
         orError (fixMissingPVC E) (\<lambda>fixedAny.
           if fixedAny then ret (RequeueSoon 2) else ret Continue)
       else ret Done)"

text \<open>An error of the call leaves the empty answer, and the loop goes on to the next pod.\<close>

definition getCassMetadataEndpoints :: "env \<Rightarrow> (world, EndpointState list) op" where
  "getCassMetadataEndpoints E =
     bindM (gets clusterPods) (\<lambda>idxs.
     bindM (loopM (\<lambda>metadata i.
         bindM (getPod i) (\<lambda>pod.
           if \<not> isServerReady pod then ret (Inl metadata)
           else
             bindM (attempt (CallMetadataEndpointsEndpoint E pod)) (\<lambda>r.
               case r of
                 Inl e \<Rightarrow> ret (Inl [])
               | Inr es \<Rightarrow> if length es = 0 then ret (Inl es) else ret (Inr es)))) [] idxs) (\<lambda>r.
     case r of Inl metadata \<Rightarrow> ret metadata | Inr metadata \<Rightarrow> ret metadata))"

section \<open>Restart, readiness, clearing\<close>

definition CheckRollingRestart :: "env \<Rightarrow> (world, ReconcileResult) op" where
  "CheckRollingRestart E =
     bindM getDc (\<lambda>dc.
     orError (if RollingRestartRequested (Spec dc) then
         bindM (Now E) (\<lambda>now.
         bindM (modifyDc (\<lambda>dc. dc\<lparr>Status := (Status dc)\<lparr>LastRollingRestart := now\<rparr>\<rparr>)) (\<lambda>_.
         bindM (setCondition E (NewDatacenterCondition DatacenterRollingRestart ConditionTrue)) (\<lambda>_.
         bindM (patchDcStatus E dc) (\<lambda>_.
         bindM getDc (\<lambda>base.
         bindM (modifyDc (\<lambda>dc. dc\<lparr>Spec := (Spec dc)\<lparr>RollingRestartRequested := False\<rparr>\<rparr>)) (\<lambda>_.
         patchDc E base))))))
       else ret ()) (\<lambda>_.
     bindM getDc (\<lambda>dc.
     bindM (gets dcPods) (\<lambda>idxs.
     returning (forM idxs (\<lambda>i.
       bindM (getPod i) (\<lambda>pod.
         if CreationTimestamp pod < LastRollingRestart (Status dc) then
           bindM (Eventf NormalEvent ''RestartingCassandra'' (''Restarting Cassandra for pod '' @ Name pod)) (\<lambda>_.
           bindM (attempt (CallDrainEndpoint E pod)) (\<lambda>_.
           bindM (orError (perform (e_unit E) (DeletePod pod)) (\<lambda>_. ret Done)) (\<lambda>res.
           ret (Some res))))
         else ret None)))
     (ret Continue)))))"

definition CheckConditionInitializedAndReady :: "env \<Rightarrow> (world, ReconcileResult) op" where
  "CheckConditionInitializedAndReady E =
     bindM getDc (\<lambda>base.
     bindM (setCondition E (NewDatacenterCondition DatacenterInitialized ConditionTrue)) (\<lambda>updated.
     bindM getDc (\<lambda>dc.
     bindM (if GetConditionStatus dc DatacenterStopped = ConditionFalse then
         bindM (setCondition E (NewDatacenterCondition DatacenterReady ConditionTrue)) (\<lambda>changed.
         ret (changed \<or> updated))
       else ret updated) (\<lambda>updated.
       if updated then orError (patchDcStatus E base) (\<lambda>_. ret (RequeueSoon 0))
       else ret Continue))))"

definition cleanupAfterScaling :: "env \<Rightarrow> (world, unit) op" where
  "cleanupAfterScaling E =
     bindM (gets dcPods) (\<lambda>idxs.
     bindM (loopM (\<lambda>err i.
         bindM (getPod i) (\<lambda>pod.
         bindM (attempt (CallKeyspaceCleanupEndpoint E pod (- 1) [] [])) (\<lambda>r.
           case r of Inl e \<Rightarrow> ret (Inl (Some e)) | Inr _ \<Rightarrow> ret (Inr ())))) None idxs) (\<lambda>r.
     case r of
       Inl None \<Rightarrow> ret ()
     | Inl (Some e) \<Rightarrow> fail e
     | Inr _ \<Rightarrow> ret ()))"

definition CheckCassandraNodeStatuses :: "(world, ReconcileResult) op" where
  "CheckCassandraNodeStatuses =
     bindM getDc (\<lambda>dc.
     bindM (gets dcPods) (\<lambda>idxs.
     returning (forM idxs (\<lambda>i.
       bindM (getPod i) (\<lambda>pod.
         if mget (NodeStatuses (Status dc)) (Name pod) = [] then ret (Some (RequeueSoon 2))
         else ret None)))
     (ret Continue)))"

definition CheckClearActionConditions :: "env \<Rightarrow> (world, ReconcileResult) op" where
  "CheckClearActionConditions E =
     bindM getDc (\<lambda>base.
     orError (if GetConditionStatus base DatacenterScalingUp = ConditionTrue then
         bindM (cleanupAfterScaling E) (\<lambda>_.
         setCondition E (NewDatacenterCondition DatacenterScalingUp ConditionFalse))
       else ret False) (\<lambda>updated.
     bindM getDc (\<lambda>dc.
     bindM (setConditions E
       [(DatacenterStopped, if Stopped (Spec dc) then ConditionTrue else ConditionFalse),
        (DatacenterReplacingNodes, ConditionFalse),
        (DatacenterUpdating, ConditionFalse),
        (DatacenterRollingRestart, ConditionFalse),
        (DatacenterResuming, ConditionFalse),
        (DatacenterScalingDown, ConditionFalse),
        (DatacenterValid, ConditionTrue)] updated) (\<lambda>updated.
       if updated then orError (patchDcStatus E base) (\<lambda>_. ret (RequeueSoon 0))
       else ret Continue))))"

definition CheckForInvalidState :: "(world, ReconcileResult) op" where
  "CheckForInvalidState =
     bindM getDc (\<lambda>dc.
       case GetCondition dc DatacenterValid of
         Some cond \<Rightarrow>
           if cond_Status cond = ConditionFalse then
             ret (ErrorOut (Errorf (''Datacenter '' @ Name dc @ '' is not in a valid state: '' @
               cond_Message cond)))
           else ret Continue
       | None \<Rightarrow> ret Continue)"

end
