(* ===== verification/Services.thy ===== *)
theory Services
  imports Construct Status
begin

text \<open>
  The services of a datacenter and the endpoints of its additional seeds:
  \<open>construct_service.go\<close>, \<open>reconcile_services.go\<close> and \<open>reconcile_endpoints.go\<close>.
\<close>

section \<open>Construction\<close>

definition emptyService :: Service where
  "emptyService = ObjectMeta.extend emptyMeta
     \<lparr>svc_Type = [], svc_ClusterIP = [], svc_Selector = None, svc_Ports = [],
      svc_PublishNotReady = False, svc_ExternalTrafficPolicy = []\<rparr>"

definition namedServicePort :: "string \<Rightarrow> int \<Rightarrow> int \<Rightarrow> ServicePort" where
  "namedServicePort name port targetPort =
     \<lparr>sp_Name = name, sp_Port = int32 port, sp_TargetPort = int32 targetPort, sp_NodePort = 0\<rparr>"

definition addEntries :: "string gomap \<Rightarrow> string gomap \<Rightarrow> string gomap" where
  "addEntries m extra =
     (if extra \<noteq> None \<and> mlen extra > 0 then Some (fmadd (contents m) (contents extra)) else m)"

definition addAdditionalOptions :: "Service \<Rightarrow> ServiceConfigAdditions \<Rightarrow> Service" where
  "addAdditionalOptions service serviceConfig =
     service\<lparr>Labels := addEntries (Labels service) (sca_Labels serviceConfig),
             Annotations := addEntries (Annotations service) (sca_Annotations serviceConfig)\<rparr>"

definition hashService :: "env \<Rightarrow> Service \<Rightarrow> Service" where
  "hashService E = AddHashAnnotation (\<lambda>r. e_hash E (HashService r))"

definition makeGenericHeadlessService :: "CassandraDatacenter \<Rightarrow> Service outcome" where
  "makeGenericHeadlessService dc =
     obind (AddManagedByLabel (GetDatacenterLabels dc)) (\<lambda>labels.
     Return (emptyService\<lparr>Namespace := Namespace dc, Labels := labels,
       svc_Selector := GetDatacenterLabels dc, svc_Type := ''ClusterIP'', svc_ClusterIP := ''None''\<rparr>))"

definition nativePortOf :: "CassandraDatacenter \<Rightarrow> int" where
  "nativePortOf dc = (if IsNodePortEnabled dc then GetNodePortNativePort dc else DefaultNativePort)"

definition datacenterServicePorts :: "CassandraDatacenter \<Rightarrow> ServicePort list" where
  "datacenterServicePorts dc =
     [namedServicePort ''native'' (nativePortOf dc) (nativePortOf dc),
      namedServicePort ''tls-native'' 9142 9142,
      namedServicePort ''mgmt-api'' 8080 8080,
      namedServicePort ''prometheus'' 9103 9103,
      namedServicePort ''thrift'' 9160 9160] @
     (case DseWorkloads (Spec dc) of
        None \<Rightarrow> []
      | Some w \<Rightarrow>
          (if AnalyticsEnabled w then
             [namedServicePort ''dsefs-public'' 5598 5598,
              namedServicePort ''spark-worker'' 7081 7081,
              namedServicePort ''jobserver'' 8090 8090,
              namedServicePort ''always-on-sql'' 9077 9077,
              namedServicePort ''sql-thrift'' 10000 10000,
              namedServicePort ''spark-history'' 18080 18080] else []) @
          (if GraphEnabled w then [namedServicePort ''gremlin'' 8182 8182] else []) @
          (if SearchEnabled w then [namedServicePort ''solr'' 8983 8983] else []))"

definition newServiceForCassandraDatacenter :: "env \<Rightarrow> CassandraDatacenter \<Rightarrow> Service outcome" where
  "newServiceForCassandraDatacenter E dc =
     obind (makeGenericHeadlessService dc) (\<lambda>service.
     Return (hashService E (addAdditionalOptions
       (service\<lparr>Name := GetDatacenterServiceName dc, svc_Ports := datacenterServicePorts dc\<rparr>)
       (sc_DatacenterService (AdditionalServiceConfig (Spec dc))))))"

definition buildLabelSelectorForSeedService :: "CassandraDatacenter \<Rightarrow> string gomap outcome" where
  "buildLabelSelectorForSeedService dc = mput (GetClusterLabels dc) SeedNodeLabel ''true''"

definition newSeedServiceForCassandraDatacenter :: "env \<Rightarrow> CassandraDatacenter \<Rightarrow> Service outcome" where
  "newSeedServiceForCassandraDatacenter E dc =
     obind (makeGenericHeadlessService dc) (\<lambda>service.
     obind (AddManagedByLabel (GetClusterLabels dc)) (\<lambda>labels.
     obind (buildLabelSelectorForSeedService dc) (\<lambda>selector.
     Return (hashService E (addAdditionalOptions
       (service\<lparr>Name := GetSeedServiceName dc, Labels := labels, svc_Selector := selector,
          svc_PublishNotReady := True\<rparr>)
       (sc_SeedService (AdditionalServiceConfig (Spec dc))))))))"

definition newAdditionalSeedServiceForCassandraDatacenter ::
    "env \<Rightarrow> CassandraDatacenter \<Rightarrow> Service outcome" where
  "newAdditionalSeedServiceForCassandraDatacenter E dc =
     obind (AddManagedByLabel (GetDatacenterLabels dc)) (\<lambda>labels.
     Return (hashService E (addAdditionalOptions
       (emptyService\<lparr>Name := GetAdditionalSeedsServiceName dc, Namespace := Namespace dc, Labels := labels,
          svc_Type := ''ClusterIP'', svc_ClusterIP := ''None'', svc_PublishNotReady := True\<rparr>)
       (sc_AdditionalSeedService (AdditionalServiceConfig (Spec dc))))))"

definition nodePortServicePort :: "string \<Rightarrow> int \<Rightarrow> ServicePort" where
  "nodePortServicePort name port =
     \<lparr>sp_Name = name, sp_Port = int32 port, sp_TargetPort = int32 port, sp_NodePort = int32 port\<rparr>"

text \<open>Unlike the others, this service gets no hash annotation.\<close>

definition newNodePortServiceForCassandraDatacenter :: "CassandraDatacenter \<Rightarrow> Service outcome" where
  "newNodePortServiceForCassandraDatacenter dc =
     obind (makeGenericHeadlessService dc) (\<lambda>service.
     Return (addAdditionalOptions
       (service\<lparr>Name := GetNodePortServiceName dc, svc_Type := ''NodePort'', svc_ClusterIP := [],
          svc_ExternalTrafficPolicy := ''Local'',
          svc_Ports := [nodePortServicePort ''internode'' (GetNodePortInternodePort dc),
            nodePortServicePort ''native'' (GetNodePortNativePort dc)]\<rparr>)
       (sc_NodePortService (AdditionalServiceConfig (Spec dc)))))"

definition newAllPodsServiceForCassandraDatacenter :: "env \<Rightarrow> CassandraDatacenter \<Rightarrow> Service outcome" where
  "newAllPodsServiceForCassandraDatacenter E dc =
     obind (makeGenericHeadlessService dc) (\<lambda>service.
     obind (mput (Labels service) PromMetricsLabel ''true'') (\<lambda>labels.
     Return (hashService E (addAdditionalOptions
       (service\<lparr>Name := GetAllPodsServiceName dc, Labels := labels, svc_PublishNotReady := True,
          svc_Ports := [namedServicePort ''native'' (nativePortOf dc) (nativePortOf dc),
            namedServicePort ''mgmt-api'' 8080 8080, namedServicePort ''prometheus'' 9103 9103]\<rparr>)
       (sc_AllPodsService (AdditionalServiceConfig (Spec dc)))))))"

definition resolveAddress :: "env \<Rightarrow> string \<Rightarrow> string list outcome" where
  "resolveAddress E hostname =
     obind (of_sum (e_lookupIP E hostname)) (\<lambda>ips.
     Return (map fst (filter (\<lambda>(ip, isIPv4). isIPv4) ips)))"

fun seedAddresses :: "env \<Rightarrow> string list \<Rightarrow> string list outcome" where
  "seedAddresses E [] = Return []"
| "seedAddresses E (additionalSeed # rest) =
     obind (if e_parseIP E additionalSeed then Return [additionalSeed]
       else resolveAddress E additionalSeed) (\<lambda>ips.
     obind (seedAddresses E rest) (\<lambda>more. Return (ips @ more)))"

definition newEndpointsForAdditionalSeeds :: "env \<Rightarrow> CassandraDatacenter \<Rightarrow> Endpoints outcome" where
  "newEndpointsForAdditionalSeeds E dc =
     obind (AddManagedByLabel (GetDatacenterLabels dc)) (\<lambda>labels.
     obind (seedAddresses E (AdditionalSeeds (Spec dc))) (\<lambda>ips.
     Return (AddHashAnnotation (\<lambda>r. e_hash E (HashEndpoints r))
       (ObjectMeta.extend (emptyMeta\<lparr>Name := GetAdditionalSeedsServiceName dc, Namespace := Namespace dc,
          Labels := labels\<rparr>)
        \<lparr>Subsets = [map (\<lambda>ip. \<lparr>ea_IP = ip\<rparr>) ips]\<rparr>))))"

section \<open>Reconciliation\<close>

definition setControllerReference ::
    "env \<Rightarrow> CassandraDatacenter \<Rightarrow> 'a ObjectMeta_scheme \<Rightarrow> (world, 'a ObjectMeta_scheme) op" where
  "setControllerReference E dc obj =
     bindM (lift (of_sum (e_setOwner E dc (ObjectMeta.truncate obj)))) (\<lambda>refs.
     ret (obj\<lparr>OwnerReferences := refs\<rparr>))"

text \<open>
  What both loops do with an object that exists: the metadata of the desired one is merged
  over that of the current one, whose resource version is kept.
\<close>

definition mergeMeta ::
    "'a ObjectMeta_scheme \<Rightarrow> 'a ObjectMeta_scheme \<Rightarrow> 'a ObjectMeta_scheme outcome" where
  "mergeMeta current desired =
     obind (MergeMap (Some fmempty) [Labels current, Labels desired]) (\<lambda>labels.
     obind (MergeMap (Some fmempty) [Annotations current, Annotations desired]) (\<lambda>annotations.
     Return (desired\<lparr>Labels := labels, Annotations := annotations,
       ResourceVersion := ResourceVersion current\<rparr>)))"

definition CreateHeadlessServices :: "env \<Rightarrow> (world, ReconcileResult) op" where
  "CreateHeadlessServices E =
     bindM (gets rcServices) (\<lambda>services.
     orError (foldM (\<lambda>_ service.
       bindM (setOperatorProgressStatus E ProgressUpdating) (\<lambda>_.
       bindM (perform (e_service E) (CreateService service)) (\<lambda>created.
       Eventf NormalEvent ''CreatedResource'' (''Created service '' @ Name created)))) () services) (\<lambda>_.
     ret Continue))"

definition desiredServices :: "env \<Rightarrow> CassandraDatacenter \<Rightarrow> Service list outcome" where
  "desiredServices E dc =
     obind (newServiceForCassandraDatacenter E dc) (\<lambda>cqlService.
     obind (newSeedServiceForCassandraDatacenter E dc) (\<lambda>seedService.
     obind (newAllPodsServiceForCassandraDatacenter E dc) (\<lambda>allPodsService.
     obind (if length (AdditionalSeeds (Spec dc)) > 0
       then obind (newAdditionalSeedServiceForCassandraDatacenter E dc) (\<lambda>s. Return [s]) else Return []) (\<lambda>additional.
     obind (if IsNodePortEnabled dc
       then obind (newNodePortServiceForCassandraDatacenter dc) (\<lambda>s. Return [s]) else Return []) (\<lambda>nodePort.
     Return ([cqlService, seedService, allPodsService] @ additional @ nodePort))))))"

text \<open>One turn of the loop: it answers the services that have to be created.\<close>

definition checkService :: "env \<Rightarrow> Service list \<Rightarrow> Service \<Rightarrow> (world, Service list) op" where
  "checkService E createNeeded desired =
     bindM getDc (\<lambda>dc.
     bindM (setControllerReference E dc desired) (\<lambda>desiredSvc.
     bindM (attempt (perform (e_service E) (GetService (namespacedNameOf desiredSvc)))) (\<lambda>r.
       case r of
         Inl e \<Rightarrow> if IsNotFound e then ret (createNeeded @ [desiredSvc]) else fail e
       | Inr currentService \<Rightarrow>
           if \<not> ResourcesHaveSameHash currentService desiredSvc then
             bindM (lift (mergeMeta currentService desiredSvc)) (\<lambda>merged.
             bindM (perform (e_service E)
               (UpdateService (merged\<lparr>svc_ClusterIP := svc_ClusterIP currentService\<rparr>))) (\<lambda>_.
             ret createNeeded))
           else ret createNeeded)))"

definition CheckHeadlessServices :: "env \<Rightarrow> (world, ReconcileResult) op" where
  "CheckHeadlessServices E =
     bindM getDc (\<lambda>dc.
     bindM (lift (desiredServices E dc)) (\<lambda>services.
     orError (foldM (checkService E) [] services) (\<lambda>createNeeded.
       if length createNeeded > 0 then
         bindM (modify (\<lambda>s. s\<lparr>rcServices := createNeeded\<rparr>)) (\<lambda>_. CreateHeadlessServices E)
       else ret Continue)))"

definition CreateEndpointsForAdditionalSeedService :: "env \<Rightarrow> (world, ReconcileResult) op" where
  "CreateEndpointsForAdditionalSeedService E =
     bindM (gets rcEndpoints) (\<lambda>endpoints.
       case endpoints of
         None \<Rightarrow> panic
       | Some endpoints \<Rightarrow>
           orError (setOperatorProgressStatus E ProgressUpdating) (\<lambda>_.
           orError (perform (e_endpoints E) (CreateEndpoints endpoints)) (\<lambda>created.
           bindM (Eventf NormalEvent ''CreatedResource'' (''Created endpoints '' @ Name created)) (\<lambda>_.
           ret Continue))))"

definition CheckAdditionalSeedEndpoints :: "env \<Rightarrow> (world, ReconcileResult) op" where
  "CheckAdditionalSeedEndpoints E =
     bindM getDc (\<lambda>dc.
       if length (AdditionalSeeds (Spec dc)) = 0 then ret Continue
       else
         orError (lift (newEndpointsForAdditionalSeeds E dc)) (\<lambda>desired.
         orError (setControllerReference E dc desired) (\<lambda>desired.
         bindM (attempt (perform (e_endpoints E) (GetEndpoints (namespacedNameOf desired)))) (\<lambda>r.
           case r of
             Inl e \<Rightarrow>
               if IsNotFound e then
                 bindM (modify (\<lambda>s. s\<lparr>rcEndpoints := Some desired\<rparr>)) (\<lambda>_.
                 CreateEndpointsForAdditionalSeedService E)
               else ret (ErrorOut e)
           | Inr current \<Rightarrow>
               if \<not> ResourcesHaveSameHash current desired then
                 bindM (lift (mergeMeta current desired)) (\<lambda>merged.
                 orError (perform (e_endpoints E) (UpdateEndpoints merged)) (\<lambda>_. ret Continue))
               else ret Continue))))"

end
