(* ===== verification/Crypto.thy ===== *)
theory Crypto
  imports Cluster
begin

text \<open>
  The certificate authority and the key stores (\<open>pkg/utils/crypto.go\<close>): a new key with its
  validity, a self-signed authority, and a Java key store that holds a certificate issued by that
  authority. The state of these computations is the count of draws and clock readings; the
  cryptographic libraries are the environment's.
\<close>

definition draw :: "(nat \<Rightarrow> error + 'a) \<Rightarrow> (nat, 'a) op" where
  "draw f = (\<lambda>n. (of_sum (f n), Suc n))"

definition clock :: "env \<Rightarrow> (nat, int) op" where
  "clock E = (\<lambda>n. (Return (e_now E n), Suc n))"

text \<open>Serial number, start of validity, key, its PEM text, end of validity.\<close>

definition setupKey :: "env \<Rightarrow> (nat, int \<times> int \<times> PrivateKey \<times> string \<times> int) op" where
  "setupKey E =
     bindM (draw (\<lambda>n. c_randInt (e_crypto E) n (2 ^ 128))) (\<lambda>serialNumber.
     bindM (clock E) (\<lambda>notBefore.
     bindM (draw (\<lambda>n. c_GenerateKey (e_crypto E) n 4096)) (\<lambda>priv.
     let notAfter = notBefore + 365 * 24 * (60 * Minute)
     in bindM (lift (of_sum (c_MarshalPKCS8 (e_crypto E) priv))) (\<lambda>privBytes.
        bindM (lift (of_sum (c_pemEncode (e_crypto E) ''PRIVATE KEY'' privBytes))) (\<lambda>privPem.
        ret (serialNumber, notBefore, priv, privPem, notAfter))))))"

definition organization :: string where
  "organization = ''Cassandra Kubernetes Operator By Datastax''"

text \<open>The key and the certificate of a new authority, as PEM texts.\<close>

definition caTemplate :: "int \<Rightarrow> int \<Rightarrow> int \<Rightarrow> string \<Rightarrow> string \<Rightarrow> CertTemplate" where
  "caTemplate serialNumber notBefore notAfter leafdomain namespace =
     \<lparr>t_SerialNumber = serialNumber,
      t_CommonName = leafdomain @ ''.'' @ namespace @ ''.svc'',
      t_Organization = [organization],
      t_NotBefore = notBefore, t_NotAfter = notAfter, t_IsCA = True,
      t_KeyUsage = {KeyUsageKeyEncipherment, KeyUsageDigitalSignature, KeyUsageCertSign},
      t_ExtKeyUsage = [ExtKeyUsageServerAuth], t_BasicConstraintsValid = True,
      t_DNSNames = [''cassandradatacenter-webhook-service.'' @ namespace @ ''.svc'']\<rparr>"

definition GetNewCAandKey :: "env \<Rightarrow> string \<Rightarrow> string \<Rightarrow> (nat, string \<times> string) op" where
  "GetNewCAandKey E leafdomain namespace =
     bindM (setupKey E) (\<lambda>(serialNumber, notBefore, priv, privPem, notAfter).
     let template = caTemplate serialNumber notBefore notAfter leafdomain namespace
     in bindM (draw (\<lambda>n. c_CreateCertificate (e_crypto E) n template (SelfSigned template) priv priv)) (\<lambda>derBytes.
        bindM (lift (of_sum (c_pemEncode (e_crypto E) ''CERTIFICATE'' derBytes))) (\<lambda>cert.
        ret (privPem, cert))))"

text \<open>
  The bytes of the authority's certificate, the certificate, its key, and an error. The bytes of a
  block that \<open>pem.Decode\<close> does not find are read through a nil pointer.
\<close>

definition prepare_ca ::
    "env \<Rightarrow> Secret \<Rightarrow> (string \<times> Certificate option \<times> PrivateKey option \<times> error option) outcome" where
  "prepare_ca E ca =
     (case x_pemBlocks (e_x509 E) (mget (Data ca) ''cert'') of
        [] \<Rightarrow> Panic
      | (_, ca_cert_bytes) # _ \<Rightarrow>
     (case x_pemBlocks (e_x509 E) (mget (Data ca) ''key'') of
        [] \<Rightarrow> Panic
      | (_, keyBytes) # _ \<Rightarrow>
     (case c_ParsePKCS8 (e_crypto E) keyBytes of
        Inl e \<Rightarrow> Return (ca_cert_bytes, None, None, Some e)
      | Inr ca_key \<Rightarrow>
          (case c_ParseCertificate (e_crypto E) ca_cert_bytes of
             Inl e \<Rightarrow> Return (ca_cert_bytes, None, ca_key, Some e)
           | Inr ca_certificate \<Rightarrow> Return (ca_cert_bytes, Some ca_certificate, ca_key, None)))))"

definition rsa2pkcs8 :: "env \<Rightarrow> PrivateKey \<Rightarrow> string outcome" where
  "rsa2pkcs8 E key =
     of_sum (c_asn1Marshal (e_crypto E) (0, [[1, 2, 840, 113549, 1, 1, 1]], c_MarshalPKCS1 (e_crypto E) key))"

text \<open>\<open>x509.CreateCertificate\<close> reads the parent and the signing key through their pointers.\<close>

definition createCertificate ::
    "env \<Rightarrow> CertTemplate \<Rightarrow> Certificate option \<Rightarrow> PrivateKey \<Rightarrow> PrivateKey option \<Rightarrow> (nat, string) op" where
  "createCertificate E template parent pub signer =
     (case (parent, signer) of
        (Some p, Some k) \<Rightarrow> draw (\<lambda>n. c_CreateCertificate (e_crypto E) n template (IssuedBy p) pub k)
      | _ \<Rightarrow> panic)"

definition leafName :: "Secret \<Rightarrow> string \<Rightarrow> string" where
  "leafName ca podname = podname @ ''.'' @ Namespace ca @ ''.cassdc''"

definition leafTemplate :: "int \<Rightarrow> int \<Rightarrow> int \<Rightarrow> Secret \<Rightarrow> string \<Rightarrow> CertTemplate" where
  "leafTemplate serialNumber notBefore notAfter ca podname =
     \<lparr>t_SerialNumber = serialNumber,
      t_CommonName = leafName ca podname,
      t_Organization = [organization],
      t_NotBefore = notBefore, t_NotAfter = notAfter, t_IsCA = False,
      t_KeyUsage = {KeyUsageKeyEncipherment, KeyUsageDigitalSignature},
      t_ExtKeyUsage = [ExtKeyUsageServerAuth], t_BasicConstraintsValid = True,
      t_DNSNames = [leafName ca podname]\<rparr>"

definition keyStoreOf ::
    "string \<Rightarrow> int \<Rightarrow> string \<Rightarrow> string \<Rightarrow> string \<Rightarrow> int \<Rightarrow> KeyStoreEntry gomap" where
  "keyStoreOf alias t1 key cert ca t2 =
     mapOf [(alias, PrivateKeyEntry t1 key [(''X509'', cert), (''X509'', ca)]),
            (''ca'', TrustedCertificateEntry t2 (''X509'', ca))]"

text \<open>
  The errors of \<open>prepare_ca\<close> and of \<open>rsa2pkcs8\<close> are overwritten by those of the next calls; the
  latter then leaves the key of the entry empty.
\<close>

definition GenerateJKS :: "env \<Rightarrow> Secret \<Rightarrow> string \<Rightarrow> string \<Rightarrow> (nat, string) op" where
  "GenerateJKS E ca podname dcname =
     bindM (setupKey E) (\<lambda>(serialNumber, notBefore, priv, _, notAfter).
     let newCert = leafTemplate serialNumber notBefore notAfter ca podname
     in bindM (lift (prepare_ca E ca)) (\<lambda>(ca_cert_bytes, ca_certificate, ca_key, _).
        bindM (createCertificate E newCert ca_certificate priv ca_key) (\<lambda>derBytes.
        bindM (attempt (lift (rsa2pkcs8 E priv))) (\<lambda>r.
        let asn1_bytes = (case r of Inl _ \<Rightarrow> [] | Inr b \<Rightarrow> b)
        in bindM (clock E) (\<lambda>t1.
           bindM (clock E) (\<lambda>t2.
           draw (\<lambda>n. c_keystoreEncode (e_crypto E) n
             (keyStoreOf (leafName ca podname) t1 asn1_bytes derBytes ca_cert_bytes t2) dcname)))))))"

section \<open>The key store trusts the authority it was made from\<close>

lemma draw_run [op_simps]: "draw f n = (of_sum (f n), Suc n)"
  and clock_run [op_simps]: "clock E n = (Return (e_now E n), Suc n)"
  by (simp_all add: draw_def clock_def)

lemma draw_eq_iff: "draw f n = (Return a, k) \<longleftrightarrow> f n = Inr a \<and> k = Suc n"
  by (auto simp: draw_def of_sum_def split: sum.splits)

lemma lift_eq_iff: "lift r s = (Return a, t) \<longleftrightarrow> r = Return a \<and> t = s"
  by (auto simp: lift_def)

lemma of_sum_eq_Return_iff: "of_sum x = Return a \<longleftrightarrow> x = Inr a"
  by (simp add: of_sum_def split: sum.split)

lemmas drawn_iff = bindM_eq_Return_iff draw_eq_iff lift_eq_iff of_sum_eq_Return_iff

lemma clock_eq_iff: "clock E n = (Return a, k) \<longleftrightarrow> a = e_now E n \<and> k = Suc n"
  by (auto simp: clock_def)

lemma ret_nat_iff: "ret a n = (Return b, k) \<longleftrightarrow> b = a \<and> k = n" for n k :: nat
  by (auto simp: ret_def)

lemma setupKey_Return:
  assumes "setupKey E n = (Return (serial, notBefore, priv, privPem, notAfter), k)"
  obtains b where "c_MarshalPKCS8 (e_crypto E) priv = Inr b"
    "c_pemEncode (e_crypto E) ''PRIVATE KEY'' b = Inr privPem" "notAfter = notBefore + 365 * 24 * (60 * Minute)"
  using assms by (auto simp: setupKey_def Let_def drawn_iff clock_eq_iff ret_nat_iff)

text \<open>
  What the PEM and PKCS8 encodings are documented to do, for the two types of block that the code
  writes: decoding gives back what was encoded.
\<close>

definition decodes :: "env \<Rightarrow> bool" where
  "decodes E \<longleftrightarrow>
     (\<forall>t b p. t \<in> {''PRIVATE KEY'', ''CERTIFICATE''} \<longrightarrow> c_pemEncode (e_crypto E) t b = Inr p \<longrightarrow> x_pemBlocks (e_x509 E) p = [(t, b)]) \<and>
     (\<forall>k b. c_MarshalPKCS8 (e_crypto E) k = Inr b \<longrightarrow> c_ParsePKCS8 (e_crypto E) b = Inr (Some k))"

text \<open>
  The key and certificate of a new authority are read back from a secret that holds them: the
  bytes are those of a certificate that the key has signed for itself.
\<close>

lemma prepare_new_ca:
  assumes "decodes E" "GetNewCAandKey E domain ns n = (Return (keypem, certpem), k)"
    "mget (Data ca) ''key'' = keypem" "mget (Data ca) ''cert'' = certpem"
    "prepare_ca E ca = Return (bytes, cert, key, err)"
  obtains m template priv where
    "c_CreateCertificate (e_crypto E) m template (SelfSigned template) priv priv = Inr bytes"
    "t_IsCA template" "key = Some priv" "cert \<noteq> None \<longrightarrow> (\<exists>c. cert = Some c \<and> c_ParseCertificate (e_crypto E) bytes = Inr c)"
proof -
  obtain serial notBefore priv notAfter m der where made: "setupKey E n = (Return (serial, notBefore, priv, keypem, notAfter), m)"
    and der: "c_CreateCertificate (e_crypto E) m (caTemplate serial notBefore notAfter domain ns)
        (SelfSigned (caTemplate serial notBefore notAfter domain ns)) priv priv = Inr der"
      "c_pemEncode (e_crypto E) ''CERTIFICATE'' der = Inr certpem"
    using assms(2) by (auto simp: GetNewCAandKey_def Let_def drawn_iff ret_nat_iff split: prod.splits)
  from made obtain b where b: "c_MarshalPKCS8 (e_crypto E) priv = Inr b"
    "c_pemEncode (e_crypto E) ''PRIVATE KEY'' b = Inr keypem" by (rule setupKey_Return)
  have "x_pemBlocks (e_x509 E) keypem = [(''PRIVATE KEY'', b)]" "x_pemBlocks (e_x509 E) certpem = [(''CERTIFICATE'', der)]"
    "c_ParsePKCS8 (e_crypto E) b = Inr (Some priv)"
    using assms(1) b der(2) unfolding decodes_def by blast+
  then have "bytes = der \<and> key = Some priv \<and> (cert \<noteq> None \<longrightarrow> (\<exists>c. cert = Some c \<and> c_ParseCertificate (e_crypto E) bytes = Inr c))"
    using assms(3-5) by (auto simp: prepare_ca_def split: sum.splits)
  with der(1) show thesis by (intro that [of m "caTemplate serial notBefore notAfter domain ns" priv]) (auto simp: caTemplate_def)
qed

text \<open>
  What a returned key store holds: the authority as trusted certificate, and under the name of the
  pod a certificate for that name issued by the authority, followed by the authority.
\<close>

lemma GenerateJKS_Return:
  assumes "GenerateJKS E ca podname dcname n = (Return blob, k)"
  obtains bytes cert caKey err key leaf m priv der m' t1 t2 where
    "prepare_ca E ca = Return (bytes, Some cert, Some caKey, err)"
    "c_CreateCertificate (e_crypto E) m leaf (IssuedBy cert) priv caKey = Inr der"
    "t_CommonName leaf = leafName ca podname" "\<not> t_IsCA leaf"
    "t_NotAfter leaf = t_NotBefore leaf + 365 * 24 * (60 * Minute)"
    "c_keystoreEncode (e_crypto E) m' (keyStoreOf (leafName ca podname) t1 key der bytes t2) dcname = Inr blob"
proof -
  obtain serial notBefore priv pem notAfter k1 where made: "setupKey E n = (Return (serial, notBefore, priv, pem, notAfter), k1)"
    and rest: "bindM (lift (prepare_ca E ca)) (\<lambda>(ca_cert_bytes, ca_certificate, ca_key, _).
        bindM (createCertificate E (leafTemplate serial notBefore notAfter ca podname) ca_certificate priv ca_key) (\<lambda>derBytes.
        bindM (attempt (lift (rsa2pkcs8 E priv))) (\<lambda>r.
        let asn1_bytes = (case r of Inl _ \<Rightarrow> [] | Inr b \<Rightarrow> b)
        in bindM (clock E) (\<lambda>t1.
           bindM (clock E) (\<lambda>t2.
           draw (\<lambda>n. c_keystoreEncode (e_crypto E) n
             (keyStoreOf (leafName ca podname) t1 asn1_bytes derBytes ca_cert_bytes t2) dcname)))))) k1 = (Return blob, k)"
    using assms unfolding GenerateJKS_def Let_def by (auto simp: bindM_eq_Return_iff split: prod.splits)
  from rest obtain bytes cert caKey err der k2 t1 t2 key m' where
    "prepare_ca E ca = Return (bytes, cert, caKey, err)"
    and create: "createCertificate E (leafTemplate serial notBefore notAfter ca podname) cert priv caKey k1 = (Return der, k2)"
    and enc: "c_keystoreEncode (e_crypto E) m' (keyStoreOf (leafName ca podname) t1 key der bytes t2) dcname = Inr blob"
    by (auto simp: Let_def drawn_iff clock_eq_iff split: prod.splits)
  moreover from create obtain c ck m where "cert = Some c" "caKey = Some ck"
    "c_CreateCertificate (e_crypto E) m (leafTemplate serial notBefore notAfter ca podname) (IssuedBy c) priv ck = Inr der"
    by (auto simp: createCertificate_def draw_eq_iff panic_def split: option.splits)
  moreover have "notAfter = notBefore + 365 * 24 * (60 * Minute)" using made by (rule setupKey_Return)
  ultimately show thesis by (intro that) (auto simp: leafTemplate_def)
qed

lemma fmlookup_keyStoreOf:
  assumes "alias \<noteq> ''ca''"
  shows "mfind (keyStoreOf alias t1 key der ca t2) alias = Some (PrivateKeyEntry t1 key [(''X509'', der), (''X509'', ca)])"
    "mfind (keyStoreOf alias t1 key der ca t2) ''ca'' = Some (TrustedCertificateEntry t2 (''X509'', ca))"
  using assms by (simp_all add: keyStoreOf_def mapOf_def)

text \<open>An authority that cannot be read ends in a panic, because its error is dropped.\<close>

lemma GenerateJKS_unreadable_ca:
  assumes "setupKey E n = (Return key, k)" "prepare_ca E ca = Return (bytes, cert, caKey, Some e)"
  shows "GenerateJKS E ca podname dcname n = (Panic, k)"
proof -
  have "cert = None" using assms(2) by (auto simp: prepare_ca_def split: list.splits sum.splits)
  with assms show ?thesis
    by (auto simp: GenerateJKS_def createCertificate_def rc_eval Let_def split: prod.splits option.splits)
qed

end
