(* ===== verification/Secrets.thy ===== *)
theory Secrets
  imports Services Crypto
begin

text \<open>
  The secrets the operator reads and creates: \<open>secrets.go\<close> (superuser, users, internode
  credentials), \<open>reconcile_configsecret.go\<close>, and the two steps of \<open>reconcile_racks.go\<close> that create
  them. A byte is a \<open>char\<close>.
\<close>

section \<open>Base64 and UTF-8\<close>

definition base64UrlAlphabet :: string where
  "base64UrlAlphabet = ''ABCDEFGHIJKLMNOPQRSTUVWXYZabcdefghijklmnopqrstuvwxyz0123456789-_''"

definition sextet :: "nat \<Rightarrow> char" where
  "sextet v = base64UrlAlphabet ! (v mod 64)"

abbreviation byte :: "char \<Rightarrow> nat" where
  "byte c \<equiv> of_char c"

text \<open>\<open>base64.RawURLEncoding.EncodeToString\<close>: groups of three bytes, no padding.\<close>

fun EncodeToString :: "string \<Rightarrow> string" where
  "EncodeToString [] = []"
| "EncodeToString [a] = [sextet (byte a div 4), sextet (byte a * 16)]"
| "EncodeToString [a, b] =
     (let v = byte a * 256 + byte b in [sextet (v div 1024), sextet (v div 16), sextet (v * 4)])"
| "EncodeToString (a # b # c # rest) =
     (let v = byte a * 65536 + byte b * 256 + byte c
      in [sextet (v div 262144), sextet (v div 4096), sextet (v div 64), sextet v] @ EncodeToString rest)"

definition continuation :: "nat \<Rightarrow> nat \<Rightarrow> char \<Rightarrow> bool" where
  "continuation lo hi c = (lo \<le> byte c \<and> byte c \<le> hi)"

abbreviation anyContinuation :: "char \<Rightarrow> bool" where
  "anyContinuation \<equiv> continuation 128 191"

text \<open>
  \<open>utf8.Valid\<close>, by the table of accepted first and second bytes: no overlong forms, no
  surrogates, nothing above U+10FFFF.
\<close>

fun utf8_Valid :: "string \<Rightarrow> bool" where
  "utf8_Valid [] = True"
| "utf8_Valid (a # rest) =
     (let x = byte a in
      if x < 128 then utf8_Valid rest
      else if x < 194 then False
      else if x \<le> 223 then
        (case rest of b # r \<Rightarrow> anyContinuation b \<and> utf8_Valid r | _ \<Rightarrow> False)
      else if x \<le> 239 then
        (case rest of
           b # c # r \<Rightarrow> continuation (if x = 224 then 160 else 128) (if x = 237 then 159 else 191) b
             \<and> anyContinuation c \<and> utf8_Valid r
         | _ \<Rightarrow> False)
      else if x \<le> 244 then
        (case rest of
           b # c # d # r \<Rightarrow> continuation (if x = 240 then 144 else 128) (if x = 244 then 143 else 191) b
             \<and> anyContinuation c \<and> anyContinuation d \<and> utf8_Valid r
         | _ \<Rightarrow> False)
      else False)"

section \<open>The superuser\<close>

definition wrapping :: "string \<Rightarrow> (world, 'a) op \<Rightarrow> (world, 'a) op" where
  "wrapping msg m =
     bindM (attempt m) (\<lambda>r. case r of Inl e \<Rightarrow> fail (Wrapf msg e) | Inr a \<Rightarrow> ret a)"

text \<open>The buffer has 40 bytes, whatever the source writes into it.\<close>

definition generateUtf8Password :: "env \<Rightarrow> (world, string) op" where
  "generateUtf8Password E =
     wrapping ''Failed to generate password''
       (bindM (Random (e_rand E)) (\<lambda>bytes.
        ret (EncodeToString (take 40 (bytes @ replicate 40 (CHR 0x00))))))"

definition newSecret :: "NamespacedName \<Rightarrow> string gomap \<Rightarrow> Secret" where
  "newSecret n d = ObjectMeta.extend (emptyMeta\<lparr>Name := snd n, Namespace := fst n\<rparr>)
     \<lparr>secret_Type = [], Data = d\<rparr>"

definition buildDefaultSuperuserSecret :: "env \<Rightarrow> CassandraDatacenter \<Rightarrow> (world, Secret option) op" where
  "buildDefaultSuperuserSecret E dc =
     (if ShouldGenerateSuperuserSecret dc then
        bindM (wrapping ''Failed to generate superuser password'' (generateUtf8Password E)) (\<lambda>password.
        ret (Some (newSecret (GetSuperuserSecretNamespacedName dc)
          (mapOf [(''username'', ClusterName (Spec dc) @ ''-superuser''), (''password'', password)]))))
      else ret None)"

definition retrieveSecret :: "env \<Rightarrow> NamespacedName \<Rightarrow> (world, Secret) op" where
  "retrieveSecret E n = perform (e_secret E) (GetSecret n)"

definition retrieveSuperuserSecret :: "env \<Rightarrow> (world, Secret) op" where
  "retrieveSuperuserSecret E =
     bindM getDc (\<lambda>dc. retrieveSecret E (GetSuperuserSecretNamespacedName dc))"

text \<open>
  The secret that is created is a variable of the inner block: after a creation the function
  returns the outer one, which is nil.
\<close>

definition retrieveSuperuserSecretOrCreateDefault :: "env \<Rightarrow> (world, Secret option) op" where
  "retrieveSuperuserSecretOrCreateDefault E =
     bindM getDc (\<lambda>dc.
     bindM (attempt (retrieveSuperuserSecret E)) (\<lambda>r.
       case r of
         Inr secret \<Rightarrow> ret (Some secret)
       | Inl retrieveErr \<Rightarrow>
           if IsNotFound retrieveErr then
             bindM (attempt (buildDefaultSuperuserSecret E dc)) (\<lambda>built.
               case built of
                 Inr None \<Rightarrow> fail retrieveErr
               | Inr (Some secret) \<Rightarrow>
                   bindM (wrapping ''Failed to create default superuser secret''
                     (perform (e_secret E) (CreateSecret secret))) (\<lambda>_. ret None)
               | Inl e \<Rightarrow> fail (Wrapf ''Failed to create default superuser secret'' e))
           else fail retrieveErr))"

definition CheckSuperuserSecretCreation :: "env \<Rightarrow> (world, ReconcileResult) op" where
  "CheckSuperuserSecretCreation E =
     orError (retrieveSuperuserSecretOrCreateDefault E) (\<lambda>_. ret Continue)"

section \<open>Internode credentials\<close>

definition keystoreCASecret :: "CassandraDatacenter \<Rightarrow> NamespacedName" where
  "keystoreCASecret dc = (Namespace dc, Name dc @ ''-ca-keystore'')"

definition createInternodeCACredential :: "env \<Rightarrow> (world, Secret) op" where
  "createInternodeCACredential E =
     bindM getDc (\<lambda>dc.
     bindM (ticking (GetNewCAandKey E (Name dc @ ''-ca-keystore'') (Namespace dc))) (\<lambda>(keypem, certpem).
     ret (newSecret (keystoreCASecret dc) (mapOf [(''key'', keypem), (''cert'', certpem)]))))"

definition createCABootstrappingSecret :: "env \<Rightarrow> string \<Rightarrow> (world, unit) op" where
  "createCABootstrappingSecret E jksBlob =
     bindM getDc (\<lambda>dc.
     bindM (attempt (retrieveSecret E (Namespace dc, Name dc @ ''-keystore''))) (\<lambda>r.
       case r of
         Inr _ \<Rightarrow> ret ()
       | Inl _ \<Rightarrow>
           bindM (perform (e_secret E) (CreateSecret
             (newSecret (Namespace dc, Name dc @ ''-keystore'') (mapOf [(''node-keystore.jks'', jksBlob)])))) (\<lambda>_.
           ret ())))"

definition retrieveInternodeCredentialSecretOrCreateDefault :: "env \<Rightarrow> (world, Secret option) op" where
  "retrieveInternodeCredentialSecretOrCreateDefault E =
     bindM getDc (\<lambda>dc.
     bindM (attempt (retrieveSecret E (keystoreCASecret dc))) (\<lambda>r.
       case r of
         Inr secret \<Rightarrow> ret (Some secret)
       | Inl retrieveErr \<Rightarrow>
           if IsNotFound retrieveErr then
             wrapping ''Failed to create default superuser secret''
               (bindM (createInternodeCACredential E) (\<lambda>secret.
                bindM (perform (e_secret E) (CreateSecret secret)) (\<lambda>secret.
                bindM (ticking (GenerateJKS E secret (Name dc) (Name dc))) (\<lambda>jksBlob.
                bindM (createCABootstrappingSecret E jksBlob) (\<lambda>_. ret None)))))
           else fail retrieveErr))"

definition CheckInternodeCredentialCreation :: "env \<Rightarrow> (world, ReconcileResult) op" where
  "CheckInternodeCredentialCreation E =
     orError (retrieveInternodeCredentialSecretOrCreateDefault E) (\<lambda>_. ret Continue)"

section \<open>Validation\<close>

definition validateCassandraUserSecretContent :: "Secret option \<Rightarrow> error list" where
  "validateCassandraUserSecretContent secret =
     (case secret of
        None \<Rightarrow> [Errorf ''Validation failed due to a missing secret'']
      | Some secret \<Rightarrow>
          let errorPrefix = ''Validation failed for user secret: '' @ nameString (namespacedNameOf secret)
          in concat (map (\<lambda>key. case mfind (Data secret) key of
               None \<Rightarrow> [Errorf (errorPrefix @ '' Missing key: '' @ key)]
             | Some v \<Rightarrow> if \<not> utf8_Valid v
                 then [Errorf (errorPrefix @ '' Key did not have valid utf8 value: '' @ key)] else [])
             [''username'', ''password'']))"

definition validateSuperuserSecret :: "env \<Rightarrow> (world, error list) op" where
  "validateSuperuserSecret E =
     bindM getDc (\<lambda>dc.
     bindM (attempt (retrieveSuperuserSecret E)) (\<lambda>r.
       case r of
         Inl e \<Rightarrow>
           if IsNotFound e then
             (if ShouldGenerateSuperuserSecret dc then ret []
              else ret [Errorf (''Could not load superuser secret for CassandraCluster: '' @
                nameString (GetSuperuserSecretNamespacedName dc))])
           else ret [Wrapf ''Validation of superuser secret failed due to an error'' e]
       | Inr secret \<Rightarrow> ret (validateCassandraUserSecretContent (Some secret))))"

definition validateCassandraUserSecrets :: "env \<Rightarrow> (world, error list) op" where
  "validateCassandraUserSecrets E =
     bindM getDc (\<lambda>dc.
     foldM (\<lambda>errs user.
       bindM (attempt (retrieveSecret E (Namespace dc, SecretName user))) (\<lambda>r.
         case r of
           Inl e \<Rightarrow> ret (errs @ [Wrapf ''Validation of user secret failed due to an error'' e])
         | Inr secret \<Rightarrow> ret (errs @ validateCassandraUserSecretContent (Some secret)))) []
       (Users (Spec dc)))"

section \<open>The configuration secret\<close>

definition DatacenterAnnotation :: string where "DatacenterAnnotation = DatacenterLabel"

text \<open>The caller only logs an error of the patch, so the secret is the answer.\<close>

definition checkDatacenterNameAnnotation :: "env \<Rightarrow> Secret \<Rightarrow> (world, Secret) op" where
  "checkDatacenterNameAnnotation E secret =
     bindM getDc (\<lambda>dc.
       if mfind (Annotations secret) DatacenterAnnotation = Some (Name dc) then ret secret
       else
         bindM (lift (mput (Annotations secret) DatacenterAnnotation (Name dc))) (\<lambda>annotations.
         let annotated = secret\<lparr>Annotations := annotations\<rparr>
         in bindM (attempt (perform (e_secret E) (PatchSecret secret annotated))) (\<lambda>r.
            case r of Inl _ \<Rightarrow> ret annotated | Inr patched \<Rightarrow> ret patched)))"

definition updateConfigHashAnnotation :: "env \<Rightarrow> Secret \<Rightarrow> (world, unit) op" where
  "updateConfigHashAnnotation E secret =
     bindM getDc (\<lambda>base.
     bindM (lift (mput (Annotations base) ConfigHashAnnotation (e_hash E (HashSecret secret)))) (\<lambda>annotations.
     bindM (modifyDc (\<lambda>dc. dc\<lparr>Annotations := annotations\<rparr>)) (\<lambda>_.
     patchDc E base)))"

definition getConfigFromConfigSecret :: "env \<Rightarrow> CassandraDatacenter \<Rightarrow> Secret \<Rightarrow> string outcome" where
  "getConfigFromConfigSecret E dc secret =
     (case mfind (Data secret) ''config'' of
        Some b \<Rightarrow> GetConfigAsJSON E dc (Some b)
      | None \<Rightarrow> Fail (Errorf (''invalid config secret '' @ ConfigSecret (Spec dc) @
          '': config property is required'')))"

definition getDatacenterConfigSecret :: "env \<Rightarrow> string \<Rightarrow> (world, Secret \<times> bool) op" where
  "getDatacenterConfigSecret E name =
     bindM getDc (\<lambda>dc.
     bindM (attempt (retrieveSecret E (Namespace dc, name))) (\<lambda>r.
       case r of
         Inr secret \<Rightarrow> ret (secret, True)
       | Inl e \<Rightarrow>
           if IsNotFound e then
             bindM (setControllerReference E dc (newSecret (Namespace dc, name) (Some fmempty))) (\<lambda>secret.
             ret (secret, False))
           else fail e))"

definition CheckConfigSecret :: "env \<Rightarrow> (world, ReconcileResult) op" where
  "CheckConfigSecret E =
     bindM getDc (\<lambda>dc.
       if length (ConfigSecret (Spec dc)) = 0 then ret Continue
       else
         orError (retrieveSecret E (Namespace dc, ConfigSecret (Spec dc))) (\<lambda>secret.
         bindM (checkDatacenterNameAnnotation E secret) (\<lambda>secret.
         orError (lift (getConfigFromConfigSecret E dc secret)) (\<lambda>config.
         orError (getDatacenterConfigSecret E (getDatacenterConfigSecretName dc)) (\<lambda>(dcConfigSecret, exists).
           if mfind (Data dcConfigSecret) ''config'' = Some config then ret Continue
           else
             orError (updateConfigHashAnnotation E dcConfigSecret) (\<lambda>_.
             bindM (lift (mput (Data dcConfigSecret) ''config'' config)) (\<lambda>data.
             orError (if exists
               then perform (e_secret E) (UpdateSecret (dcConfigSecret\<lparr>Data := data\<rparr>))
               else ret (dcConfigSecret\<lparr>Data := data\<rparr>)) (\<lambda>dcConfigSecret.
             orError (perform (e_secret E) (CreateSecret dcConfigSecret)) (\<lambda>_.
             ret Continue)))))))))"

end
