(* ===== verification/Watch.thy ===== *)
theory Watch
  imports Secrets
begin

text \<open>
  Package \<open>pkg/dynamicwatch\<close>: which datacenters watch a secret is recorded in an annotation of the
  secret, as a JSON array of names, and in a label. A Go slice of names that may be nil is an
  option.
\<close>

definition WatchedByAnnotation :: string where
  "WatchedByAnnotation = ''cassandra.datastax.com/watched-by''"
definition WatchedLabel :: string where "WatchedLabel = ''cassandra.datastax.com/watched''"

section \<open>Names\<close>

definition namespacedNameToString :: "NamespacedName \<Rightarrow> string" where
  "namespacedNameToString n = fst n @ ''/'' @ snd n"

definition namespacedNameString :: "'a ObjectMeta_scheme \<Rightarrow> string" where
  "namespacedNameString meta = namespacedNameToString (namespacedNameOf meta)"

definition namespacedNameFromString :: "string \<Rightarrow> NamespacedName" where
  "namespacedNameFromString s =
     (let name = last (Split s (CHR ''/''))
      in (TrimRightChar (TrimSuffix s name) (CHR ''/''), name))"

definition namespacedNamesToStringArray :: "NamespacedName list \<Rightarrow> string list" where
  "namespacedNamesToStringArray names = map namespacedNameToString names"

definition namespacedNamesFromStringArray :: "string list \<Rightarrow> NamespacedName list" where
  "namespacedNamesFromStringArray names = map namespacedNameFromString names"

definition getAnnotationsOrEmptyMap :: "'a ObjectMeta_scheme \<Rightarrow> (string, string) fmap" where
  "getAnnotationsOrEmptyMap meta = contents (Annotations meta)"

definition getLabelsOrEmptyMap :: "'a ObjectMeta_scheme \<Rightarrow> (string, string) fmap" where
  "getLabelsOrEmptyMap meta = contents (Labels meta)"

section \<open>Watchers of an object\<close>

fun jsonStrings :: "json list \<Rightarrow> string list option" where
  "jsonStrings [] = Some []"
| "jsonStrings (JString s # js) = map_option (\<lambda>ss. s # ss) (jsonStrings js)"
| "jsonStrings (JNull # js) = map_option (\<lambda>ss. [] # ss) (jsonStrings js)"
| "jsonStrings _ = None"

text \<open>\<open>json.Unmarshal\<close> into a \<open>[]string\<close>: the outer option is failure, the inner one the nil slice.\<close>

fun unmarshalStrings :: "json \<Rightarrow> string list option option" where
  "unmarshalStrings JNull = Some None"
| "unmarshalStrings (JArray js) = map_option Some (jsonStrings js)"
| "unmarshalStrings _ = None"

definition getWatcherNames :: "env \<Rightarrow> 'a ObjectMeta_scheme \<Rightarrow> string list option" where
  "getWatcherNames E watched =
     (let content = (case fmlookup (getAnnotationsOrEmptyMap watched) WatchedByAnnotation of
          None \<Rightarrow> [] | Some c \<Rightarrow> c)
      in if content = [] then Some []
         else case e_parseJson E content of
             Inl _ \<Rightarrow> Some []
           | Inr j \<Rightarrow> (case unmarshalStrings j of None \<Rightarrow> Some [] | Some d \<Rightarrow> d))"

abbreviation elems :: "'a list option \<Rightarrow> 'a list" where
  "elems xs \<equiv> (case xs of None \<Rightarrow> [] | Some ys \<Rightarrow> ys)"

definition hasWatchedLabel :: "'a ObjectMeta_scheme \<Rightarrow> bool" where
  "hasWatchedLabel meta = (fmlookup (getLabelsOrEmptyMap meta) WatchedLabel = Some ''true'')"

definition marshalStrings :: "env \<Rightarrow> string list \<Rightarrow> string" where
  "marshalStrings E names = e_marshal E (JArray (map JString names))"

definition updateWatcherNames ::
    "env \<Rightarrow> 'a ObjectMeta_scheme \<Rightarrow> string list \<Rightarrow> bool \<times> 'a ObjectMeta_scheme" where
  "updateWatcherNames E watched watcherNames =
     (let new =
        (if length watcherNames = 0 then
           watched\<lparr>Annotations := Some (fmdrop WatchedByAnnotation (getAnnotationsOrEmptyMap watched)),
                   Labels := Some (fmdrop WatchedLabel (getLabelsOrEmptyMap watched))\<rparr>
         else
           watched\<lparr>Annotations := Some (fmupd WatchedByAnnotation (marshalStrings E watcherNames)
                     (getAnnotationsOrEmptyMap watched)),
                   Labels := Some (fmupd WatchedLabel ''true'' (getLabelsOrEmptyMap watched))\<rparr>)
      in (getWatcherNames E watched \<noteq> getWatcherNames E new
          \<or> hasWatchedLabel watched \<noteq> hasWatchedLabel new, new))"

definition removeWatcher ::
    "env \<Rightarrow> 'a ObjectMeta_scheme \<Rightarrow> string \<Rightarrow> bool \<times> 'a ObjectMeta_scheme" where
  "removeWatcher E watched watcher =
     updateWatcherNames E watched (RemoveValueFromStringArray (elems (getWatcherNames E watched)) watcher)"

definition addWatcher ::
    "env \<Rightarrow> 'a ObjectMeta_scheme \<Rightarrow> string \<Rightarrow> bool \<times> 'a ObjectMeta_scheme" where
  "addWatcher E watched watcher =
     updateWatcherNames E watched
       (AppendValuesToStringArrayIfNotPresent (elems (getWatcherNames E watched)) [watcher])"

section \<open>The interface\<close>

definition listAllWatched :: "env \<Rightarrow> string \<Rightarrow> (world, Secret list) op" where
  "listAllWatched E namespace =
     bindM (attempt (perform (e_secrets E) (ListSecrets namespace (mapOf [(WatchedLabel, ''true'')])))) (\<lambda>r.
       case r of
         Inl e \<Rightarrow> if IsNotFound e then ret [] else fail e
       | Inr items \<Rightarrow> ret items)"

definition getWatched :: "env \<Rightarrow> NamespacedName \<Rightarrow> (world, Secret) op" where
  "getWatched E watched = perform (e_secret E) (GetSecret watched)"

text \<open>The items that \<open>watcher\<close> no longer watches, before and after the change.\<close>

definition staleUpdates :: "env \<Rightarrow> string \<Rightarrow> string list \<Rightarrow> Secret list \<Rightarrow> (Secret \<times> Secret) list" where
  "staleUpdates E watcher watched items =
     map (\<lambda>item. (item, snd (removeWatcher E item watcher)))
       (filter (\<lambda>item. IndexOfString watched (namespacedNameString item) = - 1
          \<and> fst (removeWatcher E item watcher)) items)"

text \<open>
  When the watched secret does not exist, the arguments of the log call read the name of a nil
  object, which panics.
\<close>

definition addWatches ::
    "env \<Rightarrow> string \<Rightarrow> (Secret \<times> Secret) list \<Rightarrow> NamespacedName list \<Rightarrow> (world, (Secret \<times> Secret) list) op" where
  "addWatches E watcher =
     foldM (\<lambda>updates name.
       bindM (attempt (getWatched E name)) (\<lambda>r.
         case r of
           Inl e \<Rightarrow> if IsNotFound e then panic else fail e
         | Inr item \<Rightarrow>
             (case addWatcher E item watcher of
                (changed, new) \<Rightarrow> if changed then ret (updates @ [(item, new)]) else ret updates)))"

definition persistWatches :: "env \<Rightarrow> (Secret \<times> Secret) list \<Rightarrow> (world, unit) op" where
  "persistWatches E updates =
     bindM (foldM (\<lambda>errs (base, item).
       bindM (attempt (perform (e_secret E) (PatchSecret base item))) (\<lambda>r.
         case r of Inl e \<Rightarrow> ret (errs @ [e]) | Inr _ \<Rightarrow> ret errs)) [] updates) (\<lambda>errs.
     case errs of [] \<Rightarrow> ret () | e # _ \<Rightarrow> fail e)"

definition UpdateWatch :: "env \<Rightarrow> NamespacedName \<Rightarrow> NamespacedName list \<Rightarrow> (world, unit) op" where
  "UpdateWatch E watcher watched =
     bindM (listAllWatched E (fst watcher)) (\<lambda>items.
     bindM (addWatches E (namespacedNameToString watcher)
       (staleUpdates E (namespacedNameToString watcher) (namespacedNamesToStringArray watched) items) watched) (\<lambda>updates.
     persistWatches E updates))"

definition RemoveWatcher :: "env \<Rightarrow> NamespacedName \<Rightarrow> (world, unit) op" where
  "RemoveWatcher E watcher = UpdateWatch E watcher []"

definition FindWatchers :: "env \<Rightarrow> 'a ObjectMeta_scheme \<Rightarrow> NamespacedName list" where
  "FindWatchers E watched = namespacedNamesFromStringArray (elems (getWatcherNames E watched))"

end
