(* ===== verification/Decommission.thy ===== *)
theory Decommission
  imports Status
begin

text \<open>
  Scaling down (\<open>pkg/reconciliation/decommission_node.go\<close>), with \<open>UpdateRackNodeCount\<close> of
  \<open>reconcile_racks.go\<close>: one node at a time is chosen so that the racks stay balanced, checked
  for space on the other nodes, decommissioned, and its stateful set, claims and status are
  cleaned up when it has left the ring.
\<close>

section \<open>Stateful sets of the context\<close>

text \<open>
  \<open>rc.statefulSets[idx]\<close> followed by the use of a field: an index out of range and a nil
  pointer both panic. So does \<open>*sts.Spec.Replicas\<close> when the count is nil.
\<close>

definition getSts :: "nat \<Rightarrow> (world, StatefulSet) op" where
  "getSts idx =
     bindM (gets statefulSets) (\<lambda>stss.
       if idx < length stss then (case stss ! idx of None \<Rightarrow> panic | Some sts \<Rightarrow> ret sts) else panic)"

definition setSts :: "nat \<Rightarrow> StatefulSet \<Rightarrow> (world, unit) op" where
  "setSts idx sts = modify (\<lambda>s. s\<lparr>statefulSets := (statefulSets s)[idx := Some sts]\<rparr>)"

definition derefReplicas :: "StatefulSet \<Rightarrow> (world, int) op" where
  "derefReplicas sts = (case Replicas sts of None \<Rightarrow> panic | Some n \<Rightarrow> ret n)"

definition patchSts :: "env \<Rightarrow> nat \<Rightarrow> StatefulSet \<Rightarrow> (world, unit) op" where
  "patchSts E idx new =
     bindM (getSts idx) (\<lambda>base.
     bindM (setSts idx new) (\<lambda>_.
     bindM (perform (e_sts E) (PatchSts base new)) (\<lambda>sts.
     setSts idx sts)))"

definition UpdateRackNodeCount :: "env \<Rightarrow> nat \<Rightarrow> int \<Rightarrow> (world, unit) op" where
  "UpdateRackNodeCount E idx newNodeCount =
     bindM (setOperatorProgressStatus E ProgressUpdating) (\<lambda>_.
     bindM (getSts idx) (\<lambda>sts.
     patchSts E idx (sts\<lparr>Replicas := Some newNodeCount\<rparr>)))"

section \<open>Choosing a node\<close>

definition CalculateRackInfoForDecomm :: "CassandraDatacenter \<Rightarrow> int \<Rightarrow> RackInformation list outcome" where
  "CalculateRackInfoForDecomm dc currentSize =
     (let racks = GetRacks dc;
          rackCount = int (length racks);
          desiredSize = currentSize - 1
      in if desiredSize < rackCount
         then Fail (Errorf ''the number of nodes cannot be smaller than the number of racks'')
         else obind (SplitRacks desiredSize rackCount) (\<lambda>rackNodeCounts.
           Return (map (\<lambda>(rackIndex, currentRack).
             \<lparr>RackName = rack_Name currentRack, NodeCount = rackNodeCounts ! rackIndex, SeedCount = 0\<rparr>)
             (enumerate 0 racks))))"

definition stsLastPodSuffix :: "int \<Rightarrow> string" where
  "stsLastPodSuffix maxReplicas = ''sts-'' @ showInt (int32 (maxReplicas - 1))"

text \<open>
  \<open>GetUsedStorageForPods\<close>: the loads of the pods the ring knows, each parsed as a
  floating-point number; \<open>e_parseFloat\<close> gives it truncated to an integer, as the caller uses
  it. The order of the map decides only which error is reported.
\<close>

definition GetUsedStorageForPods ::
    "env \<Rightarrow> Pod list \<Rightarrow> EndpointState list \<Rightarrow> (string, int) fmap outcome" where
  "GetUsedStorageForPods E pods epData =
     (let mappedData = contents (MapPodsToEndpointDataByName pods epData)
      in foldl (\<lambda>acc podName. obind acc (\<lambda>m.
           case fmlookup mappedData podName of
             None \<Rightarrow> Return m
           | Some d \<Rightarrow>
               (case e_parseFloat E (Load d) of
                  Inl e \<Rightarrow> Fail e
                | Inr load \<Rightarrow> Return (fmupd podName load m))))
         (Return fmempty) (e_order E (fset (fmdom mappedData))))"

definition getServerDataPv :: "env \<Rightarrow> Pod \<Rightarrow> (world, PersistentVolume) op" where
  "getServerDataPv E pod =
     bindM getDc (\<lambda>dc.
     bindM (perform (e_pvc E) (GetPVC (Namespace dc, ''server-data-'' @ Name pod))) (\<lambda>pvc.
     perform (e_pv E) (GetPV ([], VolumeName (pvc_Spec pvc)))))"

definition noCapacity :: error where
  "noCapacity =
     Errorf ''Could not determine storage capacity when checking if scale-down attempt is valid''"

definition EnsurePodsCanAbsorbDecommData ::
    "env \<Rightarrow> Pod \<Rightarrow> EndpointState list \<Rightarrow> (world, unit) op" where
  "EnsurePodsCanAbsorbDecommData E decommPod epData =
     bindM (gets (\<lambda>s. podsAt s (dcPods s))) (\<lambda>pods.
     bindM (lift (GetUsedStorageForPods E pods epData)) (\<lambda>podsUsedStorage.
     let usedBy = (\<lambda>n. case fmlookup podsUsedStorage n of None \<Rightarrow> 0 | Some u \<Rightarrow> u);
         spaceUsedByDecommPod = usedBy (Name decommPod)
     in foldM (\<lambda>_ pod.
          if Name pod = Name decommPod then ret ()
          else
            bindM (getServerDataPv E pod) (\<lambda>serverDataPv.
            case mfind (Capacity serverDataPv) ''storage'' of
              None \<Rightarrow> fail noCapacity
            | Some storage \<Rightarrow>
                let total = q_Unscaled storage;
                    free = total - usedBy (Name pod)
                in if free < spaceUsedByDecommPod then
                     let msg = ''Not enough free space available to decommission. '' @ Name pod @ '' has '' @
                       showInt free @ '' free space, but '' @ showInt spaceUsedByDecommPod @ '' is needed.''
                     in bindM getDc (\<lambda>base.
                        bindM (setCondition E (NewDatacenterConditionWithReason DatacenterValid ConditionFalse
                          ''notEnoughSpaceToScaleDown'' msg)) (\<lambda>updated.
                        bindM (if updated then patchDcStatus E base else ret ()) (\<lambda>_.
                        fail (Errorf msg))))
                   else ret ())) () pods))"

definition DecommissionNodeOnRack ::
    "env \<Rightarrow> string \<Rightarrow> EndpointState list \<Rightarrow> string \<Rightarrow> (world, unit) op" where
  "DecommissionNodeOnRack E rackName epData lastPodSuffix =
     bindM (gets dcPods) (\<lambda>idxs.
     returning (forM idxs (\<lambda>i.
       bindM (getPod i) (\<lambda>pod.
         if mget (Labels pod) RackLabel = rackName \<and> HasSuffix (Name pod) lastPodSuffix then
           bindM (Now E) (\<lambda>now.
             if \<not> isMgmtApiRunning now pod
             then fail (Errorf ''Management API is not up on node that we are trying to decommission'')
             else
               bindM (EnsurePodsCanAbsorbDecommData E pod epData) (\<lambda>_.
               bindM (attempt (CallDecommissionNodeEndpoint E pod)) (\<lambda>_.
               bindM (labelNodeState E i stateDecommissioning) (\<lambda>_.
               bindM (Eventf NormalEvent ''LabeledPodAsDecommissioning''
                 (''Labeled node as decommissioning '' @ Name pod)) (\<lambda>_.
               ret (Some ()))))))
         else ret None)))
     (fail (Errorf (''Could not find pod to decommission on rack '' @ rackName))))"

text \<open>The sum of the replicas of the stateful sets that exist, an \<open>int32\<close>.\<close>

definition currentSizeOf :: "(world, int) op" where
  "currentSizeOf =
     bindM (gets statefulSets) (\<lambda>stss.
     foldM (\<lambda>currentSize sts.
       case sts of
         None \<Rightarrow> ret currentSize
       | Some sts \<Rightarrow> bindM (derefReplicas sts) (\<lambda>n. ret (int32 (currentSize + n)))) 0 stss)"

text \<open>The turn of the loop of \<open>DecommissionNodes\<close> for one rack.\<close>

definition decommissionTurn ::
    "env \<Rightarrow> EndpointState list \<Rightarrow> nat \<times> RackInformation \<Rightarrow> (world, ReconcileResult option) op" where
  "decommissionTurn E epData = (\<lambda>(idx, rackInfo).
     bindM (getSts idx) (\<lambda>sts.
     bindM (derefReplicas sts) (\<lambda>maxReplicas.
     let desiredNodeCount = int32 (NodeCount rackInfo);
         lastPodSuffix = stsLastPodSuffix maxReplicas
     in if maxReplicas > desiredNodeCount then
          bindM getDc (\<lambda>base.
          bindM (setCondition E (NewDatacenterCondition DatacenterScalingDown ConditionTrue)) (\<lambda>updated.
          bindM (orError (if updated then patchDcStatus E base else ret ()) (\<lambda>_.
            bindM (Eventf NormalEvent ''ScalingDownRack'' (''Scaling down rack '' @ RackName rackInfo)) (\<lambda>_.
            orError (setOperatorProgressStatus E ProgressUpdating) (\<lambda>_.
            orError (DecommissionNodeOnRack E (RackName rackInfo) epData lastPodSuffix) (\<lambda>_.
            ret (RequeueSoon 10)))))) (\<lambda>res.
          ret (Some res))))
        else ret None)))"

definition DecommissionNodes :: "env \<Rightarrow> EndpointState list \<Rightarrow> (world, ReconcileResult) op" where
  "DecommissionNodes E epData =
     bindM getDc (\<lambda>dc.
     bindM currentSizeOf (\<lambda>currentSize.
       if currentSize \<le> Size (Spec dc) then ret Continue
       else
         orError (lift (CalculateRackInfoForDecomm dc currentSize)) (\<lambda>decommRackInfo.
         returning (forM (enumerate 0 decommRackInfo) (decommissionTurn E epData)) (ret Continue))))"

section \<open>Waiting for it, and cleaning up\<close>

definition HasStartedDecommissioning :: "Pod \<Rightarrow> EndpointState list \<Rightarrow> bool" where
  "HasStartedDecommissioning pod epData =
     (case find (\<lambda>ep. GetRpcAddress ep = PodIP pod) epData of
        None \<Rightarrow> False
      | Some ep \<Rightarrow> HasPrefix (EpStatus ep) ''LEAVING'')"

definition IsDoneDecommissioning :: "Pod \<Rightarrow> EndpointState list \<Rightarrow> bool" where
  "IsDoneDecommissioning pod epData =
     (case find (\<lambda>ep. GetRpcAddress ep = PodIP pod) epData of
        None \<Rightarrow> True
      | Some ep \<Rightarrow> HasPrefix (EpStatus ep) ''LEFT'')"

definition DeletePodPvcs :: "env \<Rightarrow> Pod \<Rightarrow> (world, unit) op" where
  "DeletePodPvcs E pod =
     foldM (\<lambda>_ v.
       case v_Source v of
         ClaimSource pvcName \<Rightarrow>
           bindM getDc (\<lambda>dc.
           bindM (perform (e_pvc E) (GetPVC (Namespace dc, pvcName))) (\<lambda>podPvc.
           bindM (perform (e_unit E) (DeletePVC podPvc)) (\<lambda>_.
           Eventf NormalEvent ''DeletedPvc'' (''Claim Name: '' @ pvcName))))
       | _ \<Rightarrow> ret ()) () (Volumes pod)"

text \<open>The first stateful set with the rack label; a nil one before it panics.\<close>

fun findStsOfRack :: "string \<Rightarrow> nat \<Rightarrow> StatefulSet option list \<Rightarrow> nat option outcome" where
  "findStsOfRack podRack idx [] = Return None"
| "findStsOfRack podRack idx (None # stss) = Panic"
| "findStsOfRack podRack idx (Some sts # stss) =
     (if mget (Labels sts) RackLabel = podRack then Return (Some idx)
      else findStsOfRack podRack (Suc idx) stss)"

definition RemoveDecommissionedPodFromSts :: "env \<Rightarrow> Pod \<Rightarrow> (world, unit) op" where
  "RemoveDecommissionedPodFromSts E pod =
     bindM (gets statefulSets) (\<lambda>stss.
     let podRack = mget (Labels pod) RackLabel
     in bindM (lift (findStsOfRack podRack 0 stss)) (\<lambda>found.
        case found of
          None \<Rightarrow> fail (Errorf (''Failed to find matching statefulSet for pod rack: '' @ podRack))
        | Some idx \<Rightarrow>
            bindM (getSts idx) (\<lambda>sts.
            bindM (derefReplicas sts) (\<lambda>maxReplicas.
              if HasSuffix (Name pod) (stsLastPodSuffix maxReplicas)
              then UpdateRackNodeCount E idx (int32 (maxReplicas - 1))
              else ret ()))))"

text \<open>\<open>None\<close> is the nil result, after which the caller goes on.\<close>

definition cleanUpAfterDecommissionedPod :: "env \<Rightarrow> Pod \<Rightarrow> (world, ReconcileResult option) op" where
  "cleanUpAfterDecommissionedPod E pod =
     bindM (attempt (
       bindM (RemoveDecommissionedPodFromSts E pod) (\<lambda>_.
       bindM (DeletePodPvcs E pod) (\<lambda>_.
       bindM getDc (\<lambda>base.
       bindM (modifyDc (\<lambda>dc. dc\<lparr>Status := (Status dc)\<lparr>NodeStatuses :=
           mdel (NodeStatuses (Status dc)) (Name pod)\<rparr>\<rparr>)) (\<lambda>_.
       patchDcStatus E base)))))) (\<lambda>r.
     case r of Inl e \<Rightarrow> ret (Some (ErrorOut e)) | Inr _ \<Rightarrow> ret None)"

definition CheckDecommissioningNodes :: "env \<Rightarrow> EndpointState list \<Rightarrow> (world, ReconcileResult) op" where
  "CheckDecommissioningNodes E epData =
     bindM getDc (\<lambda>dc0.
       if GetConditionStatus dc0 DatacenterScalingDown \<noteq> ConditionTrue then ret Continue
       else
         bindM (gets dcPods) (\<lambda>idxs.
         returning (forM idxs (\<lambda>i.
           bindM (getPod i) (\<lambda>pod.
             if nodeState pod = stateDecommissioning then
               if \<not> IsDoneDecommissioning pod epData then
                 if \<not> HasStartedDecommissioning pod epData then
                   bindM (attempt (CallDecommissionNodeEndpoint E pod)) (\<lambda>_.
                   ret (Some (RequeueSoon 5)))
                 else ret (Some (RequeueSoon 5))
               else
                 bindM (cleanUpAfterDecommissionedPod E pod) (\<lambda>r.
                   case r of
                     Some res \<Rightarrow> ret (Some res)
                   | None \<Rightarrow> ret (Some (RequeueSoon 5)))
             else ret None)))
         (bindM getDc (\<lambda>base.
          bindM (setCondition E (NewDatacenterCondition DatacenterScalingDown ConditionFalse)) (\<lambda>updated.
          orError (if updated then patchDcStatus E base else ret ()) (\<lambda>_. ret Continue))))))"

end
