(* ===== verification/CheckNodes.thy ===== *)
theory CheckNodes
  imports Status
begin

text \<open>
  The methods of the reconciliation context that the evacuation logic calls
  (\<open>pkg/reconciliation/check_nodes.go\<close>), and the interface \<open>EMMSPI\<close> of \<open>pkg/psp/emm.go\<close> they
  implement. A pod is passed as its index in the pods of the context, where the Go code passes
  the pointer.
\<close>

section \<open>Claims and nodes\<close>

definition getPodsPVCs :: "env \<Rightarrow> Pod list \<Rightarrow> (world, PersistentVolumeClaim list) op" where
  "getPodsPVCs E pods =
     foldM (\<lambda>pvcs pod.
       bindM (GetPodPVC E (Namespace pod) (Name pod)) (\<lambda>pvc. ret (pvcs @ [pvc]))) [] pods"

definition getNode :: "env \<Rightarrow> string \<Rightarrow> (world, Node) op" where
  "getNode E nodeName = perform (e_node E) (GetNode ([], nodeName))"

definition getNodesForNameSet :: "env \<Rightarrow> string set \<Rightarrow> (world, Node list) op" where
  "getNodesForNameSet E nodeNameSet =
     foldM (\<lambda>nodes nodeName.
       if nodeName \<noteq> [] then bindM (getNode E nodeName) (\<lambda>node. ret (nodes @ [node]))
       else ret nodes) [] (e_order E nodeNameSet)"

definition removePVC :: "env \<Rightarrow> PersistentVolumeClaim \<Rightarrow> (world, unit) op" where
  "removePVC E pvc = perform (e_unit E) (DeletePVC pvc)"

definition getPVCsNodeNameSet :: "PersistentVolumeClaim list \<Rightarrow> string set" where
  "getPVCsNodeNameSet pvcs = set (filter (\<lambda>n. n \<noteq> []) (map GetPVCSelectedNodeName pvcs))"

definition getPodsNodeNameSet :: "Pod list \<Rightarrow> string set" where
  "getPodsNodeNameSet pods = set (filter (\<lambda>n. n \<noteq> []) (map NodeName pods))"

definition getDCPodByName :: "string \<Rightarrow> (world, nat option) op" where
  "getDCPodByName podName = gets (\<lambda>s. find (\<lambda>i. Name (podStore s ! i) = podName) (dcPods s))"

section \<open>The methods of the interface\<close>

definition GetAllNodesInDC :: "env \<Rightarrow> (world, Node list) op" where
  "GetAllNodesInDC E =
     bindM (gets (\<lambda>s. podsAt s (dcPods s))) (\<lambda>pods.
     bindM (getPodsPVCs E pods) (\<lambda>pvcs.
     getNodesForNameSet E (UnionStringSet (getPVCsNodeNameSet pvcs) (getPodsNodeNameSet pods))))"

definition GetAllNodes :: "env \<Rightarrow> (world, Node list) op" where
  "GetAllNodes E = perform (e_nodes E) ListNodes"

definition GetDCPods :: "(world, nat list) op" where
  "GetDCPods = gets dcPods"

definition GetNotReadyPodsBootstrappedInDC :: "(world, nat list) op" where
  "GetNotReadyPodsBootstrappedInDC =
     gets (\<lambda>s. filter (\<lambda>i. \<not> isServerReady (podStore s ! i) \<and>
       hasPodPotentiallyBootstrapped (podStore s ! i) (NodeStatuses (Status (Datacenter s)))) (dcPods s))"

definition GetAllPodsNotReadyInDC :: "(world, nat list) op" where
  "GetAllPodsNotReadyInDC = gets (\<lambda>s. filter (\<lambda>i. \<not> isServerReady (podStore s ! i)) (dcPods s))"

definition GetPodPVCs :: "env \<Rightarrow> nat \<Rightarrow> (world, PersistentVolumeClaim list) op" where
  "GetPodPVCs E i =
     bindM (getPod i) (\<lambda>pod.
     bindM (GetPodPVC E (Namespace pod) (Name pod)) (\<lambda>pvc. ret [pvc]))"

definition RemovePod :: "env \<Rightarrow> nat \<Rightarrow> (world, unit) op" where
  "RemovePod E i =
     bindM (getPod i) (\<lambda>pod.
     bindM (Now E) (\<lambda>now.
     bindM (if isMgmtApiRunning now pod then CallDrainEndpoint E pod else ret ()) (\<lambda>_.
     perform (e_unit E) (DeletePod pod))))"

definition StartNodeReplace :: "env \<Rightarrow> string \<Rightarrow> (world, unit) op" where
  "StartNodeReplace E podName =
     bindM (getDCPodByName podName) (\<lambda>found.
       case found of
         None \<Rightarrow> fail (Errorf (''Pod with name '' @ quoted podName @ '' not part of datacenter''))
       | Some i \<Rightarrow>
           bindM (getPod i) (\<lambda>pod.
           bindM (GetPodPVC E (Namespace pod) (Name pod)) (\<lambda>pvc.
           bindM (modifyDc (\<lambda>dc. dc\<lparr>Spec := (Spec dc)\<lparr>ReplaceNodes :=
               ReplaceNodes (Spec dc) @ [podName]\<rparr>\<rparr>)) (\<lambda>_.
           bindM (writeDc E UpdateDc) (\<lambda>_.
           bindM (removePVC E pvc) (\<lambda>_.
           RemovePod E i))))))"

definition GetInProgressNodeReplacements :: "(world, string list) op" where
  "GetInProgressNodeReplacements = bindM getDc (\<lambda>dc. ret (NodeReplacements (Status dc)))"

definition UpdatePod :: "env \<Rightarrow> nat \<Rightarrow> (world, unit) op" where
  "UpdatePod E i =
     bindM (getPod i) (\<lambda>pod.
     bindM (perform (e_pod E) (UpdatePodCall pod)) (\<lambda>p.
     setPod i p))"

definition IsStopped :: "(world, bool) op" where
  "IsStopped = bindM getDc (\<lambda>dc. ret (GetConditionStatus dc DatacenterStopped = ConditionTrue))"

definition IsInitialized :: "(world, bool) op" where
  "IsInitialized = bindM getDc (\<lambda>dc. ret (GetConditionStatus dc DatacenterInitialized = ConditionTrue))"

section \<open>The interface\<close>

record EMMSPI =
  spi_GetAllNodesInDC :: "(world, Node list) op"
  spi_GetDCPods :: "(world, nat list) op"
  spi_GetNotReadyPodsBootstrappedInDC :: "(world, nat list) op"
  spi_GetAllPodsNotReadyInDC :: "(world, nat list) op"
  spi_GetPodPVCs :: "nat \<Rightarrow> (world, PersistentVolumeClaim list) op"
  spi_StartNodeReplace :: "string \<Rightarrow> (world, unit) op"
  spi_GetInProgressNodeReplacements :: "(world, string list) op"
  spi_RemovePod :: "nat \<Rightarrow> (world, unit) op"
  spi_UpdatePod :: "nat \<Rightarrow> (world, unit) op"
  spi_IsStopped :: "(world, bool) op"
  spi_IsInitialized :: "(world, bool) op"
  spi_GetAllNodes :: "(world, Node list) op"

definition rcSPI :: "env \<Rightarrow> EMMSPI" where
  "rcSPI E = \<lparr>spi_GetAllNodesInDC = GetAllNodesInDC E, spi_GetDCPods = GetDCPods,
     spi_GetNotReadyPodsBootstrappedInDC = GetNotReadyPodsBootstrappedInDC,
     spi_GetAllPodsNotReadyInDC = GetAllPodsNotReadyInDC, spi_GetPodPVCs = GetPodPVCs E,
     spi_StartNodeReplace = StartNodeReplace E,
     spi_GetInProgressNodeReplacements = GetInProgressNodeReplacements,
     spi_RemovePod = RemovePod E, spi_UpdatePod = UpdatePod E, spi_IsStopped = IsStopped,
     spi_IsInitialized = IsInitialized, spi_GetAllNodes = GetAllNodes E\<rparr>"

section \<open>The contract of the interface\<close>

text \<open>
  What the evacuation logic relies on: reads change nothing, \<open>RemovePod\<close> drains and deletes the
  pod it is given, \<open>UpdatePod\<close> writes only pods, and \<open>StartNodeReplace\<close> deletes the pod of that
  name and leaves the pods of the context as they are.
\<close>

fun removes :: "(Pod \<Rightarrow> bool) \<Rightarrow> call \<Rightarrow> bool" where
  "removes P (DeletePod pod) = P pod"
| "removes P (Http url rq ctype) = isDrainCall (Http url rq ctype)"
| "removes P _ = False"

fun replaces :: "(Pod \<Rightarrow> bool) \<Rightarrow> call \<Rightarrow> bool" where
  "replaces P (GetPVC n) = True"
| "replaces P (UpdateDc dc) = True"
| "replaces P (DeletePVC pvc) = True"
| "replaces P c = removes P c"

fun isUpdatePod :: "call \<Rightarrow> bool" where
  "isUpdatePod (UpdatePodCall pod) = True"
| "isUpdatePod _ = False"

definition downPods :: "world \<Rightarrow> nat list" where
  "downPods s = filter (\<lambda>i. \<not> isServerReady (podStore s ! i) \<and>
     hasPodPotentiallyBootstrapped (podStore s ! i) (NodeStatuses (Status (Datacenter s)))) (dcPods s)"

definition samePods :: "Pod list \<Rightarrow> nat list \<Rightarrow> world \<Rightarrow> bool" where
  "samePods ps is s \<longleftrightarrow> podStore s = ps \<and> dcPods s = is"

locale emm_spi =
  fixes spi :: EMMSPI
  assumes nodes_quiet: "quiet isRead (spi_GetAllNodesInDC spi)"
    and allNodes_quiet: "quiet isRead (spi_GetAllNodes spi)"
    and pvcs_quiet: "quiet isRead (spi_GetPodPVCs spi i)"
    and stopped_quiet: "quiet isRead (spi_IsStopped spi)"
    and initialized_quiet: "quiet isRead (spi_IsInitialized spi)"
    and inProgress_quiet: "quiet isRead (spi_GetInProgressNodeReplacements spi)"
    and dcPods_run: "spi_GetDCPods spi s = (Return (dcPods s), s)"
    and notReady_run: "spi_GetAllPodsNotReadyInDC spi s =
      (Return (filter (\<lambda>i. \<not> isServerReady (podStore s ! i)) (dcPods s)), s)"
    and down_run: "spi_GetNotReadyPodsBootstrappedInDC spi s = (Return (downPods s), s)"
    and remove_calls: "untimed I \<Longrightarrow> (\<And>s. I s \<Longrightarrow> P (podStore s ! i)) \<Longrightarrow>
      calls I (removes P) (spi_RemovePod spi i) (\<lambda>_. I)"
    and update_emits: "emits isUpdatePod (spi_UpdatePod spi i)"
    and replace_calls: "calls (samePods ps is)
      (replaces (\<lambda>p. Name p = podName \<and> p \<in> (\<lambda>i. ps ! i) ` set is))
      (spi_StartNodeReplace spi podName) (\<lambda>_. samePods ps is)"

section \<open>The context fulfils it\<close>

lemma quiet_CallDrainEndpoint:
  "(\<And>url rq ctype. isDrainCall (Http url rq ctype) \<Longrightarrow> A (Http url rq ctype)) \<Longrightarrow>
     quiet A (CallDrainEndpoint E pod)"
  unfolding CallDrainEndpoint_def callNodeMgmtEndpoint_def Let_def simpleRequest_def
  by (intro quiet_intros)
     (auto split: responseBody.split intro!: quiet_intros simp: HasPrefix_def)

lemma quiet_GetPodPVC [quiet_intros]: "A (GetPVC (ns, ''server-data-'' @ n)) \<Longrightarrow> quiet A (GetPodPVC E ns n)"
  unfolding GetPodPVC_def by (intro quiet_intros)

lemma untimed_samePods [simp]: "untimed (samePods ps is)"
  by (simp add: untimed_def samePods_def)

lemma calls_RemovePod:
  assumes "untimed I" "\<And>s. I s \<Longrightarrow> P (podStore s ! i)"
  shows "calls I (removes P) (RemovePod E i) (\<lambda>_. I)"
proof -
  have "calls I (removes P) (getPod i) (\<lambda>pod s. I s \<and> P pod)"
    using assms(2) by (auto simp: calls_def getPod_run)
  moreover have "calls (\<lambda>s. I s \<and> P pod) (removes P)
      (bindM (Now E) (\<lambda>now.
       bindM (if isMgmtApiRunning now pod then CallDrainEndpoint E pod else ret ()) (\<lambda>_.
       perform (e_unit E) (DeletePod pod)))) (\<lambda>_. I)" for pod
  proof (cases "P pod")
    case True
    have "quiet (removes P) (bindM (Now E) (\<lambda>now.
       bindM (if isMgmtApiRunning now pod then CallDrainEndpoint E pod else ret ()) (\<lambda>_.
       perform (e_unit E) (DeletePod pod))))"
      using True by (intro quiet_intros quiet_CallDrainEndpoint) simp_all
    from calls_quiet [OF this assms(1)] show ?thesis by (rule calls_pre) simp
  qed (simp add: calls_def)
  ultimately show ?thesis unfolding RemovePod_def by (rule calls_bindM)
qed

lemma calls_StartNodeReplace:
  "calls (samePods ps is) (replaces (\<lambda>p. Name p = podName \<and> p \<in> (\<lambda>i. ps ! i) ` set is))
     (StartNodeReplace E podName) (\<lambda>_. samePods ps is)"
proof -
  let ?I = "samePods ps is"
  let ?P = "\<lambda>p. Name p = podName \<and> p \<in> (\<lambda>i. ps ! i) ` set is"
  have found: "calls ?I (replaces ?P) (getDCPodByName podName)
      (\<lambda>found s. ?I s \<and> (\<forall>i. found = Some i \<longrightarrow> ?P (ps ! i)))"
    unfolding getDCPodByName_def
    by (rule calls_post [OF calls_gets]) (auto simp: samePods_def find_Some_iff)
  have pvc: "calls (\<lambda>s. ?I s \<and> ?P (ps ! i)) (replaces ?P) (GetPodPVC E n m) (\<lambda>_ s. ?I s \<and> ?P (ps ! i))" for i n m
    by (rule calls_quiet) (auto intro!: quiet_intros simp: untimed_def samePods_def)
  have dc: "calls (\<lambda>s. ?I s \<and> ?P (ps ! i)) (replaces ?P) (modifyDc f) (\<lambda>_ s. ?I s \<and> ?P (ps ! i))" for i f
    by (auto simp: calls_def modifyDc_run samePods_def)
  have upd: "calls (\<lambda>s. ?I s \<and> ?P (ps ! i)) (replaces ?P) (writeDc E UpdateDc) (\<lambda>_ s. ?I s \<and> ?P (ps ! i))" for i
    by (auto simp: calls_def writeDc_def rc_eval samePods_def of_sum_def split: sum.splits)
  have pod: "calls (\<lambda>s. ?I s \<and> ?P (ps ! i)) (replaces ?P) (getPod i) (\<lambda>_ s. ?I s \<and> ?P (ps ! i))" for i
    by (auto simp: calls_def getPod_run)
  have pvcs: "calls (\<lambda>s. ?I s \<and> ?P (ps ! i)) (replaces ?P) (removePVC E v) (\<lambda>_ s. ?I s \<and> ?P (ps ! i))" for i v
    unfolding removePVC_def by (rule calls_quiet) (auto intro!: quiet_intros simp: untimed_def samePods_def)
  have "calls (\<lambda>s. ?I s \<and> ?P (ps ! i)) (removes ?P) (RemovePod E i) (\<lambda>_ s. ?I s \<and> ?P (ps ! i))" for i
    by (rule calls_RemovePod) (auto simp: untimed_def samePods_def)
  then have remove: "calls (\<lambda>s. ?I s \<and> ?P (ps ! i)) (replaces ?P) (RemovePod E i) (\<lambda>_. ?I)" for i
    by (rule calls_post [OF calls_weaken]) (auto elim!: removes.elims)
  have "calls (\<lambda>s. ?I s \<and> (\<forall>i. found = Some i \<longrightarrow> ?P (ps ! i))) (replaces ?P)
      (case found of None \<Rightarrow> fail (Errorf msg) | Some i \<Rightarrow>
         bindM (getPod i) (\<lambda>pod.
         bindM (GetPodPVC E (Namespace pod) (Name pod)) (\<lambda>pvc.
         bindM (modifyDc f) (\<lambda>_. bindM (writeDc E UpdateDc) (\<lambda>_.
         bindM (removePVC E pvc) (\<lambda>_. RemovePod E i)))))) (\<lambda>_. ?I)" for found msg f
  proof (cases found)
    case None
    then show ?thesis by (simp add: calls_def fail_run)
  next
    case (Some i)
    have "calls (\<lambda>s. ?I s \<and> ?P (ps ! i)) (replaces ?P)
       (bindM (getPod i) (\<lambda>pod.
         bindM (GetPodPVC E (Namespace pod) (Name pod)) (\<lambda>pvc.
         bindM (modifyDc f) (\<lambda>_. bindM (writeDc E UpdateDc) (\<lambda>_.
         bindM (removePVC E pvc) (\<lambda>_. RemovePod E i)))))) (\<lambda>_. ?I)"
      by (intro calls_bindM [OF pod] calls_bindM [OF pvc] calls_bindM [OF dc] calls_bindM [OF upd]
          calls_bindM [OF pvcs] remove)
    then show ?thesis using Some by (auto elim: calls_pre)
  qed
  then show ?thesis unfolding StartNodeReplace_def by (rule calls_bindM [OF found])
qed

lemma quiet_GetAllNodesInDC: "quiet isRead (GetAllNodesInDC E)"
  unfolding GetAllNodesInDC_def getPodsPVCs_def getNodesForNameSet_def getNode_def
  by (intro quiet_intros) simp_all

interpretation rcspi: emm_spi "rcSPI E" for E
proof unfold_locales
  show "quiet isRead (spi_GetAllNodesInDC (rcSPI E))"
    by (simp add: rcSPI_def quiet_GetAllNodesInDC)
  show "calls (samePods ps is) (replaces (\<lambda>p. Name p = podName \<and> p \<in> (\<lambda>i. ps ! i) ` set is))
      (spi_StartNodeReplace (rcSPI E) podName) (\<lambda>_. samePods ps is)" for ps "is" podName
    by (simp add: rcSPI_def calls_StartNodeReplace)
  show "untimed I \<Longrightarrow> (\<And>s. I s \<Longrightarrow> P (podStore s ! i)) \<Longrightarrow>
      calls I (removes P) (spi_RemovePod (rcSPI E) i) (\<lambda>_. I)" for I P i
    by (simp add: rcSPI_def calls_RemovePod)
qed (auto simp: rcSPI_def GetAllNodes_def GetPodPVCs_def IsStopped_def IsInitialized_def
    GetInProgressNodeReplacements_def GetDCPods_def GetAllPodsNotReadyInDC_def
    GetNotReadyPodsBootstrappedInDC_def downPods_def UpdatePod_def gets_run
    intro!: quiet_intros emits_intros)

end
