(* ===== verification/Emm.thy ===== *)
theory Emm
  imports CheckNodes
begin

text \<open>
  The evacuation logic (\<open>pkg/psp/emm.go\<close>): \<open>EMMServiceImpl\<close> over the interface \<open>EMMSPI\<close>, and
  the decisions \<open>checkNodeEMM\<close> and \<open>checkPVCHealth\<close>. The order in which Go ranges over a map is
  \<open>e_order E\<close>.
\<close>

definition EMMFailureAnnotation :: string where
  "EMMFailureAnnotation = ''appplatform.vmware.com/emm-failure''"
definition VolumeHealthAnnotation :: string where
  "VolumeHealthAnnotation = ''volumehealth.storage.kubernetes.io/health''"
definition EMMTaintKey :: string where
  "EMMTaintKey = ''node.vmware.com/drain''"
definition EvacuateAllData :: string where "EvacuateAllData = ''drain''"
definition PlannedDowntime :: string where "PlannedDowntime = ''planned-downtime''"
definition VolumeHealthInaccessible :: string where "VolumeHealthInaccessible = ''inaccessible''"
definition GenericFailure :: string where "GenericFailure = ''GenericFailure''"
definition NotEnoughResources :: string where "NotEnoughResources = ''NotEnoughResources''"
definition TooManyExistingFailures :: string where "TooManyExistingFailures = ''TooManyExistingFailures''"

section \<open>Helpers\<close>

text \<open>The filters of \<open>k8s_utils.go\<close> on pods of the context.\<close>

definition filterPods :: "(Pod \<Rightarrow> bool) \<Rightarrow> nat list \<Rightarrow> (world, nat list) op" where
  "filterPods fn is = gets (\<lambda>s. filter (\<lambda>i. fn (podStore s ! i)) is)"

definition getPodsRackNameSet :: "Pod list \<Rightarrow> string set" where
  "getPodsRackNameSet pods = set (map (\<lambda>pod. mget (Labels pod) RackLabel) pods)"

definition getNodesWithTaintKeyValueEffect ::
    "EMMSPI \<Rightarrow> string \<Rightarrow> string \<Rightarrow> string \<Rightarrow> (world, Node list) op" where
  "getNodesWithTaintKeyValueEffect spi taintKey value effect =
     bindM (spi_GetAllNodesInDC spi) (\<lambda>nodes.
     ret (FilterNodesWithTaintKeyValueEffect nodes taintKey value effect))"

definition getPodsForNodeName :: "EMMSPI \<Rightarrow> string \<Rightarrow> (world, nat list) op" where
  "getPodsForNodeName spi nodeName =
     bindM (spi_GetDCPods spi) (filterPods (\<lambda>pod. NodeName pod \<in> {nodeName}))"

definition getPodsWithAnnotationKey :: "EMMSPI \<Rightarrow> string \<Rightarrow> (world, nat list) op" where
  "getPodsWithAnnotationKey spi key =
     bindM (spi_GetDCPods spi) (filterPods (\<lambda>pod. mfind (Annotations pod) key \<noteq> None))"

definition addPodAnnotation :: "EMMSPI \<Rightarrow> nat \<Rightarrow> string \<Rightarrow> string \<Rightarrow> (world, bool) op" where
  "addPodAnnotation spi i key value =
     bindM (getPod i) (\<lambda>pod.
       case mfind (Annotations pod) key of
         Some currentValue \<Rightarrow> ret (currentValue = value)
       | None \<Rightarrow>
           bindM (setPod i (pod\<lparr>Annotations := Some (fmupd key value (contents (Annotations pod)))\<rparr>)) (\<lambda>_.
           bindM (spi_UpdatePod spi i) (\<lambda>_. ret True)))"

definition removePodAnnotation :: "EMMSPI \<Rightarrow> nat \<Rightarrow> string \<Rightarrow> (world, unit) op" where
  "removePodAnnotation spi i key =
     bindM (getPod i) (\<lambda>pod.
       if Annotations pod \<noteq> None then
         bindM (setPod i (pod\<lparr>Annotations := mdel (Annotations pod) key\<rparr>)) (\<lambda>_.
         spi_UpdatePod spi i)
       else ret ())"

section \<open>Operations\<close>

definition getPodPVCSelectedNodeName :: "EMMSPI \<Rightarrow> string \<Rightarrow> (world, string) op" where
  "getPodPVCSelectedNodeName spi podName =
     bindM (bindM (spi_GetDCPods spi) (filterPods (\<lambda>pod. Name pod = podName))) (\<lambda>matchingPods.
       case matchingPods of
         [] \<Rightarrow> ret []
       | pod # _ \<Rightarrow>
           bindM (spi_GetPodPVCs spi pod) (\<lambda>pvcs.
           ret (case find (\<lambda>n. n \<noteq> []) (map GetPVCSelectedNodeName pvcs) of
                  None \<Rightarrow> []
                | Some nodeName \<Rightarrow> nodeName)))"

definition getPlannedDownTimeNodeNameSet :: "EMMSPI \<Rightarrow> (world, string set) op" where
  "getPlannedDownTimeNodeNameSet spi =
     bindM (getNodesWithTaintKeyValueEffect spi EMMTaintKey PlannedDowntime ''NoSchedule'') (\<lambda>nodes.
     ret (GetNodeNameSet nodes))"

definition getEvacuateAllDataNodeNameSet :: "EMMSPI \<Rightarrow> (world, string set) op" where
  "getEvacuateAllDataNodeNameSet spi =
     bindM (getNodesWithTaintKeyValueEffect spi EMMTaintKey EvacuateAllData ''NoSchedule'') (\<lambda>nodes.
     ret (GetNodeNameSet nodes))"

definition cleanupEMMAnnotations :: "EMMSPI \<Rightarrow> (world, bool) op" where
  "cleanupEMMAnnotations spi =
     bindM (getEvacuateAllDataNodeNameSet spi) (\<lambda>nodes.
     bindM (getPlannedDownTimeNodeNameSet spi) (\<lambda>nodes2.
     bindM (getPodsWithAnnotationKey spi EMMFailureAnnotation) (\<lambda>podsFailedEmm.
     bindM (gets (\<lambda>s. GetPodNodeNameSet (podsAt s podsFailedEmm))) (\<lambda>nodesWithPodsFailedEMM.
     let nodesNoLongerEMM = SubtractStringSet nodesWithPodsFailedEMM (UnionStringSet nodes nodes2)
     in bindM (filterPods (\<lambda>pod. NodeName pod \<in> nodesNoLongerEMM) podsFailedEmm) (\<lambda>podsNoLongerFailed.
        foldM (\<lambda>didUpdate i.
          bindM (removePodAnnotation spi i EMMFailureAnnotation) (\<lambda>_. ret True))
        False podsNoLongerFailed)))))"

definition emmFailureStillProcessing :: "EMMSPI \<Rightarrow> (world, bool) op" where
  "emmFailureStillProcessing spi =
     bindM (getEvacuateAllDataNodeNameSet spi) (\<lambda>nodes.
     bindM (getPlannedDownTimeNodeNameSet spi) (\<lambda>nodes2.
     bindM (getPodsWithAnnotationKey spi EMMFailureAnnotation) (\<lambda>podsFailedEmm.
     bindM (gets (\<lambda>s. GetPodNodeNameSet (podsAt s podsFailedEmm))) (\<lambda>nodesWithPodsFailedEMM.
     ret (card (IntersectionStringSet (UnionStringSet nodes nodes2) nodesWithPodsFailedEMM) > 0)))))"

definition removeAllNotReadyPodsOnEMMNodes :: "EMMSPI \<Rightarrow> (world, bool) op" where
  "removeAllNotReadyPodsOnEMMNodes spi =
     bindM (spi_GetAllPodsNotReadyInDC spi) (\<lambda>podsNotReady.
     bindM (getPlannedDownTimeNodeNameSet spi) (\<lambda>plannedDownNameSet.
     bindM (getEvacuateAllDataNodeNameSet spi) (\<lambda>evacuateDataNameSet.
     let taintedNodesNameSet = UnionStringSet plannedDownNameSet evacuateDataNameSet
     in bindM (filterPods (\<lambda>pod. NodeName pod \<in> taintedNodesNameSet) podsNotReady) (\<lambda>podsNotReadyOnTaintedNodes.
        if length podsNotReadyOnTaintedNodes > 0 then
          bindM (foldM (\<lambda>_ i. spi_RemovePod spi i) () podsNotReadyOnTaintedNodes) (\<lambda>_. ret True)
        else ret False))))"

definition failEMM :: "EMMSPI \<Rightarrow> string \<Rightarrow> string \<Rightarrow> (world, bool) op" where
  "failEMM spi nodeName failure =
     bindM (getPodsForNodeName spi nodeName) (\<lambda>pods.
     foldM (\<lambda>didUpdate i.
       bindM (addPodAnnotation spi i EMMFailureAnnotation failure) (\<lambda>added.
       ret (didUpdate \<or> added))) False pods)"

definition getNodeNameSet :: "EMMSPI \<Rightarrow> (world, string set) op" where
  "getNodeNameSet spi =
     bindM (spi_GetAllNodes spi) (\<lambda>nodes.
     ret (GetNodeNameSet (filter (\<lambda>n. mget (Labels n) ''kubernetes.io/role'' = ''agent'') nodes)))"

definition getPodNameSet :: "EMMSPI \<Rightarrow> (world, string set) op" where
  "getPodNameSet spi = bindM (spi_GetDCPods spi) (\<lambda>is. gets (\<lambda>s. GetPodNameSet (podsAt s is)))"

text \<open>One round of the loop over the pods that are down.\<close>

definition evacuateReplaceOne :: "EMMSPI \<Rightarrow> string set \<Rightarrow> bool \<Rightarrow> nat \<Rightarrow> (world, bool) op" where
  "evacuateReplaceOne spi evacuateAllDataNameSet deletedPodsOrPVCs i =
     bindM (getPod i) (\<lambda>pod.
       if IsPodUnschedulable pod then
         bindM (getPodPVCSelectedNodeName spi (Name pod)) (\<lambda>pvcNode.
           if pvcNode \<noteq> [] \<and> NodeName pod \<noteq> pvcNode then
             if pvcNode \<in> evacuateAllDataNameSet then
               bindM (spi_StartNodeReplace spi (Name pod)) (\<lambda>_. ret True)
             else ret deletedPodsOrPVCs
           else ret deletedPodsOrPVCs)
       else ret deletedPodsOrPVCs)"

definition performEvacuateDataPodReplace :: "EMMSPI \<Rightarrow> (world, bool) op" where
  "performEvacuateDataPodReplace spi =
     bindM (spi_GetNotReadyPodsBootstrappedInDC spi) (\<lambda>downPods.
       if length downPods > 0 then
         bindM (getEvacuateAllDataNodeNameSet spi) (\<lambda>evacuateAllDataNameSet.
         foldM (evacuateReplaceOne spi evacuateAllDataNameSet) False downPods)
       else ret False)"

definition removeNextPodFromEvacuateDataNode :: "env \<Rightarrow> EMMSPI \<Rightarrow> (world, bool) op" where
  "removeNextPodFromEvacuateDataNode E spi =
     bindM (getEvacuateAllDataNodeNameSet spi) (\<lambda>nodeNameSet.
     returning (forM (e_order E nodeNameSet) (\<lambda>name.
       bindM (getPodsForNodeName spi name) (\<lambda>pods.
         case pods of
           [] \<Rightarrow> ret None
         | pod # _ \<Rightarrow> bindM (spi_RemovePod spi pod) (\<lambda>_. ret (Some True)))))
     (ret False))"

text \<open>An error while reading the nodes is lost: the loop runs over no node.\<close>

definition removeAllPodsFromOnePlannedDowntimeNode :: "env \<Rightarrow> EMMSPI \<Rightarrow> (world, bool) op" where
  "removeAllPodsFromOnePlannedDowntimeNode E spi =
     bindM (attempt (getPlannedDownTimeNodeNameSet spi)) (\<lambda>r.
     let nodeNameSet = (case r of Inl e \<Rightarrow> {} | Inr names \<Rightarrow> names)
     in returning (forM (e_order E nodeNameSet) (\<lambda>nodeName.
          bindM (getPodsForNodeName spi nodeName) (\<lambda>pods.
            if length pods > 0 then
              bindM (foldM (\<lambda>_ i. spi_RemovePod spi i) () pods) (\<lambda>_. ret (Some True))
            else ret None)))
        (ret False))"

section \<open>Checks\<close>

definition getPodNameSetWithVolumeHealthInaccessiblePVC :: "EMMSPI \<Rightarrow> string \<Rightarrow> (world, string set) op" where
  "getPodNameSetWithVolumeHealthInaccessiblePVC spi rackName =
     bindM (spi_GetDCPods spi) (\<lambda>pods.
     bindM (foldM (\<lambda>result i.
         bindM (spi_GetPodPVCs spi i) (\<lambda>pvcs.
           if filter (\<lambda>pvc. Annotations pvc \<noteq> None \<and>
               mget (Annotations pvc) VolumeHealthAnnotation = VolumeHealthInaccessible) pvcs \<noteq> []
           then ret (result @ [i]) else ret result)) [] pods) (\<lambda>result.
       if rackName \<noteq> [] then
         bindM (filterPods (\<lambda>pod. mfind (Labels pod) RackLabel = Some rackName) result) (\<lambda>is.
         gets (\<lambda>s. GetPodNameSet (podsAt s is)))
       else gets (\<lambda>s. GetPodNameSet (podsAt s result))))"

definition getRacksWithNotReadyPodsBootstrapped :: "env \<Rightarrow> EMMSPI \<Rightarrow> (world, string list) op" where
  "getRacksWithNotReadyPodsBootstrapped E spi =
     bindM (spi_GetNotReadyPodsBootstrappedInDC spi) (\<lambda>pods.
     gets (\<lambda>s. e_order E (getPodsRackNameSet (podsAt s pods))))"

definition getRackNodeNameSet :: "EMMSPI \<Rightarrow> string \<Rightarrow> (world, string set) op" where
  "getRackNodeNameSet spi rackName =
     bindM (bindM (spi_GetDCPods spi) (filterPods (\<lambda>pod. mfind (Labels pod) RackLabel = Some rackName))) (\<lambda>pods.
     gets (\<lambda>s. GetPodNodeNameSet (podsAt s pods)))"

section \<open>Decisions\<close>

text \<open>\<open>for node := range nodes { failEMM(node, failure) }\<close>, and whether a pod was updated.\<close>

definition failEMMs :: "env \<Rightarrow> EMMSPI \<Rightarrow> string set \<Rightarrow> string \<Rightarrow> (world, bool) op" where
  "failEMMs E spi nodes failure =
     foldM (\<lambda>didUpdate node.
       bindM (failEMM spi node failure) (\<lambda>updated. ret (didUpdate \<or> updated))) False (e_order E nodes)"

text \<open>\<open>didUpdate, err := m; if err ... ; if didUpdate { return result.RequeueSoon(secs) }\<close>.\<close>

definition requeueIf :: "int \<Rightarrow> (world, bool) op \<Rightarrow> (world, ReconcileResult) op \<Rightarrow> (world, ReconcileResult) op" where
  "requeueIf secs m k = orError m (\<lambda>didUpdate. if didUpdate then ret (RequeueSoon secs) else k)"

definition checkNodeEMM :: "env \<Rightarrow> EMMSPI \<Rightarrow> (world, ReconcileResult) op" where
  "checkNodeEMM E spi =
     requeueIf 2 (cleanupEMMAnnotations spi) (
     requeueIf 2 (emmFailureStillProcessing spi) (
     bindM (spi_IsInitialized spi) (\<lambda>initialized.
       if \<not> initialized then ret Continue
       else
         orError (getPlannedDownTimeNodeNameSet spi) (\<lambda>plannedDownNodeNameSet.
         orError (getEvacuateAllDataNodeNameSet spi) (\<lambda>evacuateDataNodeNameSet.
         orError (getNodeNameSet spi) (\<lambda>allNodes.
         let unavailableNodes = UnionStringSet plannedDownNodeNameSet evacuateDataNodeNameSet;
             availableNodes = SubtractStringSet allNodes unavailableNodes
         in bindM (getPodNameSet spi) (\<lambda>podNames.
         requeueIf 10 (if card podNames > card availableNodes
             then failEMMs E spi unavailableNodes NotEnoughResources else ret False) (
         bindM (spi_IsStopped spi) (\<lambda>stopped.
         requeueIf 2 (if stopped then failEMMs E spi evacuateDataNodeNameSet GenericFailure
             else ret False) (
         bindM (getRacksWithNotReadyPodsBootstrapped E spi) (\<lambda>racksWithDownPods.
         requeueIf 2 (if length racksWithDownPods > 1
             then failEMMs E spi unavailableNodes TooManyExistingFailures else ret False) (
         let downRack = (case racksWithDownPods of [] \<Rightarrow> [] | rackName # _ \<Rightarrow> rackName)
         in requeueIf 2 (if downRack \<noteq> [] then
             bindM (getRackNodeNameSet spi downRack) (\<lambda>nodeNameSetForDownRack.
             failEMMs E spi (SubtractStringSet unavailableNodes nodeNameSetForDownRack) TooManyExistingFailures)
             else ret False) (
         requeueIf 2 (removeAllNotReadyPodsOnEMMNodes spi) (
           if downRack \<noteq> [] then
             requeueIf 2 (performEvacuateDataPodReplace spi) (ret Continue)
           else
             requeueIf 2 (removeNextPodFromEvacuateDataNode E spi) (
             requeueIf 2 (removeAllPodsFromOnePlannedDowntimeNode E spi) (
             ret Continue))))))))))))))))"

definition checkPVCHealth :: "env \<Rightarrow> EMMSPI \<Rightarrow> (world, ReconcileResult) op" where
  "checkPVCHealth E spi =
     orError (getPodNameSetWithVolumeHealthInaccessiblePVC spi []) (\<lambda>inaccessible.
       if card inaccessible = 0 then ret Continue
       else
         bindM (getRacksWithNotReadyPodsBootstrapped E spi) (\<lambda>racksWithDownPods.
           if length racksWithDownPods > 1 then ret Continue
           else
             orError (if length racksWithDownPods = 1
               then getPodNameSetWithVolumeHealthInaccessiblePVC spi (racksWithDownPods ! 0)
               else ret inaccessible) (\<lambda>inaccessible.
               if length racksWithDownPods = 1 \<and> card inaccessible = 0 then ret Continue
               else
                 bindM (spi_GetInProgressNodeReplacements spi) (\<lambda>inProgress.
                   if length inProgress > 0 then ret Continue
                   else
                     returning (forM (e_order E inaccessible) (\<lambda>podName.
                       bindM (orError (spi_StartNodeReplace spi podName) (\<lambda>_. ret (RequeueSoon 2)))
                         (\<lambda>res. ret (Some res))))
                     (ret Continue)))))"

definition CheckPVCHealth :: "env \<Rightarrow> EMMSPI \<Rightarrow> (world, ReconcileResult) op" where
  "CheckPVCHealth E spi = checkPVCHealth E spi"

definition CheckEMM :: "env \<Rightarrow> EMMSPI \<Rightarrow> (world, ReconcileResult) op" where
  "CheckEMM E spi = checkNodeEMM E spi"

section \<open>What an evacuation may remove\<close>

text \<open>
  The facts below hold for every implementation of the interface that keeps its contract.
  \<open>sameState\<close> is a state with these pods and this datacenter.
\<close>

fun sparesReady :: "call \<Rightarrow> bool" where
  "sparesReady (DeletePod pod) = (\<not> isServerReady pod)"
| "sparesReady _ = True"

fun removesFrom :: "bool \<Rightarrow> string \<Rightarrow> call \<Rightarrow> bool" where
  "removesFrom healthy n (DeletePod pod) = (isServerReady pod \<longrightarrow> healthy \<and> NodeName pod = n)"
| "removesFrom healthy n _ = True"

definition sameState :: "Pod list \<Rightarrow> nat list \<Rightarrow> CassandraDatacenter \<Rightarrow> world \<Rightarrow> bool" where
  "sameState ps is dc s \<longleftrightarrow> podStore s = ps \<and> dcPods s = is \<and> Datacenter s = dc"

definition downIn :: "Pod list \<Rightarrow> nat list \<Rightarrow> CassandraDatacenter \<Rightarrow> nat list" where
  "downIn ps is dc = filter (\<lambda>i. \<not> isServerReady (ps ! i) \<and>
     hasPodPotentiallyBootstrapped (ps ! i) (NodeStatuses (Status dc))) is"

lemma untimed_sameState [simp]: "untimed (sameState ps is dc)"
  by (simp add: untimed_def sameState_def)

lemma downPods_sameState: "sameState ps is dc s \<Longrightarrow> downPods s = downIn ps is dc"
  by (simp add: sameState_def downPods_def downIn_def)

lemma sparesReady_read: "isRead c \<Longrightarrow> sparesReady c"
  by (cases c) auto

lemma sparesReady_update: "isUpdatePod c \<Longrightarrow> sparesReady c"
  by (cases c) auto

lemma sparesReady_removesFrom: "sparesReady c \<Longrightarrow> removesFrom healthy n c"
  by (cases c) auto

lemma quiet_reads: "quiet isRead m \<Longrightarrow> quiet sparesReady m"
  by (erule quiet_weaken) (rule sparesReady_read)

lemma quiet_filterPods [quiet_intros]: "quiet A (filterPods fn is)"
  unfolding filterPods_def by (intro quiet_intros)

lemma calls_unless: "calls I A m (\<lambda>_. J) \<Longrightarrow> calls I A m (\<lambda>b s. \<not> b \<longrightarrow> J s)"
  by (erule calls_post) simp

lemma calls_retFalse: "calls I A (ret False) (\<lambda>b s. \<not> b \<longrightarrow> I s)"
  by (rule calls_ret) simp

lemma callsOne_requeueIf:
  assumes "calls I B m (\<lambda>b s. \<not> b \<longrightarrow> J s)" "callsOne J A k" "\<And>n c. B c \<Longrightarrow> A n c"
  shows "callsOne I A (requeueIf secs m k)"
  unfolding requeueIf_def
proof (rule callsOne_orError [OF assms(1) _ assms(3)])
  show "callsOne (\<lambda>s. \<not> b \<longrightarrow> J s) A (if b then ret (RequeueSoon secs) else k)" for b
    using assms(2) by (cases b) (auto intro: callsOne_calls [OF calls_ret])
qed

context emm_spi
begin

lemma quiet_dcPods [quiet_intros]: "quiet A (spi_GetDCPods spi)"
  and quiet_notReady [quiet_intros]: "quiet A (spi_GetAllPodsNotReadyInDC spi)"
  and quiet_down [quiet_intros]: "quiet A (spi_GetNotReadyPodsBootstrappedInDC spi)"
  by (rule quietI_same, simp add: dcPods_run notReady_run down_run)+

lemma quiet_names [quiet_intros]:
  "quiet isRead (getPlannedDownTimeNodeNameSet spi)"
  "quiet isRead (getEvacuateAllDataNodeNameSet spi)"
  "quiet isRead (getNodeNameSet spi)"
  "quiet isRead (getPodNameSet spi)"
  "quiet isRead (getPodsForNodeName spi n)"
  "quiet isRead (getPodsWithAnnotationKey spi k)"
  "quiet isRead (getRacksWithNotReadyPodsBootstrapped E spi)"
  "quiet isRead (getRackNodeNameSet spi n)"
  unfolding getPlannedDownTimeNodeNameSet_def getEvacuateAllDataNodeNameSet_def getNodeNameSet_def
    getNodesWithTaintKeyValueEffect_def getPodNameSet_def getPodsForNodeName_def
    getPodsWithAnnotationKey_def getRacksWithNotReadyPodsBootstrapped_def getRackNodeNameSet_def
  by (intro quiet_intros nodes_quiet allNodes_quiet)+

lemma quiet_selectedNode: "quiet isRead (getPodPVCSelectedNodeName spi n)"
  unfolding getPodPVCSelectedNodeName_def
  by (intro quiet_intros) (auto split: list.split intro!: quiet_intros pvcs_quiet)

lemma quiet_stillProcessing: "quiet isRead (emmFailureStillProcessing spi)"
  unfolding emmFailureStillProcessing_def by (intro quiet_intros)

lemma calls_read:
  "quiet isRead m \<Longrightarrow> calls (sameState ps is dc) sparesReady m (\<lambda>_. sameState ps is dc)"
  by (rule calls_quiet) (auto intro: quiet_reads)

text \<open>Failing an evacuation writes annotations; when nothing was written nothing has changed.\<close>

lemma calls_update: "calls I sparesReady (spi_UpdatePod spi i) (\<lambda>_ _. True)"
  by (rule calls_weaken [OF calls_emits [OF update_emits]]) (rule sparesReady_update)

lemma calls_setPod: "calls I A (setPod i p) (\<lambda>_ _. True)"
  by (rule calls_emits) (intro emits_intros)

lemma calls_addPodAnnotation:
  assumes "untimed I"
  shows "calls I sparesReady (addPodAnnotation spi i key value) (\<lambda>b s. \<not> b \<longrightarrow> I s)"
  unfolding addPodAnnotation_def
proof (rule calls_bindM [OF calls_quiet [OF _ assms]])
  show "quiet sparesReady (getPod i)" by (rule quiet_intros)
  have "calls I sparesReady (bindM (setPod i p) (\<lambda>_. bindM (spi_UpdatePod spi i) (\<lambda>_. ret True)))
      (\<lambda>b s. \<not> b \<longrightarrow> I s)" for p
    by (rule calls_bindM [OF calls_setPod], rule calls_bindM [OF calls_update]) (simp add: calls_ret)
  then show "calls I sparesReady (case mfind (Annotations pod) key of
        None \<Rightarrow> bindM (setPod i (pod\<lparr>Annotations := Some (fmupd key value (contents (Annotations pod)))\<rparr>))
          (\<lambda>_. bindM (spi_UpdatePod spi i) (\<lambda>_. ret True))
      | Some currentValue \<Rightarrow> ret (currentValue = value)) (\<lambda>b s. \<not> b \<longrightarrow> I s)" for pod
    by (auto split: option.split intro: calls_ret)
qed

lemma calls_didUpdate:
  assumes "\<And>x I. x \<in> set xs \<Longrightarrow> untimed I \<Longrightarrow> calls I A (m x) (\<lambda>b s. \<not> b \<longrightarrow> I s)" and I: "untimed I"
  shows "calls I A (foldM (\<lambda>did x. bindM (m x) (\<lambda>b. ret (did \<or> b))) False xs) (\<lambda>b s. \<not> b \<longrightarrow> I s)"
proof -
  have "calls (\<lambda>s. \<not> did \<longrightarrow> I s) A (bindM (m x) (\<lambda>b. ret (did \<or> b))) (\<lambda>b s. \<not> b \<longrightarrow> I s)"
    if "x \<in> set xs" for did x
  proof (rule calls_bindM)
    show "calls (\<lambda>s. \<not> did \<longrightarrow> I s) A (m x) (\<lambda>b s. \<not> b \<longrightarrow> \<not> did \<longrightarrow> I s)"
      by (rule assms(1) [OF that]) (use I in \<open>simp add: untimed_def\<close>)
  qed (auto intro: calls_ret)
  then have "calls (\<lambda>s. \<not> False \<longrightarrow> I s) A (foldM (\<lambda>did x. bindM (m x) (\<lambda>b. ret (did \<or> b))) False xs)
      (\<lambda>b s. \<not> b \<longrightarrow> I s)" by (rule calls_foldM)
  then show ?thesis by simp
qed

lemma calls_failEMM:
  assumes "untimed I"
  shows "calls I sparesReady (failEMM spi n f) (\<lambda>b s. \<not> b \<longrightarrow> I s)"
  unfolding failEMM_def
  by (rule calls_bindM [OF calls_quiet [OF quiet_reads [OF quiet_names(5)] assms]])
     (rule calls_didUpdate [OF calls_addPodAnnotation assms])

lemma calls_failEMMs:
  assumes "untimed I"
  shows "calls I sparesReady (failEMMs E spi ns f) (\<lambda>b s. \<not> b \<longrightarrow> I s)"
  unfolding failEMMs_def by (rule calls_didUpdate [OF calls_failEMM assms])

lemma calls_cleanup:
  assumes "untimed I"
  shows "calls I sparesReady (cleanupEMMAnnotations spi) (\<lambda>b s. \<not> b \<longrightarrow> I s)"
proof -
  have rm: "calls J sparesReady (removePodAnnotation spi i k) (\<lambda>_ _. True)" for i k J
    unfolding removePodAnnotation_def
    by (rule calls_bindM [OF calls_emits [OF emits_dc_pod(3)]])
       (auto intro!: calls_bindM [OF calls_setPod] calls_update calls_ret)
  have "calls (\<lambda>s. \<not> did \<longrightarrow> I s) sparesReady
      (bindM (removePodAnnotation spi i EMMFailureAnnotation) (\<lambda>_. ret True)) (\<lambda>b s. \<not> b \<longrightarrow> I s)" for did i
    by (rule calls_bindM [OF rm]) (simp add: calls_ret)
  then have "calls (\<lambda>s. \<not> False \<longrightarrow> I s) sparesReady (foldM (\<lambda>did i.
      bindM (removePodAnnotation spi i EMMFailureAnnotation) (\<lambda>_. ret True)) False xs) (\<lambda>b s. \<not> b \<longrightarrow> I s)" for xs
    by (rule calls_foldM)
  then have loop: "calls I sparesReady (foldM (\<lambda>did i.
      bindM (removePodAnnotation spi i EMMFailureAnnotation) (\<lambda>_. ret True)) False xs) (\<lambda>b s. \<not> b \<longrightarrow> I s)" for xs
    by simp
  note q = calls_bindM [OF calls_quiet [OF quiet_reads assms]]
  show ?thesis
    unfolding cleanupEMMAnnotations_def Let_def
    by (rule q [OF quiet_names(2)], rule q [OF quiet_names(1)], rule q [OF quiet_names(6)],
        rule q [OF quiet_pure(5)], rule q [OF quiet_filterPods], rule loop)
qed

text \<open>Removing not-ready pods spares the ready ones.\<close>

lemma calls_removeAll:
  assumes I: "untimed I" and P: "\<And>i s. i \<in> set is \<Longrightarrow> I s \<Longrightarrow> P (podStore s ! i)"
    and A: "\<And>c. removes P c \<Longrightarrow> A c"
  shows "calls I A (foldM (\<lambda>_ i. spi_RemovePod spi i) () is) (\<lambda>_. I)"
proof (rule calls_foldM)
  show "calls I A (spi_RemovePod spi i) (\<lambda>_. I)" if "i \<in> set is" for i
    by (rule calls_weaken [OF remove_calls [where P = P]]) (use assms that in auto)
qed

lemma calls_removeAllNotReady:
  "calls (sameState ps is dc) sparesReady (removeAllNotReadyPodsOnEMMNodes spi) (\<lambda>_. sameState ps is dc)"
proof -
  let ?I = "sameState ps is dc" and ?J = "\<lambda>xs s. sameState ps is dc s \<and> (\<forall>i\<in>set xs. \<not> isServerReady (ps ! i))"
  have J: "untimed (?J xs)" for xs by (simp add: untimed_def sameState_def)
  have spares: "removes (\<lambda>p. \<not> isServerReady p) c \<Longrightarrow> sparesReady c" for c by (cases c) auto
  have nr: "calls ?I sparesReady (spi_GetAllPodsNotReadyInDC spi) ?J"
    by (auto simp: calls_def notReady_run sameState_def)
  have filt: "calls (?J xs) sparesReady (filterPods fn xs) ?J" for fn xs
    by (auto simp: calls_def filterPods_def gets_run)
  have loop: "calls (?J xs) sparesReady (foldM (\<lambda>_ i. spi_RemovePod spi i) () xs) (\<lambda>_. ?J xs)" for xs
    by (rule calls_removeAll [where P = "\<lambda>p. \<not> isServerReady p"])
       (use J spares in \<open>auto simp: sameState_def\<close>)
  show ?thesis
    unfolding removeAllNotReadyPodsOnEMMNodes_def Let_def
    by (rule calls_bindM [OF nr], rule calls_bindM [OF calls_quiet [OF quiet_reads [OF quiet_names(1)] J]],
        rule calls_bindM [OF calls_quiet [OF quiet_reads [OF quiet_names(2)] J]],
        rule calls_bindM [OF filt], rule calls_if)
       (auto intro: calls_bindM [OF loop] calls_ret)
qed

text \<open>Replacing the pods that are down spares the ready ones, as the names are unique.\<close>

lemma calls_evacuateReplaceOne:
  assumes names: "distinct (map (\<lambda>i. Name (ps ! i)) is)" and i: "i \<in> set is" "\<not> isServerReady (ps ! i)"
  shows "calls (samePods ps is) sparesReady (evacuateReplaceOne spi evac did i) (\<lambda>_. samePods ps is)"
proof -
  let ?I = "samePods ps is"
  have "sparesReady c" if "replaces (\<lambda>p. Name p = Name (ps ! i) \<and> p \<in> (\<lambda>i. ps ! i) ` set is) c" for c
    using that names i by (cases c) (auto simp: distinct_map inj_on_def)
  then have replace: "calls ?I sparesReady (spi_StartNodeReplace spi (Name (ps ! i))) (\<lambda>_. ?I)"
    by (rule calls_weaken [OF replace_calls])
  have "quiet sparesReady (getPodPVCSelectedNodeName spi n)" for n
    by (rule quiet_reads [OF quiet_selectedNode])
  then have inner: "calls ?I sparesReady (bindM (getPodPVCSelectedNodeName spi (Name (ps ! i))) (\<lambda>pvcNode.
      if pvcNode \<noteq> [] \<and> NodeName (ps ! i) \<noteq> pvcNode then
        if pvcNode \<in> evac then bindM (spi_StartNodeReplace spi (Name (ps ! i))) (\<lambda>_. ret True)
        else ret did
      else ret did)) (\<lambda>_. ?I)"
    by (rule calls_bindM [OF calls_quiet]) (auto intro: calls_bindM [OF replace] calls_ret)
  have pod: "calls ?I sparesReady (getPod i) (\<lambda>pod s. ?I s \<and> pod = ps ! i)"
    by (auto simp: calls_def getPod_run samePods_def)
  show ?thesis unfolding evacuateReplaceOne_def
    by (rule calls_bindM [OF pod], rule calls_fixed, rule calls_if) (auto intro: inner calls_ret)
qed

lemma calls_evacuateReplace:
  assumes names: "distinct (map (\<lambda>i. Name (ps ! i)) is)"
  shows "calls (sameState ps is dc) sparesReady (performEvacuateDataPodReplace spi) (\<lambda>_ _. True)"
proof -
  let ?I = "samePods ps is"
  have down: "calls (sameState ps is dc) sparesReady (spi_GetNotReadyPodsBootstrappedInDC spi)
      (\<lambda>xs s. ?I s \<and> xs = downIn ps is dc)"
    by (auto simp: calls_def down_run downPods_sameState) (simp add: sameState_def samePods_def)
  have "calls ?I sparesReady (foldM (evacuateReplaceOne spi evac) False (downIn ps is dc)) (\<lambda>_. ?I)" for evac
    by (rule calls_foldM, rule calls_evacuateReplaceOne [OF names]) (auto simp: downIn_def)
  then have "calls ?I sparesReady (bindM (getEvacuateAllDataNodeNameSet spi) (\<lambda>evac.
      foldM (evacuateReplaceOne spi evac) False (downIn ps is dc))) (\<lambda>_. ?I)"
    by (rule calls_bindM [OF calls_quiet [OF quiet_reads [OF quiet_names(2)] untimed_samePods]])
  then have "calls ?I sparesReady (bindM (getEvacuateAllDataNodeNameSet spi) (\<lambda>evac.
      foldM (evacuateReplaceOne spi evac) False (downIn ps is dc))) (\<lambda>_ _. True)"
    by (rule calls_post) simp
  then show ?thesis
    unfolding performEvacuateDataPodReplace_def
    by (intro calls_bindM [OF down] calls_fixed calls_if) (auto intro: calls_ret)
qed

text \<open>On a healthy datacenter, the pods of one node are removed.\<close>

lemma calls_podsForNode:
  "calls (sameState ps is dc) sparesReady (getPodsForNodeName spi n)
     (\<lambda>xs s. sameState ps is dc s \<and> (\<forall>i\<in>set xs. NodeName (ps ! i) = n))"
  by (auto simp: calls_def getPodsForNodeName_def bindM_def dcPods_run filterPods_def gets_run sameState_def)

lemma calls_removeOnNode:
  assumes "\<forall>i\<in>set xs. NodeName (ps ! i) = n"
  shows "calls (sameState ps is dc) (removesFrom True n) (foldM (\<lambda>_ i. spi_RemovePod spi i) () xs)
     (\<lambda>_. sameState ps is dc)"
proof (rule calls_removeAll [where P = "\<lambda>p. NodeName p = n"])
  show "removes (\<lambda>p. NodeName p = n) c \<Longrightarrow> removesFrom True n c" for c by (cases c) auto
qed (use assms in \<open>auto simp: sameState_def\<close>)

lemma podsForNode_run:
  "getPodsForNodeName spi n s = (Return (filter (\<lambda>i. NodeName (podStore s ! i) = n) (dcPods s)), s)"
  by (simp add: getPodsForNodeName_def bindM_def dcPods_run filterPods_def gets_run)

lemma callsOne_removeNext:
  "callsOne (sameState ps is dc) (removesFrom True) (removeNextPodFromEvacuateDataNode E spi)"
proof -
  let ?I = "sameState ps is dc"
  let ?body = "\<lambda>name. bindM (getPodsForNodeName spi name) (\<lambda>pods. case pods of [] \<Rightarrow> ret None
     | pod # _ \<Rightarrow> bindM (spi_RemovePod spi pod) (\<lambda>_. ret (Some True)))"
  have pods: "calls ?I (removesFrom True n) (getPodsForNodeName spi n)
     (\<lambda>xs s. ?I s \<and> (\<forall>i\<in>set xs. NodeName (ps ! i) = n))" for n
    by (rule calls_weaken [OF calls_podsForNode]) (rule sparesReady_removesFrom)
  have step: "calls ?I (removesFrom True n) (?body n) (\<lambda>r s. r = None \<longrightarrow> ?I s)" for n
  proof (rule calls_bindM [OF pods], rule calls_given)
    fix xs assume xs: "\<forall>i\<in>set xs. NodeName (ps ! i) = n"
    show "calls ?I (removesFrom True n) (case xs of [] \<Rightarrow> ret None
        | pod # _ \<Rightarrow> bindM (spi_RemovePod spi pod) (\<lambda>_. ret (Some True))) (\<lambda>r s. r = None \<longrightarrow> ?I s)"
    proof (cases xs)
      case (Cons i ys)
      then have "calls ?I (removesFrom True n) (foldM (\<lambda>_ i. spi_RemovePod spi i) () [i]) (\<lambda>_. ?I)"
        by (intro calls_removeOnNode) (use xs in auto)
      then have "calls ?I (removesFrom True n) (spi_RemovePod spi i) (\<lambda>_. ?I)"
        by (simp add: unit_eq)
      then show ?thesis using Cons by (auto intro: calls_bindM calls_ret)
    qed (auto intro: calls_ret)
  qed
  have skip: "log t = log s" if "?body n s = (Return None, t)" for n s t
    using that by (auto simp: bindM_def ret_run podsForNode_run split: prod.splits outcome.splits list.splits)
  have "callsOne ?I (removesFrom True) (forM (e_order E ns) ?body)" for ns
    by (rule callsOne_forM [where g = "\<lambda>n. n"]) (auto intro: step skip)
  then show ?thesis
    unfolding removeNextPodFromEvacuateDataNode_def
    by (intro callsOne_bindM [OF calls_read [OF quiet_names(2)]] callsOne_returning)
       (auto simp: ret_run intro: sparesReady_removesFrom)
qed

lemma callsOne_removePlanned:
  "callsOne (sameState ps is dc) (removesFrom True) (removeAllPodsFromOnePlannedDowntimeNode E spi)"
proof -
  let ?I = "sameState ps is dc"
  let ?body = "\<lambda>name. bindM (getPodsForNodeName spi name) (\<lambda>pods. if length pods > 0
     then bindM (foldM (\<lambda>_ i. spi_RemovePod spi i) () pods) (\<lambda>_. ret (Some True)) else ret None)"
  have pods: "calls ?I (removesFrom True n) (getPodsForNodeName spi n)
     (\<lambda>xs s. ?I s \<and> (\<forall>i\<in>set xs. NodeName (ps ! i) = n))" for n
    by (rule calls_weaken [OF calls_podsForNode]) (rule sparesReady_removesFrom)
  have step: "calls ?I (removesFrom True n) (?body n) (\<lambda>r s. r = None \<longrightarrow> ?I s)" for n
    by (rule calls_bindM [OF pods], rule calls_given, rule calls_if)
       (auto intro: calls_bindM [OF calls_removeOnNode] calls_ret)
  have skip: "log t = log s" if "?body n s = (Return None, t)" for n s t
    using that by (auto simp: bindM_def ret_run podsForNode_run split: prod.splits outcome.splits if_splits)
  have "callsOne ?I (removesFrom True) (forM (e_order E ns) ?body)" for ns
    by (rule callsOne_forM [where g = "\<lambda>n. n"], rule step, rule skip)
  then show ?thesis
    unfolding removeAllPodsFromOnePlannedDowntimeNode_def Let_def
    by (intro callsOne_bindM [OF calls_read [OF quiet_attempt [OF quiet_names(1)]]] callsOne_returning)
       (auto simp: ret_run intro: sparesReady_removesFrom)
qed

lemma calls_racksDown:
  "calls (sameState ps is dc) sparesReady (getRacksWithNotReadyPodsBootstrapped E spi)
     (\<lambda>racks s. sameState ps is dc s \<and>
        racks = e_order E ((\<lambda>i. mget (Labels (ps ! i)) RackLabel) ` set (downIn ps is dc)))"
  by (auto simp: calls_def getRacksWithNotReadyPodsBootstrapped_def bindM_def down_run gets_run
      downPods_sameState getPodsRackNameSet_def podsAt_def image_image)
     (simp add: sameState_def image_image)

lemma removeNext_False:
  assumes "removeNextPodFromEvacuateDataNode E spi s = (Return False, t)"
  shows "\<exists>cs k. t = s\<lparr>log := log s @ cs, ticks := k\<rparr> \<and> list_all isRead cs"
proof -
  let ?body = "\<lambda>name. bindM (getPodsForNodeName spi name) (\<lambda>pods. case pods of [] \<Rightarrow> ret None
     | pod # _ \<Rightarrow> bindM (spi_RemovePod spi pod) (\<lambda>_. ret (Some True)))"
  have body: "t = s" if "?body n s = (Return None, t)" for n s t
    using that by (auto simp: bindM_def ret_run podsForNode_run split: prod.splits outcome.splits list.splits)
  have some: "v = Some True" if "?body n s = (Return v, t)" "v \<noteq> None" for n s t v
    using that by (auto simp: bindM_def ret_run podsForNode_run split: prod.splits outcome.splits list.splits)
  have loop: "forM xs ?body s = (Return v, t) \<Longrightarrow> (v = None \<longrightarrow> t = s) \<and> v \<noteq> Some False" for xs s t v
  proof (induction xs arbitrary: s)
    case (Cons x xs)
    then obtain r u where x: "?body x s = (Return r, u)"
        "(case r of Some v \<Rightarrow> ret (Some v) | None \<Rightarrow> forM xs ?body) u = (Return v, t)"
      unfolding forM.simps by (auto simp only: bindM_eq_Return_iff [of "?body x"])
    show ?case
    proof (cases r)
      case None
      then show ?thesis using x body [of x s u] Cons.IH [of s] by auto
    next
      case (Some b)
      then show ?thesis using x some [of x s r u] by (auto simp: ret_run)
    qed
  qed (auto simp: ret_run)
  obtain ns u where u: "getEvacuateAllDataNodeNameSet spi s = (Return ns, u)"
      "returning (forM (e_order E ns) ?body) (ret False) u = (Return False, t)"
    using assms unfolding removeNextPodFromEvacuateDataNode_def by (auto simp only: bindM_eq_Return_iff)
  have "t = u"
    using u(2) loop [of "e_order E ns" u] unfolding returning_def bindM_eq_Return_iff
    by (auto simp: ret_run split: option.splits)
  with u(1) show ?thesis using quiet_names(2) unfolding quiet_def by blast
qed

lemma callsOne_removals:
  "callsOne (sameState ps is dc) (removesFrom True) (requeueIf 2 (removeNextPodFromEvacuateDataNode E spi)
     (requeueIf 2 (removeAllPodsFromOnePlannedDowntimeNode E spi) (ret Continue)))"
proof -
  let ?I = "sameState ps is dc" and ?k = "requeueIf 2 (removeAllPodsFromOnePlannedDowntimeNode E spi) (ret Continue)"
  have planned: "callsOne ?I (removesFrom True) ?k"
    unfolding requeueIf_def by (rule callsOne_orError_last [OF callsOne_removePlanned]) (simp add: ret_run)
  show ?thesis unfolding callsOne_def
  proof (intro allI impI)
    fix s r t
    assume I: "?I s" and eq: "requeueIf 2 (removeNextPodFromEvacuateDataNode E spi) ?k s = (r, t)"
    obtain ra u where m: "removeNextPodFromEvacuateDataNode E spi s = (ra, u)" by fastforce
    from callsOne_removeNext I m obtain n cs where cs: "log u = log s @ cs" "list_all (removesFrom True n) cs"
      by (rule callsOneD)
    show "\<exists>n cs. log t = log s @ cs \<and> list_all (removesFrom True n) cs"
    proof (cases "ra = Return False")
      case True
      then obtain ds k where u: "u = s\<lparr>log := log s @ ds, ticks := k\<rparr>" "list_all isRead ds"
        using m removeNext_False by blast
      have "?I u" "?k u = (r, t)" using I eq m True u(1)
        by (auto simp: sameState_def requeueIf_def orError_run)
      with planned obtain n' es where "log t = log u @ es" "list_all (removesFrom True n') es" by (rule callsOneD)
      then show ?thesis using u
        by (auto intro!: exI [of _ n'] exI [of _ "ds @ es"] simp: list_all_iff sparesReady_removesFrom sparesReady_read)
    next
      case False
      then have "t = u" using eq m by (auto simp: requeueIf_def orError_run ret_run split: outcome.splits if_splits)
      with cs show ?thesis by blast
    qed
  qed
qed

text \<open>The guards before: only annotations are written, or nothing at all.\<close>

lemma callsOne_checkNodeEMM:
  assumes order: "orderOk E" and names: "distinct (map (\<lambda>i. Name (ps ! i)) is)"
    and labels: "\<forall>i\<in>set (downIn ps is dc). mget (Labels (ps ! i)) RackLabel \<noteq> []"
  shows "callsOne (sameState ps is dc) (removesFrom (downIn ps is dc = [])) (checkNodeEMM E spi)"
proof -
  let ?I = "sameState ps is dc" and ?A = "removesFrom (downIn ps is dc = [])"
  let ?racks = "e_order E ((\<lambda>i. mget (Labels (ps ! i)) RackLabel) ` set (downIn ps is dc))"
  let ?downRack = "\<lambda>racks. case racks of [] \<Rightarrow> [] | rackName # _ \<Rightarrow> rackName"
  have racks: "set ?racks = (\<lambda>i. mget (Labels (ps ! i)) RackLabel) ` set (downIn ps is dc)"
    using order by (simp add: orderOk_def)
  have "[] \<notin> set ?racks" unfolding racks using labels by auto
  then have healthy: "downIn ps is dc = []" if "?downRack ?racks = []"
    using that racks by (cases ?racks) auto
  note req = callsOne_requeueIf [where A = ?A and B = sparesReady, OF _ _ sparesReady_removesFrom]
  note orr = callsOne_orError [where A = ?A and B = sparesReady, OF _ _ sparesReady_removesFrom]
  note bnd = callsOne_bindM [where A = ?A and B = sparesReady, OF _ _ sparesReady_removesFrom]
  note fails = calls_failEMMs [OF untimed_sameState]
  have fin: "callsOne ?I ?A (if ?downRack ?racks \<noteq> []
      then requeueIf 2 (performEvacuateDataPodReplace spi) (ret Continue)
      else requeueIf 2 (removeNextPodFromEvacuateDataNode E spi) (
           requeueIf 2 (removeAllPodsFromOnePlannedDowntimeNode E spi) (ret Continue)))"
  proof (rule callsOne_if)
    show "callsOne ?I ?A (requeueIf 2 (performEvacuateDataPodReplace spi) (ret Continue))"
      by (rule req [OF calls_unless [OF calls_evacuateReplace [OF names]]])
         (rule callsOne_calls [OF calls_ret], simp)
  qed (use callsOne_removals healthy in simp)
  have tail: "callsOne ?I ?A (
       requeueIf 2 (if ?downRack ?racks \<noteq> [] then
             bindM (getRackNodeNameSet spi (?downRack ?racks)) (\<lambda>nodeNameSetForDownRack.
             failEMMs E spi (SubtractStringSet ns nodeNameSetForDownRack) TooManyExistingFailures)
             else ret False) (
         requeueIf 2 (removeAllNotReadyPodsOnEMMNodes spi) (if ?downRack ?racks \<noteq> []
      then requeueIf 2 (performEvacuateDataPodReplace spi) (ret Continue)
      else requeueIf 2 (removeNextPodFromEvacuateDataNode E spi) (
           requeueIf 2 (removeAllPodsFromOnePlannedDowntimeNode E spi) (ret Continue)))))" for ns
    by (rule req [OF calls_if req [OF calls_unless [OF calls_removeAllNotReady] fin]])
       (auto intro: calls_bindM [OF calls_read [OF quiet_names(8)] fails] calls_ret)
  show ?thesis
    unfolding checkNodeEMM_def Let_def
    apply (rule req [OF calls_cleanup [OF untimed_sameState]])
    apply (rule req [OF calls_unless [OF calls_read [OF quiet_stillProcessing]]])
    apply (rule bnd [OF calls_read [OF initialized_quiet]], rule callsOne_if)
     apply (rule callsOne_calls [OF calls_ret], simp)
    apply (rule orr [OF calls_read [OF quiet_names(1)]], rule orr [OF calls_read [OF quiet_names(2)]],
        rule orr [OF calls_read [OF quiet_names(3)]], rule bnd [OF calls_read [OF quiet_names(4)]])
    apply (rule req [OF calls_if [OF fails calls_retFalse]])
    apply (rule bnd [OF calls_read [OF stopped_quiet]], rule req [OF calls_if [OF fails calls_retFalse]])
    apply (rule bnd [OF calls_racksDown], rule callsOne_fixed)
    apply (rule req [OF calls_if [OF fails calls_retFalse]])
    by (rule tail)
qed

end

text \<open>
  For the reconciliation context: a ready pod is removed only when no bootstrapped node is down,
  and the ready pods removed in one run are all on one node.
\<close>

lemma checkNodeEMM_removals:
  assumes "orderOk E" "distinct (map Name (podsAt s (dcPods s)))"
    and "\<forall>i\<in>set (downPods s). mget (Labels (podStore s ! i)) RackLabel \<noteq> []"
    and "checkNodeEMM E (rcSPI E) s = (r, t)"
  shows "\<exists>n cs. log t = log s @ cs \<and> list_all (removesFrom (downPods s = []) n) cs"
proof -
  have same: "sameState (podStore s) (dcPods s) (Datacenter s) s" by (simp add: sameState_def)
  note down = downPods_sameState [OF same]
  have "callsOne (sameState (podStore s) (dcPods s) (Datacenter s)) (removesFrom (downPods s = []))
      (checkNodeEMM E (rcSPI E))"
    unfolding down using assms(1-3) unfolding down
    by (intro rcspi.callsOne_checkNodeEMM) (simp_all add: podsAt_def o_def)
  from this same assms(4) show ?thesis by (rule callsOneD) blast
qed

end
