(* ===== verification/Racks.thy ===== *)
theory Racks
  imports Watch Decommission Emm
begin

text \<open>
  The rest of \<open>reconcile_racks.go\<close>: the stateful sets of the racks, their labels, their replicas
  and their pod templates, the disruption budget, the users of the database, and
  \<open>ReconcileAllRacks\<close>, which composes every step of the reconciliation in order.
\<close>

section \<open>Labels\<close>

definition mergeInLabelsIfDifferent :: "string gomap \<Rightarrow> string gomap \<Rightarrow> (bool \<times> string gomap) outcome" where
  "mergeInLabelsIfDifferent existingLabels newLabels =
     obind (MergeMap (Some fmempty) [existingLabels, newLabels]) (\<lambda>updatedLabels.
       if existingLabels = updatedLabels then Return (False, existingLabels)
       else Return (True, updatedLabels))"

definition shouldUpdateLabelsForClusterResource ::
    "string gomap \<Rightarrow> CassandraDatacenter \<Rightarrow> (bool \<times> string gomap) outcome" where
  "shouldUpdateLabelsForClusterResource resourceLabels dc =
     obind (AddManagedByLabel (GetClusterLabels dc)) (mergeInLabelsIfDifferent resourceLabels)"

definition shouldUpdateLabelsForRackResource ::
    "string gomap \<Rightarrow> CassandraDatacenter \<Rightarrow> string \<Rightarrow> (bool \<times> string gomap) outcome" where
  "shouldUpdateLabelsForRackResource resourceLabels dc rackName =
     obind (AddManagedByLabel (GetRackLabels dc rackName)) (mergeInLabelsIfDifferent resourceLabels)"

definition shouldUpdateLabelsForDatacenterResource ::
    "string gomap \<Rightarrow> CassandraDatacenter \<Rightarrow> (bool \<times> string gomap) outcome" where
  "shouldUpdateLabelsForDatacenterResource resourceLabels dc =
     obind (AddManagedByLabel (GetDatacenterLabels dc)) (mergeInLabelsIfDifferent resourceLabels)"

section \<open>Creation of racks\<close>

text \<open>The construction may write into the labels of a rack in the spec.\<close>

definition newSts :: "env \<Rightarrow> bool \<Rightarrow> string \<Rightarrow> (world, StatefulSet) op" where
  "newSts E useDefunct rackName =
     bindM getDc (\<lambda>dc.
       case (if useDefunct then newStatefulSetForCassandraDatacenterWithDefunctPvcManagedBy E rackName dc 0
             else newStatefulSetForCassandraDatacenter E rackName dc 0) of
         (r, dc') \<Rightarrow> bindM (modifyDc (\<lambda>_. dc')) (\<lambda>_. lift r))"

definition GetStatefulSetForRack :: "env \<Rightarrow> RackInformation \<Rightarrow> (world, StatefulSet \<times> bool) op" where
  "GetStatefulSetForRack E nextRack =
     bindM getDc (\<lambda>dc.
     bindM (attempt (perform (e_sts E) (GetSts (newNamespacedNameForStatefulSet dc (RackName nextRack))))) (\<lambda>r.
       case r of
         Inr currentStatefulSet \<Rightarrow> ret (currentStatefulSet, True)
       | Inl e \<Rightarrow>
           if \<not> IsNotFound e then fail e
           else
             bindM (newSts E False (RackName nextRack)) (\<lambda>desired.
             bindM getDc (\<lambda>dc.
             bindM (setControllerReference E dc desired) (\<lambda>desired.
             ret (desired, False))))))"

definition ReconcileNextRack :: "env \<Rightarrow> StatefulSet \<Rightarrow> (world, StatefulSet) op" where
  "ReconcileNextRack E statefulSet =
     bindM (setOperatorProgressStatus E ProgressUpdating) (\<lambda>_.
     bindM (perform (e_sts E) (CreateSts statefulSet)) (\<lambda>created.
     bindM (Eventf NormalEvent ''CreatedResource'' (''Created statefulset '' @ Name created)) (\<lambda>_.
     ret created)))"

definition createRack :: "env \<Rightarrow> nat \<times> RackInformation \<Rightarrow> (world, unit) op" where
  "createRack E = (\<lambda>(idx, rackInfo).
     bindM (GetStatefulSetForRack E rackInfo) (\<lambda>(statefulSet, found).
     bindM (if found then ret statefulSet else ReconcileNextRack E statefulSet) (\<lambda>statefulSet.
     bindM (gets statefulSets) (\<lambda>stss.
       if idx < length stss then setSts idx statefulSet else panic))))"

definition forRacks :: "(unit \<Rightarrow> nat \<times> RackInformation \<Rightarrow> (world, unit) op) \<Rightarrow> (world, unit) op" where
  "forRacks step =
     bindM (gets desiredRackInformation) (\<lambda>infos. foldM step () (enumerate 0 infos))"

definition CheckRackCreation :: "env \<Rightarrow> (world, ReconcileResult) op" where
  "CheckRackCreation E = orError (forRacks (\<lambda>_. createRack E)) (\<lambda>_. ret Continue)"

section \<open>Labels of racks and pods\<close>

definition labelRack :: "env \<Rightarrow> nat \<times> RackInformation \<Rightarrow> (world, unit) op" where
  "labelRack E = (\<lambda>(idx, rackInfo).
     bindM (getSts idx) (\<lambda>sts.
     bindM getDc (\<lambda>dc.
     bindM (lift (shouldUpdateLabelsForRackResource (Labels sts) dc (RackName rackInfo))) (\<lambda>(should, updated).
       if should then
         bindM (patchSts E idx (sts\<lparr>Labels := updated\<rparr>)) (\<lambda>_.
         bindM (getSts idx) (\<lambda>sts.
         Eventf NormalEvent ''LabeledRackResource'' (''Update rack labels for StatefulSet '' @ Name sts)))
       else ret ()))))"

definition CheckRackLabels :: "env \<Rightarrow> (world, ReconcileResult) op" where
  "CheckRackLabels E = orError (forRacks (\<lambda>_. labelRack E)) (\<lambda>_. ret Continue)"

text \<open>An error of a patch of labels is only logged; the object in memory keeps the labels.\<close>

definition relabel ::
    "((world, 'a ObjectMeta_scheme) op) \<Rightarrow> 'a ObjectMeta_scheme \<Rightarrow> (world, 'a ObjectMeta_scheme) op" where
  "relabel patch labelled =
     bindM (attempt patch) (\<lambda>r. case r of Inl _ \<Rightarrow> ret labelled | Inr patched \<Rightarrow> ret patched)"

definition reconcilePodVolume :: "env \<Rightarrow> StatefulSet \<Rightarrow> Pod \<Rightarrow> (world, unit) op" where
  "reconcilePodVolume E sts pod =
     (case Volumes pod of
        volume # _ \<Rightarrow>
          (case v_Source volume of
             ClaimSource pvcName \<Rightarrow>
               bindM (perform (e_pvc E) (GetPVC (Namespace sts, pvcName))) (\<lambda>pvc.
               bindM getDc (\<lambda>dc.
               bindM (lift (shouldUpdateLabelsForRackResource (Labels pvc) dc (mget (Labels sts) RackLabel))) (\<lambda>(should, updated).
                 if should then
                   bindM (relabel (perform (e_pvc E) (PatchPVC pvc (pvc\<lparr>Labels := updated\<rparr>)))
                     (pvc\<lparr>Labels := updated\<rparr>)) (\<lambda>pvc.
                   Eventf NormalEvent ''LabeledRackResource''
                     (''Update rack labels for PersistentVolumeClaim '' @ Name pvc))
                 else ret ())))
           | _ \<Rightarrow> ret ())
      | [] \<Rightarrow> ret ())"

definition reconcilePod :: "env \<Rightarrow> StatefulSet \<Rightarrow> int \<Rightarrow> (world, unit) op" where
  "reconcilePod E sts i =
     (let podName = getStatefulSetPodNameForIdx sts i in
      bindM (perform (e_pod E) (GetPod (Namespace sts, podName))) (\<lambda>pod.
      bindM getDc (\<lambda>dc.
      bindM (lift (shouldUpdateLabelsForRackResource (Labels pod) dc (mget (Labels sts) RackLabel))) (\<lambda>(should, updated).
      bindM (if should then
          bindM (relabel (perform (e_pod E) (PatchPod pod (pod\<lparr>Labels := updated\<rparr>))) (pod\<lparr>Labels := updated\<rparr>)) (\<lambda>pod.
          bindM (Eventf NormalEvent ''LabeledRackResource'' (''Update rack labels for Pod '' @ podName)) (\<lambda>_.
          ret pod))
        else ret pod) (\<lambda>pod.
      reconcilePodVolume E sts pod)))))"

definition ReconcilePods :: "env \<Rightarrow> StatefulSet \<Rightarrow> (world, unit) op" where
  "ReconcilePods E sts = foldM (\<lambda>_ i. reconcilePod E sts (int i)) () [0..<nat (ss_Replicas sts)]"

definition CheckRackPodLabels :: "env \<Rightarrow> (world, ReconcileResult) op" where
  "CheckRackPodLabels E =
     orError (forRacks (\<lambda>_ (idx, _). bindM (getSts idx) (ReconcilePods E))) (\<lambda>_. ret Continue)"

section \<open>Pod templates\<close>

definition desiredStatefulSetForExistingStatefulSet ::
    "env \<Rightarrow> StatefulSet \<Rightarrow> string \<Rightarrow> (world, StatefulSet) op" where
  "desiredStatefulSetForExistingStatefulSet E sts rackName =
     newSts E (usesDefunctPvcManagedByLabel sts) rackName"

text \<open>The new stateful set takes the replicas of the old one, and its labels and annotations.\<close>

definition keepAdminChanges :: "StatefulSet \<Rightarrow> StatefulSet \<Rightarrow> StatefulSet outcome" where
  "keepAdminChanges sts desired =
     obind (MergeMap (Some fmempty) [Labels sts, Labels desired]) (\<lambda>labels.
     obind (MergeMap (Some fmempty) [Annotations sts, Annotations desired]) (\<lambda>annotations.
     Return (desired\<lparr>Replicas := Replicas sts, Labels := labels, Annotations := annotations\<rparr>)))"

definition canaryPartition :: "CassandraDatacenterSpec \<Rightarrow> int \<Rightarrow> int" where
  "canaryPartition spec nodeCount =
     (if CanaryUpgradeCount spec = 0 \<or> CanaryUpgradeCount spec > int32 nodeCount then int32 nodeCount
      else int32 (int32 nodeCount - CanaryUpgradeCount spec))"

definition updateSts :: "env \<Rightarrow> nat \<Rightarrow> (world, unit) op" where
  "updateSts E idx =
     bindM (getSts idx) (\<lambda>sts.
     bindM (perform (e_sts E) (UpdateSts sts)) (\<lambda>sts.
     setSts idx sts))"

definition waitingForUpgrade :: "StatefulSet \<Rightarrow> bool" where
  "waitingForUpgrade sts =
     (Generation sts \<noteq> ss_ObservedGeneration sts \<or> ss_Replicas sts \<noteq> ss_ReadyReplicas sts
      \<or> ss_Replicas sts \<noteq> ss_CurrentReplicas sts \<or> ss_Replicas sts \<noteq> ss_UpdatedReplicas sts)"

text \<open>The body of the loop for one rack, after the test for a canary upgrade.\<close>

definition checkTemplateOfRack :: "env \<Rightarrow> nat \<Rightarrow> RackInformation \<Rightarrow> (world, ReconcileResult) op" where
  "checkTemplateOfRack E idx rackInfo =
     bindM (getSts idx) (\<lambda>sts.
     orError (desiredStatefulSetForExistingStatefulSet E sts (RackName rackInfo)) (\<lambda>desired.
     bindM getDc (\<lambda>dc.
     orError (setControllerReference E dc desired) (\<lambda>desired.
       if \<not> ResourcesHaveSameHash sts desired then
         bindM (lift (keepAdminChanges sts desired)) (\<lambda>desired.
         bindM (setSts idx (if CanaryUpgrade (Spec dc)
             then desired\<lparr>UpdateStrategy := \<lparr>us_Type = ''RollingUpdate'',
               us_Partition = Some (canaryPartition (Spec dc) (NodeCount rackInfo))\<rparr>\<rparr>
             else desired)) (\<lambda>_.
         bindM (Eventf NormalEvent ''UpdatingRack'' (''Updating rack '' @ RackName rackInfo)) (\<lambda>_.
         bindM (setCondition E (NewDatacenterCondition DatacenterUpdating ConditionTrue)) (\<lambda>updated.
         orError (if updated then patchDcStatus E dc else ret ()) (\<lambda>_.
         orError (setOperatorProgressStatus E ProgressUpdating) (\<lambda>_.
         orError (updateSts E idx) (\<lambda>_.
         orError (enableQuietPeriod E 20) (\<lambda>_.
         ret Done))))))))
       else if waitingForUpgrade sts then ret (RequeueSoon 10)
       else ret Continue))))"

definition CheckRackPodTemplate :: "env \<Rightarrow> (world, ReconcileResult) op" where
  "CheckRackPodTemplate E =
     bindM (gets desiredRackInformation) (\<lambda>infos.
     returning (forM (enumerate 0 infos) (\<lambda>(idx, rackInfo).
       bindM getDc (\<lambda>dc.
         if CanaryUpgrade (Spec dc) \<and> idx > 0 then ret (Some Continue)
         else
           bindM (checkTemplateOfRack E idx rackInfo) (\<lambda>res.
           ret (if Completed res then Some res else None)))))
     (ret Continue))"

definition forceUpgradeRack :: "env \<Rightarrow> nat \<times> RackInformation \<Rightarrow> (world, unit) op" where
  "forceUpgradeRack E = (\<lambda>(idx, rackInfo).
     bindM (newSts E False (RackName rackInfo)) (\<lambda>desired.
     bindM getDc (\<lambda>dc.
     bindM (setControllerReference E dc desired) (\<lambda>desired.
     bindM (getSts idx) (\<lambda>sts.
     bindM (lift (keepAdminChanges sts desired)) (\<lambda>desired.
     bindM (setSts idx desired) (\<lambda>_.
     bindM (Eventf NormalEvent ''UpdatingRack'' (''Force updating rack '' @ RackName rackInfo)) (\<lambda>_.
     bindM (setCondition E (NewDatacenterCondition DatacenterUpdating ConditionTrue)) (\<lambda>_.
     bindM (patchDcStatus E dc) (\<lambda>_.
     bindM (setOperatorProgressStatus E ProgressUpdating) (\<lambda>_.
     updateSts E idx)))))))))))"

definition CheckRackForceUpgrade :: "env \<Rightarrow> (world, ReconcileResult) op" where
  "CheckRackForceUpgrade E =
     bindM getDc (\<lambda>dc.
       let forceRacks = ForceUpgradeRacks (Spec dc) in
       if length forceRacks = 0 then ret Continue
       else
         orError (forRacks (\<lambda>_ (idx, rackInfo).
           if RackName rackInfo \<in> set forceRacks then forceUpgradeRack E (idx, rackInfo) else ret ())) (\<lambda>_.
         bindM getDc (\<lambda>base.
         bindM (modifyDc (\<lambda>dc. dc\<lparr>Spec := (Spec dc)\<lparr>ForceUpgradeRacks := []\<rparr>\<rparr>)) (\<lambda>_.
         orError (patchDc E base) (\<lambda>_. ret Done)))))"

section \<open>Replicas\<close>

definition drainRack :: "env \<Rightarrow> string \<Rightarrow> (world, unit) op" where
  "drainRack E rackName =
     bindM (gets (\<lambda>s. indicesByLabels s (dcPods s) (GetRackLabels (Datacenter s) rackName))) (\<lambda>idxs.
     foldM (\<lambda>_ i.
       bindM (getPod i) (\<lambda>pod.
       bindM (Now E) (\<lambda>now.
         if isMgmtApiRunning now pod then bindM (attempt (CallDrainEndpoint E pod)) (\<lambda>_. ret ())
         else ret ()))) () idxs)"

definition announceStopping :: "env \<Rightarrow> (world, unit) op" where
  "announceStopping E =
     bindM getDc (\<lambda>base.
     bindM (setConditions E [(DatacenterStopped, ConditionTrue), (DatacenterReady, ConditionFalse)] False) (\<lambda>updated.
     bindM (if updated then patchDcStatus E base else ret ()) (\<lambda>_.
     Eventf NormalEvent ''StoppingDatacenter'' ''Stopping datacenter'')))"

text \<open>
  One turn of the loop: the local variables \<open>emittedStoppingEvent\<close> and \<open>racksUpdated\<close> are both
  false before the first rack that is stopped and both true after it.
\<close>

definition stopRack :: "env \<Rightarrow> bool \<Rightarrow> nat \<times> RackInformation \<Rightarrow> (world, bool) op" where
  "stopRack E emitted = (\<lambda>(idx, rackInfo).
     bindM (getSts idx) (\<lambda>sts.
     bindM getDc (\<lambda>dc.
     bindM (derefReplicas sts) (\<lambda>currentPodCount.
       if Stopped (Spec dc) \<and> currentPodCount > 0 then
         bindM (if emitted then ret () else announceStopping E) (\<lambda>_.
         bindM (drainRack E (RackName rackInfo)) (\<lambda>_.
         bindM (UpdateRackNodeCount E idx 0) (\<lambda>_.
         ret True)))
       else ret emitted))))"

definition CheckRackStoppedState :: "env \<Rightarrow> (world, ReconcileResult) op" where
  "CheckRackStoppedState E =
     bindM (gets desiredRackInformation) (\<lambda>infos.
     orError (foldM (stopRack E) False (enumerate 0 infos)) (\<lambda>racksUpdated.
       if racksUpdated then ret Done else ret Continue))"

definition scaleRack :: "env \<Rightarrow> nat \<times> RackInformation \<Rightarrow> (world, unit) op" where
  "scaleRack E = (\<lambda>(idx, rackInfo).
     bindM (getSts idx) (\<lambda>sts.
     bindM (derefReplicas sts) (\<lambda>maxReplicas.
       if maxReplicas < int32 (NodeCount rackInfo) then
         bindM getDc (\<lambda>base.
         bindM (setConditions E
           (if GetConditionStatus base DatacenterStopped = ConditionTrue
            then [(DatacenterStopped, ConditionFalse), (DatacenterResuming, ConditionTrue)]
            else [(DatacenterScalingUp, ConditionTrue)]) False) (\<lambda>updated.
         bindM (if updated then patchDcStatus E base else ret ()) (\<lambda>_.
         bindM (Eventf NormalEvent ''ScalingUpRack'' (''Scaling up rack '' @ RackName rackInfo)) (\<lambda>_.
         UpdateRackNodeCount E idx (int32 (NodeCount rackInfo))))))
       else ret ())))"

definition CheckRackScale :: "env \<Rightarrow> (world, ReconcileResult) op" where
  "CheckRackScale E = orError (forRacks (\<lambda>_. scaleRack E)) (\<lambda>_. ret Continue)"

section \<open>The disruption budget\<close>

definition CheckDcPodDisruptionBudget :: "env \<Rightarrow> (world, ReconcileResult) op" where
  "CheckDcPodDisruptionBudget E =
     bindM getDc (\<lambda>dc.
     bindM (lift (newPodDisruptionBudgetForDatacenter E dc)) (\<lambda>desired.
     orError (setControllerReference E dc desired) (\<lambda>desired.
     bindM (attempt (perform (e_pdb E) (GetPDB (namespacedNameOf desired)))) (\<lambda>r.
     let create =
       orError (perform (e_pdb E) (CreatePDB desired)) (\<lambda>created.
       bindM (Eventf NormalEvent ''CreatedResource'' (''Created PodDisruptionBudget '' @ Name created)) (\<lambda>_.
       ret Continue))
     in case r of
          Inl e \<Rightarrow> if IsNotFound e then create else ret (ErrorOut e)
        | Inr current \<Rightarrow>
            if ResourcesHaveSameHash current desired then ret Continue
            else orError (perform (e_unit E) (DeletePDB current)) (\<lambda>_. create)))))"

section \<open>Users\<close>

text \<open>
  \<open>GetUsers\<close> appends to the slice of the spec. The result is a new list here; the code never
  reads the spec's slice beyond its length.
\<close>

definition shouldUpsertUsers :: "int \<Rightarrow> CassandraDatacenter \<Rightarrow> bool" where
  "shouldUpsertUsers now dc = (now > UsersUpserted (Status dc) + Minute * 4)"

definition upsertUser :: "env \<Rightarrow> CassandraUser \<Rightarrow> (world, unit) op" where
  "upsertUser E user =
     bindM getDc (\<lambda>dc.
     bindM (retrieveSecret E (Namespace dc, SecretName user)) (\<lambda>secret.
     bindM (gets dcPods) (\<lambda>idxs.
       case idxs of
         [] \<Rightarrow> panic
       | i # _ \<Rightarrow>
           bindM (getPod i) (\<lambda>pod.
           CallCreateRoleEndpoint E pod (mget (Data secret) ''username'') (mget (Data secret) ''password'')
             (Superuser user)))))"

definition GetUsers :: "CassandraDatacenter \<Rightarrow> CassandraUser list" where
  "GetUsers dc =
     Users (Spec dc) @ [\<lparr>SecretName = snd (GetSuperuserSecretNamespacedName dc), Superuser = True\<rparr>]"

definition UpdateSecretWatches :: "env \<Rightarrow> (world, unit) op" where
  "UpdateSecretWatches E =
     bindM getDc (\<lambda>dc.
     UpdateWatch E (Namespace dc, Name dc) (map (\<lambda>user. (Namespace dc, SecretName user)) (GetUsers dc)))"

definition CreateUsers :: "env \<Rightarrow> (world, ReconcileResult) op" where
  "CreateUsers E =
     bindM getDc (\<lambda>dc.
       if Stopped (Spec dc) then ret Continue
       else
         bindM (attempt (UpdateSecretWatches E)) (\<lambda>_.
         bindM (attempt (retrieveSuperuserSecretOrCreateDefault E)) (\<lambda>_.
         orError (foldM (\<lambda>_. upsertUser E) () (GetUsers dc)) (\<lambda>_.
         bindM (Eventf NormalEvent ''CreatedUsers'' ''Created users'') (\<lambda>_.
         bindM (Eventf NormalEvent ''CreatedSuperuser'' ''Created superuser'') (\<lambda>_.
         bindM getDc (\<lambda>base.
         bindM (Now E) (\<lambda>now1.
         bindM (Now E) (\<lambda>now2.
         bindM (modifyDc (\<lambda>dc. dc\<lparr>Status := (Status dc)\<lparr>UsersUpserted := now1, SuperUserUpserted := now2\<rparr>\<rparr>)) (\<lambda>_.
         orError (patchDcStatus E base) (\<lambda>_.
         ret Continue)))))))))))"

section \<open>All racks\<close>

definition listPods :: "env \<Rightarrow> string gomap \<Rightarrow> (world, Pod list) op" where
  "listPods E selector =
     bindM getDc (\<lambda>dc. perform (e_pods E) (ListPods (Namespace dc) selector))"

text \<open>An error of the list call is only logged: the list is then empty.\<close>

definition loadPods :: "env \<Rightarrow> (world, unit) op" where
  "loadPods E =
     bindM getDc (\<lambda>dc.
     bindM (attempt (listPods E (GetClusterLabels dc))) (\<lambda>r.
     let pods = (case r of Inl _ \<Rightarrow> [] | Inr ps \<Rightarrow> ps) in
     modify (\<lambda>s. s\<lparr>podStore := pods, clusterPods := [0..<length pods],
       dcPods := filter (\<lambda>i. mapContains (Labels (pods ! i)) (GetDatacenterLabels dc)) [0..<length pods]\<rparr>)))"

definition finishReconcile :: "env \<Rightarrow> (world, ReconcileResult) op" where
  "finishReconcile E =
     orError (setOperatorProgressStatus E ProgressReady) (\<lambda>_.
     orError (enableQuietPeriod E 5) (\<lambda>_.
     ret Done))"

text \<open>The steps after the pods are listed, in the order of the code.\<close>

definition reconcileLoadedRacks :: "env \<Rightarrow> (world, Result \<times> error option) op" where
  "reconcileLoadedRacks E =
     bindM (getCassMetadataEndpoints E) (\<lambda>endpointData.
     check (CheckStatefulSetControllerCaughtUp E) (
     check (UpdateStatus E) (
     check (CheckSuperuserSecretCreation E) (
     check (CheckInternodeCredentialCreation E) (
     check (CheckConfigSecret E) (
     check (CheckRackCreation E) (
     check (CheckRackLabels E) (
     check (CheckDecommissioningNodes E endpointData) (
     check (CheckRackStoppedState E) (
     check (CheckRackForceUpgrade E) (
     check (if IsPSPEnabled (e_getenv E) then CheckEMM E (rcSPI E) else ret Continue) (
     check (CheckRackScale E) (
     check (CheckPodsReady E endpointData) (
     check CheckCassandraNodeStatuses (
     check (CheckRollingRestart E) (
     check (CheckDcPodDisruptionBudget E) (
     check (DecommissionNodes E endpointData) (
     check (CheckRackPodTemplate E) (
     check (CheckRackPodLabels E) (
     check (CreateUsers E) (
     check (CheckClearActionConditions E) (
     check (CheckConditionInitializedAndReady E) (
     bindM (finishReconcile E) (\<lambda>r. lift (Output r)))))))))))))))))))))))))"

definition ReconcileAllRacks :: "env \<Rightarrow> (world, Result \<times> error option) op" where
  "ReconcileAllRacks E =
     check CheckForInvalidState (bindM (loadPods E) (\<lambda>_. reconcileLoadedRacks E))"

end
