(* ===== verification/PspStatus.thy ===== *)
theory PspStatus
  imports Secrets
begin

text \<open>
  The vSphere integration besides maintenance: the health data and its catalog
  (\<open>pkg/psp/psp_status.go\<close>) and the network policy (\<open>pkg/psp/networkpolicies.go\<close>). The YAML
  library is the environment's.
\<close>

section \<open>Health of a datacenter\<close>

definition HealthLabel :: string where "HealthLabel = ''vmware.vsphere.health''"

definition field :: "string \<Rightarrow> json" where
  "field n = JObject [(''name'', JString n), (''type'', JString ''string'')]"

definition instanceHealthSchema :: json where
  "instanceHealthSchema = JObject
     [(''name'', JString ''instanceHealth''),
      (''fields'', JArray [field ''instance'', field ''namespace'', field ''health''])]"

definition buildSchema :: json where
  "buildSchema = JObject
     [(''name'', JString ''CassandraDatacenter''), (''healthchecks'', JArray [instanceHealthSchema])]"

definition emptyHealth :: Health where
  "emptyHealth = \<lparr>h_Spec = JNull, h_InstanceHealth = []\<rparr>"

definition createInstanceHealth :: "CassandraDatacenter \<Rightarrow> InstanceHealth" where
  "createInstanceHealth dc =
     (let is = (\<lambda>cond. GetConditionStatus dc cond = ConditionTrue);
          status =
            (if GetConditionStatus dc DatacenterReady = ConditionFalse \<or> is DatacenterResuming then HealthRed
             else if list_ex is [DatacenterReplacingNodes, DatacenterScalingUp, DatacenterUpdating,
               DatacenterResuming, DatacenterRollingRestart] then HealthYellow
             else HealthGreen)
      in \<lparr>ih_Instance = Name dc, ih_Namespace = Namespace dc, ih_Health = status\<rparr>)"

definition updateHealth :: "Health \<Rightarrow> CassandraDatacenter \<Rightarrow> Health" where
  "updateHealth health dc =
     (let instanceHealths = h_InstanceHealth health;
          instanceHealth = createInstanceHealth dc
      in \<lparr>h_Spec = buildSchema,
          h_InstanceHealth =
            (case firstIndex (\<lambda>h. ih_Instance h = Name dc \<and> ih_Namespace h = Namespace dc) instanceHealths of
               Some i \<Rightarrow> instanceHealths[i := instanceHealth]
             | None \<Rightarrow> instanceHealths @ [instanceHealth])\<rparr>)"

section \<open>Config maps\<close>

definition newConfigMap :: "NamespacedName \<Rightarrow> ConfigMap" where
  "newConfigMap n = ObjectMeta.extend (emptyMeta\<lparr>Name := snd n, Namespace := fst n\<rparr>)
     \<lparr>cm_Data = Some fmempty, cm_BinaryData = Some fmempty\<rparr>"

definition loadHealthFromConfigMap :: "env \<Rightarrow> ConfigMap \<Rightarrow> Health outcome" where
  "loadHealthFromConfigMap E configMap =
     (case mfind (cm_BinaryData configMap) ''health'' of
        None \<Rightarrow> Return emptyHealth
      | Some configRaw \<Rightarrow> of_sum (e_unmarshalHealth E configRaw))"

text \<open>The error of \<open>saveHealthCheckToConfigMap\<close> is ignored: the map is then unchanged.\<close>

definition saveHealthCheckToConfigMap :: "env \<Rightarrow> Health \<Rightarrow> ConfigMap \<Rightarrow> ConfigMap" where
  "saveHealthCheckToConfigMap E health configMap =
     (case e_marshalHealth E health of
        Inl _ \<Rightarrow> configMap
      | Inr healthRaw \<Rightarrow> configMap\<lparr>cm_Data := Some (fmupd ''health'' healthRaw (contents (cm_Data configMap)))\<rparr>)"

definition labelledAndHashed :: "env \<Rightarrow> string \<Rightarrow> ConfigMap \<Rightarrow> ConfigMap outcome" where
  "labelledAndHashed E v configMap =
     (let hashed = AddHashAnnotation (\<lambda>r. e_hash E (HashConfigMap r)) configMap
      in obind (MergeMap (Some fmempty) [Labels hashed, mapOf [(HealthLabel, v)]]) (\<lambda>labels.
         Return (hashed\<lparr>Labels := labels\<rparr>)))"

definition createHealthCheckConfigMap :: "env \<Rightarrow> Health \<Rightarrow> NamespacedName \<Rightarrow> ConfigMap outcome" where
  "createHealthCheckConfigMap E health n =
     labelledAndHashed E ''health'' (saveHealthCheckToConfigMap E health (newConfigMap n))"

definition prefixKeys :: "(string \<times> string) list \<Rightarrow> string \<Rightarrow> (string, string) fmap" where
  "prefixKeys m prefix = fmap_of_list (map (\<lambda>(k, v). (prefix @ k, v)) m)"

definition buildInstanceHealthCatalog :: "(string \<times> string) list" where
  "buildInstanceHealthCatalog =
     [(''testname'', ''Instance Health''),
      (''short'', ''Health of cassandra datacenter''),
      (''desc'', ''Provides the overall health of each Cassandra datacenter. A value '' @
        ''of '' @ quoted ''green'' @ '' means the datacenter is available and all of its nodes '' @
        ''are in good working order. A value of '' @ quoted ''yellow'' @ '' means that the '' @
        ''datacenter is available, but some node may be down (e.g. there '' @
        ''might be a rolling restart in progress). A value of '' @ quoted ''red'' @ '' means '' @
        ''the cluster is not available (e.g. several nodes are down).''),
      (''table.label'', ''CassandraDatacenter Instances''),
      (''columns.instance'', ''CassandraDatacenter Instance''),
      (''columns.namespace'', ''Namespace''),
      (''columns.health'', ''Health'')]"

definition buildCatalog :: "(string, string) fmap" where
  "buildCatalog =
     fmadd fmempty (prefixKeys buildInstanceHealthCatalog ''CassandraDatacenter.instaceHealth.'')"

text \<open>The lines come in the order in which the map is iterated.\<close>

definition marshalMapToProperties :: "env \<Rightarrow> (string, string) fmap \<Rightarrow> string" where
  "marshalMapToProperties E m =
     concat (map (\<lambda>k. k @ ''='' @ (case fmlookup m k of None \<Rightarrow> [] | Some v \<Rightarrow> v) @ [CHR 0x0A])
       (e_order E (fset (fmdom m))))"

definition createCatalogConfigMap :: "env \<Rightarrow> (string, string) fmap \<Rightarrow> NamespacedName \<Rightarrow> ConfigMap outcome" where
  "createCatalogConfigMap E catalog n =
     labelledAndHashed E ''catalog''
       ((newConfigMap n)\<lparr>cm_Data := Some (fmupd ''health_en'' (marshalMapToProperties E catalog) fmempty)\<rparr>)"

definition getConfigMap :: "env \<Rightarrow> NamespacedName \<Rightarrow> (world, ConfigMap option) op" where
  "getConfigMap E n =
     bindM (attempt (perform (e_configmap E) (GetConfigMap n))) (\<lambda>r.
       case r of
         Inl e \<Rightarrow> if IsNotFound e then ret None else fail e
       | Inr configMap \<Rightarrow> ret (Some configMap))"

definition upsertConfigMap :: "env \<Rightarrow> ConfigMap \<Rightarrow> (world, unit) op" where
  "upsertConfigMap E configMap =
     bindM (getConfigMap E (namespacedNameOf configMap)) (\<lambda>existing.
       case existing of
         None \<Rightarrow> bindM (perform (e_configmap E) (CreateConfigMap configMap)) (\<lambda>_. ret ())
       | Some current \<Rightarrow>
           if \<not> ResourcesHaveSameHash configMap current then
             bindM (lift (mergeMeta current configMap)) (\<lambda>merged.
             bindM (perform (e_configmap E) (UpdateConfigMap merged)) (\<lambda>_. ret ()))
           else ret ())"

section \<open>The updater\<close>

definition healthChecksNamespacedName :: "string \<Rightarrow> NamespacedName" where
  "healthChecksNamespacedName ns = (ns, ''health-check-0'')"

definition catalogNamespacedName :: "string \<Rightarrow> NamespacedName" where
  "catalogNamespacedName ns = (ns, ''health-catalog-0'')"

definition GetHealthData :: "env \<Rightarrow> string \<Rightarrow> (world, Health) op" where
  "GetHealthData E ns =
     bindM (getConfigMap E (healthChecksNamespacedName ns)) (\<lambda>configMap.
       case configMap of
         None \<Rightarrow> ret emptyHealth
       | Some configMap \<Rightarrow> lift (loadHealthFromConfigMap E configMap))"

definition UpsertHealthData :: "env \<Rightarrow> string \<Rightarrow> Health \<Rightarrow> (world, unit) op" where
  "UpsertHealthData E ns health =
     bindM (lift (createHealthCheckConfigMap E health (healthChecksNamespacedName ns))) (upsertConfigMap E)"

definition UpsertCatalog :: "env \<Rightarrow> string \<Rightarrow> (string, string) fmap \<Rightarrow> (world, unit) op" where
  "UpsertCatalog E ns catalog =
     bindM (lift (createCatalogConfigMap E catalog (catalogNamespacedName ns))) (upsertConfigMap E)"

definition HealthStatusUpdater_Update :: "env \<Rightarrow> string \<Rightarrow> CassandraDatacenter \<Rightarrow> (world, unit) op" where
  "HealthStatusUpdater_Update E ns dc =
     bindM (UpsertCatalog E ns buildCatalog) (\<lambda>_.
     bindM (GetHealthData E ns) (\<lambda>health.
     UpsertHealthData E ns (updateHealth health dc)))"

section \<open>The network policy\<close>

definition newNetworkPolicyForCassandraDatacenter :: "env \<Rightarrow> CassandraDatacenter \<Rightarrow> NetworkPolicy outcome" where
  "newNetworkPolicyForCassandraDatacenter E dc =
     obind (AddManagedByLabel (GetDatacenterLabels dc)) (\<lambda>labels.
     Return (AddHashAnnotation (\<lambda>r. e_hash E (HashNetworkPolicy r))
       (ObjectMeta.extend (emptyMeta\<lparr>Name := Name dc @ ''-management-api-ingress'', Namespace := Namespace dc,
          Labels := labels\<rparr>)
        \<lparr>np_PodSelector = GetDatacenterLabels dc, np_PolicyTypes = [''Ingress''], np_Ingress = [[]]\<rparr>)))"

definition CheckNetworkPolicies :: "env \<Rightarrow> (world, ReconcileResult) op" where
  "CheckNetworkPolicies E =
     bindM getDc (\<lambda>dc.
     bindM (lift (newNetworkPolicyForCassandraDatacenter E dc)) (\<lambda>desired.
     orError (setControllerReference E dc desired) (\<lambda>desired.
     bindM (attempt (perform (e_networkpolicy E) (GetNetworkPolicy (namespacedNameOf desired)))) (\<lambda>r.
       case r of
         Inl e \<Rightarrow>
           if IsNotFound e then
             orError (perform (e_networkpolicy E) (CreateNetworkPolicy desired)) (\<lambda>_. ret Continue)
           else ret (ErrorOut e)
       | Inr current \<Rightarrow>
           if \<not> ResourcesHaveSameHash current desired then
             bindM (lift (mergeMeta current desired)) (\<lambda>merged.
             orError (perform (e_networkpolicy E) (UpdateNetworkPolicy merged)) (\<lambda>_. ret Continue))
           else ret Continue))))"

end
