(* ===== verification/RackInfo.thy ===== *)
theory RackInfo
  imports NodeMgmt
begin

text \<open>
  \<open>CalculateRackInformation\<close> of \<open>reconcile_racks.go\<close>: how many nodes and how many seeds each
  rack shall have. It is a client of the split of \<open>Datacenter\<close>.
\<close>

definition seedCountFor :: "int \<Rightarrow> int \<Rightarrow> int" where
  "seedCountFor nodeCount rackCount =
     (if nodeCount < 3 then nodeCount else if rackCount > 3 then rackCount else 3)"

definition CalculateRackInformation :: "(world, unit) op" where
  "CalculateRackInformation =
     bindM getDc (\<lambda>dc.
     let nodeCount = Size (Spec dc);
         racks = GetRacks dc;
         rackCount = int (length racks)
     in if nodeCount < rackCount
        then fail (Errorf ''the number of nodes cannot be smaller than the number of racks'')
        else
          let nodeCount = (if Stopped (Spec dc) then 0 else nodeCount);
              seedCount = seedCountFor nodeCount rackCount
          in if rackCount < 1
             then fail (Errorf ''assertion failed! rackCount should not possibly be zero here'')
             else
               bindM (lift (SplitRacks seedCount rackCount)) (\<lambda>rackSeedCounts.
               bindM (lift (SplitRacks nodeCount rackCount)) (\<lambda>rackNodeCounts.
               let desired = map (\<lambda>(rackIndex, currentRack).
                     \<lparr>RackName = rack_Name currentRack,
                      NodeCount = rackNodeCounts ! rackIndex,
                      SeedCount = rackSeedCounts ! rackIndex\<rparr>) (enumerate 0 racks)
               in modify (\<lambda>s. s\<lparr>desiredRackInformation := desired,
                    statefulSets := replicate (length desired) None\<rparr>))))"

section \<open>Lemmas\<close>

lemma seedCountFor_bounds:
  "0 \<le> n \<Longrightarrow> r \<le> n \<Longrightarrow> seedCountFor n r \<le> n"
  "0 \<le> n \<Longrightarrow> 0 \<le> seedCountFor n r"
  "r \<le> n \<Longrightarrow> r \<le> seedCountFor n r"
  "seedCountFor 0 r = 0"
  by (auto simp: seedCountFor_def)

text \<open>The racks the calculation asks for: one entry per rack of the spec, from two splits.\<close>

definition rackInfos :: "CassandraDatacenter \<Rightarrow> int list \<Rightarrow> int list \<Rightarrow> RackInformation list" where
  "rackInfos dc seeds nodes = map (\<lambda>(i, r). \<lparr>RackName = rack_Name r, NodeCount = nodes ! i,
     SeedCount = seeds ! i\<rparr>) (enumerate 0 (GetRacks dc))"

definition wantedNodes :: "CassandraDatacenter \<Rightarrow> int" where
  "wantedNodes dc = (if Stopped (Spec dc) then 0 else Size (Spec dc))"

lemma length_rackInfos [simp]: "length (rackInfos dc ss ns) = length (GetRacks dc)"
  by (simp add: rackInfos_def)

lemma nth_rackInfos [simp]:
  "i < length (GetRacks dc) \<Longrightarrow> rackInfos dc ss ns ! i =
     \<lparr>RackName = rack_Name (GetRacks dc ! i), NodeCount = ns ! i, SeedCount = ss ! i\<rparr>"
  by (simp add: rackInfos_def nth_enumerate_eq)

lemma map_rackInfos:
  "map RackName (rackInfos dc ss ns) = map rack_Name (GetRacks dc)"
  "length ns = length (GetRacks dc) \<Longrightarrow> map NodeCount (rackInfos dc ss ns) = ns"
  "length ss = length (GetRacks dc) \<Longrightarrow> map SeedCount (rackInfos dc ss ns) = ss"
  by (auto intro!: nth_equalityI)

lemma CalculateRackInformation_run:
  assumes "int (length (GetRacks (Datacenter s))) \<le> Size (Spec (Datacenter s))"
  obtains ss ns where
    "SplitRacks (seedCountFor (wantedNodes (Datacenter s)) (int (length (GetRacks (Datacenter s)))))
       (int (length (GetRacks (Datacenter s)))) = Return ss"
    "SplitRacks (wantedNodes (Datacenter s)) (int (length (GetRacks (Datacenter s)))) = Return ns"
    "CalculateRackInformation s = (Return (),
       s\<lparr>desiredRackInformation := rackInfos (Datacenter s) ss ns,
         statefulSets := replicate (length (GetRacks (Datacenter s))) None\<rparr>)"
proof -
  let ?dc = "Datacenter s" and ?r = "int (length (GetRacks (Datacenter s)))"
  have r: "0 < ?r" by simp
  have w: "0 \<le> wantedNodes ?dc" using assms by (simp add: wantedNodes_def)
  obtain ss ns where split: "SplitRacks (seedCountFor (wantedNodes ?dc) ?r) ?r = Return ss"
    "SplitRacks (wantedNodes ?dc) ?r = Return ns"
    using sr.split_total [OF _ r] w seedCountFor_bounds(2) [OF w] by blast
  have "\<not> Size (Spec ?dc) < ?r" "\<not> ?r < 1" using assms r by linarith+
  then have "CalculateRackInformation s = (Return (),
       s\<lparr>desiredRackInformation := rackInfos ?dc ss ns,
         statefulSets := replicate (length (GetRacks ?dc)) None\<rparr>)"
    using split unfolding CalculateRackInformation_def Let_def wantedNodes_def
    by (simp add: rc_eval rackInfos_def)
  with split show ?thesis by (rule that)
qed

lemma CalculateRackInformation_Fail:
  assumes "Size (Spec (Datacenter s)) < int (length (GetRacks (Datacenter s)))"
  shows "CalculateRackInformation s =
     (Fail (Errorf ''the number of nodes cannot be smaller than the number of racks''), s)"
  using assms by (simp add: CalculateRackInformation_def rc_eval)

text \<open>
  Every rack is asked for as many nodes as the split gives it, never for more seeds than
  nodes, and unless the datacenter is stopped for at least one of each.
\<close>

lemma rackInfos_counts:
  assumes size: "int (length (GetRacks dc)) \<le> Size (Spec dc)"
    and ss: "SplitRacks (seedCountFor (wantedNodes dc) (int (length (GetRacks dc))))
       (int (length (GetRacks dc))) = Return ss"
    and ns: "SplitRacks (wantedNodes dc) (int (length (GetRacks dc))) = Return ns"
  shows "sum_list (map NodeCount (rackInfos dc ss ns)) = wantedNodes dc"
    and "sum_list (map SeedCount (rackInfos dc ss ns)) =
           seedCountFor (wantedNodes dc) (int (length (GetRacks dc)))"
    and "\<And>ri. ri \<in> set (rackInfos dc ss ns) \<Longrightarrow> 0 \<le> SeedCount ri \<and> SeedCount ri \<le> NodeCount ri"
    and "\<And>ri. ri \<in> set (rackInfos dc ss ns) \<Longrightarrow> \<not> Stopped (Spec dc) \<Longrightarrow> 1 \<le> SeedCount ri"
proof -
  let ?r = "int (length (GetRacks dc))" and ?w = "wantedNodes dc"
  have r: "0 < ?r" by simp
  have w: "0 \<le> ?w" using size by (simp add: wantedNodes_def)
  note seeds0 = seedCountFor_bounds(2) [OF w, of ?r]
  have len: "length ss = length (GetRacks dc)" "length ns = length (GetRacks dc)"
    using sr.split_length [OF seeds0 r ss] sr.split_length [OF w r ns] by simp_all
  show "sum_list (map NodeCount (rackInfos dc ss ns)) = ?w"
    using sr.split_sum [OF w r ns] len by (simp add: map_rackInfos)
  show "sum_list (map SeedCount (rackInfos dc ss ns)) = seedCountFor ?w ?r"
    using sr.split_sum [OF seeds0 r ss] len by (simp add: map_rackInfos)
  have le: "seedCountFor ?w ?r \<le> ?w"
    using size by (auto simp: wantedNodes_def seedCountFor_def)
  show "0 \<le> SeedCount ri \<and> SeedCount ri \<le> NodeCount ri" if "ri \<in> set (rackInfos dc ss ns)" for ri
    using that sr.split_mono [OF seeds0 le r ss ns] sr.split_nonneg [OF seeds0 r ss nth_mem] len
    by (auto simp: in_set_conv_nth)
  show "1 \<le> SeedCount ri" if "ri \<in> set (rackInfos dc ss ns)" "\<not> Stopped (Spec dc)" for ri
  proof -
    have ge: "?r \<le> seedCountFor ?w ?r" using size that(2) by (auto simp: wantedNodes_def seedCountFor_def)
    from that(1) obtain i where i: "i < length (GetRacks dc)" "ri = rackInfos dc ss ns ! i"
      by (auto simp: in_set_conv_nth)
    have "1 \<le> seedCountFor ?w ?r div ?r" using zdiv_mono1 [OF ge r] by simp
    then show ?thesis using sr.split_nth [OF seeds0 r ss, of i] i len by auto
  qed
qed

end
