(* ===== verification/Handler.thy ===== *)
theory Handler
  imports Racks PspStatus RackInfo
begin

text \<open>
  The entry point of a reconciliation: \<open>handler.go\<close>, \<open>reconcile_datacenter.go\<close>, the construction of
  the context in \<open>context.go\<close>, and the predicates and mappings of
  \<open>cassandradatacenter_controller.go\<close>.
\<close>

section \<open>Which datacenters have pods on a node\<close>

definition DatacentersForNode :: "string \<Rightarrow> (world, NamespacedName list) op" where
  "DatacentersForNode nodeName =
     gets (\<lambda>s. case fmlookup (nodeToDc s) nodeName of None \<Rightarrow> [] | Some dcs \<Rightarrow> dcs)"

definition RemoveDcFromNodeToDcMap :: "NamespacedName \<Rightarrow> (world, unit) op" where
  "RemoveDcFromNodeToDcMap dcToRemove =
     modify (\<lambda>s. s\<lparr>nodeToDc := fmmap (filter (\<lambda>dc. dc \<noteq> dcToRemove)) (nodeToDc s)\<rparr>)"

definition addDcOfPod ::
    "string \<Rightarrow> Pod \<Rightarrow> (string, NamespacedName list) fmap \<Rightarrow> (string, NamespacedName list) fmap" where
  "addDcOfPod dcName pod m =
     (let dcToAdd = (Namespace pod, dcName);
          dcs = (case fmlookup m (NodeName pod) of None \<Rightarrow> [] | Some dcs \<Rightarrow> dcs)
      in if dcToAdd \<in> set dcs then m else fmupd (NodeName pod) (dcs @ [dcToAdd]) m)"

definition updateDcMaps :: "env \<Rightarrow> (world, unit) op" where
  "updateDcMaps E =
     bindM getDc (\<lambda>dc.
     bindM (perform (e_pods E) (ListPods []
       (mapOf [(ManagedByLabel, ManagedByLabelValue), (DatacenterLabel, Name dc)]))) (\<lambda>pods.
     modify (\<lambda>s. s\<lparr>nodeToDc := fold (addDcOfPod (Name dc)) pods (nodeToDc s)\<rparr>)))"

section \<open>Deletion\<close>

definition listPVCs :: "env \<Rightarrow> (world, PersistentVolumeClaim list) op" where
  "listPVCs E =
     bindM getDc (\<lambda>dc.
     perform (e_pvcs E) (ListPVCs (Namespace dc) (mapOf [(DatacenterLabel, Name dc)])))"

definition deletePVCs :: "env \<Rightarrow> (world, unit) op" where
  "deletePVCs E =
     bindM (attempt (listPVCs E)) (\<lambda>r.
       case r of
         Inl e \<Rightarrow> if IsNotFound e then ret () else fail e
       | Inr pvcs \<Rightarrow> foldM (\<lambda>_ pvc. perform (e_unit E) (DeletePVC pvc)) () pvcs)"

definition ProcessDeletion :: "env \<Rightarrow> (world, ReconcileResult) op" where
  "ProcessDeletion E =
     bindM getDc (\<lambda>dc.
       if DeletionTimestamp dc = None then ret Continue
       else
         orError (setOperatorProgressStatus E ProgressUpdating) (\<lambda>_.
         bindM getDc (\<lambda>dc.
         bindM (attempt (RemoveWatcher E (Namespace dc, Name dc))) (\<lambda>_.
         orError (deletePVCs E) (\<lambda>_.
         bindM (if IsPSPEnabled (e_getenv E) then RemoveDcFromNodeToDcMap (Namespace dc, Name dc) else ret ()) (\<lambda>_.
         bindM (modifyDc (\<lambda>dc. dc\<lparr>Finalizers := []\<rparr>)) (\<lambda>_.
         orError (writeDc E UpdateDc) (\<lambda>_.
         ret Done))))))))"

definition addFinalizer :: "env \<Rightarrow> (world, unit) op" where
  "addFinalizer E =
     bindM getDc (\<lambda>dc.
       if length (Finalizers dc) < 1 \<and> DeletionTimestamp dc = None then
         bindM (modifyDc (\<lambda>dc. dc\<lparr>Finalizers := [''finalizer.cassandra.datastax.com'']\<rparr>)) (\<lambda>_.
         writeDc E UpdateDc)
       else ret ())"

section \<open>Actions\<close>

text \<open>The updater of the health data does nothing when the integration is disabled.\<close>

definition PSPHealthUpdater_Update :: "env \<Rightarrow> (world, unit) op" where
  "PSPHealthUpdater_Update E =
     (if IsPSPEnabled (e_getenv E) then
        bindM getDc (\<lambda>dc.
        bindM (lift (of_sum (e_operatorNs E))) (\<lambda>ns.
        HealthStatusUpdater_Update E ns dc))
      else ret ())"

definition noResult :: Result where
  "noResult = \<lparr>Requeue = False, RequeueAfter = 0\<rparr>"

definition calculateReconciliationActions :: "env \<Rightarrow> (world, Result \<times> error option) op" where
  "calculateReconciliationActions E =
     bindM (if IsPSPEnabled (e_getenv E) then bindM (attempt (updateDcMaps E)) (\<lambda>_. ret ()) else ret ()) (\<lambda>_.
     check (ProcessDeletion E) (
     check (orError (addFinalizer E) (\<lambda>_. ret Continue)) (
     check (CheckHeadlessServices E) (
     check (CheckAdditionalSeedEndpoints E) (
     check (if IsPSPEnabled (e_getenv E) then CheckNetworkPolicies E else ret Continue) (
     check (orError CalculateRackInformation (\<lambda>_. ret Continue)) (
     bindM (ReconcileAllRacks E) (\<lambda>(res, err).
       case err of
         Some e \<Rightarrow> ret (res, err)
       | None \<Rightarrow>
           bindM (attempt (PSPHealthUpdater_Update E)) (\<lambda>r.
             case r of Inl e \<Rightarrow> ret (noResult, Some e) | Inr _ \<Rightarrow> ret (res, None))))))))))"

section \<open>Context and validation\<close>

definition timeOrFirst :: "int \<Rightarrow> int" where
  "timeOrFirst t = (if t = zeroTime then Second else t)"

definition normaliseTimes :: "CassandraDatacenterStatus \<Rightarrow> CassandraDatacenterStatus" where
  "normaliseTimes st = st\<lparr>SuperUserUpserted := timeOrFirst (SuperUserUpserted st),
     LastServerNodeStarted := timeOrFirst (LastServerNodeStarted st),
     LastRollingRestart := timeOrFirst (LastRollingRestart st)\<rparr>"

definition CreateReconciliationContext :: "env \<Rightarrow> NamespacedName \<Rightarrow> (world, unit) op" where
  "CreateReconciliationContext E req =
     bindM (if IsPSPEnabled (e_getenv E) then bindM (lift (of_sum (e_operatorNs E))) (\<lambda>_. ret ()) else ret ()) (\<lambda>_.
     bindM (perform (e_dc E) (GetDc req)) (\<lambda>dc.
     bindM (modify (\<lambda>s. s\<lparr>Datacenter := dc\<lparr>Status := normaliseTimes (Status dc)\<rparr>,
       desiredRackInformation := [], statefulSets := [], podStore := [], clusterPods := [], dcPods := [],
       rcServices := [], rcEndpoints := None\<rparr>)) (\<lambda>_.
     bindM getDc (\<lambda>dc.
     bindM (BuildManagementApiHttpClient E dc) (\<lambda>_.
     bindM (lift (GetManagementApiProtocol dc)) (\<lambda>protocol.
     modify (\<lambda>s. s\<lparr>Protocol := protocol\<rparr>)))))))"

definition validateClaim :: "CassandraDatacenter \<Rightarrow> error option" where
  "validateClaim dc =
     (case CassandraDataVolumeClaimSpec (StorageConfig (Spec dc)) of
        None \<Rightarrow> Some (Errorf ''storageConfig.cassandraDataVolumeClaimSpec is required'')
      | Some claim \<Rightarrow>
          if StorageClassName claim = None \<or> StorageClassName claim = Some []
          then Some (Errorf ''storageConfig.cassandraDataVolumeClaimSpec.storageClassName is required'')
          else if length (AccessModes claim) = 0
          then Some (Errorf ''storageConfig.cassandraDataVolumeClaimSpec.accessModes is required'')
          else None)"

definition isValid :: "env \<Rightarrow> (world, unit) op" where
  "isValid E =
     bindM getDc (\<lambda>dc.
     bindM (validateSuperuserSecret E) (\<lambda>superuserErrs.
     bindM (validateCassandraUserSecrets E) (\<lambda>userErrs.
     bindM (ValidateManagementApiConfig E dc) (\<lambda>apiErrs.
       case superuserErrs @ userErrs @ apiErrs of
         e # _ \<Rightarrow> fail e
       | [] \<Rightarrow> (case validateClaim dc of Some e \<Rightarrow> fail e | None \<Rightarrow> ret ())))))"

section \<open>Reconcile\<close>

fun errorText :: "error \<Rightarrow> string" where
  "errorText (NotFound m) = m"
| "errorText (AlreadyExists m) = m"
| "errorText (ApiError m) = m"
| "errorText (Errorf m) = m"
| "errorText (Wrapf m e) = m @ '': '' @ errorText e"

text \<open>\<open>int(d.Seconds())\<close> of a duration in nanoseconds.\<close>

definition wholeSeconds :: "int \<Rightarrow> int" where
  "wholeSeconds d = (if d \<ge> 0 then d div Second else - ((- d) div Second))"

definition outputOf :: "ReconcileResult \<Rightarrow> (world, Result \<times> error option) op" where
  "outputOf r = lift (Output r)"

definition reconcileWhenActive :: "env \<Rightarrow> (world, Result \<times> error option) op" where
  "reconcileWhenActive E =
     bindM getDc (\<lambda>dc.
     bindM (Now E) (\<lambda>now.
     let cooldownTime = LastServerNodeStarted (Status dc) + Second * 20 - now in
     if cooldownTime > 0 then outputOf (RequeueSoon (1 + wholeSeconds cooldownTime))
     else
       bindM (Now E) (\<lambda>now.
         if QuietPeriod (Status dc) > now then
           bindM (Now E) (\<lambda>now.
           outputOf (RequeueSoon (1 + wholeSeconds (QuietPeriod (Status dc) - now))))
         else
           bindM (calculateReconciliationActions E) (\<lambda>(res, err).
             case err of
               None \<Rightarrow> ret (res, None)
             | Some e \<Rightarrow>
                 bindM (Eventf WarningEvent ''ReconcileFailed'' (errorText e)) (\<lambda>_. ret (res, err))))))"

definition Reconcile :: "env \<Rightarrow> NamespacedName \<Rightarrow> (world, Result \<times> error option) op" where
  "Reconcile E req =
     bindM (attempt (CreateReconciliationContext E req)) (\<lambda>r.
       case r of
         Inl e \<Rightarrow> if IsNotFound e then outputOf Done else outputOf (ErrorOut e)
       | Inr _ \<Rightarrow>
           bindM (attempt (isValid E)) (\<lambda>r.
             case r of
               Inl e \<Rightarrow>
                 bindM (Eventf WarningEvent ''ValidationFailed'' (errorText e)) (\<lambda>_. outputOf (ErrorOut e))
             | Inr _ \<Rightarrow> reconcileWhenActive E))"

section \<open>The controller\<close>

text \<open>
  A predicate of the controller filters the events of a watched kind. A function that is not set
  lets everything pass. The objects of an update of a node may be nil.
\<close>

datatype 'a event = CreateEvent 'a | DeleteEvent 'a | UpdateEvent 'a 'a | GenericEvent 'a

fun predicateFuncs :: "('a \<Rightarrow> bool) \<Rightarrow> 'a event \<Rightarrow> bool" where
  "predicateFuncs P (CreateEvent m) = P m"
| "predicateFuncs P (DeleteEvent m) = P m"
| "predicateFuncs P (UpdateEvent old new) = (P old \<or> P new)"
| "predicateFuncs P (GenericEvent m) = P m"

definition managedByCassandraOperatorPredicate :: "'a ObjectMeta_scheme event \<Rightarrow> bool" where
  "managedByCassandraOperatorPredicate = predicateFuncs (\<lambda>m. HasManagedByCassandraOperatorLabel (Labels m))"

definition isConfigSecret :: "string gomap \<Rightarrow> bool" where
  "isConfigSecret annotations = (mfind annotations DatacenterAnnotation \<noteq> None)"

definition configSecretPredicate :: "'a ObjectMeta_scheme event \<Rightarrow> bool" where
  "configSecretPredicate = predicateFuncs (\<lambda>m. isConfigSecret (Annotations m))"

definition configSecretMapFn :: "Secret \<Rightarrow> NamespacedName list" where
  "configSecretMapFn secret =
     (case mfind (Annotations secret) DatacenterAnnotation of
        None \<Rightarrow> [] | Some v \<Rightarrow> [(Namespace secret, v)])"

definition nodeMapFn :: "Node \<Rightarrow> (world, NamespacedName list) op" where
  "nodeMapFn node = DatacentersForNode (Name node)"

fun nodeTaintsChangedPredicate :: "Node option event \<Rightarrow> bool outcome" where
  "nodeTaintsChangedPredicate (UpdateEvent None None) = Return False"
| "nodeTaintsChangedPredicate (UpdateEvent (Some nodeOld) (Some nodeNew)) =
     obind (ElementsMatch (Taints nodeOld) (Taints nodeNew)) (\<lambda>same. Return (\<not> same))"
| "nodeTaintsChangedPredicate _ = Return True"

definition pvcMapFn :: "PersistentVolumeClaim \<Rightarrow> NamespacedName list" where
  "pvcMapFn pvc =
     (case mfind (Labels pvc) ManagedByLabel of
        None \<Rightarrow> []
      | Some v \<Rightarrow> if v = ManagedByLabelValue \<or> v = ManagedByLabelDefunctValue
          then [(Namespace pvc, mget (Labels pvc) DatacenterLabel)] else [])"

definition secretMapFn :: "env \<Rightarrow> Secret \<Rightarrow> NamespacedName list" where
  "secretMapFn E secret = FindWatchers E secret"

end
