(* ===== verification/Steps.thy ===== *)
theory Steps
  imports Handler
begin

text \<open>
  Which calls each step of a reconciliation makes. A call \<open>moves\<close> when it starts or decommissions
  a Cassandra node; every step but those that start nodes and those that decommission them makes
  no such call, and these make at most one and then end the reconciliation.
\<close>

section \<open>Steps that start and decommission nothing\<close>

definition moves :: "call \<Rightarrow> bool" where
  "moves c \<longleftrightarrow> isStartCall c \<or> isDecommissionCall c"

abbreviation steady :: "call \<Rightarrow> bool" where
  "steady c \<equiv> \<not> moves c"

lemma moves_simps [simp]:
  "moves (Http u rq ct) \<longleftrightarrow> HasPrefix (rq_endpoint rq) ''/api/v0/lifecycle/start''
     \<or> HasPrefix (rq_endpoint rq) ''/api/v0/ops/node/decommission''"
  by (simp add: moves_def)

lemma steady_other [simp]: "(\<And>u rq ct. c \<noteq> Http u rq ct) \<Longrightarrow> steady c"
  by (cases c) (auto simp: moves_def)

lemma steady_endpoints [emits_intros]:
  "emits steady (CallReloadSeedsEndpoint E pod)"
  "emits steady (CallProbeClusterEndpoint E pod cl rf)"
  "emits steady (CallDrainEndpoint E pod)"
  "emits steady (CallMetadataEndpointsEndpoint E pod)"
  "emits steady (CallKeyspaceCleanupEndpoint E pod n k ts)"
  "emits steady (CallCreateRoleEndpoint E pod u p su)"
  unfolding CallReloadSeedsEndpoint_def CallProbeClusterEndpoint_def CallDrainEndpoint_def
    CallMetadataEndpointsEndpoint_def CallKeyspaceCleanupEndpoint_def CallCreateRoleEndpoint_def Let_def
  by (auto intro!: emits_intros simp: simpleRequest_def HasPrefix_def)

lemma emits_case_list [emits_intros]:
  "(x = [] \<Longrightarrow> emits A m) \<Longrightarrow> (\<And>y ys. x = y # ys \<Longrightarrow> emits A (k y ys)) \<Longrightarrow>
     emits A (case x of [] \<Rightarrow> m | y # ys \<Rightarrow> k y ys)"
  by (cases x) auto

lemma emits_case_claim [emits_intros]:
  "(\<And>n. v = ClaimSource n \<Longrightarrow> emits A (k n)) \<Longrightarrow> emits A m \<Longrightarrow>
     emits A (case v of ClaimSource n \<Rightarrow> k n | _ \<Rightarrow> m)"
  by (cases v) auto

lemma emits_sts [emits_intros]:
  "emits A (getSts idx)" "emits A (setSts idx sts)" "emits A (derefReplicas sts)"
  unfolding getSts_def setSts_def derefReplicas_def
  by (auto intro!: emits_intros simp: static_def split: option.splits)

lemma emits_sts_writes [emits_intros]:
  "(\<And>b. A (PatchSts b new)) \<Longrightarrow> emits A (patchSts E idx new)"
  "(\<And>sts. A (UpdateSts sts)) \<Longrightarrow> emits A (updateSts E idx)"
  unfolding patchSts_def updateSts_def by (intro emits_intros; simp)+

lemma emits_conditions [emits_intros]:
  "emits A (setCondition E c)" "emits A (setConditions E cs u)"
  unfolding setCondition_def setConditions_def by (auto intro!: emits_intros)

lemma emits_progress [emits_intros]:
  "(\<And>b n. A (StatusPatchDc b n)) \<Longrightarrow> emits A (setOperatorProgressStatus E st)"
  "(\<And>b n. A (StatusPatchDc b n)) \<Longrightarrow> emits A (enableQuietPeriod E n)"
  unfolding setOperatorProgressStatus_def enableQuietPeriod_def by (intro emits_intros; simp)+

lemma emits_UpdateRackNodeCount [emits_intros]:
  "(\<And>b n. A (StatusPatchDc b n)) \<Longrightarrow> (\<And>b n. A (PatchSts b n)) \<Longrightarrow>
     emits A (UpdateRackNodeCount E idx n)"
  unfolding UpdateRackNodeCount_def by (intro emits_intros; simp)

lemma emits_owner [emits_intros]: "emits A (setControllerReference E dc obj)"
  unfolding setControllerReference_def by (intro emits_intros)

lemma emits_wrapping [emits_intros]: "emits A m \<Longrightarrow> emits A (wrapping msg m)"
  unfolding wrapping_def by (intro emits_intros)

lemma steady_status:
  "emits steady CheckForInvalidState"
  "emits steady (getCassMetadataEndpoints E)"
  "emits steady (CheckStatefulSetControllerCaughtUp E)"
  "emits steady (UpdateStatus E)"
  "emits steady CheckCassandraNodeStatuses"
  "emits steady (CheckRollingRestart E)"
  "emits steady (CheckClearActionConditions E)"
  "emits steady (CheckConditionInitializedAndReady E)"
  "emits steady (finishReconcile E)"
  unfolding CheckForInvalidState_def getCassMetadataEndpoints_def CheckStatefulSetControllerCaughtUp_def
    fixMissingPVC_def isNodeStuckWithoutPVC_def GetPodPVC_def UpdateStatus_def UpdateCassandraNodeStatus_def
    UpdateStatusForUserActions_def updateCurrentReplacePodsProgress_def
    startReplacePodsIfReplacePodsSpecified_def CheckCassandraNodeStatuses_def CheckRollingRestart_def
    CheckClearActionConditions_def cleanupAfterScaling_def CheckConditionInitializedAndReady_def
    finishReconcile_def Let_def
  by (intro emits_intros; simp)+

lemma steady_secrets:
  "emits steady (retrieveSuperuserSecretOrCreateDefault E)"
  "emits steady (CheckSuperuserSecretCreation E)"
  "emits steady (CheckInternodeCredentialCreation E)"
  "emits steady (CheckConfigSecret E)"
  "emits steady (UpdateWatch E w ws)"
  unfolding CheckSuperuserSecretCreation_def CheckInternodeCredentialCreation_def CheckConfigSecret_def
    retrieveSuperuserSecretOrCreateDefault_def retrieveSuperuserSecret_def retrieveSecret_def
    buildDefaultSuperuserSecret_def generateUtf8Password_def retrieveInternodeCredentialSecretOrCreateDefault_def
    createInternodeCACredential_def createCABootstrappingSecret_def checkDatacenterNameAnnotation_def
    getDatacenterConfigSecret_def updateConfigHashAnnotation_def UpdateWatch_def listAllWatched_def
    addWatches_def getWatched_def persistWatches_def Let_def
  by (intro emits_intros; simp)+

lemma steady_racks:
  "emits steady (CheckRackCreation E)"
  "emits steady (CheckRackLabels E)"
  "emits steady (CheckRackStoppedState E)"
  "emits steady (CheckRackForceUpgrade E)"
  "emits steady (CheckRackScale E)"
  "emits steady (CheckDcPodDisruptionBudget E)"
  "emits steady (CheckRackPodTemplate E)"
  "emits steady (CheckRackPodLabels E)"
  unfolding CheckRackCreation_def CheckRackLabels_def CheckRackStoppedState_def CheckRackForceUpgrade_def
    CheckRackScale_def CheckDcPodDisruptionBudget_def CheckRackPodTemplate_def CheckRackPodLabels_def
    forRacks_def createRack_def GetStatefulSetForRack_def newSts_def ReconcileNextRack_def labelRack_def
    stopRack_def announceStopping_def drainRack_def forceUpgradeRack_def scaleRack_def checkTemplateOfRack_def
    desiredStatefulSetForExistingStatefulSet_def ReconcilePods_def reconcilePod_def reconcilePodVolume_def
    relabel_def Let_def
  by (intro emits_intros; simp)+

lemma steady_CreateUsers: "emits steady (CreateUsers E)"
  unfolding CreateUsers_def UpdateSecretWatches_def upsertUser_def retrieveSecret_def
  by (intro emits_intros steady_secrets; simp)

lemma steady_spi [emits_intros]:
  "emits steady (spi_GetAllNodesInDC (rcSPI E))" "emits steady (spi_GetDCPods (rcSPI E))"
  "emits steady (spi_GetNotReadyPodsBootstrappedInDC (rcSPI E))"
  "emits steady (spi_GetAllPodsNotReadyInDC (rcSPI E))" "emits steady (spi_GetPodPVCs (rcSPI E) i)"
  "emits steady (spi_StartNodeReplace (rcSPI E) n)" "emits steady (spi_RemovePod (rcSPI E) i)"
  "emits steady (spi_UpdatePod (rcSPI E) i)" "emits steady (spi_IsStopped (rcSPI E))"
  "emits steady (spi_IsInitialized (rcSPI E))" "emits steady (spi_GetAllNodes (rcSPI E))"
  unfolding rcSPI_def EMMSPI.simps GetAllNodesInDC_def getPodsPVCs_def GetPodPVC_def getNodesForNameSet_def
    getNode_def GetDCPods_def GetNotReadyPodsBootstrappedInDC_def GetAllPodsNotReadyInDC_def GetPodPVCs_def
    StartNodeReplace_def getDCPodByName_def removePVC_def RemovePod_def UpdatePod_def IsStopped_def
    IsInitialized_def GetAllNodes_def
  by (intro emits_intros; simp)+

lemma steady_CheckEMM: "emits steady (CheckEMM E (rcSPI E))"
  unfolding CheckEMM_def checkNodeEMM_def requeueIf_def cleanupEMMAnnotations_def emmFailureStillProcessing_def
    getPlannedDownTimeNodeNameSet_def getEvacuateAllDataNodeNameSet_def getNodesWithTaintKeyValueEffect_def
    getNodeNameSet_def getPodNameSet_def failEMMs_def failEMM_def getRacksWithNotReadyPodsBootstrapped_def
    getRackNodeNameSet_def removeAllNotReadyPodsOnEMMNodes_def performEvacuateDataPodReplace_def
    evacuateReplaceOne_def getPodPVCSelectedNodeName_def removeNextPodFromEvacuateDataNode_def
    removeAllPodsFromOnePlannedDowntimeNode_def getPodsForNodeName_def getPodsWithAnnotationKey_def
    filterPods_def removePodAnnotation_def addPodAnnotation_def
  by (intro emits_intros)

section \<open>Steps that do\<close>

text \<open>Two kinds of calls of which one is never made.\<close>

lemma once_or:
  assumes "once I P Q m" "emits (\<lambda>c. \<not> R c) m"
  shows "once I (\<lambda>c. P c \<or> R c) Q m"
  unfolding once_def
proof (intro allI impI)
  fix s r t
  assume s: "I s" "m s = (r, t)"
  obtain cs where cs: "static t = static s" "log t = log s @ cs" "length (filter P cs) \<le> 1"
    "0 < length (filter P cs) \<longrightarrow> Q r" using assms(1) s by (rule onceD)
  obtain ds where ds: "log t = log s @ ds" "list_all (\<lambda>c. \<not> R c) ds"
    using assms(2) s(2) by (rule emitsD)
  have "filter (\<lambda>c. P c \<or> R c) cs = filter P cs"
    using cs(2) ds by (intro filter_cong) (auto simp: list_all_iff)
  with cs show "static t = static s \<and> (\<exists>cs. log t = log s @ cs \<and> length (filter (\<lambda>c. P c \<or> R c) cs) \<le> 1
      \<and> (0 < length (filter (\<lambda>c. P c \<or> R c) cs) \<longrightarrow> Q r))" by auto
qed

lemma HasPrefix_Cons:
  "HasPrefix (c # s) (d # p) \<longleftrightarrow> c = d \<and> HasPrefix s p" "HasPrefix s []"
  by (auto simp: HasPrefix_def)

abbreviation noDecommission :: "call \<Rightarrow> bool" where
  "noDecommission c \<equiv> \<not> isDecommissionCall c"

lemma noDecommission_endpoints [emits_intros]:
  "emits noDecommission (CallReloadSeedsEndpoint E pod)"
  "emits noDecommission (CallProbeClusterEndpoint E pod cl rf)"
  "emits noDecommission (CallDrainEndpoint E pod)"
  unfolding CallReloadSeedsEndpoint_def CallProbeClusterEndpoint_def CallDrainEndpoint_def
  by (auto intro!: emits_intros simp: simpleRequest_def HasPrefix_def)

lemma noDecommission_start [emits_intros]:
  "emits noDecommission (CallLifecycleStartEndpointWithReplaceIp E pod ip)"
  unfolding CallLifecycleStartEndpointWithReplaceIp_def Let_def
  by (auto intro!: emits_intros simp: simpleRequest_def HasPrefix_Cons buildEndpoint_replace_ip)

lemma noDecommission_CheckPodsReady: "emits noDecommission (CheckPodsReady E eps)"
  unfolding CheckPodsReady_def findStartedNotReadyNodes_def deleteStuckNodes_def checkSeedLabels_def
    labelSeedPods_def labelSeedPod_def refreshSeeds_def findStartingNodes_def startOneNodePerRack_def
    startNodeOfRack_def startCassandra_def CallLifecycleStartEndpoint_def isClusterHealthy_def
    startAllNodes_def Let_def
  by (intro emits_intros; simp)

lemma once_moves_CheckPodsReady:
  "orderOk E \<Longrightarrow> once rackNamesOk moves (\<lambda>r. r \<noteq> Return Continue) (CheckPodsReady E eps)"
  using once_or [OF once_CheckPodsReady noDecommission_CheckPodsReady] by (simp add: moves_def [abs_def])

text \<open>The ways to decommission a node.\<close>

lemma once_decommission:
  "ofStatic I \<Longrightarrow> once I moves (\<lambda>_. True) (CallDecommissionNodeEndpoint E pod)"
  unfolding CallDecommissionNodeEndpoint_def thenM_def
  by (intro once_prefix once_suffix once_callNodeMgmtEndpoint emits_intros)

lemma steady_cleanUp: "emits steady (cleanUpAfterDecommissionedPod E pod)"
  unfolding cleanUpAfterDecommissionedPod_def RemoveDecommissionedPodFromSts_def DeletePodPvcs_def Let_def
  by (intro emits_intros; simp)

lemma once_attempt_decommission:
  "ofStatic I \<Longrightarrow> once I moves (\<lambda>_. True) (attempt (CallDecommissionNodeEndpoint E pod))"
  by (rule once_attempt [OF once_decommission]) simp_all

text \<open>A loop that ends with a completed result once it has made the call.\<close>

lemma once_loop_result:
  assumes I: "ofStatic I" and rest: "emits (\<lambda>c. \<not> P c) rest"
    and body: "\<And>x. x \<in> set xs \<Longrightarrow> once I P (\<lambda>r. r \<noteq> Return None \<and> r \<noteq> Return (Some Continue)) (body x)"
  shows "once I P (\<lambda>r. r \<noteq> Return Continue) (returning (forM xs body) rest)"
  unfolding returning_def
proof (rule once_bindM [OF I once_forM [OF I _ body]])
  show "once I P (\<lambda>r. r \<noteq> Return Continue) (case a of Some v \<Rightarrow> ret v | None \<Rightarrow> rest)" for a
    using rest by (cases a) (auto intro: onceI_emits emits_intros)
qed (auto intro!: emits_intros simp: ret_run)

lemma once_CheckDecommissioningNodes:
  "once (\<lambda>_. True) moves (\<lambda>r. r \<noteq> Return Continue) (CheckDecommissioningNodes E eps)"
proof -
  note T = ofStatic_True
  let ?Q = "\<lambda>r. r \<noteq> Return Continue"
  have body: "once (\<lambda>_. True) moves (\<lambda>r. r \<noteq> Return None \<and> r \<noteq> Return (Some Continue))
      (bindM (getPod i) (\<lambda>pod.
         if nodeState pod = stateDecommissioning then
           if \<not> IsDoneDecommissioning pod eps then
             if \<not> HasStartedDecommissioning pod eps then
               bindM (attempt (CallDecommissionNodeEndpoint E pod)) (\<lambda>_. ret (Some (RequeueSoon 5)))
             else ret (Some (RequeueSoon 5))
           else
             bindM (cleanUpAfterDecommissionedPod E pod) (\<lambda>r.
               case r of Some res \<Rightarrow> ret (Some res) | None \<Rightarrow> ret (Some (RequeueSoon 5)))
         else ret None))" for i
    by (intro once_prefix [OF T] once_if once_ret emits_intros
          once_bindM [OF T once_attempt_decommission [OF T]] onceI_emits steady_cleanUp)
       (simp_all add: ret_run emits_ret)
  show ?thesis
    unfolding CheckDecommissioningNodes_def
    by (intro once_prefix [OF T emits_dc_pod(1)] once_if once_ret once_prefix [OF T emits_gets]
          once_loop_result [OF T _ body] emits_intros) simp
qed

lemma steady_EnsurePods: "emits steady (EnsurePodsCanAbsorbDecommData E pod eps)"
  unfolding EnsurePodsCanAbsorbDecommData_def getServerDataPv_def Let_def
  by (intro emits_intros; simp)

lemma bindM_never: "(\<And>a s. fst (f a s) \<noteq> Return v) \<Longrightarrow> fst (bindM m f s) \<noteq> Return v"
  by (auto simp: bindM_def split: prod.splits outcome.splits)

lemma once_DecommissionNodeOnRack:
  "once (\<lambda>_. True) moves (\<lambda>_. True) (DecommissionNodeOnRack E rack eps suffix)"
proof -
  note T = ofStatic_True
  have body: "once (\<lambda>_. True) moves (\<lambda>r. r \<noteq> Return None)
      (bindM (getPod i) (\<lambda>pod.
         if mget (Labels pod) RackLabel = rack \<and> HasSuffix (Name pod) suffix then
           bindM (Now E) (\<lambda>now.
             if \<not> isMgmtApiRunning now pod
             then fail (Errorf ''Management API is not up on node that we are trying to decommission'')
             else
               bindM (EnsurePodsCanAbsorbDecommData E pod eps) (\<lambda>_.
               bindM (attempt (CallDecommissionNodeEndpoint E pod)) (\<lambda>_.
               bindM (labelNodeState E i stateDecommissioning) (\<lambda>_.
               bindM (Eventf NormalEvent ''LabeledPodAsDecommissioning''
                 (''Labeled node as decommissioning '' @ Name pod)) (\<lambda>_.
               ret (Some ()))))))
         else ret None))" for i
    by (intro once_prefix [OF T] once_if once_ret emits_intros steady_EnsurePods onceI_emits
          once_bindM [OF T once_attempt_decommission [OF T]])
       (auto intro!: emits_intros bindM_never simp: ret_run)
  show ?thesis
    unfolding DecommissionNodeOnRack_def
    apply (rule once_prefix [OF T emits_gets])
    by (rule once_returning [OF T once_forM [OF T _ body]]) (auto intro!: onceI_emits emits_intros)
qed

lemma once_DecommissionNodes:
  "once (\<lambda>_. True) moves (\<lambda>r. r \<noteq> Return Continue) (DecommissionNodes E eps)"
proof -
  note T = ofStatic_True
  have step: "once (\<lambda>_. True) moves (\<lambda>r. r \<noteq> Return Continue)
      (orError (if updated then patchDcStatus E base else ret ()) (\<lambda>_.
       bindM (Eventf NormalEvent ''ScalingDownRack'' (''Scaling down rack '' @ RackName rackInfo)) (\<lambda>_.
       orError (setOperatorProgressStatus E ProgressUpdating) (\<lambda>_.
       orError (DecommissionNodeOnRack E (RackName rackInfo) eps suffix) (\<lambda>_.
       ret (RequeueSoon 10))))))" for updated base rackInfo suffix
    by (intro once_orError_prefix [OF T] once_prefix [OF T]
          once_orError [OF T once_DecommissionNodeOnRack] emits_intros once_ret)
       (auto intro!: emits_intros simp: ret_run)
  have body: "once (\<lambda>_. True) moves (\<lambda>r. r \<noteq> Return None \<and> r \<noteq> Return (Some Continue))
      (bindM (getSts idx) (\<lambda>sts.
       bindM (derefReplicas sts) (\<lambda>maxReplicas.
       if maxReplicas > int32 (NodeCount rackInfo) then
         bindM getDc (\<lambda>base.
         bindM (setCondition E (NewDatacenterCondition DatacenterScalingDown ConditionTrue)) (\<lambda>updated.
         bindM (orError (if updated then patchDcStatus E base else ret ()) (\<lambda>_.
           bindM (Eventf NormalEvent ''ScalingDownRack'' (''Scaling down rack '' @ RackName rackInfo)) (\<lambda>_.
           orError (setOperatorProgressStatus E ProgressUpdating) (\<lambda>_.
           orError (DecommissionNodeOnRack E (RackName rackInfo) eps (stsLastPodSuffix maxReplicas)) (\<lambda>_.
           ret (RequeueSoon 10)))))) (\<lambda>res.
         ret (Some res))))
       else ret None)))" for idx rackInfo
    by (intro once_prefix [OF T] once_if once_ret emits_intros once_bindM [OF T step])
       (auto intro!: emits_intros once_ret simp: ret_run)
  show ?thesis
    unfolding DecommissionNodes_def decommissionTurn_def currentSizeOf_def Let_def
    apply (rule once_prefix [OF T emits_dc_pod(1)], rule once_prefix [OF T], (intro emits_intros)[1])
    apply (rule once_if, rule once_ret)
    apply (rule once_orError_prefix [OF T emits_lift])
     apply (rule once_loop_result [OF T emits_ret], clarify)
    by (rule body) simp
qed

section \<open>All of them\<close>

lemma once_check_last:
  assumes I: "ofStatic I" and m: "once I P (\<lambda>r. r \<noteq> Return Continue) m" and k: "once I P Q k"
    and Q: "\<And>r. Q r"
  shows "once I P Q (check m k)"
  unfolding check_def
  by (rule once_bindM [OF I m])
     (use k Q in \<open>auto intro!: emits_intros simp: not_Completed_iff\<close>)

lemma once_check_steady:
  "ofStatic I \<Longrightarrow> emits (\<lambda>c. \<not> P c) m \<Longrightarrow> once I P (\<lambda>_. True) k \<Longrightarrow> once I P (\<lambda>_. True) (check m k)"
  by (rule once_check_last) (auto intro: onceI_emits)

text \<open>Listing the pods makes one call and keeps the racks.\<close>

lemma loadPods_run:
  "loadPods E s = (r, t) \<Longrightarrow> (\<exists>sel. log t = log s @ [ListPods (Namespace (Datacenter s)) sel])
     \<and> desiredRackInformation t = desiredRackInformation s \<and> Datacenter t = Datacenter s \<and> r = Return ()"
  by (auto simp: loadPods_def listPods_def rc_eval of_sum_def Let_def split: sum.splits)

lemma once_reconcileLoadedRacks:
  assumes "orderOk E"
  shows "once rackNamesOk moves (\<lambda>_. True) (reconcileLoadedRacks E)"
proof -
  note I = ofStatic_rackNamesOk
  note last = once_check_last [OF I _ _ TrueI]
  have all: "once rackNamesOk moves Q m" if "once (\<lambda>_. True) moves Q m" for Q and m :: "(world, 'a) op"
    using that unfolding once_def by blast
  show ?thesis
    unfolding reconcileLoadedRacks_def
    by (intro once_prefix [OF I] once_check_steady [OF I] last [OF all [OF once_CheckDecommissioningNodes]]
          last [OF once_moves_CheckPodsReady [OF assms]] last [OF all [OF once_DecommissionNodes]]
          emits_if emits_ret steady_status steady_secrets steady_racks steady_CreateUsers steady_CheckEMM
          onceI_emits [OF emits_bindM] emits_lift)
qed

end
