(* ===== verification/Webhook.thy ===== *)
theory Webhook
  imports Datacenter Images
begin

text \<open>
  The validating webhook (\<open>pkg/apis/cassandra/v1beta1/webhook.go\<close>): what a datacenter must
  satisfy to be written at all, and which changes of a written one are refused. A rejection
  is \<open>Fail\<close>, an acceptance \<open>Return ()\<close>. The decoding of \<open>spec.config\<close>, of which the code looks
  only at the keys of the outermost object, is the argument \<open>unmarshal\<close>.
\<close>

definition attemptedTo :: "string \<Rightarrow> unit outcome" where
  "attemptedTo action =
     Fail (Errorf (''CassandraDatacenter write rejected, attempted to '' @ action))"

definition quantityIsZero :: "Quantity gomap \<Rightarrow> string \<Rightarrow> bool" where
  "quantityIsZero m k = (case mfind m k of None \<Rightarrow> True | Some q \<Rightarrow> q_Unscaled q = 0)"

definition ValidateSingleDatacenter ::
    "(string option \<Rightarrow> unit gomap) \<Rightarrow> CassandraDatacenter \<Rightarrow> unit outcome" where
  "ValidateSingleDatacenter unmarshal dc =
     (let spec = Spec dc; version = ServerVersion spec;
          isDse = (ServerType spec = ''dse'');
          isCassandra = (ServerType spec = ''cassandra'');
          isCassandra3 = (isCassandra \<and> HasPrefix version ''3.'');
          isCassandra4 = (isCassandra \<and> HasPrefix version ''4.'');
          c = unmarshal (Config spec);
          hasJvmOptions = (mfind c ''jvm-options'' \<noteq> None);
          hasJvmServerOptions = (mfind c ''jvm-server-options'' \<noteq> None);
          hasDseYaml = (mfind c ''dse-yaml'' \<noteq> None);
          serverStr = ServerType spec @ ''-'' @ version;
          requests = Requests (Resources spec);
          limits = Limits (Resources spec)
      in if isDse \<and> \<not> IsDseVersionSupported version
         then attemptedTo (''use unsupported DSE version '' @ quoted version)
         else if isCassandra \<and> (case DseWorkloads spec of None \<Rightarrow> False
             | Some w \<Rightarrow> AnalyticsEnabled w \<or> GraphEnabled w \<or> SearchEnabled w)
         then attemptedTo ''enable DSE workloads if server type is Cassandra''
         else if isCassandra \<and> \<not> IsOssVersionSupported version
         then attemptedTo (''use unsupported Cassandra version '' @ quoted version)
         else if hasJvmOptions \<and> (isDse \<or> isCassandra4)
         then attemptedTo (''define config jvm-options with '' @ serverStr)
         else if hasJvmServerOptions \<and> isCassandra3
         then attemptedTo (''define config jvm-server-options with '' @ serverStr)
         else if hasDseYaml \<and> (isCassandra3 \<or> isCassandra4)
         then attemptedTo (''define config dse-yaml with '' @ serverStr)
         else if AllowMultipleNodesPerWorker spec \<and>
             (quantityIsZero requests ''cpu'' \<or> quantityIsZero limits ''cpu'' \<or>
              quantityIsZero requests ''memory'' \<or> quantityIsZero limits ''memory'')
         then attemptedTo ''use multiple nodes per worker without cpu and memory requests and limits''
         else Return ())"

text \<open>The loop over the old racks, which reads \<open>newRacks[index]\<close>.\<close>

fun checkRackChanges :: "Rack list \<Rightarrow> Rack list \<Rightarrow> unit outcome" where
  "checkRackChanges [] newRacks = Return ()"
| "checkRackChanges (oldRack # oldRacks) [] = Panic"
| "checkRackChanges (oldRack # oldRacks) (newRack # newRacks) =
     (if rack_Name oldRack \<noteq> rack_Name newRack
      then attemptedTo (''change rack name from '' @ quoted (rack_Name oldRack) @ '' to '' @
             quoted (rack_Name newRack))
      else if rack_Zone oldRack \<noteq> rack_Zone newRack
      then attemptedTo (''change rack zone from '' @ quoted (rack_Zone oldRack) @ '' to '' @
             quoted (rack_Zone newRack))
      else checkRackChanges oldRacks newRacks)"

definition checkNewRacks :: "CassandraDatacenter \<Rightarrow> CassandraDatacenter \<Rightarrow> unit outcome" where
  "checkNewRacks oldDc newDc =
     (let newRackCount = int (length (GetRacks newDc)) - int (length (GetRacks oldDc));
          newSizeDifference = int32 (Size (Spec newDc) - Size (Spec oldDc))
      in if newRackCount > 0 then
           obind (SplitRacks (Size (Spec oldDc)) (int (length (GetRacks oldDc)))) (\<lambda>oldRackNodeSplit.
             if oldRackNodeSplit = [] then Panic
             else let minSizeAdjustment = last oldRackNodeSplit * newRackCount
               in if newSizeDifference \<le> 0
                  then attemptedTo ''add rack without increasing size''
                  else if newSizeDifference < minSizeAdjustment
                  then attemptedTo (''add racks without increasing size enough to prevent existing'' @
                    '' nodes from moving to new racks to maintain balance.'' @ [CHR 0x0A] @
                    ''New racks added: '' @ showInt newRackCount @ '', size increased by: '' @
                    showInt newSizeDifference @ ''. Expected size increase to be at least '' @
                    showInt minSizeAdjustment)
                  else Return ())
         else Return ())"

definition ValidateDatacenterFieldChanges ::
    "CassandraDatacenter \<Rightarrow> CassandraDatacenter \<Rightarrow> unit outcome" where
  "ValidateDatacenterFieldChanges oldDc newDc =
     (if ClusterName (Spec oldDc) \<noteq> ClusterName (Spec newDc)
      then attemptedTo ''change clusterName''
      else if AllowMultipleNodesPerWorker (Spec oldDc) \<noteq> AllowMultipleNodesPerWorker (Spec newDc)
      then attemptedTo ''change allowMultipleNodesPerWorker''
      else if SuperuserSecretName (Spec oldDc) \<noteq> SuperuserSecretName (Spec newDc)
      then attemptedTo ''change superuserSecretName''
      else if ServiceAccount (Spec oldDc) \<noteq> ServiceAccount (Spec newDc)
      then attemptedTo ''change serviceAccount''
      else if StorageConfig (Spec oldDc) \<noteq> StorageConfig (Spec newDc)
      then attemptedTo ''change storageConfig''
      else if length (GetRacks oldDc) > length (GetRacks newDc)
      then attemptedTo ''remove rack''
      else obind (checkNewRacks oldDc newDc) (\<lambda>_.
        checkRackChanges (GetRacks oldDc) (GetRacks newDc)))"

definition ValidateCreate :: "(string option \<Rightarrow> unit gomap) \<Rightarrow> CassandraDatacenter \<Rightarrow> unit outcome" where
  "ValidateCreate unmarshal dc = ValidateSingleDatacenter unmarshal dc"

text \<open>\<open>ValidateUpdate\<close>: the old object is \<open>None\<close> when it is not a \<open>CassandraDatacenter\<close>.\<close>

definition ValidateUpdate ::
    "(string option \<Rightarrow> unit gomap) \<Rightarrow> CassandraDatacenter \<Rightarrow> CassandraDatacenter option \<Rightarrow> unit outcome" where
  "ValidateUpdate unmarshal dc old =
     (case old of
        None \<Rightarrow> Fail (Errorf ''old object in ValidateUpdate cannot be cast to CassandraDatacenter'')
      | Some oldDc \<Rightarrow>
          obind (ValidateSingleDatacenter unmarshal dc) (\<lambda>_.
            ValidateDatacenterFieldChanges oldDc dc))"

definition ValidateDelete :: "CassandraDatacenter \<Rightarrow> unit outcome" where
  "ValidateDelete dc = Return ()"

section \<open>Lemmas\<close>

lemma attemptedTo_neq [simp]: "attemptedTo a \<noteq> Return ()" "attemptedTo a \<noteq> Panic"
  by (simp_all add: attemptedTo_def)

lemma checkRackChanges_Return:
  "checkRackChanges os ns = Return () \<longleftrightarrow>
     length os \<le> length ns \<and>
     (\<forall>i<length os. rack_Name (ns ! i) = rack_Name (os ! i) \<and> rack_Zone (ns ! i) = rack_Zone (os ! i))"
  by (induction os ns rule: checkRackChanges.induct)
     (auto simp: nth_Cons' less_Suc_eq_0_disj)

lemma checkRackChanges_no_panic: "length os \<le> length ns \<Longrightarrow> checkRackChanges os ns \<noteq> Panic"
  by (induction os ns rule: checkRackChanges.induct) auto

lemma GetRacks_length_pos: "0 < int (length (GetRacks dc))"
  by simp

text \<open>The rack count of the old datacenter is positive, so its split is defined and not empty.\<close>

lemma checkNewRacks_no_panic:
  assumes "0 \<le> Size (Spec oldDc)"
  shows "checkNewRacks oldDc newDc \<noteq> Panic"
proof -
  obtain t where t: "SplitRacks (Size (Spec oldDc)) (int (length (GetRacks oldDc))) = Return t"
    using sr.split_total [OF assms GetRacks_length_pos] by blast
  then have "t \<noteq> []"
    using sr.split_length [OF assms GetRacks_length_pos t] by auto
  with t show ?thesis by (simp add: checkNewRacks_def Let_def)
qed

lemma checkNewRacks_Return:
  assumes "checkNewRacks oldDc newDc = Return ()" "0 \<le> Size (Spec oldDc)"
    and "length (GetRacks oldDc) < length (GetRacks newDc)"
    and "SplitRacks (Size (Spec oldDc)) (int (length (GetRacks oldDc))) = Return t"
  shows "0 < int32 (Size (Spec newDc) - Size (Spec oldDc))"
    and "last t * (int (length (GetRacks newDc)) - int (length (GetRacks oldDc)))
           \<le> int32 (Size (Spec newDc) - Size (Spec oldDc))"
  using assms by (auto simp: checkNewRacks_def Let_def not_le not_less split: if_splits)

lemma ValidateDatacenterFieldChanges_Return:
  "ValidateDatacenterFieldChanges oldDc newDc = Return () \<longleftrightarrow>
     ClusterName (Spec newDc) = ClusterName (Spec oldDc) \<and>
     AllowMultipleNodesPerWorker (Spec newDc) = AllowMultipleNodesPerWorker (Spec oldDc) \<and>
     SuperuserSecretName (Spec newDc) = SuperuserSecretName (Spec oldDc) \<and>
     ServiceAccount (Spec newDc) = ServiceAccount (Spec oldDc) \<and>
     StorageConfig (Spec newDc) = StorageConfig (Spec oldDc) \<and>
     length (GetRacks oldDc) \<le> length (GetRacks newDc) \<and>
     checkNewRacks oldDc newDc = Return () \<and>
     checkRackChanges (GetRacks oldDc) (GetRacks newDc) = Return ()"
  by (auto simp: ValidateDatacenterFieldChanges_def obind_eq_Return_iff)

end
