(* ===== verification/Samples.thy ===== *)
theory Samples
  imports RackInfo Webhook
begin

text \<open>
  A concrete datacenter, environment and context, on which the witnesses evaluate the model:
  a datacenter of three nodes in three racks, and an API server that stores what it is sent
  (a write answers the submitted object) and knows no other object.
\<close>

definition sampleAdditions :: ServiceConfigAdditions where
  "sampleAdditions = \<lparr>sca_Labels = None, sca_Annotations = None\<rparr>"

definition sampleRack :: "string \<Rightarrow> Rack" where
  "sampleRack n = \<lparr>rack_Name = n, rack_Zone = [], rack_NodeAffinityLabels = None\<rparr>"

definition sampleSpec :: CassandraDatacenterSpec where
  "sampleSpec = \<lparr>Size = 3, ServerVersion = ''3.11.7'', ServerImage = [], ServerType = ''cassandra'',
     DockerImageRunsAsCassandra = None, Config = None, ConfigSecret = [],
     ManagementApiAuth = \<lparr>Insecure = True, Manual = None\<rparr>,
     NodeAffinityLabels = None, Resources = noResources, SystemLoggerResources = noResources,
     ConfigBuilderResources = noResources,
     Racks = [sampleRack ''r1'', sampleRack ''r2'', sampleRack ''r3''],
     StorageConfig = \<lparr>CassandraDataVolumeClaimSpec = None, AdditionalVolumesSlice = []\<rparr>,
     ReplaceNodes = [], ClusterName = ''cluster'', Stopped = False, ConfigBuilderImage = [],
     CanaryUpgrade = False, CanaryUpgradeCount = 0, AllowMultipleNodesPerWorker = False,
     SuperuserSecretName = [], ServiceAccount = [], RollingRestartRequested = False,
     NodeSelector = None, ForceUpgradeRacks = [], DseWorkloads = None, SpecPodTemplate = None,
     Users = [], Networking = None, AdditionalSeeds = [], Reaper = None,
     DisableSystemLoggerSidecar = False, SystemLoggerImage = [],
     AdditionalServiceConfig = \<lparr>sc_DatacenterService = sampleAdditions,
       sc_SeedService = sampleAdditions, sc_AllPodsService = sampleAdditions,
       sc_AdditionalSeedService = sampleAdditions, sc_NodePortService = sampleAdditions\<rparr>,
     Tolerations = []\<rparr>"

definition sampleStatus :: CassandraDatacenterStatus where
  "sampleStatus = \<lparr>Conditions = [], SuperUserUpserted = zeroTime, UsersUpserted = zeroTime,
     LastServerNodeStarted = zeroTime, CassandraOperatorProgress = ProgressNone,
     LastRollingRestart = zeroTime, NodeStatuses = None, NodeReplacements = [],
     QuietPeriod = zeroTime, ObservedGeneration = 0\<rparr>"

definition sampleMeta :: "string \<Rightarrow> ObjectMeta" where
  "sampleMeta n = emptyMeta\<lparr>Name := n, Namespace := ''ns''\<rparr>"

definition sampleDc :: CassandraDatacenter where
  "sampleDc = ObjectMeta.extend (sampleMeta ''dc1'') \<lparr>Spec = sampleSpec, Status = sampleStatus\<rparr>"

definition unknownObject :: error where "unknownObject = NotFound []"

definition sampleX509 :: x509lib where
  "sampleX509 = \<lparr>x_pemBlocks = (\<lambda>t. [(t, t)]), x_parsePKCS8 = (\<lambda>_. None),
     x_parseCertificates = (\<lambda>t. Inr [\<lparr>CommonName = t, RawBytes = t\<rparr>]), x_keyPair = (\<lambda>c k. None),
     x_checkSignatureFrom = (\<lambda>a b. None), x_verify = (\<lambda>c i r. Inr [[c]]), x_poolHasCerts = (\<lambda>_. True)\<rparr>"

definition sampleCrypto :: cryptolib where
  "sampleCrypto = \<lparr>c_randInt = (\<lambda>n k. Inr 1), c_GenerateKey = (\<lambda>n bits. Inr ''key''), c_MarshalPKCS8 = Inr,
     c_MarshalPKCS1 = (\<lambda>k. k), c_pemEncode = (\<lambda>t b. Inr b),
     c_CreateCertificate = (\<lambda>n t p k s. Inr (t_CommonName t)), c_ParsePKCS8 = (\<lambda>b. Inr (Some b)),
     c_ParseCertificate = (\<lambda>b. Inr \<lparr>CommonName = b, RawBytes = b\<rparr>), c_asn1Marshal = (\<lambda>(v, a, k). Inr k),
     c_keystoreEncode = (\<lambda>n s p. Inr ''jks'')\<rparr>"

definition sampleEnv :: env where
  "sampleEnv = \<lparr>e_now = (\<lambda>n. 1000 * Second), e_rand = (\<lambda>n. Inr (replicate 40 (CHR ''x''))),
     e_marshal = (\<lambda>j. ''{}''), e_parseJson = (\<lambda>t. Inr (JObject [])), e_mergeJson = (\<lambda>a b. Inr b),
     e_marshalHealth = (\<lambda>h. Inr ''health''),
     e_unmarshalHealth = (\<lambda>t. Inr \<lparr>h_Spec = JNull, h_InstanceHealth = []\<rparr>),
     e_crypto = sampleCrypto,
     e_x509 = sampleX509, e_parseIP = (\<lambda>_. True), e_lookupIP = (\<lambda>_. Inr []), e_operatorNs = Inr ''ops'',
     e_getenv = (\<lambda>_. None), e_hash = (\<lambda>_. ''hash''),
     e_order = sorted_list_of_set, e_setOwner = (\<lambda>dc m. Inr (OwnerReferences m)),
     e_parseFloat = (\<lambda>_. Inr 0),
     e_http = (\<lambda>h c. Inr \<lparr>StatusCode = 200, RespBody = EndpointsJson []\<rparr>),
     e_sts = (\<lambda>h c. case c of CreateSts x \<Rightarrow> Inr x | UpdateSts x \<Rightarrow> Inr x | PatchSts b x \<Rightarrow> Inr x
        | _ \<Rightarrow> Inl unknownObject),
     e_pod = (\<lambda>h c. case c of PatchPod b x \<Rightarrow> Inr x | UpdatePodCall x \<Rightarrow> Inr x | _ \<Rightarrow> Inl unknownObject),
     e_pods = (\<lambda>h c. Inr []),
     e_dc = (\<lambda>h c. case c of UpdateDc x \<Rightarrow> Inr x | PatchDc b x \<Rightarrow> Inr x | StatusPatchDc b x \<Rightarrow> Inr x
        | _ \<Rightarrow> Inl unknownObject),
     e_pvc = (\<lambda>h c. case c of PatchPVC b x \<Rightarrow> Inr x | _ \<Rightarrow> Inl unknownObject),
     e_pvcs = (\<lambda>h c. Inr []), e_pv = (\<lambda>h c. Inl unknownObject),
     e_secret = (\<lambda>h c. case c of CreateSecret x \<Rightarrow> Inr x | UpdateSecret x \<Rightarrow> Inr x | PatchSecret b x \<Rightarrow> Inr x
        | _ \<Rightarrow> Inl unknownObject),
     e_secrets = (\<lambda>h c. Inr []), e_node = (\<lambda>h c. Inl unknownObject), e_nodes = (\<lambda>h c. Inr []),
     e_pdb = (\<lambda>h c. case c of CreatePDB x \<Rightarrow> Inr x | _ \<Rightarrow> Inl unknownObject),
     e_service = (\<lambda>h c. case c of CreateService x \<Rightarrow> Inr x | UpdateService x \<Rightarrow> Inr x | _ \<Rightarrow> Inl unknownObject),
     e_endpoints = (\<lambda>h c. case c of CreateEndpoints x \<Rightarrow> Inr x | UpdateEndpoints x \<Rightarrow> Inr x
        | _ \<Rightarrow> Inl unknownObject),
     e_configmap = (\<lambda>h c. case c of CreateConfigMap x \<Rightarrow> Inr x | UpdateConfigMap x \<Rightarrow> Inr x
        | _ \<Rightarrow> Inl unknownObject),
     e_networkpolicy = (\<lambda>h c. case c of CreateNetworkPolicy x \<Rightarrow> Inr x | UpdateNetworkPolicy x \<Rightarrow> Inr x
        | _ \<Rightarrow> Inl unknownObject),
     e_unit = (\<lambda>h c. Inr ())\<rparr>"

definition sampleWorld :: world where
  "sampleWorld = \<lparr>Datacenter = sampleDc, Protocol = ''http'', desiredRackInformation = [],
     statefulSets = [], podStore = [], clusterPods = [], dcPods = [], rcServices = [],
     rcEndpoints = None, nodeToDc = fmempty, log = [], ticks = 0\<rparr>"

text \<open>A pod whose containers run and are ready.\<close>

definition samplePod :: "string \<Rightarrow> (string \<times> string) list \<Rightarrow> string \<Rightarrow> Pod" where
  "samplePod n labels node = ObjectMeta.extend ((sampleMeta n)\<lparr>Labels := mapOf labels\<rparr>)
     \<lparr>NodeName = node, Volumes = [], Phase = ''Running'', PodIP = ''10.0.0.1'', HostIP = [], PodConditions = [],
      ContainerStatuses = [\<lparr>cs_Name = ''cassandra'', cs_Ready = True, cs_Running = Some 0,
        cs_LastTerminated = None\<rparr>]\<rparr>"

text \<open>The same datacenter with a fourth rack and two more nodes.\<close>

definition sampleGrownDc :: CassandraDatacenter where
  "sampleGrownDc = sampleDc\<lparr>Spec :=
     sampleSpec\<lparr>Size := 5, Racks := Racks sampleSpec @ [sampleRack ''r4'']\<rparr>\<rparr>"

lemmas sample_defs = sampleGrownDc_def sampleAdditions_def sampleRack_def sampleSpec_def sampleStatus_def
  sampleMeta_def emptyMeta_def sampleDc_def sampleWorld_def sampleEnv_def sampleX509_def sampleCrypto_def ObjectMeta.defs

end
