(* ===== verification/Passes.thy ===== *)
theory Passes
  imports Steps Samples
begin

text \<open>
  One pass of the operator, from the request of the controller to its answer: the steps of
  \<open>handler.go\<close> and \<open>reconcile_datacenter.go\<close> around the steps on the racks, and how many nodes one
  pass may start or decommission.
\<close>

section \<open>The datacenter of the context\<close>

text \<open>
  Names of racks are not empty: the schema of the custom resource asks for two characters
  (\<open>MinLength=2\<close> on \<open>Rack.Name\<close>), so the API server stores no other datacenter.
\<close>

definition rackNamed :: "CassandraDatacenter \<Rightarrow> bool" where
  "rackNamed dc \<longleftrightarrow> [] \<notin> rack_Name ` set (Racks (Spec dc))"

definition servesNamedRacks :: "env \<Rightarrow> bool" where
  "servesNamedRacks E \<longleftrightarrow> (\<forall>h c dc. e_dc E h c = Inr dc \<longrightarrow> rackNamed dc)"

abbreviation named :: "world \<Rightarrow> bool" where
  "named s \<equiv> rackNamed (Datacenter s)"

lemma preserves_calls [preserves_intros]:
  fixes P :: "CassandraDatacenter \<Rightarrow> bool"
  defines "I \<equiv> \<lambda>s :: world. P (Datacenter s)"
  shows "preserves I (perform answer c)" "preserves I (Now E)" "preserves I (Random src)"
    "preserves I (Eventf a b d)" "preserves I getDc"
  by (simp_all add: preserves_def op_simps I_def)

lemma named_modifyDc [preserves_intros]:
  "(\<And>dc. rackNamed dc \<Longrightarrow> rackNamed (f dc)) \<Longrightarrow> preserves named (modifyDc f)"
  by (simp add: preserves_def op_simps)

lemma named_orError [preserves_intros]:
  "preserves I m \<Longrightarrow> (\<And>a. preserves I (k a)) \<Longrightarrow> preserves I (orError m k)"
  unfolding orError_def by (intro preserves_intros)

lemma named_writeDc:
  assumes "servesNamedRacks E"
  shows "preserves named (writeDc E mk)"
  using assms by (auto simp: preserves_def writeDc_def rc_eval of_sum_def servesNamedRacks_def split: sum.splits)

lemma named_progress: "servesNamedRacks E \<Longrightarrow> preserves named (setOperatorProgressStatus E st)"
  unfolding setOperatorProgressStatus_def patchDcStatus_def
  by (intro preserves_intros named_writeDc) (auto simp: rackNamed_def)

lemma named_owner [preserves_intros]: "preserves I (setControllerReference E dc obj)"
  unfolding setControllerReference_def by (intro preserves_intros)

lemma named_steps:
  assumes "servesNamedRacks E"
  shows "preserves named (updateDcMaps E)" "preserves named (addFinalizer E)"
    "preserves named (CheckHeadlessServices E)" "preserves named (CheckAdditionalSeedEndpoints E)"
    "preserves named (CheckNetworkPolicies E)"
  unfolding updateDcMaps_def addFinalizer_def CheckHeadlessServices_def checkService_def
    CreateHeadlessServices_def CheckAdditionalSeedEndpoints_def
    CreateEndpointsForAdditionalSeedService_def CheckNetworkPolicies_def
  by (intro preserves_intros named_writeDc [OF assms] named_progress [OF assms]; simp add: rackNamed_def)+

section \<open>Counting the calls of a pass\<close>

text \<open>
  \<open>spends I n m J\<close>: from a state with \<open>I\<close>, \<open>m\<close> makes at most \<open>n\<close> calls that start or decommission a
  node, and when it returns a value \<open>a\<close> the state has \<open>J a\<close>.
\<close>

definition spends :: "(world \<Rightarrow> bool) \<Rightarrow> nat \<Rightarrow> (world, 'a) op \<Rightarrow> ('a \<Rightarrow> world \<Rightarrow> bool) \<Rightarrow> bool" where
  "spends I n m J \<longleftrightarrow> (\<forall>s r t. I s \<longrightarrow> m s = (r, t) \<longrightarrow>
     (\<forall>a. r = Return a \<longrightarrow> J a t) \<and> (\<exists>cs. log t = log s @ cs \<and> length (filter moves cs) \<le> n))"

lemma spendsD:
  assumes "spends I n m J" "I s" "m s = (r, t)"
  shows "r = Return a \<longrightarrow> J a t" "\<exists>cs. log t = log s @ cs \<and> length (filter moves cs) \<le> n"
  using assms unfolding spends_def by blast+

lemma spendsI:
  assumes "\<And>s r t. I s \<Longrightarrow> m s = (r, t) \<Longrightarrow> \<exists>cs. log t = log s @ cs \<and> length (filter moves cs) \<le> n"
    and "\<And>s a t. I s \<Longrightarrow> m s = (Return a, t) \<Longrightarrow> J a t"
  shows "spends I n m J"
  using assms unfolding spends_def by blast

lemma steady_log: "emits steady m \<Longrightarrow> m s = (r, t) \<Longrightarrow> \<exists>cs. log t = log s @ cs \<and> length (filter moves cs) \<le> 0"
  by (fastforce elim: emitsD simp: list_all_iff)

lemma spends_steady: "emits steady m \<Longrightarrow> spends I 0 m (\<lambda>_ _. True)"
  by (rule spendsI) (erule steady_log, assumption, rule TrueI)

lemma spends_emits: "emits steady m \<Longrightarrow> preserves I m \<Longrightarrow> spends I 0 m (\<lambda>_. I)"
  by (rule spendsI) (erule steady_log, assumption, rule preservesD)

lemma spends_weaken:
  assumes "spends I n m J" "n \<le> k" "\<And>s. I' s \<Longrightarrow> I s" "\<And>a s. J a s \<Longrightarrow> J' a s"
  shows "spends I' k m J'"
proof (rule spendsI)
  fix s r t
  assume "I' s" "m s = (r, t)"
  then show "\<exists>cs. log t = log s @ cs \<and> length (filter moves cs) \<le> k"
    using spendsD(2) [OF assms(1) assms(3)] assms(2) by (meson order_trans)
next
  fix s a t
  assume "I' s" "m s = (Return a, t)"
  then show "J' a t" using spendsD(1) [OF assms(1) assms(3)] assms(4) by blast
qed

lemma spends_once: "once I moves Q m \<Longrightarrow> spends I 1 m (\<lambda>_ _. True)"
  unfolding spends_def by (metis onceD)

lemma spends_bindM:
  assumes m: "spends I n m J" and f: "\<And>a. spends (J a) k (f a) K"
  shows "spends I (n + k) (bindM m f) K"
proof (rule spendsI)
  fix s r t
  assume I: "I s" and eq: "bindM m f s = (r, t)"
  obtain ra u where ms: "m s = (ra, u)" by fastforce
  from spendsD(2) [OF m I ms] obtain cs where cs: "log u = log s @ cs" "length (filter moves cs) \<le> n" by blast
  show "\<exists>cs. log t = log s @ cs \<and> length (filter moves cs) \<le> n + k"
  proof (cases ra)
    case (Return a)
    then have fa: "f a u = (r, t)" using eq ms by (simp add: bindM_def)
    have "J a u" using spendsD(1) [OF m I ms] Return by blast
    from spendsD(2) [OF f this fa]
    obtain ds where "log t = log u @ ds" "length (filter moves ds) \<le> k" by blast
    with cs show ?thesis by (intro exI [of _ "cs @ ds"]) simp
  qed (use eq ms cs in \<open>auto simp: bindM_def\<close>)
next
  fix s b t
  assume "I s" "bindM m f s = (Return b, t)"
  then obtain a u where "m s = (Return a, u)" "f a u = (Return b, t)" by (auto simp: bindM_eq_Return_iff)
  then show "K b t" using spendsD(1) [OF m \<open>I s\<close>] spendsD(1) [OF f] by blast
qed

lemmas spends_bindM0 = spends_bindM [where n = 0, simplified]

lemma spends_bindM1: "spends I 1 m J \<Longrightarrow> (\<And>a. spends (J a) 0 (f a) K) \<Longrightarrow> spends I 1 (bindM m f) K"
  using spends_bindM [of I 1 m J 0 f K] by simp

lemma spends_if: "spends I n m J \<Longrightarrow> spends I n k J \<Longrightarrow> spends I n (if b then m else k) J"
  by simp

lemma spends_attempt: "spends I n m J \<Longrightarrow> spends I n (attempt m) (\<lambda>r s. \<forall>a. r = Inr a \<longrightarrow> J a s)"
  unfolding spends_def attempt_def by (fastforce split: prod.splits outcome.splits)

lemma spends_check:
  assumes "spends I 0 m J" "spends (J Continue) n k (\<lambda>_ _. True)"
  shows "spends I n (check m k) (\<lambda>_ _. True)"
  unfolding check_def
proof (rule spends_bindM0 [OF assms(1)])
  show "spends (J r) n (if Completed r then lift (Output r) else k) (\<lambda>_ _. True)" for r
  proof (cases "Completed r")
    case True
    then show ?thesis by (simp add: spends_weaken [OF spends_steady [OF emits_lift]])
  qed (use assms(2) in \<open>simp add: not_Completed_iff\<close>)
qed

section \<open>The steps around the racks\<close>

lemma GetRacks_named: "rackNamed dc \<Longrightarrow> [] \<notin> rack_Name ` set (GetRacks dc)"
  by (auto simp: rackNamed_def GetRacks_def)

lemma CalculateRackInformation_names:
  assumes eq: "orError CalculateRackInformation (\<lambda>_. ret Continue) s = (r, t)" and named: "named s"
  shows "log t = log s \<and> (r = Return Continue \<longrightarrow> rackNamesOk t)"
proof (cases "int (length (GetRacks (Datacenter s))) \<le> Size (Spec (Datacenter s))")
  case True
  let ?dc = "Datacenter s"
  from True obtain ss ns where "CalculateRackInformation s = (Return (),
     s\<lparr>desiredRackInformation := rackInfos ?dc ss ns, statefulSets := replicate (length (GetRacks ?dc)) None\<rparr>)"
    by (rule CalculateRackInformation_run)
  moreover have "[] \<notin> set (map RackName (rackInfos ?dc ss ns))"
    using GetRacks_named [OF named] by (simp only: map_rackInfos set_map not_False_eq_True)
  ultimately show ?thesis using eq by (auto simp: orError_run ret_run rackNamesOk_def)
next
  case False
  then show ?thesis using eq by (auto simp: orError_run CalculateRackInformation_Fail)
qed

lemma spends_CalculateRackInformation:
  "spends named 0 (orError CalculateRackInformation (\<lambda>_. ret Continue)) (\<lambda>r s. r = Continue \<longrightarrow> rackNamesOk s)"
proof (rule spendsI)
  fix s r t
  assume "named s" "orError CalculateRackInformation (\<lambda>_. ret Continue) s = (r, t)"
  then show "\<exists>cs. log t = log s @ cs \<and> length (filter moves cs) \<le> 0"
    using CalculateRackInformation_names by simp
qed (use CalculateRackInformation_names in blast)

lemma steady_deletion: "emits steady (ProcessDeletion E)"
  unfolding ProcessDeletion_def RemoveWatcher_def deletePVCs_def listPVCs_def RemoveDcFromNodeToDcMap_def
  by (intro emits_intros steady_secrets; simp add: static_def)

lemma steady_maps: "emits steady (updateDcMaps E)"
  unfolding updateDcMaps_def by (intro emits_intros; simp add: static_def)

lemma steady_services:
  "emits steady (addFinalizer E)" "emits steady (CheckHeadlessServices E)"
  "emits steady (CheckAdditionalSeedEndpoints E)" "emits steady (CheckNetworkPolicies E)"
  unfolding addFinalizer_def CheckHeadlessServices_def checkService_def CreateHeadlessServices_def
    CheckAdditionalSeedEndpoints_def CreateEndpointsForAdditionalSeedService_def CheckNetworkPolicies_def
  by (intro emits_intros; simp add: static_def)+

lemma steady_health: "emits steady (PSPHealthUpdater_Update E)"
  unfolding PSPHealthUpdater_Update_def HealthStatusUpdater_Update_def UpsertCatalog_def GetHealthData_def
    UpsertHealthData_def upsertConfigMap_def getConfigMap_def
  by (intro emits_intros; simp)

text \<open>Building the client and validating only read.\<close>

lemma reads_ValidateConfig: "emits isRead (ValidateConfig E provider)"
  by (cases provider) (auto simp: validateManualConfig_def loadSecret_def Let_def intro!: emits_intros)

lemma reads_BuildHttpClient: "emits isRead (BuildHttpClient E provider)"
  by (cases provider) (auto intro!: emits_intros split: option.split)

lemma reads_isValid: "emits isRead (isValid E)"
proof -
  have "emits isRead (ValidateManagementApiConfig E dc)" for dc
    unfolding ValidateManagementApiConfig_def
    by (auto intro!: emits_intros reads_ValidateConfig split: outcome.split)
  then show ?thesis
    unfolding isValid_def validateSuperuserSecret_def validateCassandraUserSecrets_def
      retrieveSuperuserSecret_def retrieveSecret_def
    by (intro emits_intros; simp)
qed

lemma preserves_BuildHttpClient: "preserves (\<lambda>s. P (Datacenter s)) (BuildHttpClient E provider)"
  by (cases provider) (auto intro!: preserves_intros)

lemma preserves_isValid: "preserves (\<lambda>s. P (Datacenter s)) (isValid E)"
proof -
  have "preserves (\<lambda>s. P (Datacenter s)) (ValidateConfig E provider)" for provider
    by (cases provider) (auto simp: validateManualConfig_def loadSecret_def Let_def intro!: preserves_intros)
  then have "preserves (\<lambda>s. P (Datacenter s)) (ValidateManagementApiConfig E dc)" for dc
    unfolding ValidateManagementApiConfig_def by (auto intro!: preserves_intros split: outcome.split)
  then show ?thesis
    unfolding isValid_def validateSuperuserSecret_def validateCassandraUserSecrets_def
      retrieveSuperuserSecret_def retrieveSecret_def
    by (intro preserves_intros)
qed

lemma steady_read: "emits isRead m \<Longrightarrow> emits steady m"
  by (erule emits_weaken, erule isRead.elims) auto

text \<open>A deletion that goes on has done nothing.\<close>

lemma ProcessDeletion_Continue:
  "ProcessDeletion E s = (Return Continue, t) \<Longrightarrow> t = s"
  by (auto simp: ProcessDeletion_def bindM_eq_Return_iff orError_eq_Return_iff ret_eq_iff getDc_eq_iff
      split: if_splits)

lemma spends_deletion: "spends I 0 (ProcessDeletion E) (\<lambda>r s. r = Continue \<longrightarrow> I s)"
  by (rule spendsI) (use steady_log [OF steady_deletion] ProcessDeletion_Continue in \<open>fast+\<close>)


section \<open>A pass\<close>

lemma spends_ReconcileAllRacks:
  assumes "orderOk E"
  shows "spends rackNamesOk 1 (ReconcileAllRacks E) (\<lambda>_ _. True)"
proof -
  have inv: "preserves rackNamesOk CheckForInvalidState"
    unfolding CheckForInvalidState_def Let_def getDc_def by (intro preserves_intros)
  have load: "spends rackNamesOk 0 (loadPods E) (\<lambda>_. rackNamesOk)"
    by (rule spendsI) (auto dest!: loadPods_run simp: rackNamesOk_def)
  show ?thesis
    unfolding ReconcileAllRacks_def
    by (rule spends_check [OF spends_emits [OF steady_status(1) inv]], rule spends_bindM0 [OF load])
       (rule spends_once [OF once_reconcileLoadedRacks [OF assms]])
qed

lemma spends_calculateReconciliationActions:
  assumes "orderOk E" and serves: "servesNamedRacks E"
  shows "spends named 1 (calculateReconciliationActions E) (\<lambda>_ _. True)"
proof -
  note keep = spends_emits [where I = named]
  have maps: "spends named 0 (if IsPSPEnabled (e_getenv E) then bindM (attempt (updateDcMaps E)) (\<lambda>_. ret ())
      else ret ()) (\<lambda>_. named)"
    by (rule keep) (intro emits_intros steady_maps preserves_intros named_steps serves)+
  have fin: "spends named 0 (orError (addFinalizer E) (\<lambda>_. ret Continue)) (\<lambda>_. named)"
    by (rule keep) (intro emits_intros steady_services preserves_intros named_steps serves)+
  have del: "spends named 0 (ProcessDeletion E) (\<lambda>r s. r = Continue \<longrightarrow> named s)" by (rule spends_deletion)
  have net: "spends named 0 (if IsPSPEnabled (e_getenv E) then CheckNetworkPolicies E else ret Continue) (\<lambda>_. named)"
    by (rule keep) (intro emits_intros steady_services preserves_intros named_steps serves)+
  have svc: "spends named 0 (CheckHeadlessServices E) (\<lambda>_. named)"
    "spends named 0 (CheckAdditionalSeedEndpoints E) (\<lambda>_. named)"
    by (rule keep; intro steady_services named_steps serves)+
  have health: "spends (\<lambda>_. True) 0 (case x of (res, err) \<Rightarrow> (case err of Some e \<Rightarrow> ret (res, err)
      | None \<Rightarrow> bindM (attempt (PSPHealthUpdater_Update E)) (\<lambda>r.
          case r of Inl e \<Rightarrow> ret (noResult, Some e) | Inr _ \<Rightarrow> ret (res, None)))) (\<lambda>_ _. True)" for x
    by (rule spends_steady) (intro emits_intros steady_health)
  show ?thesis
    unfolding calculateReconciliationActions_def
    apply (rule spends_bindM0 [OF maps], rule spends_check [OF del], simp only: simp_thms)
    apply (rule spends_check [OF fin], rule spends_check [OF svc(1)], rule spends_check [OF svc(2)])
    apply (rule spends_check [OF net], rule spends_check [OF spends_CalculateRackInformation], simp only: simp_thms)
    by (rule spends_bindM1 [OF spends_ReconcileAllRacks [OF assms(1)] health])
qed

lemma spends_reconcileWhenActive:
  assumes "orderOk E" "servesNamedRacks E"
  shows "spends named 1 (reconcileWhenActive E) (\<lambda>_ _. True)"
proof -
  note keep = spends_emits [where I = named]
  have out: "spends I 1 (outputOf r) (\<lambda>_ _. True)" for I r
    unfolding outputOf_def by (rule spends_weaken [OF spends_steady [OF emits_lift]]) simp_all
  have pure: "spends named 0 getDc (\<lambda>_. named)" "spends named 0 (Now E) (\<lambda>_. named)"
    by (rule keep; intro emits_intros preserves_intros)+
  have report: "spends (\<lambda>_. True) 0 (case x of (res, err) \<Rightarrow> (case err of None \<Rightarrow> ret (res, None)
      | Some e \<Rightarrow> bindM (Eventf WarningEvent ''ReconcileFailed'' (errorText e)) (\<lambda>_. ret (res, err)))) (\<lambda>_ _. True)" for x
    by (rule spends_steady, intro emits_intros) simp
  note calc = spends_bindM1 [OF spends_calculateReconciliationActions [OF assms] report]
  show ?thesis
    unfolding reconcileWhenActive_def Let_def
    by (intro spends_bindM0 [OF pure(1)] spends_bindM0 [OF pure(2)] spends_if out calc)
qed

lemma spends_CreateReconciliationContext:
  assumes "servesNamedRacks E"
  shows "spends (\<lambda>_. True) 0 (attempt (CreateReconciliationContext E req)) (\<lambda>r s. \<forall>a. r = Inr a \<longrightarrow> named s)"
proof -
  let ?init = "\<lambda>dc. modify (\<lambda>s. s\<lparr>Datacenter := dc\<lparr>Status := normaliseTimes (Status dc)\<rparr>,
       desiredRackInformation := [], statefulSets := [], podStore := [], clusterPods := [], dcPods := [],
       rcServices := [], rcEndpoints := None\<rparr>)"
  have ns: "spends (\<lambda>_. True) 0 (if IsPSPEnabled (e_getenv E)
      then bindM (lift (of_sum (e_operatorNs E))) (\<lambda>_. ret ()) else ret ()) (\<lambda>_ _. True)"
    by (rule spends_steady) (intro emits_intros)
  have get: "spends (\<lambda>_. True) 0 (perform (e_dc E) (GetDc req)) (\<lambda>dc _. rackNamed dc)"
    using assms by (auto intro!: spendsI simp: perform_def of_sum_def servesNamedRacks_def split: sum.splits)
  have init: "spends (\<lambda>_. rackNamed dc) 0 (?init dc) (\<lambda>_. named)" for dc
    by (rule spendsI) (auto simp: modify_run rackNamed_def)
  have client: "spends named 0 (BuildManagementApiHttpClient E dc) (\<lambda>_. named)" for dc
    unfolding BuildManagementApiHttpClient_def
    by (intro spends_emits preserves_intros preserves_BuildHttpClient emits_intros steady_read [OF reads_BuildHttpClient])
  have dc: "spends named 0 getDc (\<lambda>_. named)" "spends named 0 (lift x) (\<lambda>_. named)"
    "spends named 0 (modify (\<lambda>s. s\<lparr>Protocol := y\<rparr>)) (\<lambda>_. named)" for x :: "string outcome" and y
    by (auto intro!: spendsI simp: op_simps)
  show ?thesis
    unfolding CreateReconciliationContext_def
    by (intro spends_attempt spends_bindM0 [OF ns] spends_bindM0 [OF get] spends_bindM0 [OF init]
        spends_bindM0 [OF dc(1)] spends_bindM0 [OF client] spends_bindM0 [OF dc(2)] dc(3))
qed

text \<open>
  C1. One pass of the operator changes the membership of the ring by at most one node. Whatever
  the cluster answers to its calls, and however a map is iterated, a run of \<open>Reconcile\<close> makes at
  most one call to the management API that starts a node (with or without replacing another) or
  decommissions one. The API server stores no datacenter with an empty rack name, as its schema
  says.
\<close>

theorem at_most_one_move_per_pass:
  assumes "orderOk E" and "servesNamedRacks E" and "Reconcile E req s = (r, t)"
  shows "\<exists>cs. log t = log s @ cs \<and> length (filter moves cs) \<le> 1"
proof -
  have out: "spends I 1 (outputOf x) (\<lambda>_ _. True)" for I x
    unfolding outputOf_def by (rule spends_weaken [OF spends_steady [OF emits_lift]]) simp_all
  have valid: "spends named 0 (attempt (isValid E)) (\<lambda>_. named)"
    by (intro spends_emits emits_intros preserves_intros preserves_isValid steady_read [OF reads_isValid])
  have refuse: "spends named 1 (bindM (Eventf WarningEvent ''ValidationFailed'' m) (\<lambda>_. outputOf x)) (\<lambda>_ _. True)" for m x
    by (rule spends_bindM0 [OF spends_steady out]) (intro emits_intros, simp)
  have active: "spends named 1 (bindM (attempt (isValid E)) (\<lambda>r. case r of
        Inl e \<Rightarrow> bindM (Eventf WarningEvent ''ValidationFailed'' (errorText e)) (\<lambda>_. outputOf (ErrorOut e))
      | Inr _ \<Rightarrow> reconcileWhenActive E)) (\<lambda>_ _. True)"
    by (rule spends_bindM0 [OF valid])
       (simp add: refuse spends_reconcileWhenActive [OF assms(1,2)] del: One_nat_def split: sum.split)
  have "spends (\<lambda>_. True) 1 (Reconcile E req) (\<lambda>_ _. True)"
    unfolding Reconcile_def
    by (rule spends_bindM0 [OF spends_CreateReconciliationContext [OF assms(2)]])
       (auto simp: out active simp del: One_nat_def split: sum.split)
  from spendsD(2) [OF this TrueI assms(3)] show ?thesis .
qed

text \<open>An API server that enforces the schema, and knows the sample datacenter.\<close>

definition schemaEnv :: env where
  "schemaEnv = sampleEnv\<lparr>e_dc := \<lambda>h c. case c of
      GetDc n \<Rightarrow> Inr sampleDc
    | UpdateDc x \<Rightarrow> if rackNamed x then Inr x else Inl unknownObject
    | PatchDc b x \<Rightarrow> if rackNamed x then Inr x else Inl unknownObject
    | StatusPatchDc b x \<Rightarrow> if rackNamed x then Inr x else Inl unknownObject
    | _ \<Rightarrow> Inl unknownObject\<rparr>"

theorem at_most_one_move_per_pass_witness:
  "orderOk schemaEnv \<and> servesNamedRacks schemaEnv
   \<and> length (filter moves (log (snd (Reconcile schemaEnv (''ns'', ''dc1'') sampleWorld)))) \<le> 1"
proof -
  have order: "orderOk schemaEnv" by (simp add: orderOk_def schemaEnv_def sampleEnv_def)
  have serves: "servesNamedRacks schemaEnv"
    by (auto simp: servesNamedRacks_def schemaEnv_def rackNamed_def sample_defs split: call.splits if_splits)
  obtain r t where run: "Reconcile schemaEnv (''ns'', ''dc1'') sampleWorld = (r, t)" by fastforce
  show ?thesis using at_most_one_move_per_pass [OF order serves run] order serves run
    by (auto simp: sampleWorld_def)
qed

section \<open>Passes that only look\<close>

fun harmless :: "call \<Rightarrow> bool" where
  "harmless (Event a b c) = True"
| "harmless c = isRead c"

lemma harmless_read: "isRead c \<Longrightarrow> harmless c"
  by (cases c) auto

definition logsOnly :: "(call \<Rightarrow> bool) \<Rightarrow> world \<Rightarrow> world \<Rightarrow> bool" where
  "logsOnly A s t \<longleftrightarrow> (\<exists>cs. log t = log s @ cs \<and> list_all A cs)"

lemma logsOnly_trans: "logsOnly A s t \<Longrightarrow> logsOnly A t u \<Longrightarrow> logsOnly A s u"
  by (auto simp: logsOnly_def)

lemma logsOnly_same: "log t = log s \<Longrightarrow> logsOnly A s t"
  by (auto simp: logsOnly_def)

lemma logsOnly_emits: "emits B m \<Longrightarrow> (\<And>c. B c \<Longrightarrow> A c) \<Longrightarrow> m s = (r, t) \<Longrightarrow> logsOnly A s t"
  unfolding logsOnly_def by (erule emitsD, assumption) (auto simp: list_all_iff)

text \<open>The datacenter of the context is the one that was read, with the times that were not set.\<close>

definition contextDc :: "CassandraDatacenter \<Rightarrow> CassandraDatacenter" where
  "contextDc dc = dc\<lparr>Status := normaliseTimes (Status dc)\<rparr>"

lemma CreateReconciliationContext_run:
  assumes "e_dc E (log s) (GetDc req) = Inr dc" "CreateReconciliationContext E req s = (r, t)"
  shows "logsOnly harmless s t" "r = Return () \<Longrightarrow> Datacenter t = contextDc dc"
proof -
  let ?u = "s\<lparr>log := log s @ [GetDc req], Datacenter := contextDc dc, desiredRackInformation := [],
      statefulSets := [], podStore := [], clusterPods := [], dcPods := [], rcServices := [], rcEndpoints := None\<rparr>"
  have u: "logsOnly harmless s ?u" by (simp add: logsOnly_def)
  obtain rc v where client: "BuildManagementApiHttpClient E (contextDc dc) ?u = (rc, v)" by fastforce
  have reads: "emits isRead (BuildManagementApiHttpClient E (contextDc dc))"
    unfolding BuildManagementApiHttpClient_def by (intro emits_intros reads_BuildHttpClient)
  have "preserves (\<lambda>s. Datacenter s = contextDc dc) (BuildManagementApiHttpClient E (contextDc dc))"
    unfolding BuildManagementApiHttpClient_def by (intro preserves_intros preserves_BuildHttpClient)
  then have same: "Datacenter v = contextDc dc" by (rule preservesD) (use client in auto)
  have v: "logsOnly harmless s v"
    by (rule logsOnly_trans [OF u logsOnly_emits [OF reads harmless_read client]])
  have "t = s \<and> r \<noteq> Return () \<or> t = v \<and> r \<noteq> Return () \<or> (\<exists>p. t = v\<lparr>Protocol := p\<rparr>)"
    using assms client
    by (auto simp: CreateReconciliationContext_def rc_eval contextDc_def of_sum_def
        split: if_splits sum.splits outcome.splits prod.splits)
  then show "logsOnly harmless s t" "r = Return () \<Longrightarrow> Datacenter t = contextDc dc"
    using v same logsOnly_same [of s s] logsOnly_trans [OF v logsOnly_same] by auto
qed

definition resting :: "env \<Rightarrow> CassandraDatacenter \<Rightarrow> bool" where
  "resting E dc \<longleftrightarrow> (\<forall>n. e_now E n < LastServerNodeStarted (Status dc) + Second * 20)
     \<or> (\<forall>n. e_now E n < QuietPeriod (Status dc))"

lemma wholeSeconds_nonneg: "0 \<le> d \<Longrightarrow> 0 \<le> wholeSeconds d"
  by (simp add: wholeSeconds_def Second_def pos_imp_zdiv_nonneg_iff)

lemma reconcileWhenActive_resting:
  assumes "resting E (Datacenter s)" "reconcileWhenActive E s = (r, t)"
  shows "log t = log s \<and> (\<exists>res. r = Return (res, None) \<and> Requeue res \<and> Second \<le> RequeueAfter res)"
proof -
  let ?c = "LastServerNodeStarted (Status (Datacenter s)) + Second * 20 - e_now E (ticks s)"
    and ?q = "QuietPeriod (Status (Datacenter s))"
  have pos: "Second \<le> (1 + wholeSeconds d) * Second" if "0 \<le> d" for d
    using wholeSeconds_nonneg [OF that] by (simp add: Second_def)
  show ?thesis
  proof (cases "0 < ?c")
    case True
    then show ?thesis using assms(2) pos [of ?c]
      by (auto simp: reconcileWhenActive_def rc_eval outputOf_def Let_def)
  next
    case False
    with assms(1) have "e_now E n < ?q" for n unfolding resting_def by (metis diff_gt_0_iff_gt)
    then show ?thesis using False assms(2) pos [of "?q - e_now E (Suc (Suc (ticks s)))"]
      by (auto simp: reconcileWhenActive_def rc_eval outputOf_def Let_def less_imp_le)
  qed
qed

text \<open>
  C17. While the last started node is given its twenty seconds, or the datacenter is in a quiet
  period, a pass of the operator changes nothing: every call it makes reads, or reports an event.
\<close>

theorem resting_pass_only_reads:
  assumes "e_dc E (log s) (GetDc req) = Inr dc" and "resting E (contextDc dc)" and "Reconcile E req s = (r, t)"
  shows "\<exists>cs. log t = log s @ cs \<and> list_all harmless cs"
proof -
  obtain r1 u where ctx: "CreateReconciliationContext E req s = (r1, u)" by fastforce
  note u = CreateReconciliationContext_run [OF assms(1) ctx]
  obtain r2 v where valid: "isValid E u = (r2, v)" by fastforce
  have v: "logsOnly harmless s v"
    by (rule logsOnly_trans [OF u(1) logsOnly_emits [OF reads_isValid harmless_read valid]])
  have "Datacenter v = contextDc dc" if "r1 = Return ()"
    using preservesD [OF preserves_isValid [where P = "\<lambda>d. d = contextDc dc"] u(2) [OF that] valid] .
  then have rest: "log t = log v" if "r1 = Return ()" "reconcileWhenActive E v = (r, t)"
    using reconcileWhenActive_resting [of E v] assms(2) that by simp
  have "logsOnly harmless s t"
  proof (cases r1)
    case (Return x)
    then have "t = v \<or> (\<exists>a b c. t = v\<lparr>log := log v @ [Event a b c]\<rparr>) \<or> log t = log v"
      using assms(3) ctx valid rest
      by (auto simp: Reconcile_def rc_eval outputOf_def split: outcome.splits)
    moreover have "logsOnly harmless v (v\<lparr>log := log v @ [Event a b c]\<rparr>)" for a b c by (simp add: logsOnly_def)
    ultimately show ?thesis using v logsOnly_trans logsOnly_same by blast
  qed (use u(1) assms(3) ctx in \<open>auto simp: Reconcile_def rc_eval outputOf_def split: if_splits\<close>)
  then show ?thesis by (simp add: logsOnly_def)
qed

theorem resting_pass_only_reads_witness:
  "let E = schemaEnv\<lparr>e_now := \<lambda>n. 10 * Second\<rparr>
   in resting E (contextDc sampleDc) \<and> list_all harmless (log (snd (Reconcile E (''ns'', ''dc1'') sampleWorld)))"
proof -
  let ?E = "schemaEnv\<lparr>e_now := \<lambda>n. 10 * Second\<rparr>"
  have dc: "e_dc ?E (log sampleWorld) (GetDc (''ns'', ''dc1'')) = Inr sampleDc" by (simp add: schemaEnv_def)
  have rest: "resting ?E (contextDc sampleDc)"
    by (simp add: resting_def contextDc_def normaliseTimes_def timeOrFirst_def sample_defs Second_def)
  obtain r t where run: "Reconcile ?E (''ns'', ''dc1'') sampleWorld = (r, t)" by fastforce
  show ?thesis using resting_pass_only_reads [OF dc rest run] rest run by (auto simp: sampleWorld_def Let_def)
qed


definition securedDc :: CassandraDatacenter where
  "securedDc = sampleDc\<lparr>Spec := sampleSpec\<lparr>ManagementApiAuth := \<lparr>Insecure = False,
     Manual = Some \<lparr>ClientSecretName = ''client'', ServerSecretName = ''server'', SkipSecretValidation = False\<rparr>\<rparr>\<rparr>\<rparr>"


end
