(* ===== verification/Controller.thy ===== *)
theory Controller
  imports Passes "HOL-Library.Multiset"
begin

text \<open>
  What the controller keeps between passes and how a datacenter is deleted: the map from nodes to
  the datacenters with pods on them, the order of the deletion, and the predicate on the taints of
  nodes.
\<close>

section \<open>The map from nodes to datacenters\<close>

type_synonym nodeMap = "(string, NamespacedName list) fmap"

abbreviation dcsOn :: "nodeMap \<Rightarrow> string \<Rightarrow> NamespacedName list" where
  "dcsOn m n \<equiv> (case fmlookup m n of None \<Rightarrow> [] | Some dcs \<Rightarrow> dcs)"

lemma dcsOn_addDcOfPod:
  "dcsOn (addDcOfPod dc pod m) n =
     (if n = NodeName pod \<and> (Namespace pod, dc) \<notin> set (dcsOn m n)
      then dcsOn m n @ [(Namespace pod, dc)] else dcsOn m n)"
  by (auto simp: addDcOfPod_def Let_def)

lemma set_dcsOn_fold:
  "set (dcsOn (fold (addDcOfPod dc) pods m) n) =
     set (dcsOn m n) \<union> {(Namespace pod, dc) | pod. pod \<in> set pods \<and> NodeName pod = n}"
proof (induction pods arbitrary: m)
  case (Cons pod pods)
  have "set (dcsOn (addDcOfPod dc pod m) n) =
      set (dcsOn m n) \<union> (if NodeName pod = n then {(Namespace pod, dc)} else {})"
    unfolding dcsOn_addDcOfPod by auto
  then show ?case unfolding fold.simps o_def Cons.IH by auto
qed simp

lemma distinct_dcsOn_fold:
  "distinct (dcsOn m n) \<Longrightarrow> distinct (dcsOn (fold (addDcOfPod dc) pods m) n)"
proof (induction pods arbitrary: m)
  case (Cons pod pods)
  have "distinct (dcsOn (addDcOfPod dc pod m) n)" using Cons.prems unfolding dcsOn_addDcOfPod by auto
  then show ?case using Cons.IH by simp
qed simp

lemma dcsOn_remove: "dcsOn (fmmap (filter P) m) n = filter P (dcsOn m n)"
  by (simp split: option.split)

text \<open>
  The steps of the controller on the map. Between its own two operations, other code of the pass
  and other passes may change anything of the world but the map.
\<close>

inductive mapStep :: "env \<Rightarrow> world \<Rightarrow> world \<Rightarrow> bool" for E where
  pods: "updateDcMaps E s = (r, t) \<Longrightarrow> mapStep E s t"
| deleted: "RemoveDcFromNodeToDcMap dc s = (r, t) \<Longrightarrow> mapStep E s t"
| other: "nodeToDc t = nodeToDc s \<Longrightarrow> mapStep E s t"

inductive mapReachable :: "env \<Rightarrow> world \<Rightarrow> bool" for E where
  started: "nodeToDc s = fmempty \<Longrightarrow> mapReachable E s"
| stepped: "mapReachable E s \<Longrightarrow> mapStep E s t \<Longrightarrow> mapReachable E t"

lemma updateDcMaps_run:
  assumes "updateDcMaps E s = (r, t)"
  shows "nodeToDc t = nodeToDc s \<or>
    (\<exists>pods. nodeToDc t = fold (addDcOfPod (Name (Datacenter s))) pods (nodeToDc s))"
  using assms by (auto simp: updateDcMaps_def rc_eval of_sum_def split: sum.splits)

lemma RemoveDcFromNodeToDcMap_run:
  "RemoveDcFromNodeToDcMap dc s = (r, t) \<Longrightarrow> nodeToDc t = fmmap (filter (\<lambda>d. d \<noteq> dc)) (nodeToDc s)"
  by (auto simp: RemoveDcFromNodeToDcMap_def op_simps)

text \<open>
  C18. However the controller runs, the map from nodes to datacenters lists every datacenter at
  most once for a node: an event of a node is mapped to one request per datacenter.
\<close>

theorem node_map_distinct:
  assumes "mapReachable E s"
  shows "\<exists>dcs. DatacentersForNode n s = (Return dcs, s) \<and> distinct dcs"
proof -
  from assms have "distinct (dcsOn (nodeToDc s) n)"
  proof induction
    case (stepped s t)
    from stepped(2) show ?case
    proof cases
      case pods
      from updateDcMaps_run [OF this] show ?thesis using stepped.IH distinct_dcsOn_fold by force
    next
      case deleted
      show ?thesis using stepped.IH unfolding RemoveDcFromNodeToDcMap_run [OF deleted] dcsOn_remove by simp
    next
      case other
      then show ?thesis using stepped.IH by simp
    qed
  qed simp
  then show ?thesis by (simp add: DatacentersForNode_def gets_run)
qed

theorem node_map_distinct_witness:
  "\<exists>dcs. DatacentersForNode ''node'' sampleWorld = (Return dcs, sampleWorld) \<and> distinct dcs"
  by (rule node_map_distinct [OF mapReachable.started]) (simp add: sampleWorld_def)

text \<open>
  C19. A pass records the nodes of all pods of its datacenter and forgets nothing else, and a
  deletion removes the datacenter from every node and nothing else: after it, no event of a node
  is mapped to the deleted datacenter.
\<close>

theorem node_map_tracks_pods:
  assumes "e_pods E (log s) (ListPods [] (mapOf [(ManagedByLabel, ManagedByLabelValue),
      (DatacenterLabel, Name (Datacenter s))])) = Inr pods"
    and "updateDcMaps E s = (r, t)" and "RemoveDcFromNodeToDcMap dc t = (r', u)"
  shows "\<exists>before during after. DatacentersForNode n s = (Return before, s)
    \<and> DatacentersForNode n t = (Return during, t) \<and> DatacentersForNode n u = (Return after, u)
    \<and> set during = set before \<union>
        {(Namespace pod, Name (Datacenter s)) | pod. pod \<in> set pods \<and> NodeName pod = n}
    \<and> set after = set during - {dc}"
proof -
  have t: "nodeToDc t = fold (addDcOfPod (Name (Datacenter s))) pods (nodeToDc s)"
    using assms(1,2) by (auto simp: updateDcMaps_def rc_eval)
  have u: "set (dcsOn (nodeToDc u) n) = set (dcsOn (nodeToDc t) n) - {dc}"
    unfolding RemoveDcFromNodeToDcMap_run [OF assms(3)] dcsOn_remove by auto
  show ?thesis
    unfolding DatacentersForNode_def gets_run
    using set_dcsOn_fold [of "Name (Datacenter s)" pods "nodeToDc s" n] u unfolding t by blast
qed

theorem node_map_tracks_pods_witness:
  "let E = sampleEnv\<lparr>e_pods := \<lambda>h c. Inr [samplePod ''p'' [] ''node'']\<rparr>;
       t = snd (updateDcMaps E sampleWorld); u = snd (RemoveDcFromNodeToDcMap (''ns'', ''dc1'') t)
   in \<exists>during. DatacentersForNode ''node'' t = (Return during, t) \<and> set during = {(''ns'', ''dc1'')}
     \<and> DatacentersForNode ''node'' u = (Return [], u)"
proof -
  let ?E = "sampleEnv\<lparr>e_pods := \<lambda>h c. Inr [samplePod ''p'' [] ''node'']\<rparr>"
  obtain r t where t: "updateDcMaps ?E sampleWorld = (r, t)" by fastforce
  obtain r' u where u: "RemoveDcFromNodeToDcMap (''ns'', ''dc1'') t = (r', u)" by fastforce
  have pods: "e_pods ?E (log sampleWorld) (ListPods [] (mapOf [(ManagedByLabel, ManagedByLabelValue),
      (DatacenterLabel, Name (Datacenter sampleWorld))])) = Inr [samplePod ''p'' [] ''node'']" by simp
  have names: "Namespace (samplePod ''p'' [] ''node'') = ''ns''" "NodeName (samplePod ''p'' [] ''node'') = ''node''"
    "Name (Datacenter sampleWorld) = ''dc1''" "nodeToDc sampleWorld = fmempty"
    by (simp_all add: samplePod_def sample_defs)
  have none: "DatacentersForNode ''node'' sampleWorld = (Return [], sampleWorld)"
    by (simp add: DatacentersForNode_def gets_run names)
  from node_map_tracks_pods [OF pods t u, of "''node''"] obtain during after where
    "DatacentersForNode ''node'' t = (Return during, t)" "DatacentersForNode ''node'' u = (Return after, u)"
    "set during = {(''ns'', ''dc1'')}" "set after = set during - {(''ns'', ''dc1'')}"
    by (auto simp: none names)
  then show ?thesis unfolding Let_def t u snd_conv by simp
qed

section \<open>Deletion\<close>

lemma foldM_perform:
  "foldM (\<lambda>_ x. perform answer (mk x)) () xs s = (r, t) \<Longrightarrow>
     \<exists>ys. set ys \<subseteq> set xs \<and> t = s\<lparr>log := log s @ map mk ys\<rparr> \<and> (r = Return () \<longrightarrow> ys = xs)"
proof (induction xs arbitrary: s)
  case (Cons x xs)
  let ?s = "s\<lparr>log := log s @ [mk x]\<rparr>"
  show ?case
  proof (cases "answer (log s) (mk x)")
    case (Inl e)
    then show ?thesis using Cons.prems by (intro exI [of _ "[x]"]) (auto simp: rc_eval)
  next
    case (Inr u)
    then have "perform answer (mk x) s = (Return u, ?s)" by (simp add: perform_def)
    then have "foldM (\<lambda>_ x. perform answer (mk x)) () xs ?s = (r, t)" using Cons.prems by (simp add: bindM_Return)
    from Cons.IH [OF this] obtain ys where "set ys \<subseteq> set xs" "t = ?s\<lparr>log := log ?s @ map mk ys\<rparr>"
      "r = Return () \<longrightarrow> ys = xs" by blast
    then show ?thesis by (intro exI [of _ "x # ys"]) auto
  qed
qed (auto simp: rc_eval)

abbreviation claimsOf :: "CassandraDatacenter \<Rightarrow> call" where
  "claimsOf dc \<equiv> ListPVCs (Namespace dc) (mapOf [(DatacenterLabel, Name dc)])"

text \<open>The claims are listed; when that succeeds, all of them are deleted before the step goes on.\<close>

lemma deletePVCs_run:
  assumes "deletePVCs E s = (r, t)"
  obtains pvcs where "t = s\<lparr>log := log s @ claimsOf (Datacenter s) # map DeletePVC pvcs\<rparr>"
    "r = Return () \<Longrightarrow> (\<exists>e. e_pvcs E (log s) (claimsOf (Datacenter s)) = Inl e \<and> IsNotFound e \<and> pvcs = [])
       \<or> e_pvcs E (log s) (claimsOf (Datacenter s)) = Inr pvcs"
proof (cases "e_pvcs E (log s) (claimsOf (Datacenter s))")
  case (Inl e)
  then show ?thesis using assms that [of "[]"]
    by (auto simp: deletePVCs_def listPVCs_def rc_eval split: if_splits)
next
  case (Inr all)
  let ?s = "s\<lparr>log := log s @ [claimsOf (Datacenter s)]\<rparr>"
  have "foldM (\<lambda>_ pvc. perform (e_unit E) (DeletePVC pvc)) () all ?s = (r, t)"
    using assms Inr by (simp add: deletePVCs_def listPVCs_def rc_eval)
  from foldM_perform [OF this] obtain ys where
    "t = ?s\<lparr>log := log ?s @ map DeletePVC ys\<rparr>" "r = Return () \<longrightarrow> ys = all" by blast
  then show ?thesis using Inr that [of ys] by simp
qed

text \<open>No step before the last one of the deletion writes the datacenter itself.\<close>

fun noUpdateDc :: "call \<Rightarrow> bool" where
  "noUpdateDc (UpdateDc d) = False"
| "noUpdateDc c = True"

lemma deletion_prefix:
  "emits noUpdateDc (setOperatorProgressStatus E st)" "emits noUpdateDc (RemoveWatcher E w)"
  unfolding RemoveWatcher_def UpdateWatch_def listAllWatched_def addWatches_def getWatched_def persistWatches_def
  by (intro emits_intros; simp add: case_prod_unfold)+

text \<open>
  C6. A deleted datacenter keeps its finalizer until its volumes are gone: when the operator writes
  the datacenter without finalizers, it has just listed the claims of the datacenter, and it has
  asked for the deletion of every claim in the list (or was told that there are none). The write is
  the last call of the step, and it is the only one.
\<close>

theorem finalizer_removed_after_claims:
  assumes "DeletionTimestamp (Datacenter s) \<noteq> None" and "ProcessDeletion E s = (r, t)"
    and "log t = log s @ cs" "UpdateDc d \<in> set cs"
  shows "Finalizers d = [] \<and> (\<exists>pre dc pvcs.
     log t = pre @ claimsOf dc # map DeletePVC pvcs @ [UpdateDc d]
   \<and> (e_pvcs E pre (claimsOf dc) = Inr pvcs
      \<or> (\<exists>e. e_pvcs E pre (claimsOf dc) = Inl e \<and> IsNotFound e \<and> pvcs = [])))"
proof -
  obtain r1 u where progress: "setOperatorProgressStatus E ProgressUpdating s = (r1, u)" by fastforce
  obtain cs1 where cs1: "log u = log s @ cs1" "list_all noUpdateDc cs1"
    using emitsD [OF deletion_prefix(1) progress] by blast
  let ?w = "(Namespace (Datacenter u), Name (Datacenter u))"
  obtain r2 v where watch: "RemoveWatcher E ?w u = (r2, v)" by fastforce
  obtain cs2 where cs2: "log v = log u @ cs2" "list_all noUpdateDc cs2"
    using emitsD [OF deletion_prefix(2) watch] by blast
  obtain r3 w where del: "deletePVCs E v = (r3, w)" by fastforce
  then obtain pvcs where w: "w = v\<lparr>log := log v @ claimsOf (Datacenter v) # map DeletePVC pvcs\<rparr>"
    and pvcs: "r3 = Return () \<Longrightarrow> (\<exists>e. e_pvcs E (log v) (claimsOf (Datacenter v)) = Inl e \<and> IsNotFound e \<and> pvcs = [])
       \<or> e_pvcs E (log v) (claimsOf (Datacenter v)) = Inr pvcs" by (rule deletePVCs_run) blast
  have pre: "UpdateDc x \<notin> set cs1" "UpdateDc x \<notin> set cs2" for x
    using cs1 cs2 by (auto simp: list_all_iff)
  let ?d = "(Datacenter v)\<lparr>Finalizers := []\<rparr>"
  have "log t = log u \<or> log t = log v \<or> log t = log w \<or> r3 = Return () \<and> log t = log w @ [UpdateDc ?d]"
    using assms(1,2) progress watch del w
    by (auto simp: ProcessDeletion_def rc_eval orError_run RemoveDcFromNodeToDcMap_def writeDc_def of_sum_def
        split: outcome.splits if_splits sum.splits)
  then have last: "r3 = Return ()" "log t = log w @ [UpdateDc ?d]"
    using assms(3,4) cs1(1) cs2(1) pre w by auto
  with assms(3,4) have "d = ?d" using cs1(1) cs2(1) pre w by auto
  with last w pvcs show ?thesis by auto
qed

definition deletedDc :: CassandraDatacenter where
  "deletedDc = sampleDc\<lparr>DeletionTimestamp := Some 1, Finalizers := [''finalizer.cassandra.datastax.com'']\<rparr>"

definition sampleClaim :: PersistentVolumeClaim where
  "sampleClaim = ObjectMeta.extend (sampleMeta ''server-data-p'')
     \<lparr>pvc_Spec = \<lparr>StorageClassName = None, AccessModes = [], PVCRequests = None, VolumeName = []\<rparr>, pvc_Phase = []\<rparr>"

theorem finalizer_removed_after_claims_witness:
  "let E = sampleEnv\<lparr>e_pvcs := \<lambda>h c. Inr [sampleClaim]\<rparr>;
       t = snd (ProcessDeletion E (sampleWorld\<lparr>Datacenter := deletedDc\<rparr>))
   in \<exists>pre dc d pvcs. log t = pre @ claimsOf dc # map DeletePVC pvcs @ [UpdateDc d] \<and> Finalizers d = []"
proof -
  let ?E = "sampleEnv\<lparr>e_pvcs := \<lambda>h c. Inr [sampleClaim]\<rparr>" and ?s = "sampleWorld\<lparr>Datacenter := deletedDc\<rparr>"
  obtain r t where t: "ProcessDeletion ?E ?s = (r, t)" by fastforce
  have del: "DeletionTimestamp (Datacenter ?s) \<noteq> None" by (simp add: deletedDc_def)
  have "\<exists>d. UpdateDc d \<in> set (log t)"
    using t by (auto simp: ProcessDeletion_def deletedDc_def rc_eval orError_run setOperatorProgressStatus_def
        patchDcStatus_def writeDc_def RemoveWatcher_def UpdateWatch_def listAllWatched_def addWatches_def
        persistWatches_def staleUpdates_def deletePVCs_def listPVCs_def IsPSPEnabled_def sample_defs)
  then obtain d where "UpdateDc d \<in> set (log t)" by blast
  moreover have "log t = log ?s @ log t" by (simp add: sampleWorld_def)
  ultimately show ?thesis unfolding Let_def t snd_conv using finalizer_removed_after_claims [OF del t] by blast
qed

section \<open>Taints\<close>

text \<open>
  An update of a node wakes the operator exactly when the taints of the node have changed as a
  multiset: the nested loops that compare the two lists, which remove what they have matched,
  decide equality up to order, with duplicates counted.
\<close>

lemma taints_predicate_iff:
  "nodeTaintsChangedPredicate (UpdateEvent (Some old) (Some new)) = Return (mset (Taints old) \<noteq> mset (Taints new))"
  by (simp add: ElementsMatch_mset)

end
