(* ===== verification/Seeds.thy ===== *)
theory Seeds
  imports PodsReady
begin

text \<open>
  What \<open>labelSeedPods\<close> leaves behind: the first ready pods of a rack, in the order of their
  names and as many as the rack shall have seeds, carry the seed label, and no other ready
  pod does.
\<close>

section \<open>Lemmas: the seeds of a rack\<close>

text \<open>
  The API server stores every patch of a pod (the optimistic case, in which no patch fails and
  no other writer interferes).
\<close>

definition storesPodPatches :: "env \<Rightarrow> bool" where
  "storesPodPatches E \<longleftrightarrow> (\<forall>h b p. e_pod E h (PatchPod b p) = Inr p)"

lemma patchPod_run:
  "storesPodPatches E \<Longrightarrow> patchPod E i new s =
     (Return (), s\<lparr>podStore := (podStore s)[i := new], log := log s @ [PatchPod (podStore s ! i) new]\<rparr>)"
  by (simp add: patchPod_def rc_eval storesPodPatches_def)

text \<open>The pod as the loop leaves it, given whether it shall be a seed.\<close>

definition seedRelabelled :: "bool \<Rightarrow> Pod \<Rightarrow> Pod" where
  "seedRelabelled isSeed pod =
     (if isSeed \<and> mget (Labels pod) SeedNodeLabel \<noteq> ''true''
      then pod\<lparr>Labels := Some (fmupd SeedNodeLabel ''true'' (contents (Labels pod)))\<rparr>
      else if \<not> isSeed \<and> mget (Labels pod) SeedNodeLabel = ''true'' \<and> \<not> isServerStarting pod
      then pod\<lparr>Labels := Some (fmdrop SeedNodeLabel (contents (Labels pod)))\<rparr>
      else pod)"

lemma seedRelabelled_label:
  "mget (Labels (seedRelabelled True pod)) SeedNodeLabel = ''true''"
  "\<not> isServerStarting pod \<Longrightarrow> mget (Labels (seedRelabelled False pod)) SeedNodeLabel \<noteq> ''true''"
  by (auto simp: seedRelabelled_def mget_def)

lemma labelSeedPod_run:
  assumes "storesPodPatches E"
  shows "\<exists>cs. labelSeedPod E ri n i s =
     (let isSeed = (isServerReady (podStore s ! i) \<and> n < SeedCount ri)
      in (Return (if isSeed then n + 1 else n),
          s\<lparr>podStore := (podStore s)[i := seedRelabelled isSeed (podStore s ! i)], log := log s @ cs\<rparr>))"
proof -
  let ?p = "podStore s ! i"
  let ?seed = "isServerReady ?p \<and> n < SeedCount ri" and ?cur = "mget (Labels ?p) SeedNodeLabel"
  note eval = labelSeedPod_def Let_def seedRelabelled_def bindM_def getPod_run Eventf_run
    patchPod_run [OF assms] ret_run
  consider "?seed \<and> ?cur \<noteq> ''true''" | "\<not> ?seed \<and> ?cur = ''true'' \<and> \<not> isServerStarting ?p"
    | "\<not> (?seed \<and> ?cur \<noteq> ''true'')" "\<not> (\<not> ?seed \<and> ?cur = ''true'' \<and> \<not> isServerStarting ?p)" by blast
  then show ?thesis
  proof cases
    case 1
    then show ?thesis by (simp only: eval simp_thms if_True prod.case outcome.case)
        (auto intro!: exI)
  next
    case 2
    then show ?thesis by (simp only: eval simp_thms if_True if_False prod.case outcome.case)
        (auto intro!: exI)
  next
    case 3
    then show ?thesis by (simp only: eval if_False prod.case outcome.case)
        (auto intro!: exI [of _ "[]"])
  qed
qed

text \<open>The loop as a function of the pods only.\<close>

fun seedFold :: "int \<Rightarrow> int \<Rightarrow> nat list \<Rightarrow> Pod list \<Rightarrow> int \<times> Pod list" where
  "seedFold c n [] ps = (n, ps)"
| "seedFold c n (i # idxs) ps =
     seedFold c (if isServerReady (ps ! i) \<and> n < c then n + 1 else n) idxs
       (ps[i := seedRelabelled (isServerReady (ps ! i) \<and> n < c) (ps ! i)])"

lemma foldM_labelSeedPod:
  assumes "storesPodPatches E"
  shows "\<exists>cs. foldM (labelSeedPod E ri) n idxs s =
     (Return (fst (seedFold (SeedCount ri) n idxs (podStore s))),
      s\<lparr>podStore := snd (seedFold (SeedCount ri) n idxs (podStore s)), log := log s @ cs\<rparr>)"
proof (induction idxs arbitrary: n s)
  case Nil
  show ?case by (rule exI [of _ "[]"]) (simp add: ret_run)
next
  case (Cons i idxs)
  obtain cs where step: "labelSeedPod E ri n i s =
     (let isSeed = (isServerReady (podStore s ! i) \<and> n < SeedCount ri)
      in (Return (if isSeed then n + 1 else n),
          s\<lparr>podStore := (podStore s)[i := seedRelabelled isSeed (podStore s ! i)], log := log s @ cs\<rparr>))"
    using labelSeedPod_run [OF assms] by blast
  let ?u = "snd (labelSeedPod E ri n i s)"
  from Cons.IH [of "if isServerReady (podStore s ! i) \<and> n < SeedCount ri then n + 1 else n" ?u] step
  obtain ds where "foldM (labelSeedPod E ri) (if isServerReady (podStore s ! i) \<and> n < SeedCount ri then n + 1 else n)
      idxs ?u = (Return (fst (seedFold (SeedCount ri) n (i # idxs) (podStore s))),
      s\<lparr>podStore := snd (seedFold (SeedCount ri) n (i # idxs) (podStore s)), log := log s @ cs @ ds\<rparr>)"
    by (auto simp: Let_def)
  then show ?case using step by (auto simp: bindM_def Let_def)
qed

lemma isServerReady_seedRelabelled [simp]: "isServerReady (seedRelabelled b pod) = isServerReady pod"
  by (simp add: seedRelabelled_def isServerReady_def)

lemma isServerReady_upd [simp]:
  "isServerReady (ps[i := seedRelabelled b (ps ! i)] ! j) = isServerReady (ps ! j)"
  by (cases "i < length ps") (auto simp: nth_list_update list_update_beyond)

lemma length_seedFold [simp]: "length (snd (seedFold c n idxs ps)) = length ps"
  by (induction c n idxs ps rule: seedFold.induct) (simp_all add: Let_def)

lemma fst_seedFold:
  "fst (seedFold c n idxs ps) =
     n + min (int (length (filter (\<lambda>i. isServerReady (ps ! i)) idxs))) (max 0 (c - n))"
proof (induction c n idxs ps rule: seedFold.induct)
  case (2 c n i idxs ps)
  show ?case
    by (cases "isServerReady (ps ! i)"; cases "n < c") (use 2 in simp_all)
qed simp

lemma seedFold_other: "j \<notin> set idxs \<Longrightarrow> snd (seedFold c n idxs ps) ! j = ps ! j"
  by (induction c n idxs ps rule: seedFold.induct) (simp_all add: Let_def)

lemma seedFold_nth:
  "distinct idxs \<Longrightarrow> \<forall>i\<in>set idxs. i < length ps \<Longrightarrow> k < length idxs \<Longrightarrow>
     snd (seedFold c n idxs ps) ! (idxs ! k) =
     seedRelabelled (isServerReady (ps ! (idxs ! k)) \<and>
       n + int (length (filter (\<lambda>i. isServerReady (ps ! i)) (take k idxs))) < c) (ps ! (idxs ! k))"
proof (induction c n idxs ps arbitrary: k rule: seedFold.induct)
  case (2 c n i idxs ps)
  show ?case
  proof (cases k)
    case 0
    then show ?thesis using 2 by (simp add: Let_def seedFold_other)
  next
    case (Suc k')
    have ne: "idxs ! k' \<noteq> i" and k': "k' < length idxs" using 2 Suc by auto
    let ?b = "isServerReady (ps ! i) \<and> n < c"
    have "snd (seedFold c n (i # idxs) ps) ! ((i # idxs) ! k) =
       seedRelabelled (isServerReady (ps ! (idxs ! k')) \<and> (if ?b then n + 1 else n) +
         int (length (filter (\<lambda>i. isServerReady (ps ! i)) (take k' idxs))) < c) (ps ! (idxs ! k'))"
      using "2.IH" [of k'] "2.prems" Suc ne k' by simp
    moreover have "(isServerReady (ps ! (idxs ! k')) \<and> (if ?b then n + 1 else n) +
         int (length (filter (\<lambda>i. isServerReady (ps ! i)) (take k' idxs))) < c) =
       (isServerReady (ps ! (idxs ! k')) \<and>
         n + int (length (filter (\<lambda>i. isServerReady (ps ! i)) (take k (i # idxs)))) < c)"
      using Suc by auto
    ultimately show ?thesis using Suc by simp
  qed
qed simp

end
