(* ===== verification/Rollout.thy ===== *)
theory Rollout
  imports Controller Seeds
begin

text \<open>
  What the steps on the nodes of a datacenter guarantee: which pods become seeds, what a step that
  goes on has seen, how a node is replaced, and what an evacuation may remove.
\<close>

section \<open>How many nodes and seeds a rack gets\<close>

text \<open>
  C10. For a datacenter that is not stopped and has at least as many nodes as racks, the desired
  racks are the racks of the datacenter in their order, their node counts add up to its size, no
  two of them differ by more than one, and every rack gets at least one seed and at most as many
  seeds as nodes.
\<close>

theorem rack_information_balanced:
  assumes "int (length (GetRacks (Datacenter s))) \<le> Size (Spec (Datacenter s))"
    and "\<not> Stopped (Spec (Datacenter s))"
  shows "\<exists>t. CalculateRackInformation s = (Return (), t)
    \<and> map RackName (desiredRackInformation t) = map rack_Name (GetRacks (Datacenter s))
    \<and> sum_list (map NodeCount (desiredRackInformation t)) = Size (Spec (Datacenter s))
    \<and> (\<forall>ri\<in>set (desiredRackInformation t). \<forall>rj\<in>set (desiredRackInformation t).
         NodeCount ri \<le> NodeCount rj + 1)
    \<and> (\<forall>ri\<in>set (desiredRackInformation t). 1 \<le> SeedCount ri \<and> SeedCount ri \<le> NodeCount ri)"
proof -
  let ?dc = "Datacenter s" and ?r = "int (length (GetRacks (Datacenter s)))"
  obtain ss ns where split: "SplitRacks (seedCountFor (wantedNodes ?dc) ?r) ?r = Return ss"
      "SplitRacks (wantedNodes ?dc) ?r = Return ns"
    and run: "CalculateRackInformation s = (Return (), s\<lparr>desiredRackInformation := rackInfos ?dc ss ns,
         statefulSets := replicate (length (GetRacks ?dc)) None\<rparr>)"
    using assms(1) by (rule CalculateRackInformation_run)
  note counts = rackInfos_counts [OF assms(1) split]
  have wanted: "wantedNodes ?dc = Size (Spec ?dc)" using assms(2) by (simp add: wantedNodes_def)
  have r: "0 < ?r" and w: "0 \<le> wantedNodes ?dc" using assms(1) wanted by auto
  have len: "length ns = length (GetRacks ?dc)" using sr.split_length [OF w r split(2)] by simp
  have "NodeCount ri \<le> NodeCount rj + 1"
    if "ri \<in> set (rackInfos ?dc ss ns)" "rj \<in> set (rackInfos ?dc ss ns)" for ri rj
    using that sr.split_nth [OF w r split(2)] len by (fastforce simp: in_set_conv_nth)
  then show ?thesis using run counts assms(2) by (auto simp: map_rackInfos wanted)
qed

theorem rack_information_balanced_witness:
  "\<exists>t. CalculateRackInformation sampleWorld = (Return (), t)
    \<and> map RackName (desiredRackInformation t) = [''r1'', ''r2'', ''r3'']
    \<and> sum_list (map NodeCount (desiredRackInformation t)) = 3"
  using rack_information_balanced [of sampleWorld] by (auto simp: GetRacks_def sample_defs)

section \<open>Seeds\<close>

text \<open>The specification: the first ready pods in the order of the list, as many as wanted.\<close>

definition seedsAmong :: "int \<Rightarrow> Pod list \<Rightarrow> nat list \<Rightarrow> nat list" where
  "seedsAmong wanted ps idxs = take (nat wanted) (filter (\<lambda>i. isServerReady (ps ! i)) idxs)"

lemma mem_take_filter:
  "distinct xs \<Longrightarrow> k < length xs \<Longrightarrow>
     xs ! k \<in> set (take m (filter P xs)) \<longleftrightarrow> P (xs ! k) \<and> length (filter P (take k xs)) < m"
proof (induction xs arbitrary: k m)
  case (Cons x xs)
  show ?case
  proof (cases k)
    case 0
    have "x \<notin> set (take m (filter P xs))" using Cons.prems by (auto dest: in_set_takeD)
    then show ?thesis using 0 by (cases m) auto
  next
    case (Suc k')
    then have "xs ! k' \<noteq> x" using Cons.prems by auto
    then show ?thesis using Suc Cons.IH [of k'] Cons.prems by (cases m) auto
  qed
qed simp

lemma seedFold_seedsAmong:
  assumes "distinct idxs" "\<forall>i\<in>set idxs. i < length ps" "j \<in> set idxs"
  shows "snd (seedFold c 0 idxs ps) ! j = seedRelabelled (j \<in> set (seedsAmong c ps idxs)) (ps ! j)"
proof -
  from assms(3) obtain k where k: "k < length idxs" "j = idxs ! k" by (auto simp: in_set_conv_nth)
  have "j \<in> set (seedsAmong c ps idxs) \<longleftrightarrow>
      isServerReady (ps ! j) \<and> 0 + int (length (filter (\<lambda>i. isServerReady (ps ! i)) (take k idxs))) < c"
    unfolding seedsAmong_def using mem_take_filter [OF assms(1) k(1), of "nat c"] k(2)
    by (simp add: zless_nat_eq_int_zless)
  with seedFold_nth [OF assms(1,2) k(1), of c 0] k(2) show ?thesis by simp
qed

abbreviation rackPodsOf :: "world \<Rightarrow> RackInformation \<Rightarrow> nat list" where
  "rackPodsOf s ri \<equiv> sort_key (\<lambda>i. Name (podStore s ! i))
     (indicesByLabels s (dcPods s) (GetRackLabels (Datacenter s) (RackName ri)))"

text \<open>
  C8. The loop that labels the seeds of a rack implements its specification: the seeds are the
  first ready pods of the rack by name, as many as the rack shall have. Afterwards, when the API
  server stores the patches, a pod of the rack that is not starting carries the seed label exactly
  when it is one of them; the number returned is the number of seeds; and no other pod is touched.
\<close>

theorem labelSeedPods_refines:
  assumes "storesPodPatches E" and "distinct (dcPods s)" "\<forall>i\<in>set (dcPods s). i < length (podStore s)"
  shows "\<exists>t. labelSeedPods E ri s =
        (Return (int (length (seedsAmong (SeedCount ri) (podStore s) (rackPodsOf s ri)))), t)
    \<and> (\<forall>i\<in>set (rackPodsOf s ri). \<not> isServerStarting (podStore s ! i) \<longrightarrow>
         (mget (Labels (podStore t ! i)) SeedNodeLabel = ''true'' \<longleftrightarrow>
          i \<in> set (seedsAmong (SeedCount ri) (podStore s) (rackPodsOf s ri))))
    \<and> (\<forall>i. i \<notin> set (rackPodsOf s ri) \<longrightarrow> podStore t ! i = podStore s ! i)"
proof -
  let ?idxs = "rackPodsOf s ri" and ?c = "SeedCount ri" and ?ps = "podStore s"
  obtain cs where run: "labelSeedPods E ri s = (Return (fst (seedFold ?c 0 ?idxs ?ps)),
      s\<lparr>podStore := snd (seedFold ?c 0 ?idxs ?ps), log := log s @ cs\<rparr>)"
    using foldM_labelSeedPod [OF assms(1), of ri 0 ?idxs s] unfolding labelSeedPods_def bindM_gets by blast
  have idxs: "distinct ?idxs" "\<forall>i\<in>set ?idxs. i < length ?ps"
    using assms(2,3) by (auto simp: indicesByLabels_def)
  have "fst (seedFold ?c 0 ?idxs ?ps) = int (length (seedsAmong ?c ?ps ?idxs))"
    unfolding fst_seedFold seedsAmong_def by simp
  moreover have "mget (Labels (snd (seedFold ?c 0 ?idxs ?ps) ! i)) SeedNodeLabel = ''true'' \<longleftrightarrow>
      i \<in> set (seedsAmong ?c ?ps ?idxs)" if "i \<in> set ?idxs" "\<not> isServerStarting (?ps ! i)" for i
    unfolding seedFold_seedsAmong [OF idxs that(1)]
    using seedRelabelled_label that(2) by (cases "i \<in> set (seedsAmong ?c ?ps ?idxs)") simp_all
  ultimately show ?thesis unfolding run using seedFold_other [of _ ?idxs ?c 0 ?ps]
    by (intro exI conjI) (simp, simp, simp)
qed

text \<open>A context with one ready pod in the first rack.\<close>

definition rackPod :: "string \<Rightarrow> string \<Rightarrow> Pod" where
  "rackPod n rack = samplePod n [(ClusterLabel, ''cluster''), (DatacenterLabel, ''dc1''), (RackLabel, rack)] ''node''"

definition podWorld :: world where
  "podWorld = sampleWorld\<lparr>podStore := [rackPod ''p0'' ''r1''], clusterPods := [0], dcPods := [0]\<rparr>"

definition sampleRackInfo :: RackInformation where
  "sampleRackInfo = \<lparr>RackName = ''r1'', NodeCount = 1, SeedCount = 1\<rparr>"

lemma podWorld_simps [simp]:
  "podStore podWorld = [rackPod ''p0'' ''r1'']" "dcPods podWorld = [0]" "clusterPods podWorld = [0]"
  "Datacenter podWorld = sampleDc" "log podWorld = []"
  by (simp_all add: podWorld_def sampleWorld_def)

lemma rackPod_simps [simp]:
  "isServerReady (rackPod n r)" "Name (rackPod n r) = n" "\<not> isServerStarting (rackPod n r)"
  "mget (Labels (rackPod n r)) RackLabel = r" "NodeName (rackPod n r) = ''node''"
  "mapContains (Labels (rackPod n r)) (GetRackLabels sampleDc r)"
  by (simp_all add: rackPod_def samplePod_def isServerReady_def isServerStarting_def mget_def mfind_def
      mapOf_def state_defs mapContains_GetRackLabels mapContains_GetDatacenterLabels sample_defs)

lemma rackPodsOf_podWorld: "rackPodsOf podWorld sampleRackInfo = [0]"
  by (simp add: indicesByLabels_def sampleRackInfo_def)

theorem labelSeedPods_refines_witness:
  "\<exists>t. labelSeedPods sampleEnv sampleRackInfo podWorld = (Return 1, t)
     \<and> mget (Labels (podStore t ! 0)) SeedNodeLabel = ''true''"
proof -
  have "storesPodPatches sampleEnv" by (simp add: storesPodPatches_def sampleEnv_def)
  moreover have "seedsAmong (SeedCount sampleRackInfo) (podStore podWorld) [0] = [0]"
    by (simp add: seedsAmong_def sampleRackInfo_def)
  ultimately show ?thesis
    using labelSeedPods_refines [of sampleEnv podWorld sampleRackInfo] unfolding rackPodsOf_podWorld by auto
qed

section \<open>Evacuations\<close>

text \<open>
  C7. A run of the extended maintenance mode endangers at most one Kubernetes node's worth of
  serving Cassandra nodes: every ready pod it deletes is on one and the same node, and it deletes a
  ready pod only when no bootstrapped pod of the datacenter is down. It holds whatever the cluster
  answers, for pods with different names whose down pods carry a rack label.
\<close>

theorem evacuation_removes_from_one_node:
  assumes "orderOk E" "distinct (map Name (podsAt s (dcPods s)))"
    and "\<forall>i\<in>set (downPods s). mget (Labels (podStore s ! i)) RackLabel \<noteq> []"
    and "CheckEMM E (rcSPI E) s = (r, t)"
  shows "\<exists>n cs. log t = log s @ cs \<and>
    (\<forall>pod. DeletePod pod \<in> set cs \<longrightarrow> isServerReady pod \<longrightarrow> downPods s = [] \<and> NodeName pod = n)"
proof -
  obtain n cs where "log t = log s @ cs" "list_all (removesFrom (downPods s = []) n) cs"
    using checkNodeEMM_removals [OF assms(1-3)] assms(4) unfolding CheckEMM_def by blast
  then show ?thesis by (fastforce simp: list_all_iff)
qed

theorem evacuation_removes_from_one_node_witness:
  "\<exists>n. \<forall>pod. DeletePod pod \<in> set (log (snd (CheckEMM sampleEnv (rcSPI sampleEnv) podWorld)))
      \<longrightarrow> isServerReady pod \<longrightarrow> NodeName pod = n"
proof -
  obtain r t where run: "CheckEMM sampleEnv (rcSPI sampleEnv) podWorld = (r, t)" by fastforce
  have "orderOk sampleEnv" by (simp add: orderOk_def sampleEnv_def)
  moreover have "downPods podWorld = []" by (simp add: downPods_def)
  ultimately show ?thesis using evacuation_removes_from_one_node [OF _ _ _ run] run by (auto simp: podsAt_def)
qed

section \<open>Starting nodes\<close>

text \<open>
  C16. The step that starts nodes lets the reconciliation of a running datacenter go on only when it is
  complete: no replacement of a node is pending, at least as many pods are ready as the datacenter
  has nodes, and at least as many carry a label that says that Cassandra has been started in them.
  So the restart, the scaling down and the upgrades that follow in the pass run only on a complete
  datacenter, or on one that is stopped: there the step goes on at once and changes nothing.
\<close>

theorem CheckPodsReady_goes_on_when_complete:
  assumes "CheckPodsReady E eps s = (Return Continue, t)"
  shows "if Stopped (Spec (Datacenter s)) then t = s
    else NodeReplacements (Status (Datacenter t)) = []
      \<and> Size (Spec (Datacenter t)) \<le> int (length (filter isServerReady (podsAt t (dcPods t))))
      \<and> Size (Spec (Datacenter t)) \<le> int (length (filter isServerStarted (podsAt t (dcPods t))))"
  using CheckPodsReady_Continue [OF assms] assms
  by (auto simp: CheckPodsReady_def bindM_eq_Return_iff getDc_eq_iff ret_eq_iff)

definition oneNodeDc :: CassandraDatacenter where
  "oneNodeDc = sampleDc\<lparr>Spec := sampleSpec\<lparr>Size := 1, Racks := [sampleRack ''r1'']\<rparr>\<rparr>"

definition startedPod :: Pod where
  "startedPod = samplePod ''p0'' [(ClusterLabel, ''cluster''), (DatacenterLabel, ''dc1''), (RackLabel, ''r1''),
     (SeedNodeLabel, ''true''), (CassNodeState, stateStarted)] ''node''"

definition startedWorld :: world where
  "startedWorld = sampleWorld\<lparr>Datacenter := oneNodeDc, podStore := [startedPod], clusterPods := [0], dcPods := [0],
     desiredRackInformation := [sampleRackInfo]\<rparr>"

lemma startedPod_simps:
  "isServerReady startedPod" "Name startedPod = ''p0''" "nodeState startedPod = stateStarted"
  "mget (Labels startedPod) RackLabel = ''r1''" "mget (Labels startedPod) SeedNodeLabel = ''true''"
  "mapContains (Labels startedPod) (GetRackLabels oneNodeDc ''r1'')"
  "isMgmtApiRunning (1000 * Second) startedPod" "isServerStarted startedPod"
  "\<not> didServerLoseReadiness startedPod" "\<not> isServerStartedNotReady startedPod" "\<not> isServerStarting startedPod"
  "\<not> isServerReadyToStart startedPod" "\<not> isNodeStuckAfterTerminating now startedPod"
  "\<not> isNodeStuckAfterLosingReadiness now startedPod" "PodIP startedPod = ''10.0.0.1''"
  by (simp_all add: didServerLoseReadiness_def isServerStartedNotReady_def isServerReadyToStart_def
      isNodeStuckAfterTerminating_def isNodeStuckAfterLosingReadiness_def startedPod_def samplePod_def isServerReady_def isServerStarting_def isServerStarted_def mget_def
      mfind_def mapOf_def mapContains_GetRackLabels mapContains_GetDatacenterLabels oneNodeDc_def
      isMgmtApiRunning_def Second_def sample_defs)

lemma oneNodeDc_simps:
  "\<not> Stopped (Spec oneNodeDc)" "NodeReplacements (Status oneNodeDc) = []" "Size (Spec oneNodeDc) = 1"
  "AdditionalSeeds (Spec oneNodeDc) = []" "GetRacks oneNodeDc = [sampleRack ''r1'']"
  by (simp_all add: oneNodeDc_def GetRacks_def sample_defs)

lemma startedWorld_simps:
  "podStore startedWorld = [startedPod]" "dcPods startedWorld = [0]" "clusterPods startedWorld = [0]"
  "Datacenter startedWorld = oneNodeDc" "desiredRackInformation startedWorld = [sampleRackInfo]"
  by (simp_all add: startedWorld_def)

lemma sampleEnv_simps:
  "e_now sampleEnv n = 1000 * Second" "e_order sampleEnv = sorted_list_of_set"
  "e_http sampleEnv h c = Inr \<lparr>StatusCode = 200, RespBody = EndpointsJson []\<rparr>"
  by (simp_all add: sampleEnv_def)

lemma startedWorld_continues: "fst (CheckPodsReady sampleEnv [] startedWorld) = Return Continue"
  by (simp add: CheckPodsReady_def rc_eval orError_run findStartedNotReadyNodes_def deleteStuckNodes_def
      checkSeedLabels_def labelSeedPods_def labelSeedPod_def refreshSeeds_def findStartingNodes_def
      startOneNodePerRack_def isClusterHealthy_def startAllNodes_def countReadyAndStarted_def
      indicesByLabels_def indicesByState_def podsAt_def rackReadyCount_def sampleRackInfo_def
      CallReloadSeedsEndpoint_def CallProbeClusterEndpoint_def callNodeMgmtEndpoint_def BuildPodHostFromPod_def
      startedWorld_simps startedPod_simps oneNodeDc_simps sampleEnv_simps)

theorem CheckPodsReady_goes_on_when_complete_witness:
  "\<exists>t. CheckPodsReady sampleEnv [] startedWorld = (Return Continue, t)
     \<and> Size (Spec (Datacenter t)) \<le> int (length (filter isServerReady (podsAt t (dcPods t))))"
proof -
  obtain t where run: "CheckPodsReady sampleEnv [] startedWorld = (Return Continue, t)"
    using startedWorld_continues by (metis prod.collapse)
  have "\<not> Stopped (Spec (Datacenter startedWorld))" by (simp add: startedWorld_simps oneNodeDc_simps)
  with CheckPodsReady_goes_on_when_complete [OF run] run show ?thesis by auto
qed

text \<open>The requests to the management API in a list of calls: the host and the endpoint of each.\<close>

definition managementRequests :: "call list \<Rightarrow> (string \<times> string) list" where
  "managementRequests cs = concat (map (\<lambda>c. case c of Http u rq ctype \<Rightarrow> [(rq_host rq, rq_endpoint rq)] | _ \<Rightarrow> []) cs)"

lemma managementRequests_append [simp]: "managementRequests (cs @ ds) = managementRequests cs @ managementRequests ds"
  by (simp add: managementRequests_def)

abbreviation noRequest :: "call \<Rightarrow> bool" where
  "noRequest c \<equiv> managementRequests [c] = []"

lemma managementRequests_none: "list_all noRequest cs \<Longrightarrow> managementRequests cs = []"
  by (induction cs) (auto simp: managementRequests_def)

lemma noRequest_eqs [simp]: "noRequest (Event a b d)" "noRequest (PatchPod b' n)" "noRequest (StatusPatchDc b'' n')"
  by (simp_all add: managementRequests_def)

text \<open>The start endpoint, with the address to replace unless it is empty.\<close>

abbreviation startEndpoint :: "string \<Rightarrow> string" where
  "startEndpoint ip \<equiv> ''/api/v0/lifecycle/start'' @ (if ip = [] then [] else ''?replace_ip='' @ QueryEscape ip)"

lemma start_sends_one_request:
  assumes "CallLifecycleStartEndpointWithReplaceIp E pod ip s = (r, t)"
  shows "\<exists>cs. log t = log s @ cs \<and> managementRequests cs = [(PodIP pod, startEndpoint ip)]"
  using assms
  by (auto simp: CallLifecycleStartEndpointWithReplaceIp_def callNodeMgmtEndpoint_def Let_def thenM_def rc_eval of_sum_def
      simpleRequest_def managementRequests_def buildEndpoint_replace_ip
      split: if_splits sum.splits responseBody.splits)

lemma startCassandra_request:
  assumes run: "startCassandra E eps i s = (r, t)"
    and addr: "(if Name (podStore s ! i) \<in> set (NodeReplacements (Status (Datacenter s)))
         \<and> mget (NodeStatuses (Status (Datacenter s))) (Name (podStore s ! i)) \<noteq> []
       then FindIpForHostId eps (mget (NodeStatuses (Status (Datacenter s))) (Name (podStore s ! i)))
       else Return []) = Return ip"
  shows "\<exists>cs. log t = log s @ cs \<and> managementRequests cs = [(PodIP (podStore s ! i), startEndpoint ip)]"
proof -
  let ?pod = "podStore s ! i" and ?listed = "Name (podStore s ! i) \<in> set (NodeReplacements (Status (Datacenter s)))"
  have idx: "IndexOfString (NodeReplacements (Status (Datacenter s))) (Name ?pod) > - 1 \<longleftrightarrow> ?listed"
    using IndexOfString_neg_iff [of "NodeReplacements (Status (Datacenter s))" "Name ?pod"] by linarith
  obtain msg1 msg2 where step: "startCassandra E eps i s = bindM (bindM (Eventf NormalEvent msg1 msg2) (\<lambda>_.
      CallLifecycleStartEndpointWithReplaceIp E ?pod ip)) (\<lambda>_. labelServerPodStarting E i) s"
    using addr idx
    by (cases "ip = []") (auto simp: startCassandra_def bindM_def getDc_run getPod_run Let_def attempt_run lift_run ret_run
      CallLifecycleStartEndpoint_def split: if_splits)
  obtain r' u where call: "CallLifecycleStartEndpointWithReplaceIp E ?pod ip (s\<lparr>log := log s @ [Event NormalEvent msg1 msg2]\<rparr>) = (r', u)"
    by fastforce
  obtain cs where cs: "log u = log s @ Event NormalEvent msg1 msg2 # cs" "managementRequests cs = [(PodIP ?pod, startEndpoint ip)]"
    using start_sends_one_request [OF call] by auto
  have "\<exists>ds. log t = log u @ ds \<and> managementRequests ds = []"
  proof (cases r')
    case (Return x)
    then have "labelServerPodStarting E i u = (r, t)" using run step call by (simp add: rc_eval)
    moreover have "emits noRequest (labelServerPodStarting E i)" by (intro emits_intros) simp_all
    ultimately obtain ds where "log t = log u @ ds" "list_all noRequest ds" by (elim emitsD)
    then show ?thesis by (intro exI [of _ ds] conjI managementRequests_none)
  qed (use run step call in \<open>auto simp: rc_eval managementRequests_def\<close>)
  with cs show ?thesis by (auto simp: managementRequests_def)
qed

text \<open>
  C14. How a node is started, in every case. When a pod is listed for replacement, its old host id
  is recorded and the ring knows an address for the host id, one request is sent: the start request
  to the address of the pod, with the address from the ring as the one to replace. When the host id
  is recorded but there is no answer from the ring, nothing is sent or changed and an error is
  returned. A pod that is not listed, one with no host id recorded, and one whose host id has no
  address in the ring (its node never joined) is started normally: one request, without an address
  to replace.
\<close>

theorem replacement_starts_with_replace_ip:
  assumes run: "startCassandra E eps i s = (r, t)"
    and pod: "podStore s ! i = pod" "mget (NodeStatuses (Status (Datacenter s))) (Name pod) = hostId"
  shows "(Name pod \<in> set (NodeReplacements (Status (Datacenter s))) \<and> hostId \<noteq> []
        \<and> FindIpForHostId eps hostId = Return ip \<and> ip \<noteq> [] \<longrightarrow>
        (\<exists>cs. log t = log s @ cs
          \<and> managementRequests cs = [(PodIP pod, ''/api/v0/lifecycle/start?replace_ip='' @ QueryEscape ip)]))
    \<and> (Name pod \<in> set (NodeReplacements (Status (Datacenter s))) \<and> hostId \<noteq> [] \<and> eps = [] \<longrightarrow>
        t = s \<and> (\<exists>e. r = Fail e))
    \<and> (Name pod \<notin> set (NodeReplacements (Status (Datacenter s))) \<or> hostId = []
        \<or> eps \<noteq> [] \<and> (\<forall>ep\<in>set eps. HostID ep = hostId \<longrightarrow> GetRpcAddress ep = []) \<longrightarrow>
        (\<exists>cs. log t = log s @ cs \<and> managementRequests cs = [(PodIP pod, ''/api/v0/lifecycle/start'')]))"
proof -
  note request = startCassandra_request [OF run, unfolded pod]
  have "FindIpForHostId eps hostId = Return []"
    if "eps \<noteq> []" "\<forall>ep\<in>set eps. HostID ep = hostId \<longrightarrow> GetRpcAddress ep = []"
    using that by (auto simp: FindIpForHostId_def Suc_le_eq find_Some_iff split: option.splits)
  moreover have "t = s \<and> (\<exists>e. r = Fail e)"
    if "Name pod \<in> set (NodeReplacements (Status (Datacenter s)))" "hostId \<noteq> []" "eps = []"
    using startCassandra_no_endpoints [of s i eps E] run pod that by auto
  ultimately show ?thesis using request [of ip] request [of "[]"] by auto
qed

definition replacedWorld :: "string \<Rightarrow> world" where
  "replacedWorld hostId = startedWorld\<lparr>Datacenter := oneNodeDc\<lparr>Status := sampleStatus\<lparr>NodeReplacements := [''p0''],
     NodeStatuses := mapOf [(''p0'', hostId)]\<rparr>\<rparr>\<rparr>"

definition ringOf :: "string \<Rightarrow> EndpointState list" where
  "ringOf hostId = [\<lparr>HostID = hostId, IsAlive = ''true'', NativeTransportAddress = [],
     RpcAddress = ''10.0.0.9'', EpStatus = [], Load = []\<rparr>]"

text \<open>A host that the ring knows, one that it does not know, and a ring that does not answer.\<close>

theorem replacement_starts_with_replace_ip_witness:
  "(\<exists>cs. log (snd (startCassandra sampleEnv (ringOf ''host'') 0 (replacedWorld ''host''))) = log (replacedWorld ''host'') @ cs
      \<and> managementRequests cs = [(''10.0.0.1'', ''/api/v0/lifecycle/start?replace_ip=10.0.0.9'')])
   \<and> (\<exists>cs. log (snd (startCassandra sampleEnv (ringOf ''other'') 0 (replacedWorld ''host''))) = log (replacedWorld ''host'') @ cs
      \<and> managementRequests cs = [(''10.0.0.1'', ''/api/v0/lifecycle/start'')])
   \<and> snd (startCassandra sampleEnv [] 0 (replacedWorld ''host'')) = replacedWorld ''host''"
proof -
  have pod: "podStore (replacedWorld h) ! 0 = startedPod" "mget (NodeStatuses (Status (Datacenter (replacedWorld h)))) (Name startedPod) = h"
    "Name startedPod \<in> set (NodeReplacements (Status (Datacenter (replacedWorld h))))" for h
    by (simp_all add: replacedWorld_def startedWorld_simps startedPod_simps mget_def mfind_def mapOf_def)
  have ring: "FindIpForHostId (ringOf ''host'') ''host'' = Return ''10.0.0.9''"
    "ringOf ''other'' \<noteq> []" "\<forall>ep\<in>set (ringOf ''other''). HostID ep = ''host'' \<longrightarrow> GetRpcAddress ep = []"
    by (simp_all add: ringOf_def FindIpForHostId_def GetRpcAddress_def)
  have escaped: "QueryEscape ''10.0.0.9'' = ''10.0.0.9''" by code_simp
  note run = replacement_starts_with_replace_ip [OF prod.collapse [symmetric] pod(1) [of "''host''"] pod(2) [of "''host''"]]
  show ?thesis
    using run [where E = sampleEnv and eps = "ringOf ''host''" and ip = "''10.0.0.9''"]
      run [where E = sampleEnv and eps = "ringOf ''other''"] run [where E = sampleEnv and eps = "[]"]
      pod(3) [of "''host''"] ring
    by (simp add: escaped startedPod_simps)
qed

end
