(* ===== verification/Scaling.thy ===== *)
theory Scaling
  imports Rollout
begin

text \<open>
  The steps that change the size of the racks: scaling up raises replicas and never lowers them,
  and scaling down never takes a datacenter that is too large for one that is done.
\<close>

section \<open>Scaling up\<close>

text \<open>A write of a stateful set raises its replicas.\<close>

fun raises :: "call \<Rightarrow> bool" where
  "raises (PatchSts b n) = (\<exists>x y. Replicas b = Some x \<and> Replicas n = Some y \<and> x < y)"
| "raises (UpdateSts sts) = False"
| "raises (CreateSts sts) = False"
| "raises c = True"

abbreviation sameSts :: "StatefulSet option list \<Rightarrow> world \<Rightarrow> bool" where
  "sameSts stss s \<equiv> statefulSets s = stss"

lemma sameSts_calls [preserves_intros]:
  "preserves (sameSts S) (perform answer c)" "preserves (sameSts S) (Now E)"
  "preserves (sameSts S) (Eventf a b d)" "preserves (sameSts S) getDc" "preserves (sameSts S) (modifyDc f)"
  by (simp_all add: preserves_def op_simps)

lemma sameSts_status [preserves_intros]:
  "preserves (sameSts S) (patchDcStatus E base)" "preserves (sameSts S) (setCondition E c)"
  "preserves (sameSts S) (setConditions E cs u)" "preserves (sameSts S) (setOperatorProgressStatus E st)"
  unfolding patchDcStatus_def writeDc_def setCondition_def setConditions_def setOperatorProgressStatus_def
  by (auto intro!: preserves_intros)

lemma emitsI_logs:
  assumes "emits (\<lambda>_. True) m" "\<And>s r t. m s = (r, t) \<Longrightarrow> logsOnly A s t"
  shows "emits A m"
  using assms unfolding emits_def logsOnly_def by blast

text \<open>The patch goes from the stateful set of the context to the same with the new count.\<close>

lemma UpdateRackNodeCount_logs:
  assumes "UpdateRackNodeCount E idx k s = (r, t)" "idx < length (statefulSets s)" "statefulSets s ! idx = Some sts"
    and "\<And>b n. A (StatusPatchDc b n)" "A (PatchSts sts (sts\<lparr>Replicas := Some k\<rparr>))"
  shows "logsOnly A s t"
proof -
  obtain r1 u where progress: "setOperatorProgressStatus E ProgressUpdating s = (r1, u)" by fastforce
  have u: "logsOnly A s u"
    by (rule logsOnly_emits [OF emits_progress(1) _ progress]) (rule assms(4))
  have same: "statefulSets u = statefulSets s"
    using preservesD [OF sameSts_status(4) refl progress] .
  have "log t = log u \<or> log t = log u @ [PatchSts sts (sts\<lparr>Replicas := Some k\<rparr>)]"
    using assms(1-3) progress same
    by (cases r1) (auto simp: UpdateRackNodeCount_def patchSts_def getSts_def setSts_def rc_eval of_sum_def
        split: sum.splits)
  then have "logsOnly A u t" using assms(5) by (auto simp: logsOnly_def)
  with u show ?thesis by (rule logsOnly_trans)
qed

lemma raises_scaleRack: "emits raises (scaleRack E x)"
proof (rule emitsI_logs)
  show "emits (\<lambda>_. True) (scaleRack E x)"
    unfolding scaleRack_def by (intro emits_intros; simp)
next
  fix s r t
  assume eq: "scaleRack E x s = (r, t)"
  obtain idx ri where x: "x = (idx, ri)" by fastforce
  show "logsOnly raises s t"
  proof (cases "\<exists>sts k. idx < length (statefulSets s) \<and> statefulSets s ! idx = Some sts \<and> Replicas sts = Some k
      \<and> k < int32 (NodeCount ri)")
    case True
    then obtain sts k where sts: "idx < length (statefulSets s)" "statefulSets s ! idx = Some sts"
      "Replicas sts = Some k" "k < int32 (NodeCount ri)" by blast
    let ?pre = "bindM getDc (\<lambda>base. bindM (setConditions E
        (if GetConditionStatus base DatacenterStopped = ConditionTrue
         then [(DatacenterStopped, ConditionFalse), (DatacenterResuming, ConditionTrue)]
         else [(DatacenterScalingUp, ConditionTrue)]) False) (\<lambda>updated.
      bindM (if updated then patchDcStatus E base else ret ()) (\<lambda>_.
      Eventf NormalEvent ''ScalingUpRack'' (''Scaling up rack '' @ RackName ri))))"
    obtain r1 u where pre: "?pre s = (r1, u)" by fastforce
    have em: "emits raises ?pre" by (intro emits_intros; simp)
    have u: "logsOnly raises s u" by (rule logsOnly_emits [OF em _ pre])
    have "preserves (sameSts (statefulSets s)) ?pre" by (intro preserves_intros)
    from preservesD [OF this refl pre] have same: "statefulSets u = statefulSets s" .
    have split: "scaleRack E x s = bindM ?pre (\<lambda>_. UpdateRackNodeCount E idx (int32 (NodeCount ri))) s"
      using sts by (simp add: scaleRack_def x getSts_def derefReplicas_def bindM_gets bindM_assoc)
    have "logsOnly raises u t" if "r1 = Return ()"
    proof (rule UpdateRackNodeCount_logs [where sts = sts])
      show "UpdateRackNodeCount E idx (int32 (NodeCount ri)) u = (r, t)"
        using eq split pre that by (simp add: bindM_def)
    qed (use sts same in auto)
    moreover have "t = u" if "r1 \<noteq> Return ()" using eq split pre that by (cases r1) (auto simp: bindM_def)
    ultimately show ?thesis using u logsOnly_trans by blast
  next
    case False
    then have "t = s" using eq
      by (auto simp: scaleRack_def x getSts_def derefReplicas_def rc_eval split: if_splits option.splits)
    then show ?thesis by (simp add: logsOnly_same)
  qed
qed

text \<open>
  C4. Scaling up never takes a node away: every write of a stateful set that \<open>CheckRackScale\<close> makes
  is a patch that raises its replicas, whatever the state of the racks and the answers of the
  cluster. Nodes leave a rack only through a decommission or a stop.
\<close>

theorem scale_up_only_raises:
  assumes "CheckRackScale E s = (r, t)"
  shows "\<exists>cs. log t = log s @ cs \<and> list_all raises cs"
proof -
  have "emits raises (CheckRackScale E)"
    unfolding CheckRackScale_def forRacks_def by (intro emits_intros raises_scaleRack)
  with assms show ?thesis by (metis emitsD)
qed

definition sampleSts :: "string \<Rightarrow> int \<Rightarrow> StatefulSet" where
  "sampleSts n k = ObjectMeta.extend (sampleMeta n)
     \<lparr>Replicas = Some k, Selector = None, ServiceName = [], PodManagementPolicy = [], Template = emptyTemplate,
      VolumeClaimTemplates = [], UpdateStrategy = \<lparr>us_Type = [], us_Partition = None\<rparr>, ss_ObservedGeneration = 0,
      ss_Replicas = k, ss_ReadyReplicas = k, ss_CurrentReplicas = k, ss_UpdatedReplicas = k\<rparr>"

definition emptyRackWorld :: world where
  "emptyRackWorld = startedWorld\<lparr>statefulSets := [Some (sampleSts ''sts'' 0)]\<rparr>"

theorem scale_up_only_raises_witness:
  "\<exists>cs. log (snd (CheckRackScale sampleEnv emptyRackWorld)) = log emptyRackWorld @ cs \<and> list_all raises cs"
  by (rule scale_up_only_raises [of sampleEnv emptyRackWorld]) (rule prod.collapse [symmetric])

section \<open>Scaling down\<close>

text \<open>A loop that returned nothing, when a turn that returns nothing changes nothing.\<close>

lemma forM_None:
  assumes "forM xs f s = (Return None, t)"
    and "\<And>x u v. x \<in> set xs \<Longrightarrow> f x u = (Return None, v) \<Longrightarrow> v = u"
  shows "t = s \<and> (\<forall>x\<in>set xs. f x s = (Return None, s))"
  using assms
proof (induction xs arbitrary: s)
  case (Cons x xs)
  then obtain a u where step: "f x s = (Return a, u)"
    "(case a of Some v \<Rightarrow> ret (Some v) | None \<Rightarrow> forM xs f) u = (Return None, t)"
    by (auto simp: bindM_eq_Return_iff)
  then have a: "a = None" by (cases a) (auto simp: ret_run)
  with step Cons.prems(2) have "u = s" by auto
  with step a Cons.IH [of s] Cons.prems(2) show ?case by auto
qed (simp add: ret_run)

lemma forM_Some:
  "forM xs f s = (Return (Some v), t) \<Longrightarrow> \<exists>x\<in>set xs. \<exists>u. f x u = (Return (Some v), t)"
proof (induction xs arbitrary: s)
  case (Cons x xs)
  then obtain a u where "f x s = (Return a, u)"
    "(case a of Some v \<Rightarrow> ret (Some v) | None \<Rightarrow> forM xs f) u = (Return (Some v), t)"
    by (auto simp: bindM_eq_Return_iff)
  then show ?case using Cons.IH by (cases a) (auto simp: ret_run)
qed (simp add: ret_run)

text \<open>The replicas of the racks, when every rack has its stateful set.\<close>

fun replicaCount :: "StatefulSet option \<Rightarrow> int" where
  "replicaCount None = 0"
| "replicaCount (Some sts) = (case Replicas sts of Some n \<Rightarrow> n | None \<Rightarrow> 0)"

definition replicasOf :: "world \<Rightarrow> int list" where
  "replicasOf s = map replicaCount (statefulSets s)"

definition racksExist :: "world \<Rightarrow> bool" where
  "racksExist s \<longleftrightarrow> length (statefulSets s) = length (GetRacks (Datacenter s))
     \<and> (\<forall>x\<in>set (statefulSets s). \<exists>sts n. x = Some sts \<and> Replicas sts = Some n \<and> 0 \<le> n)
     \<and> sum_list (replicasOf s) < 2 ^ 31"

lemma currentSize_fold:
  assumes "\<forall>x\<in>set stss. \<exists>sts n. x = Some sts \<and> Replicas sts = Some n \<and> 0 \<le> n" "0 \<le> a"
    "a + sum_list (map replicaCount stss) < 2 ^ 31"
  shows "foldM (\<lambda>currentSize sts. case sts of None \<Rightarrow> ret currentSize
       | Some sts \<Rightarrow> bindM (derefReplicas sts) (\<lambda>n. ret (int32 (currentSize + n)))) a stss s =
     (Return (a + sum_list (map replicaCount stss)), s)"
  using assms
proof (induction stss arbitrary: a)
  case (Cons x stss)
  from Cons.prems(1) obtain sts n where x: "x = Some sts" "Replicas sts = Some n" "0 \<le> n" by auto
  have "0 \<le> replicaCount y" if "y \<in> set stss" for y using Cons.prems(1) that by fastforce
  then have nn: "0 \<le> sum_list (map replicaCount stss)" by (intro sum_list_nonneg) auto
  then have "a + n < 2 ^ 31" using Cons.prems(3) x by simp
  then have "int32 (a + n) = a + n" using Cons.prems(2) x by simp
  with Cons.IH [of "a + n"] Cons.prems x show ?case by (simp add: derefReplicas_def rc_eval)
qed (simp add: ret_run)

lemma currentSizeOf_run: "racksExist s \<Longrightarrow> currentSizeOf s = (Return (sum_list (replicasOf s)), s)"
  using currentSize_fold [of "statefulSets s" 0 s]
  by (simp add: currentSizeOf_def bindM_gets racksExist_def replicasOf_def)

text \<open>The racks after one node less are a split of the remaining nodes.\<close>

lemma CalculateRackInfoForDecomm_Return:
  assumes "CalculateRackInfoForDecomm dc n = Return infos"
  shows "length infos = length (GetRacks dc)" "sum_list (map NodeCount infos) = n - 1"
    "\<And>ri. ri \<in> set infos \<Longrightarrow> 0 \<le> NodeCount ri \<and> NodeCount ri \<le> n - 1"
proof -
  let ?r = "int (length (GetRacks dc))"
  have r: "0 < ?r" by simp
  obtain ns where n: "?r \<le> n - 1" and ns: "SplitRacks (n - 1) ?r = Return ns"
    and infos: "infos = map (\<lambda>(i, rack). \<lparr>RackName = rack_Name rack, NodeCount = ns ! i, SeedCount = 0\<rparr>)
      (enumerate 0 (GetRacks dc))"
    using assms by (auto simp: CalculateRackInfoForDecomm_def Let_def obind_eq_Return_iff split: if_splits)
  have n0: "0 \<le> n - 1" using n r by linarith
  have len: "length ns = length (GetRacks dc)" using sr.split_length [OF n0 r ns] by simp
  show "length infos = length (GetRacks dc)" by (simp add: infos)
  have counts: "map NodeCount infos = ns"
    by (rule nth_equalityI) (simp_all add: infos len nth_enumerate_eq)
  then show sum: "sum_list (map NodeCount infos) = n - 1" using sr.split_sum [OF n0 r ns] by simp
  show "0 \<le> NodeCount ri \<and> NodeCount ri \<le> n - 1" if "ri \<in> set infos" for ri
  proof -
    have mem: "NodeCount ri \<in> set ns" using that counts by (metis image_eqI set_map)
    have nn: "\<And>x. x \<in> set ns \<Longrightarrow> 0 \<le> x" using sr.split_nonneg [OF n0 r ns] .
    then show ?thesis using mem member_le_sum_list [of "NodeCount ri" ns] sum counts by auto
  qed
qed

lemma decommissionTurn_None:
  assumes "decommissionTurn E eps (idx, ri) s = (Return None, t)"
  shows "t = s \<and> idx < length (statefulSets s) \<and> replicaCount (statefulSets s ! idx) \<le> int32 (NodeCount ri)"
  using assms
  by (auto simp: decommissionTurn_def Let_def bindM_eq_Return_iff getSts_def derefReplicas_def gets_eq_iff ret_eq_iff
      panic_run split: if_splits option.splits)

text \<open>A turn never answers \<open>Continue\<close>.\<close>

lemma decommissionTurn_Some:
  "decommissionTurn E eps x s = (Return (Some res), t) \<Longrightarrow> res \<noteq> Continue"
  by (auto simp: decommissionTurn_def Let_def bindM_eq_Return_iff orError_eq_Return_iff ret_eq_iff
      split: if_splits prod.splits)

text \<open>When the step goes on for a datacenter that is too large, no turn of its loop did anything.\<close>

lemma DecommissionNodes_Continue:
  assumes "racksExist s" "Size (Spec (Datacenter s)) < sum_list (replicasOf s)"
    and run: "DecommissionNodes E eps s = (Return Continue, t)"
  obtains infos where "CalculateRackInfoForDecomm (Datacenter s) (sum_list (replicasOf s)) = Return infos"
    "\<And>i. i < length infos \<Longrightarrow> decommissionTurn E eps (i, infos ! i) s = (Return None, s)"
proof -
  let ?calc = "CalculateRackInfoForDecomm (Datacenter s) (sum_list (replicasOf s))"
  have "DecommissionNodes E eps s = orError (lift ?calc) (\<lambda>infos.
      returning (forM (enumerate 0 infos) (decommissionTurn E eps)) (ret Continue)) s"
    using assms(2) by (simp add: DecommissionNodes_def bindM_def getDc_run currentSizeOf_run [OF assms(1)])
  with run obtain infos where infos: "?calc = Return infos"
    and loop: "returning (forM (enumerate 0 infos) (decommissionTurn E eps)) (ret Continue) s = (Return Continue, t)"
    by (auto simp: orError_eq_Return_iff lift_run)
  from loop obtain res u where res: "forM (enumerate 0 infos) (decommissionTurn E eps) s = (Return res, u)"
    "(case res of Some v \<Rightarrow> ret v | None \<Rightarrow> ret Continue) u = (Return Continue, t)"
    unfolding returning_def bindM_eq_Return_iff by blast
  have "res = None"
  proof (cases res)
    case (Some v)
    then have "v = Continue" using res(2) by (simp add: ret_run)
    moreover obtain x w where "decommissionTurn E eps x w = (Return (Some v), u)"
      using forM_Some [OF res(1) [unfolded Some]] by blast
    ultimately show ?thesis using decommissionTurn_Some by blast
  qed simp
  then have None: "forM (enumerate 0 infos) (decommissionTurn E eps) s = (Return None, u)" using res(1) by simp
  have "decommissionTurn E eps (i, infos ! i) s = (Return None, s)" if "i < length infos" for i
  proof -
    have "(i, infos ! i) \<in> set (enumerate 0 infos)" using that by (simp add: in_set_enumerate_eq)
    then show ?thesis using forM_None [OF None] decommissionTurn_None by fast
  qed
  with infos show ?thesis by (rule that)
qed

text \<open>
  C15. A datacenter with more replicas than nodes is never taken for one of the right size: the step
  that scales down ends the pass, with a decommissioned node to wait for, an error or a panic, and
  does not let the reconciliation go on to report success. The split for one node less gives some
  rack fewer nodes than it has, because the racks together have more.
\<close>

theorem oversized_datacenter_not_done:
  assumes "racksExist s" and "Size (Spec (Datacenter s)) < sum_list (replicasOf s)"
  shows "fst (DecommissionNodes E eps s) \<noteq> Return Continue"
proof
  assume "fst (DecommissionNodes E eps s) = Return Continue"
  then obtain t where run: "DecommissionNodes E eps s = (Return Continue, t)" by (metis prod.collapse)
  obtain infos where infos: "CalculateRackInfoForDecomm (Datacenter s) (sum_list (replicasOf s)) = Return infos"
    and turns: "\<And>i. i < length infos \<Longrightarrow> decommissionTurn E eps (i, infos ! i) s = (Return None, s)"
    using DecommissionNodes_Continue [OF assms run] by blast
  note split = CalculateRackInfoForDecomm_Return [OF infos]
  have len: "length (replicasOf s) = length infos" using assms(1) split(1) by (simp add: racksExist_def replicasOf_def)
  have "replicasOf s ! i \<le> map NodeCount infos ! i" if "i < length infos" for i
  proof -
    have "NodeCount (infos ! i) < 2 ^ 31" "0 \<le> NodeCount (infos ! i)"
      using split(3) [OF nth_mem [OF that]] assms(1) by (auto simp: racksExist_def)
    then show ?thesis using decommissionTurn_None [OF turns [OF that]] that by (simp add: replicasOf_def)
  qed
  then have "sum_list (replicasOf s) \<le> sum_list (map NodeCount infos)"
    using len by (intro sum_list_mono2) auto
  then show False using split(2) by simp
qed

theorem oversized_datacenter_not_done_witness:
  "let s = startedWorld\<lparr>statefulSets := [Some (sampleSts ''sts'' 2)]\<rparr>
   in Size (Spec (Datacenter s)) < sum_list (replicasOf s) \<and> fst (DecommissionNodes sampleEnv [] s) \<noteq> Return Continue"
proof -
  let ?s = "startedWorld\<lparr>statefulSets := [Some (sampleSts ''sts'' 2)]\<rparr>"
  have sts: "Replicas (sampleSts ''sts'' 2) = Some 2" by (simp add: sampleSts_def ObjectMeta.defs)
  then have "racksExist ?s" by (simp add: racksExist_def replicasOf_def startedWorld_simps oneNodeDc_simps)
  moreover have "Size (Spec (Datacenter ?s)) < sum_list (replicasOf ?s)"
    by (simp add: replicasOf_def startedWorld_simps oneNodeDc_simps sts)
  ultimately show ?thesis unfolding Let_def using oversized_datacenter_not_done by blast
qed

section \<open>The stateful sets of the context\<close>

abbreviation emptySts :: "world \<Rightarrow> bool" where
  "emptySts s \<equiv> set (statefulSets s) \<subseteq> {None}"

text \<open>Steps with the same effect under an invariant can be exchanged after steps that keep it.\<close>

lemma bindM_exchange:
  assumes "preserves I m" "\<And>a t. I t \<Longrightarrow> f a t = g a t" "I s"
  shows "bindM m f s = bindM m g s"
proof -
  obtain r t where "m s = (r, t)" by fastforce
  with preservesD [OF assms(1,3) this] assms(2) [of t] show ?thesis by (cases r) (simp_all add: bindM_def)
qed

lemma check_exchange:
  assumes "preserves I m" "\<And>t. I t \<Longrightarrow> k t = k' t" "I s"
  shows "check m k s = check m k' s"
  unfolding check_def by (rule bindM_exchange [OF assms(1) _ assms(3)]) (simp add: assms(2))

lemma CalculateRackInformation_empties:
  assumes "CalculateRackInformation s = (Return a, t)"
  shows "emptySts t"
proof (cases "int (length (GetRacks (Datacenter s))) \<le> Size (Spec (Datacenter s))")
  case True
  then obtain ss ns where "CalculateRackInformation s = (Return (),
     s\<lparr>desiredRackInformation := rackInfos (Datacenter s) ss ns,
       statefulSets := replicate (length (GetRacks (Datacenter s))) None\<rparr>)" by (rule CalculateRackInformation_run)
  then show ?thesis using assms by (auto simp: set_replicate_conv_if)
qed (use assms CalculateRackInformation_Fail in auto)

lemma preserves_loopM [preserves_intros]: "(\<And>a x. preserves I (f a x)) \<Longrightarrow> preserves I (loopM f a xs)"
  by (induction xs arbitrary: a) (auto intro!: preserves_intros)

lemma emptySts_kept:
  "preserves emptySts CheckForInvalidState" "preserves emptySts (loadPods E)" "preserves emptySts (getCassMetadataEndpoints E)"
proof -
  show "preserves emptySts CheckForInvalidState"
    unfolding CheckForInvalidState_def getDc_def by (intro preserves_intros)
  show "preserves emptySts (loadPods E)"
    by (auto simp: preserves_def loadPods_def listPods_def rc_eval of_sum_def split: sum.splits)
  show "preserves emptySts (getCassMetadataEndpoints E)"
  proof -
    have "preserves emptySts (callNodeMgmtEndpoint E rq ctype)" for rq ctype
      by (auto simp: preserves_def callNodeMgmtEndpoint_def Let_def rc_eval of_sum_def split: sum.splits responseBody.splits)
    then show ?thesis
      by (auto simp: getCassMetadataEndpoints_def CallMetadataEndpointsEndpoint_def getPod_def intro!: preserves_intros)
  qed
qed

text \<open>What is left of the check when no stateful set is known.\<close>

definition repairClaims :: "env \<Rightarrow> (world, ReconcileResult) op" where
  "repairClaims E = orError (fixMissingPVC E) (\<lambda>fixedAny. if fixedAny then ret (RequeueSoon 2) else ret Continue)"

lemma caught_up_empty: "emptySts s \<Longrightarrow> CheckStatefulSetControllerCaughtUp E s = repairClaims E s"
proof -
  assume "emptySts s"
  then have "hasStatefulSetControllerCaughtUp (statefulSets s) (podsAt s (dcPods s))"
    unfolding hasStatefulSetControllerCaughtUp_iff by auto
  then show ?thesis by (simp add: CheckStatefulSetControllerCaughtUp_def repairClaims_def bindM_gets)
qed

lemma check_caught_up: "emptySts s \<Longrightarrow> check (CheckStatefulSetControllerCaughtUp E) k s = check (repairClaims E) k s"
  by (simp add: check_def bindM_def caught_up_empty)

text \<open>
  C37. The first step over the racks, which shall wait until the controller of the stateful sets has
  caught up, never waits. \<open>CalculateRackInformation\<close>, which comes right before the reconciliation
  of the racks in a pass, replaces the stateful sets of the context by empty ones; nothing fills
  them in before the check, and the check passes over empty ones. So a pass is the same as one in
  which the check is replaced by the repair of missing claims, which is what the step does when all
  has caught up: \<open>rest\<close> is what follows the check, and \<open>k\<close> what follows the racks.
\<close>

theorem caught_up_check_is_vacuous:
  "\<exists>rest. reconcileLoadedRacks E = bindM (getCassMetadataEndpoints E) (\<lambda>endpointData.
       check (CheckStatefulSetControllerCaughtUp E) (rest endpointData))
   \<and> (\<forall>k. check (orError CalculateRackInformation (\<lambda>_. ret Continue)) (bindM (ReconcileAllRacks E) k)
       = check (orError CalculateRackInformation (\<lambda>_. ret Continue))
          (bindM (check CheckForInvalidState (bindM (loadPods E) (\<lambda>_.
             bindM (getCassMetadataEndpoints E) (\<lambda>endpointData. check (repairClaims E) (rest endpointData))))) k))"
proof -
  obtain rest where rest: "reconcileLoadedRacks E = bindM (getCassMetadataEndpoints E) (\<lambda>endpointData.
      check (CheckStatefulSetControllerCaughtUp E) (rest endpointData))"
    by (rule that [OF reconcileLoadedRacks_def])
  let ?racks = "check CheckForInvalidState (bindM (loadPods E) (\<lambda>_. bindM (getCassMetadataEndpoints E) (\<lambda>endpointData.
    check (repairClaims E) (rest endpointData))))"
  have racks: "ReconcileAllRacks E s = ?racks s" if "emptySts s" for s
    unfolding ReconcileAllRacks_def rest
    by (intro check_exchange [OF emptySts_kept(1) _ that] bindM_exchange [OF emptySts_kept(2)]
      bindM_exchange [OF emptySts_kept(3)] check_caught_up)
  have "check (orError CalculateRackInformation (\<lambda>_. ret Continue)) (bindM (ReconcileAllRacks E) k) s
      = check (orError CalculateRackInformation (\<lambda>_. ret Continue)) (bindM ?racks k) s" for k s
  proof (cases "CalculateRackInformation s")
    case (Pair r t)
    then show ?thesis using racks [OF CalculateRackInformation_empties, of s _ t]
      by (cases r) (simp_all add: check_def bindM_def orError_def attempt_def ret_run)
  qed
  with rest show ?thesis by blast
qed

end
