(* ===== verification/Manifests.thy ===== *)
theory Manifests
  imports Scaling
begin

text \<open>
  The objects that the operator builds: the stateful set of a rack selects its own pods, the names
  of ports and services are legal and different, and what is written once is not written again.
\<close>

section \<open>The stateful set of a rack\<close>

lemma mput_Some [simp]: "mput (Some f) k v = Return (Some (fmupd k v f))"
  by (simp add: mput_def)

lemma GetRackLabels_eq:
  "GetRackLabels dc rack = Some (fmupd RackLabel rack (fmupd DatacenterLabel (Name dc)
     (fmupd ClusterLabel (ClusterName (Spec dc)) fmempty)))"
  by (simp add: GetRackLabels_def GetDatacenterLabels_def GetClusterLabels_def)

text \<open>What every step after the labels keeps of the template.\<close>

definition podsOf :: "PodTemplateSpec \<Rightarrow> string gomap \<Rightarrow> bool" where
  "podsOf t selector \<longleftrightarrow> mapContains (Labels t) selector \<and> mfind (Labels t) CassNodeState = Some stateReadyToStart"

definition hasCassandra :: "PodTemplateSpec \<Rightarrow> bool" where
  "hasCassandra t \<longleftrightarrow> CassandraContainerName \<in> c_Name ` set (ts_Containers t)"

lemma podsOf_fields [simp]:
  "podsOf (t\<lparr>ts_Containers := cs\<rparr>) sel = podsOf t sel" "podsOf (t\<lparr>ts_InitContainers := cs\<rparr>) sel = podsOf t sel"
  "podsOf (t\<lparr>ts_Volumes := vs\<rparr>) sel = podsOf t sel" "podsOf (t\<lparr>ts_NodeSelector := ns\<rparr>) sel = podsOf t sel"
  by (simp_all add: podsOf_def)

lemma buildInitContainers_podsOf:
  "buildInitContainers E dc rack t = Return t' \<Longrightarrow> podsOf t' sel = podsOf t sel"
  by (auto simp: buildInitContainers_def Let_def split: outcome.splits option.splits)

lemma cassandraContainer_name:
  "cassandraContainer E dc c = Return c' \<Longrightarrow> c_Name c' = CassandraContainerName"
  by (auto simp: cassandraContainer_def Let_def obind_eq_Return_iff)

lemma placed_container:
  assumes "\<And>i. a = Some i \<Longrightarrow> i < length cs" "\<And>i. a = Some i \<Longrightarrow> b \<noteq> Some i"
  shows "x \<in> set (let cs = (case a of None \<Rightarrow> cs | Some i \<Rightarrow> cs[i := x]);
      cs = (case b of None \<Rightarrow> cs | Some i \<Rightarrow> cs[i := y]);
      cs = (if a = None then cs @ [x] else cs)
    in if sidecar \<and> b = None then cs @ [y] else cs)"
proof (cases a)
  case (Some i)
  then have i: "i < length cs" "b \<noteq> Some i" using assms by blast+
  have "cs[i := x, j := y] ! i = x" if "j \<noteq> i" for j using i that by simp
  then have "x \<in> set (cs[i := x, j := y])" if "j \<noteq> i" for j
    using i that by (metis length_list_update nth_mem)
  then show ?thesis using Some i by (cases b) (auto simp: Let_def set_update_memI)
qed (simp add: Let_def)

lemma buildContainers_Return:
  assumes "buildContainers E dc t = Return t'"
  shows "podsOf t' sel = podsOf t sel" "hasCassandra t'"
proof -
  let ?cs = "ts_Containers t" let ?at = "\<lambda>i. case i of None \<Rightarrow> emptyContainer | Some i \<Rightarrow> ?cs ! i"
  let ?cass = "lastIndex (\<lambda>c. c_Name c = CassandraContainerName) ?cs"
    and ?log = "lastIndex (\<lambda>c. c_Name c = SystemLoggerContainerName) ?cs"
  from assms obtain c where c: "cassandraContainer E dc (?at ?cass) = Return c"
    and t': "t' = t\<lparr>ts_Containers := let cs = (case ?cass of None \<Rightarrow> ?cs | Some i \<Rightarrow> ?cs[i := c]);
        cs = (case ?log of None \<Rightarrow> cs | Some i \<Rightarrow> cs[i := systemLoggerContainer E dc (?at ?log)]);
        cs = (if ?cass = None then cs @ [c] else cs)
      in if \<not> DisableSystemLoggerSidecar (Spec dc) \<and> ?log = None
        then cs @ [systemLoggerContainer E dc (?at ?log)] else cs\<rparr>"
    unfolding buildContainers_def Let_def obind_eq_Return_iff by blast
  have "CassandraContainerName \<noteq> SystemLoggerContainerName"
    by (simp add: CassandraContainerName_def SystemLoggerContainerName_def)
  then have "?cass = Some i \<Longrightarrow> i < length ?cs \<and> ?log \<noteq> Some i" for i
    using lastIndex_Some [of "\<lambda>c. c_Name c = CassandraContainerName" ?cs i]
      lastIndex_Some [of "\<lambda>c. c_Name c = SystemLoggerContainerName" ?cs i] by auto
  then have "c \<in> set (ts_Containers t')" unfolding t' by (simp add: placed_container)
  then show "hasCassandra t'" using cassandraContainer_name [OF c] unfolding hasCassandra_def by (metis imageI)
  show "podsOf t' sel = podsOf t sel" unfolding t' by simp
qed

lemma contents_Some [simp]: "contents (Some f) = f"
  by (simp add: contents_def)

lemma emptyMapIfNil_eq: "emptyMapIfNil m = Some (contents m)"
  by (simp add: emptyMapIfNil_def contents_def split: option.split)

lemma fmlookup_podLabels:
  "fmlookup (fmadd f (fmupd CassNodeState st (fmupd ManagedByLabel v g))) k =
     (if k = CassNodeState then Some st else if k = ManagedByLabel then Some v
      else case fmlookup g k of Some x \<Rightarrow> Some x | None \<Rightarrow> fmlookup f k)"
  by (auto simp: fmlookup_dom_iff split: option.splits)

lemma template_Labels:
  "Labels (t\<lparr>Labels := l, Annotations := an, ts_Affinity := af, ts_Tolerations := ts\<rparr>) = l"
  by simp

lemma buildPodTemplateSpec_Return:
  assumes "buildPodTemplateSpec E dc aff rack = Return t"
  shows "podsOf t (GetRackLabels dc rack)" "hasCassandra t"
proof -
  let ?g = "fmupd RackLabel rack (fmupd DatacenterLabel (Name dc) (fmupd ClusterLabel (ClusterName (Spec dc)) fmempty))"
  let ?labels = "fmadd (contents (Labels (podDefaults E dc)))
    (fmupd CassNodeState stateReadyToStart (fmupd ManagedByLabel ManagedByLabelValue ?g))"
  obtain an af t1 where init: "buildInitContainers E dc rack (addVolumes dc ((podDefaults E dc)\<lparr>Labels := Some ?labels,
      Annotations := an, ts_Affinity := af, ts_Tolerations := Tolerations (Spec dc)\<rparr>)) = Return t1"
    and t: "buildContainers E dc t1 = Return t"
    using assms unfolding buildPodTemplateSpec_def AddManagedByLabel_def GetRackLabels_eq mput_Some obind_simps
      emptyMapIfNil_eq MergeMap_Some foldl.simps contents_Some obind_eq_Return_iff by blast
  let ?t0 = "(podDefaults E dc)\<lparr>Labels := Some ?labels, Annotations := an, ts_Affinity := af,
      ts_Tolerations := Tolerations (Spec dc)\<rparr>"
  have t0: "Labels ?t0 = Some ?labels" by (rule template_Labels)
  have "podsOf ?t0 (Some ?g)"
    unfolding podsOf_def mapContains_iff t0 mfind_Some fmlookup_podLabels by auto
  then have "podsOf t1 (Some ?g)" using buildInitContainers_podsOf [OF init] by (simp add: addVolumes_def)
  then show "podsOf t (GetRackLabels dc rack)" using buildContainers_Return(1) [OF t] by (simp add: GetRackLabels_eq)
  show "hasCassandra t" by (rule buildContainers_Return(2) [OF t])
qed

lemma image_list_update_same:
  assumes "i < length xs" "f x = f (xs ! i)"
  shows "f ` set (xs[i := x]) = f ` set xs"
proof -
  have "map f (xs[i := x]) = map f xs" using assms by (metis list_update_id map_update nth_map)
  then show ?thesis by (metis list.set_map)
qed

lemma AddServerSecurity_Return:
  assumes "AddServerSecurity provider t = Return t'"
  shows "podsOf t' sel = podsOf t sel" "c_Name ` set (ts_Containers t') = c_Name ` set (ts_Containers t)"
proof -
  show "podsOf t' sel = podsOf t sel" using assms by (cases provider) (auto split: option.splits)
  show "c_Name ` set (ts_Containers t') = c_Name ` set (ts_Containers t)"
  proof (cases provider)
    case (ManualManagementApiSecurityProvider ns config)
    then obtain i where i: "lastIndex (\<lambda>c. c_Name c = ''cassandra'') (ts_Containers t) = Some i"
      and t': "ts_Containers t' = (ts_Containers t)[i := secureContainer provider (ts_Containers t ! i)]"
      using assms by (auto split: option.splits)
    have "i < length (ts_Containers t)" using lastIndex_Some [OF i] by simp
    then show ?thesis unfolding t' by (rule image_list_update_same) (simp add: secureContainer_def)
  qed (use assms in simp)
qed

lemma AddManagementApiServerSecurity_Return:
  assumes "AddManagementApiServerSecurity dc t = Return t'"
  shows "podsOf t' sel = podsOf t sel" "hasCassandra t' = hasCassandra t"
  using assms AddServerSecurity_Return unfolding AddManagementApiServerSecurity_def obind_eq_Return_iff hasCassandra_def
  by blast+

lemma podsOf_AddStatefulSetChanges:
  assumes "podsOf (Template sts) sel" "InstanceIDLabel \<notin> fset (fmdom (contents sel))"
    "ExtensionIDLabel \<notin> fset (fmdom (contents sel))"
  shows "podsOf (Template (AddStatefulSetChanges E dc sts)) sel"
proof -
  have "CassNodeState \<noteq> InstanceIDLabel" "CassNodeState \<noteq> ExtensionIDLabel"
    by (simp_all add: CassNodeState_def InstanceIDLabel_def ExtensionIDLabel_def)
  with assms show ?thesis
    by (auto simp: podsOf_def AddStatefulSetChanges_def addLabels_def addAnnotations_def mapContains_def mfind_contents)
qed

lemma AddHashAnnotation_fields [simp]:
  "Template (AddHashAnnotation h (r :: StatefulSet)) = Template r" "Selector (AddHashAnnotation h r) = Selector r"
  "Replicas (AddHashAnnotation h r) = Replicas r"
  by (cases r; simp add: AddHashAnnotation_def Let_def)+

lemma AddStatefulSetChanges_fields [simp]:
  "Selector (AddStatefulSetChanges E dc r) = Selector r" "Replicas (AddStatefulSetChanges E dc r) = Replicas r"
  "hasCassandra (Template (AddStatefulSetChanges E dc r)) = hasCassandra (Template r)"
  by (simp_all add: AddStatefulSetChanges_def addAnnotations_def addLabels_def hasCassandra_def)

lemma rackStatefulSet_fields [simp]:
  "Template (rackStatefulSet dc rack n claim pl sl t) = t"
  "Selector (rackStatefulSet dc rack n claim pl sl t) = GetRackLabels dc rack"
  "Replicas (rackStatefulSet dc rack n claim pl sl t) = Some (int32 n)"
  by (simp_all add: rackStatefulSet_def Let_def ObjectMeta.defs)

lemma psp_labels_not_selected:
  "InstanceIDLabel \<notin> fset (fmdom (contents (GetRackLabels dc rack)))"
  "ExtensionIDLabel \<notin> fset (fmdom (contents (GetRackLabels dc rack)))"
  by (simp_all add: GetRackLabels_eq InstanceIDLabel_def ExtensionIDLabel_def RackLabel_def DatacenterLabel_def
    ClusterLabel_def)

lemma rackNodeAffinitylabels_dc:
  assumes "rackNodeAffinitylabels dc rack = (m, dc')"
  shows "GetRackLabels dc' r = GetRackLabels dc r"
  using assms by (auto simp: rackNodeAffinitylabels_def GetRackLabels_eq Let_def split: option.splits outcome.splits)

lemma buildStatefulSet_Return:
  assumes "buildStatefulSet E rack dc n defunct aff = Return sts"
  shows "podsOf (Template sts) (GetRackLabels dc rack)" "hasCassandra (Template sts)"
    "Selector sts = GetRackLabels dc rack" "Replicas sts = Some (int32 n)"
proof -
  obtain claim where claim: "CassandraDataVolumeClaimSpec (StorageConfig (Spec dc)) = Some claim"
    using assms by (cases "CassandraDataVolumeClaimSpec (StorageConfig (Spec dc))")
      (auto simp: buildStatefulSet_def obind_eq_Return_iff)
  obtain t0 t1 t2 pl sl where t0: "buildPodTemplateSpec E dc aff rack = Return t0"
    and sel: "(if mlen (NodeSelector (Spec dc)) > 0
      then obind (MergeMap (Some fmempty) [NodeSelector (Spec dc)]) (\<lambda>ns. Return (t0\<lparr>ts_NodeSelector := ns\<rparr>))
      else Return t0) = Return t1"
    and sec: "(case AddManagementApiServerSecurity dc t1 of Fail _ \<Rightarrow> Return t1 | r \<Rightarrow> r) = Return t2"
    and sts: "AddHashAnnotation (\<lambda>r. e_hash E (HashStatefulSet r))
      (if IsPSPEnabled (e_getenv E) then AddStatefulSetChanges E dc (rackStatefulSet dc rack n claim pl sl t2)
       else rackStatefulSet dc rack n claim pl sl t2) = sts"
    using assms unfolding buildStatefulSet_def obind_eq_Return_iff Let_def claim option.case outcome.inject
    by (elim exE conjE) (rule that; assumption)
  have "podsOf t1 (GetRackLabels dc rack)" "hasCassandra t1"
    using sel buildPodTemplateSpec_Return [OF t0]
    by (cases "mlen (NodeSelector (Spec dc)) > 0"; auto simp: obind_eq_Return_iff hasCassandra_def simp del: MergeMap.simps)+
  moreover have "t2 = t1 \<or> AddManagementApiServerSecurity dc t1 = Return t2"
    using sec by (cases "AddManagementApiServerSecurity dc t1") simp_all
  ultimately have "podsOf t2 (GetRackLabels dc rack)" "hasCassandra t2"
    using AddManagementApiServerSecurity_Return [of dc t1 t2] by blast+
  then show "podsOf (Template sts) (GetRackLabels dc rack)" "hasCassandra (Template sts)"
    "Selector sts = GetRackLabels dc rack" "Replicas sts = Some (int32 n)"
    unfolding sts [symmetric] by (simp_all add: podsOf_AddStatefulSetChanges psp_labels_not_selected)
qed

definition sampleStorage :: PVCSpec where
  "sampleStorage = \<lparr>StorageClassName = Some ''standard'', AccessModes = [''ReadWriteOnce''], PVCRequests = None,
     VolumeName = []\<rparr>"

definition storedDc :: CassandraDatacenter where
  "storedDc = sampleDc\<lparr>Spec := sampleSpec\<lparr>StorageConfig :=
     \<lparr>CassandraDataVolumeClaimSpec = Some sampleStorage, AdditionalVolumesSlice = []\<rparr>\<rparr>\<rparr>"

text \<open>
  C20. Whatever pod template the user writes, a stateful set that the builder returns selects the
  pods of its own template: the template carries every label of the selector, which are the
  cluster, datacenter and rack, and the node state Ready-to-Start. It has a container named
  cassandra and the replica count it was asked for.
\<close>

theorem stateful_set_selects_its_pods:
  assumes "newStatefulSetForCassandraDatacenterHelper E rack dc n defunct = (Return sts, dc')"
  shows "Selector sts = GetRackLabels dc rack \<and> mapContains (Labels (Template sts)) (Selector sts)
    \<and> mfind (Labels (Template sts)) CassNodeState = Some stateReadyToStart
    \<and> CassandraContainerName \<in> c_Name ` set (ts_Containers (Template sts)) \<and> Replicas sts = Some (int32 n)"
proof -
  obtain aff where "rackNodeAffinitylabels dc rack = (Return aff, dc')"
    "buildStatefulSet E rack dc' n defunct aff = Return sts"
    using assms by (auto simp: newStatefulSetForCassandraDatacenterHelper_def Let_def obind_eq_Return_iff split: prod.splits)
  then show ?thesis
    using buildStatefulSet_Return [of E rack dc' n defunct aff sts] rackNodeAffinitylabels_dc [of dc rack "Return aff" dc']
    unfolding podsOf_def hasCassandra_def by simp
qed

lemma sample_stateful_set:
  "case fst (newStatefulSetForCassandraDatacenterHelper sampleEnv ''r1'' storedDc 3 False) of Return sts \<Rightarrow> True | _ \<Rightarrow> False"
  by code_simp

theorem stateful_set_selects_its_pods_witness:
  "\<exists>sts dc'. newStatefulSetForCassandraDatacenterHelper sampleEnv ''r1'' storedDc 3 False = (Return sts, dc')
     \<and> mapContains (Labels (Template sts)) (GetRackLabels storedDc ''r1'') \<and> Replicas sts = Some 3"
proof -
  obtain sts dc' where built: "newStatefulSetForCassandraDatacenterHelper sampleEnv ''r1'' storedDc 3 False = (Return sts, dc')"
    using sample_stateful_set
    by (cases "newStatefulSetForCassandraDatacenterHelper sampleEnv ''r1'' storedDc 3 False") (auto split: outcome.splits)
  show ?thesis using stateful_set_selects_its_pods [OF built] built by (auto simp: int32_def)
qed

section \<open>Services are written until their hash is\<close>

definition serviceHash :: "Service \<Rightarrow> string option" where
  "serviceHash svc = mfind (Annotations svc) resourceHashAnnotationKey"

lemma serviceHash_hashService [simp]: "serviceHash (hashService E svc) = Some (e_hash E (HashService svc))"
  by (simp add: serviceHash_def hashService_def AddHashAnnotation_def mfind_def)

lemma same_hash:
  assumes "serviceHash a = Some h" "serviceHash b = Some h"
  shows "ResourcesHaveSameHash a b"
  using assms by (auto simp: serviceHash_def ResourcesHaveSameHash_def mfind_def mget_def split: option.splits)

lemma mergeMeta_eq:
  "mergeMeta current desired = Return (desired\<lparr>
     Labels := Some (fmadd (contents (Labels current)) (contents (Labels desired))),
     Annotations := Some (fmadd (contents (Annotations current)) (contents (Annotations desired))),
     ResourceVersion := ResourceVersion current\<rparr>)"
  unfolding mergeMeta_def MergeMap_Some by simp

text \<open>The two branches of the loop for a service that exists.\<close>

definition mergedService :: "Service \<Rightarrow> Service \<Rightarrow> Service" where
  "mergedService current desired = desired\<lparr>
     Labels := Some (fmadd (contents (Labels current)) (contents (Labels desired))),
     Annotations := Some (fmadd (contents (Annotations current)) (contents (Annotations desired))),
     ResourceVersion := ResourceVersion current, svc_ClusterIP := svc_ClusterIP current\<rparr>"

lemma serviceHash_mergedService:
  "serviceHash desired = Some h \<Longrightarrow> serviceHash (mergedService current desired) = Some h"
  by (auto simp: serviceHash_def mergedService_def mfind_contents fmlookup_dom_iff)

lemma serviceHash_owner [simp]: "serviceHash (svc\<lparr>OwnerReferences := refs\<rparr>) = serviceHash svc"
  by (simp add: serviceHash_def)

lemma checkService_existing:
  assumes "e_setOwner E (Datacenter s) (ObjectMeta.truncate svc) = Inr refs"
    "e_service E (log s) (GetService (namespacedNameOf svc)) = Inr current"
  shows "checkService E needed svc s =
    (if ResourcesHaveSameHash current svc then (Return needed, s\<lparr>log := log s @ [GetService (namespacedNameOf svc)]\<rparr>)
     else let u = mergedService current (svc\<lparr>OwnerReferences := refs\<rparr>)
       in (case e_service E (log s @ [GetService (namespacedNameOf svc)]) (UpdateService u) of
             Inl e \<Rightarrow> Fail e | Inr _ \<Rightarrow> Return needed,
           s\<lparr>log := log s @ [GetService (namespacedNameOf svc), UpdateService u]\<rparr>))"
  using assms by (simp add: checkService_def rc_eval setControllerReference_def namespacedNameOf_def mergeMeta_eq
    mergedService_def ResourcesHaveSameHash_def Let_def split: sum.split)

lemma checkService_updates:
  assumes "checkService E needed svc s = (r, t)" "UpdateService u \<in> set (drop (length (log s)) (log t))"
    "serviceHash svc = Some h"
  shows "serviceHash u = Some h"
proof -
  obtain refs where refs: "e_setOwner E (Datacenter s) (ObjectMeta.truncate svc) = Inr refs"
    using assms by (cases "e_setOwner E (Datacenter s) (ObjectMeta.truncate svc)")
      (auto simp: checkService_def rc_eval setControllerReference_def)
  obtain current where current: "e_service E (log s) (GetService (namespacedNameOf svc)) = Inr current"
    using assms refs by (cases "e_service E (log s) (GetService (namespacedNameOf svc))")
      (auto simp: checkService_def rc_eval setControllerReference_def namespacedNameOf_def split: if_splits)
  show ?thesis
    using assms unfolding checkService_existing [OF refs current] Let_def
    by (auto simp: serviceHash_mergedService split: if_splits)
qed

lemma checkService_same_hash:
  assumes "e_setOwner E (Datacenter s) (ObjectMeta.truncate svc) = Inr refs"
    "e_service E (log s) (GetService (namespacedNameOf svc)) = Inr current"
    "serviceHash svc = Some h" "serviceHash current = Some h"
  shows "checkService E needed svc s = (Return needed, s\<lparr>log := log s @ [GetService (namespacedNameOf svc)]\<rparr>)"
  unfolding checkService_existing [OF assms(1,2)] by (simp add: same_hash [OF assms(4,3)])

text \<open>An API server that knows one service and stores updates of it.\<close>

definition storingEnv :: env where
  "storingEnv = sampleEnv\<lparr>e_service := \<lambda>h c. case c of
     UpdateService svc \<Rightarrow> Inr svc
   | GetService n \<Rightarrow> (case List.map_filter (\<lambda>c. case c of UpdateService svc \<Rightarrow> Some svc | _ \<Rightarrow> None) (rev h) of
       svc # _ \<Rightarrow> Inr svc | [] \<Rightarrow> Inr emptyService)
   | _ \<Rightarrow> Inl unknownObject\<rparr>"

text \<open>
  C21. Updating a service converges: when the check has sent an update of a hashed service and the
  API server later answers a service with the annotations that were sent, the next check reads
  the service and writes nothing.
\<close>

theorem service_update_converges:
  assumes "checkService E needed (hashService E svc) s = (r, t)"
    "UpdateService u \<in> set (drop (length (log s)) (log t))"
    "e_service E (log s') (GetService (namespacedNameOf (hashService E svc))) = Inr stored"
    "Annotations stored = Annotations u"
    "e_setOwner E (Datacenter s') (ObjectMeta.truncate (hashService E svc)) = Inr refs"
  shows "checkService E needed' (hashService E svc) s' =
    (Return needed', s'\<lparr>log := log s' @ [GetService (namespacedNameOf (hashService E svc))]\<rparr>)"
proof (rule checkService_same_hash [OF assms(5,3)])
  show "serviceHash stored = Some (e_hash E (HashService svc))"
    using checkService_updates [OF assms(1,2) serviceHash_hashService] assms(4) by (simp add: serviceHash_def)
qed simp

theorem service_update_converges_witness:
  "\<exists>u. snd (checkService storingEnv [] (hashService storingEnv emptyService) sampleWorld)
       = sampleWorld\<lparr>log := [GetService ([], []), UpdateService u]\<rparr>
     \<and> checkService storingEnv [] (hashService storingEnv emptyService)
         (sampleWorld\<lparr>log := [GetService ([], []), UpdateService u]\<rparr>)
       = (Return [], sampleWorld\<lparr>log := [GetService ([], []), UpdateService u, GetService ([], [])]\<rparr>)"
proof -
  let ?svc = "hashService storingEnv emptyService"
  let ?u = "mergedService emptyService (?svc\<lparr>OwnerReferences := OwnerReferences emptyService\<rparr>)"
  let ?s' = "sampleWorld\<lparr>log := [GetService ([], []), UpdateService ?u]\<rparr>"
  have name: "namespacedNameOf ?svc = ([], [])"
    by (simp add: hashService_def AddHashAnnotation_def namespacedNameOf_def emptyService_def emptyMeta_def ObjectMeta.defs)
  have owner: "e_setOwner storingEnv dc (ObjectMeta.truncate ?svc) = Inr (OwnerReferences emptyService)" for dc
    by (simp add: storingEnv_def hashService_def AddHashAnnotation_def emptyService_def emptyMeta_def ObjectMeta.defs
      sampleEnv_def)
  have current: "e_service storingEnv (log sampleWorld) (GetService (namespacedNameOf ?svc)) = Inr emptyService"
    by (simp add: storingEnv_def sampleWorld_def)
  have updated: "e_service storingEnv h (UpdateService svc) = Inr svc" for h svc by (simp add: storingEnv_def)
  have differs: "\<not> ResourcesHaveSameHash emptyService ?svc"
    by (simp add: ResourcesHaveSameHash_def emptyService_def emptyMeta_def ObjectMeta.defs)
  have first: "checkService storingEnv [] ?svc sampleWorld = (Return [], ?s')"
    unfolding checkService_existing [OF owner current] Let_def using differs
    by (simp add: name updated) (simp add: sampleWorld_def)
  have stored: "e_service storingEnv (log ?s') (GetService (namespacedNameOf ?svc)) = Inr ?u"
    by (simp add: storingEnv_def map_filter_def)
  have "UpdateService ?u \<in> set (drop (length (log sampleWorld)) (log ?s'))" by (simp add: sampleWorld_def)
  from service_update_converges [OF first this stored refl owner, of "[]"] show ?thesis
    using first by (auto simp: name)
qed

definition settled :: "env \<Rightarrow> CassandraDatacenter \<Rightarrow> Service \<Rightarrow> bool" where
  "settled E dc svc \<longleftrightarrow> (\<exists>refs. e_setOwner E dc (ObjectMeta.truncate svc) = Inr refs) \<and>
     (\<forall>h. \<exists>current k. e_service E h (GetService (namespacedNameOf svc)) = Inr current
        \<and> serviceHash current = Some k \<and> serviceHash svc = Some k)"

lemma checkService_settled:
  assumes "settled E (Datacenter s) svc"
  shows "checkService E needed svc s = (Return needed, s\<lparr>log := log s @ [GetService (namespacedNameOf svc)]\<rparr>)"
  using assms unfolding settled_def by (metis checkService_same_hash)

lemma checkServices_settled:
  assumes "list_all (settled E (Datacenter s)) ds"
  shows "foldM (checkService E) needed ds s =
    (Return needed, s\<lparr>log := log s @ map (\<lambda>d. GetService (namespacedNameOf d)) ds\<rparr>)"
  using assms by (induction ds arbitrary: s) (simp_all add: checkService_settled rc_eval)

text \<open>
  C22. Settled services are left alone: when the API server holds each of the services that the
  datacenter needs, with the hash of the one the operator would build, the reconciliation of the
  services reads each of them once, in order, writes nothing, and continues with the pass.
\<close>

theorem settled_services_only_read:
  assumes "desiredServices E (Datacenter s) = Return ds" "list_all (settled E (Datacenter s)) ds"
  shows "CheckHeadlessServices E s =
    (Return Continue, s\<lparr>log := log s @ map (\<lambda>d. GetService (namespacedNameOf d)) ds\<rparr>)"
  using assms checkServices_settled [OF assms(2), of "[]"]
  by (simp add: CheckHeadlessServices_def rc_eval orError_def)

text \<open>An API server on which every service exists with the hash that \<^const>\<open>sampleEnv\<close> computes.\<close>

definition hashedEnv :: env where
  "hashedEnv = sampleEnv\<lparr>e_service := \<lambda>h c. Inr (hashService sampleEnv emptyService)\<rparr>"

theorem settled_services_only_read_witness:
  "CheckHeadlessServices hashedEnv sampleWorld = (Return Continue, sampleWorld\<lparr>log :=
     [GetService (''ns'', ''cluster-dc1-service''), GetService (''ns'', ''cluster-seed-service''),
      GetService (''ns'', ''cluster-dc1-all-pods-service'')]\<rparr>)"
proof -
  have "case desiredServices hashedEnv (Datacenter sampleWorld) of
      Return ds \<Rightarrow> list_all (\<lambda>d. serviceHash d = Some ''hash'') ds \<and> map namespacedNameOf ds =
        [(''ns'', ''cluster-dc1-service''), (''ns'', ''cluster-seed-service''), (''ns'', ''cluster-dc1-all-pods-service'')]
    | _ \<Rightarrow> False"
    by code_simp
  then obtain ds where ds: "desiredServices hashedEnv (Datacenter sampleWorld) = Return ds"
    and hashes: "list_all (\<lambda>d. serviceHash d = Some ''hash'') ds" and names: "map namespacedNameOf ds =
      [(''ns'', ''cluster-dc1-service''), (''ns'', ''cluster-seed-service''), (''ns'', ''cluster-dc1-all-pods-service'')]"
    by (auto split: outcome.splits)
  have "serviceHash (hashService sampleEnv emptyService) = Some ''hash''"
    unfolding serviceHash_hashService by (simp add: sampleEnv_def)
  then have "settled hashedEnv dc d" if "serviceHash d = Some ''hash''" for dc d
    using that by (simp add: settled_def hashedEnv_def) (simp add: sampleEnv_def)
  then have "list_all (settled hashedEnv (Datacenter sampleWorld)) ds" using hashes by (simp add: list_all_iff)
  from settled_services_only_read [OF ds this] show ?thesis
    using arg_cong [OF names, of "map GetService"] by (simp add: o_def sampleWorld_def)
qed

text \<open>
  C38. The service of node ports never settles: it is built without a hash, so when the user adds
  no annotations to it the check of every pass sends an update of a service that exists.
\<close>

theorem node_port_service_never_settles:
  assumes "newNodePortServiceForCassandraDatacenter dc = Return svc"
    "sca_Annotations (sc_NodePortService (AdditionalServiceConfig (Spec dc))) = None"
    "e_setOwner E (Datacenter s) (ObjectMeta.truncate svc) = Inr refs"
    "e_service E (log s) (GetService (namespacedNameOf svc)) = Inr current"
  shows "\<exists>u. snd (checkService E needed svc s) =
    s\<lparr>log := log s @ [GetService (namespacedNameOf svc), UpdateService u]\<rparr>"
proof -
  have "Annotations svc = None"
    using assms(1,2) by (auto simp: newNodePortServiceForCassandraDatacenter_def obind_eq_Return_iff
      makeGenericHeadlessService_def addAdditionalOptions_def addEntries_def emptyService_def emptyMeta_def ObjectMeta.defs)
  then have "\<not> ResourcesHaveSameHash current svc" by (simp add: ResourcesHaveSameHash_def)
  then show ?thesis unfolding checkService_existing [OF assms(3,4)] Let_def by auto
qed

theorem node_port_service_never_settles_witness:
  "\<exists>svc u. newNodePortServiceForCassandraDatacenter sampleDc = Return svc
     \<and> snd (checkService hashedEnv [] svc sampleWorld) =
       sampleWorld\<lparr>log := [GetService (namespacedNameOf svc), UpdateService u]\<rparr>"
proof -
  obtain svc where svc: "newNodePortServiceForCassandraDatacenter sampleDc = Return svc"
    by (simp add: newNodePortServiceForCassandraDatacenter_def makeGenericHeadlessService_def AddManagedByLabel_def
      GetDatacenterLabels_def GetClusterLabels_def)
  have "e_setOwner hashedEnv (Datacenter sampleWorld) (ObjectMeta.truncate svc) = Inr (OwnerReferences svc)"
    by (simp add: hashedEnv_def sampleEnv_def ObjectMeta.defs)
  moreover have "sca_Annotations (sc_NodePortService (AdditionalServiceConfig (Spec sampleDc))) = None"
    by (simp add: sample_defs)
  moreover have "e_service hashedEnv (log sampleWorld) (GetService (namespacedNameOf svc))
    = Inr (hashService sampleEnv emptyService)" by (simp add: hashedEnv_def)
  ultimately show ?thesis
    using node_port_service_never_settles [OF svc, of hashedEnv sampleWorld _ _ "[]"] svc by (simp add: sampleWorld_def)
qed

section \<open>Names of ports and services\<close>

text \<open>
  The names of the container ports, and those of the ports of the datacenter's service, are
  different from one another for every combination of workloads, and none is longer than the
  fifteen characters that Kubernetes allows for the name of a port.
\<close>

lemma port_names_legal:
  assumes "GetContainerPorts dc = Return ports"
  shows "distinct (map cp_Name ports) \<and> distinct (map sp_Name (datacenterServicePorts dc))
    \<and> list_all (\<lambda>n. n \<noteq> [] \<and> length n \<le> 15) (map cp_Name ports @ map sp_Name (datacenterServicePorts dc))"
proof -
  have "distinct (map cp_Name ports) \<and> list_all (\<lambda>n. n \<noteq> [] \<and> length n \<le> 15) (map cp_Name ports)"
    using assms by (auto simp: GetContainerPorts_def Let_def namedPort_def split: option.splits if_splits)
  moreover have "distinct (map sp_Name (datacenterServicePorts dc))
    \<and> list_all (\<lambda>n. n \<noteq> [] \<and> length n \<le> 15) (map sp_Name (datacenterServicePorts dc))"
    by (auto simp: datacenterServicePorts_def namedServicePort_def split: option.splits)
  ultimately show ?thesis by simp
qed

text \<open>
  C31. The five services of a datacenter have different names exactly when the datacenter is not
  called seed: a datacenter of that name shares the name of its own service with the seed
  service of the cluster, and nothing in the validation refuses it.
\<close>

theorem service_names_distinct_iff:
  "distinct [GetDatacenterServiceName dc, GetSeedServiceName dc, GetAllPodsServiceName dc,
     GetAdditionalSeedsServiceName dc, GetNodePortServiceName dc] \<longleftrightarrow> Name dc \<noteq> ''seed''"
proof -
  have long: "xs @ ys \<noteq> zs" if "length zs < length ys" for xs ys zs :: string using that by auto
  have "GetDatacenterServiceName dc = GetSeedServiceName dc \<longleftrightarrow> Name dc = ''seed''"
    using append_same_eq [of "Name dc" "''-service''" "''seed''"]
    by (simp add: GetDatacenterServiceName_def GetSeedServiceName_def)
  moreover have "GetSeedServiceName dc \<noteq> GetAllPodsServiceName dc"
    "GetSeedServiceName dc \<noteq> GetAdditionalSeedsServiceName dc" "GetSeedServiceName dc \<noteq> GetNodePortServiceName dc"
    using long [of "''seed-service''" _ "Name dc"]
    by (auto simp: GetSeedServiceName_def GetAllPodsServiceName_def GetAdditionalSeedsServiceName_def
      GetNodePortServiceName_def dest: sym)
  ultimately show ?thesis
    by (auto simp: GetDatacenterServiceName_def GetAllPodsServiceName_def GetAdditionalSeedsServiceName_def
      GetNodePortServiceName_def)
qed

section \<open>The disruption budget\<close>

text \<open>
  The disruption budget of a datacenter of a legal size asks for one pod less than the size,
  so it lets one pod be disrupted and no more, and it selects the pods of every rack of the
  datacenter.
\<close>

lemma disruption_budget_spares_one:
  assumes "newPodDisruptionBudgetForDatacenter E dc = Return pdb" "1 \<le> Size (Spec dc)" "Size (Spec dc) < 2 ^ 31"
  shows "MinAvailable pdb = Size (Spec dc) - 1 \<and> mapContains (GetRackLabels dc rack) (pdb_Selector pdb)"
proof -
  have "MinAvailable pdb = int32 (Size (Spec dc) - 1) \<and> pdb_Selector pdb = GetDatacenterLabels dc"
    using assms(1) by (auto simp: newPodDisruptionBudgetForDatacenter_def obind_eq_Return_iff AddHashAnnotation_def
      ObjectMeta.defs)
  then show ?thesis using assms(2,3) by (auto simp: mapContains_iff)
qed

end
