(* ===== verification/Upgrades.thy ===== *)
theory Upgrades
  imports Manifests
begin

text \<open>
  Changes of the pod template: an upgrade rewrites the template of a rack's stateful set and keeps
  the number of its replicas, which only the scaling steps change.
\<close>

section \<open>Calls under an invariant\<close>

lemma calls_preserves:
  assumes "emits A m" "preserves I m"
  shows "calls I A m (\<lambda>_. I)"
  using assms unfolding calls_def emits_def preserves_def by (metis snd_conv)

lemma calls_orError_post:
  assumes "calls I A m Q" "\<And>a. calls (Q a) A (k a) R" "\<And>e s. R (ErrorOut e) s"
  shows "calls I A (orError m k) R"
  unfolding orError_def
proof (rule calls_bindM)
  show "calls I A (attempt m) (\<lambda>r s. \<forall>a. r = Inr a \<longrightarrow> Q a s)"
  proof (rule callsI)
    fix s r t
    assume "I s" and eq: "attempt m s = (r, t)"
    obtain ra u where m: "m s = (ra, u)" by fastforce
    obtain cs where "log u = log s @ cs" "list_all A cs" "\<forall>a. ra = Return a \<longrightarrow> Q a u"
      by (rule callsD [OF assms(1) \<open>I s\<close> m])
    with eq m show "(\<exists>cs. log t = log s @ cs \<and> list_all A cs) \<and> (\<forall>a. r = Return a \<longrightarrow> (\<forall>b. a = Inr b \<longrightarrow> Q b t))"
      by (cases ra) (auto simp: attempt_def)
  qed
  show "calls (\<lambda>s. \<forall>a. r = Inr a \<longrightarrow> Q a s) A (case r of Inl e \<Rightarrow> ret (ErrorOut e) | Inr a \<Rightarrow> k a) R" for r
    by (cases r) (use assms in \<open>auto intro: calls_ret\<close>)
qed

lemma calls_forM:
  assumes "\<And>x. x \<in> set xs \<Longrightarrow> calls I A (body x) (\<lambda>r s. r = None \<longrightarrow> I s)"
  shows "calls I A (forM xs body) (\<lambda>_ _. True)"
  using assms
proof (induction xs)
  case (Cons x xs)
  show ?case unfolding forM.simps
  proof (rule calls_bindM)
    show "calls I A (body x) (\<lambda>r s. r = None \<longrightarrow> I s)" by (rule Cons.prems) simp
    show "calls (\<lambda>s. r = None \<longrightarrow> I s) A (case r of None \<Rightarrow> forM xs body | Some v \<Rightarrow> ret (Some v)) (\<lambda>_ _. True)" for r
      by (cases r) (use Cons in \<open>auto intro: calls_ret\<close>)
  qed
qed (auto intro: calls_ret)

lemma calls_lift: "(\<And>a s. r = Return a \<Longrightarrow> I s \<Longrightarrow> Q a s) \<Longrightarrow> calls I A (lift r) Q"
  by (auto simp: calls_def lift_def)

section \<open>A template change keeps the replicas\<close>

text \<open>
  An update of the stateful set of the rack at an index: the set has the name of that rack's set,
  and the replicas which the context has for that rack. A canary upgrade reaches the first rack
  only.
\<close>

definition updatesRack :: "world \<Rightarrow> nat \<Rightarrow> StatefulSet \<Rightarrow> bool" where
  "updatesRack s idx u \<longleftrightarrow> idx < length (desiredRackInformation s) \<and> idx < length (statefulSets s)
     \<and> (Namespace u, Name u) = newNamespacedNameForStatefulSet (Datacenter s) (RackName (desiredRackInformation s ! idx))
     \<and> map_option Replicas (statefulSets s ! idx) = Some (Replicas u)
     \<and> (CanaryUpgrade (Spec (Datacenter s)) \<longrightarrow> idx = 0)"

text \<open>The only writes of stateful sets are such updates.\<close>

fun keepsCount :: "world \<Rightarrow> nat \<Rightarrow> call \<Rightarrow> bool" where
  "keepsCount s idx (UpdateSts u) = updatesRack s idx u"
| "keepsCount s idx (CreateSts u) = False"
| "keepsCount s idx (PatchSts b u) = False"
| "keepsCount s idx _ = True"

text \<open>
  What the turns before the change keep: the stateful sets, and the part of the datacenter that
  names the sets and asks for a canary upgrade.
\<close>

definition upgradeKey :: "CassandraDatacenter \<Rightarrow> string \<times> string \<times> string \<times> bool" where
  "upgradeKey dc = (Namespace dc, Name dc, ClusterName (Spec dc), CanaryUpgrade (Spec dc))"

abbreviation untouched :: "world \<Rightarrow> world \<Rightarrow> bool" where
  "untouched s0 s \<equiv> statefulSets s = statefulSets s0 \<and> upgradeKey (Datacenter s) = upgradeKey (Datacenter s0)"

lemma setName_key: "upgradeKey dc = upgradeKey dc' \<Longrightarrow> newNamespacedNameForStatefulSet dc rack = newNamespacedNameForStatefulSet dc' rack"
  by (simp add: upgradeKey_def newNamespacedNameForStatefulSet_def)

lemma AddHashAnnotation_name: "Name (AddHashAnnotation h obj) = Name obj" "Namespace (AddHashAnnotation h obj) = Namespace obj"
  by (simp_all add: AddHashAnnotation_def Let_def)

lemma buildStatefulSet_name:
  "buildStatefulSet E rack dc n b labels = Return d \<Longrightarrow> (Namespace d, Name d) = newNamespacedNameForStatefulSet dc rack"
  by (auto simp: buildStatefulSet_def obind_eq_Return_iff Let_def AddHashAnnotation_name AddStatefulSetChanges_def
      rackStatefulSet_def newNamespacedNameForStatefulSet_def ObjectMeta.defs emptyMeta_def split: option.splits if_splits)

lemma rackNodeAffinitylabels_key: "rackNodeAffinitylabels dc rack = (r, dc') \<Longrightarrow> upgradeKey dc' = upgradeKey dc"
  by (auto simp: rackNodeAffinitylabels_def upgradeKey_def Let_def split: option.splits outcome.splits)

lemma newStatefulSet_named:
  assumes "newStatefulSetForCassandraDatacenterHelper E rack dc n b = (r, dc')"
  shows "upgradeKey dc' = upgradeKey dc"
    "r = Return d \<Longrightarrow> (Namespace d, Name d) = newNamespacedNameForStatefulSet dc rack"
proof -
  obtain labels where built: "rackNodeAffinitylabels dc rack = (labels, dc')" "r = obind labels (buildStatefulSet E rack dc' n b)"
    using assms by (auto simp: newStatefulSetForCassandraDatacenterHelper_def split: prod.splits)
  show key: "upgradeKey dc' = upgradeKey dc" by (rule rackNodeAffinitylabels_key [OF built(1)])
  show "(Namespace d, Name d) = newNamespacedNameForStatefulSet dc rack" if "r = Return d"
    using that built(2) buildStatefulSet_name setName_key [OF key] by (auto simp: obind_eq_Return_iff)
qed

text \<open>The set that the change is going to write: its name and, once they are carried over, its replicas.\<close>

abbreviation ofRack :: "world \<Rightarrow> string \<Rightarrow> StatefulSet \<Rightarrow> bool" where
  "ofRack s0 rack d \<equiv> (Namespace d, Name d) = newNamespacedNameForStatefulSet (Datacenter s0) rack"

lemma newSts_named: "calls (untouched s0) A (newSts E b rack) (\<lambda>d s. untouched s0 s \<and> ofRack s0 rack d)"
proof (rule callsI)
  fix s r t
  assume I: "untouched s0 s" and eq: "newSts E b rack s = (r, t)"
  obtain q dc' where built: "newStatefulSetForCassandraDatacenterHelper E rack (Datacenter s) 0 b = (q, dc')" by fastforce
  have "r = q" "t = s\<lparr>Datacenter := dc'\<rparr>"
    using eq built by (auto simp: newSts_def newStatefulSetForCassandraDatacenter_def
      newStatefulSetForCassandraDatacenterWithDefunctPvcManagedBy_def rc_eval lift_def split: if_splits)
  then show "(\<exists>cs. log t = log s @ cs \<and> list_all A cs) \<and> (\<forall>d. r = Return d \<longrightarrow> untouched s0 t \<and> ofRack s0 rack d)"
    using I newStatefulSet_named [OF built] setName_key [of "Datacenter s" "Datacenter s0"] by simp
qed

lemma calls_getDc: "calls I A getDc (\<lambda>_. I)"
  by (auto simp: calls_def getDc_eq_iff)

lemma owner_keeps: "calls I A (setControllerReference E dc d) (\<lambda>d' s. I s \<and> Name d' = Name d \<and> Namespace d' = Namespace d)"
  by (rule callsI) (auto simp: setControllerReference_def rc_eval lift_def of_sum_def split: sum.splits)

lemma getSts_reads:
  "calls (untouched s0) A (getSts idx) (\<lambda>sts s. untouched s0 s \<and> idx < length (statefulSets s0) \<and> statefulSets s0 ! idx = Some sts)"
  by (auto simp: calls_def getSts_def rc_eval split: if_splits option.splits)

lemma keepAdminChanges_keeps:
  "keepAdminChanges sts desired = Return d \<Longrightarrow> Replicas d = Replicas sts \<and> Name d = Name desired \<and> Namespace d = Namespace desired"
  by (auto simp: keepAdminChanges_def obind_eq_Return_iff)

text \<open>From the replacement on, the context holds the set to be written at the index of the rack.\<close>

abbreviation holds :: "world \<Rightarrow> nat \<Rightarrow> world \<Rightarrow> bool" where
  "holds s0 idx s \<equiv> idx < length (statefulSets s) \<and> (\<exists>d. statefulSets s ! idx = Some d \<and> updatesRack s0 idx d)"

lemma holds_calls:
  assumes "emits (keepsCount s0 idx) m" "\<And>S. preserves (sameSts S) m"
  shows "calls (holds s0 idx) (keepsCount s0 idx) m (\<lambda>_. holds s0 idx)"
  using assms by (intro calls_preserves) (auto simp: preserves_def)

lemma setSts_holds:
  assumes "idx < length (statefulSets s0)" "updatesRack s0 idx d"
  shows "calls (untouched s0) A (setSts idx d) (\<lambda>_. holds s0 idx)"
  using assms by (auto simp: calls_def setSts_def rc_eval)

lemma updateSts_holds: "calls (holds s0 idx) (keepsCount s0 idx) (updateSts E idx) (\<lambda>_ _. True)"
  by (auto simp: calls_def updateSts_def getSts_def perform_def setSts_def rc_eval of_sum_def
    split: sum.splits prod.splits outcome.splits)

lemma announced_update:
  "calls (holds s0 idx) (keepsCount s0 idx) (bindM (Eventf NormalEvent ''UpdatingRack'' msg) (\<lambda>_.
      bindM (setCondition E c) (\<lambda>updated.
      orError (if updated then patchDcStatus E dc else ret ()) (\<lambda>_.
      orError (setOperatorProgressStatus E ProgressUpdating) (\<lambda>_.
      orError (updateSts E idx) (\<lambda>_. orError (enableQuietPeriod E 20) (\<lambda>_. ret Done))))))) (\<lambda>res _. Completed res)"
proof -
  have sent: "calls (holds s0 idx) (keepsCount s0 idx) (orError (updateSts E idx) (\<lambda>_.
      orError (enableQuietPeriod E 20) (\<lambda>_. ret Done))) (\<lambda>res _. Completed res)"
    by (intro calls_orError_post [OF updateSts_holds] calls_orError_post [OF calls_emits] calls_ret)
      (auto intro!: emits_intros)
  show ?thesis
    by (intro calls_bindM [OF holds_calls] calls_orError_post [OF holds_calls] sent) (auto intro!: emits_intros preserves_intros)
qed

lemma replaceSts_holds:
  assumes k: "calls (holds s0 idx) A k Q" and set: "idx < length (statefulSets s0)" "statefulSets s0 ! idx = Some sts"
    and rack: "idx < length (desiredRackInformation s0)" "ofRack s0 (RackName (desiredRackInformation s0 ! idx)) desired"
      "CanaryUpgrade (Spec (Datacenter s0)) \<longrightarrow> idx = 0"
    and f: "\<And>d. Replicas (f d) = Replicas d \<and> Name (f d) = Name d \<and> Namespace (f d) = Namespace d"
  shows "calls (untouched s0) A (bindM (lift (keepAdminChanges sts desired)) (\<lambda>desired.
    bindM (setSts idx (f desired)) (\<lambda>_. k))) Q"
proof (rule calls_bindM)
  let ?J = "\<lambda>d s. untouched s0 s \<and> updatesRack s0 idx (f d)"
  show "calls (untouched s0) A (lift (keepAdminChanges sts desired)) ?J"
    using assms(2-) by (intro calls_lift) (auto simp: updatesRack_def dest!: keepAdminChanges_keeps)
  show "calls (?J d) A (bindM (setSts idx (f d)) (\<lambda>_. k)) Q" for d
    using set by (intro calls_given calls_bindM [OF setSts_holds k])
qed

lemma checkTemplateOfRack_writes:
  assumes rack: "idx < length (desiredRackInformation s0)" "rackInfo = desiredRackInformation s0 ! idx"
      "CanaryUpgrade (Spec (Datacenter s0)) \<longrightarrow> idx = 0"
  shows "calls (untouched s0) (keepsCount s0 idx) (checkTemplateOfRack E idx rackInfo) (\<lambda>res s. Completed res \<or> untouched s0 s)"
proof -
  let ?I = "untouched s0" and ?A = "keepsCount s0 idx" and ?Q = "\<lambda>res s. Completed res \<or> untouched s0 s"
  have replaced: "calls (\<lambda>s. ?I s \<and> idx < length (statefulSets s0) \<and> statefulSets s0 ! idx = Some sts) ?A
      (orError (newSts E b (RackName rackInfo)) (\<lambda>desired. bindM getDc (\<lambda>dc. orError (setControllerReference E dc desired) (\<lambda>desired.
         if \<not> ResourcesHaveSameHash sts desired
         then bindM (lift (keepAdminChanges sts desired)) (\<lambda>desired. bindM (setSts idx (g dc desired)) (\<lambda>_. k dc))
         else rest)))) ?Q"
    if "\<And>dc. calls (holds s0 idx) ?A (k dc) (\<lambda>res _. Completed res)" "calls ?I ?A rest (\<lambda>_. ?I)"
       "\<And>dc d. Replicas (g dc d) = Replicas d \<and> Name (g dc d) = Name d \<and> Namespace (g dc d) = Namespace d" for sts b k rest g
  proof (rule calls_given, rule calls_orError_post [OF newSts_named], rule calls_given, rule calls_bindM [OF calls_getDc],
      rule calls_orError_post [OF owner_keeps], rule calls_given, rule calls_if)
    fix d d' :: StatefulSet and dc
    assume "idx < length (statefulSets s0) \<and> statefulSets s0 ! idx = Some sts"
      "ofRack s0 (RackName rackInfo) d" "Name d' = Name d \<and> Namespace d' = Namespace d"
    then show "calls ?I ?A (bindM (lift (keepAdminChanges sts d')) (\<lambda>desired. bindM (setSts idx (g dc desired)) (\<lambda>_. k dc))) ?Q"
      using rack that(3) by (intro calls_post [OF replaceSts_holds [OF that(1)]]) auto
    show "calls ?I ?A rest ?Q" by (rule calls_post [OF that(2)]) simp
  qed simp_all
  show ?thesis
    unfolding checkTemplateOfRack_def desiredStatefulSetForExistingStatefulSet_def
    by (intro calls_bindM [OF getSts_reads] replaced announced_update) (auto intro: calls_ret)
qed

lemma logs_nothing:
  assumes "emits (\<lambda>_. False) m" "m s = (r, t)"
  shows "log t = log s"
proof -
  obtain cs where "log t = log s @ cs" "list_all (\<lambda>_. False) cs" using assms by (elim emitsD)
  then show ?thesis by (cases cs) simp_all
qed

lemma checkTemplateOfRack_Continue:
  assumes "checkTemplateOfRack E idx rackInfo s = (Return Continue, t)"
  shows "log t = log s"
proof -
  have "emits (\<lambda>_. False) (newSts E b rack)" for b rack
    by (auto simp: newSts_def intro!: emits_intros split: prod.splits)
  note built = logs_nothing [OF this] and owned = logs_nothing [OF emits_owner] and got = logs_nothing [OF emits_sts(1)]
  show ?thesis
    using assms
    by (auto simp: checkTemplateOfRack_def desiredStatefulSetForExistingStatefulSet_def bindM_eq_Return_iff
       orError_eq_Return_iff ret_eq_iff getDc_eq_iff dest!: built owned got split: if_splits)
qed

lemma templateTurn_writes:
  assumes "(idx, rackInfo) \<in> set (enumerate 0 (desiredRackInformation s0))"
  shows "calls (untouched s0) (keepsCount s0 idx) (bindM getDc (\<lambda>dc. if CanaryUpgrade (Spec dc) \<and> idx > 0 then ret (Some Continue)
      else bindM (checkTemplateOfRack E idx rackInfo) (\<lambda>res. ret (if Completed res then Some res else None))))
    (\<lambda>r s. r = None \<longrightarrow> untouched s0 s)"
proof (rule calls_bindM)
  let ?J = "\<lambda>dc s. untouched s0 s \<and> CanaryUpgrade (Spec dc) = CanaryUpgrade (Spec (Datacenter s0))"
  show "calls (untouched s0) (keepsCount s0 idx) getDc ?J"
    by (auto simp: calls_def getDc_eq_iff upgradeKey_def)
  show "calls (?J dc) (keepsCount s0 idx) (if CanaryUpgrade (Spec dc) \<and> idx > 0 then ret (Some Continue)
      else bindM (checkTemplateOfRack E idx rackInfo) (\<lambda>res. ret (if Completed res then Some res else None)))
    (\<lambda>r s. r = None \<longrightarrow> untouched s0 s)" for dc
    using assms
    by (intro calls_given calls_if calls_bindM [OF checkTemplateOfRack_writes] calls_ret)
      (auto simp: in_set_enumerate_eq split: if_splits)
qed

text \<open>
  C3. A change of the pod template keeps the size of the racks and is made in one rack at a time:
  there is one rack such that every stateful set that the step writes is an update of the set
  with the name of that rack's set, with the replica count which the context has for that rack.
  No set is created or patched. In a canary upgrade the rack is the first one.
\<close>

theorem template_change_keeps_replicas:
  assumes "CheckRackPodTemplate E s = (r, t)"
  shows "\<exists>idx cs. log t = log s @ cs \<and> list_all (keepsCount s idx) cs"
proof -
  let ?turn = "\<lambda>(idx, rackInfo). bindM getDc (\<lambda>dc. if CanaryUpgrade (Spec dc) \<and> idx > 0 then ret (Some Continue)
    else bindM (checkTemplateOfRack E idx rackInfo) (\<lambda>res. ret (if Completed res then Some res else None)))"
  have "calls (untouched s) (keepsCount s (fst x)) (?turn x) (\<lambda>r. \<lambda>u. r = None \<longrightarrow> untouched s u)"
    if "x \<in> set (enumerate 0 (desiredRackInformation s))" for x
    using templateTurn_writes that by (cases x) simp
  moreover have "log v = log u" if "?turn x u = (Return None, v)" for x u v
    using that by (auto simp: bindM_eq_Return_iff getDc_eq_iff ret_eq_iff split: prod.splits if_splits
      elim!: Completed.elims intro: checkTemplateOfRack_Continue)
  ultimately have turns: "callsOne (untouched s) (keepsCount s) (forM (enumerate 0 (desiredRackInformation s)) ?turn)"
    by (intro callsOne_forM [where g = fst]) blast+
  have "callsOne (untouched s) (keepsCount s) (returning (forM (enumerate 0 (desiredRackInformation s)) ?turn) (ret Continue))"
    by (intro callsOne_returning turns) (simp add: ret_run)
  moreover have "returning (forM (enumerate 0 (desiredRackInformation s)) ?turn) (ret Continue) s = (r, t)"
    using assms by (simp add: CheckRackPodTemplate_def bindM_def gets_def)
  ultimately show ?thesis using callsOneD [of "untouched s"] by blast
qed

definition upgradeWorld :: world where
  "upgradeWorld = sampleWorld\<lparr>Datacenter := storedDc,
     desiredRackInformation := [\<lparr>RackName = ''r1'', NodeCount = 3, SeedCount = 1\<rparr>, \<lparr>RackName = ''r2'', NodeCount = 3, SeedCount = 1\<rparr>],
     statefulSets := [Some (sampleSts ''sts'' 3), Some (sampleSts ''sts2'' 3)]\<rparr>"

text \<open>Two racks of the same size whose sets both differ: the set of the first one is written.\<close>

theorem template_change_keeps_replicas_witness:
  "\<exists>idx cs. log (snd (CheckRackPodTemplate sampleEnv upgradeWorld)) = cs \<and> list_all (keepsCount upgradeWorld idx) cs
     \<and> list_ex (\<lambda>c. case c of UpdateSts u \<Rightarrow> (Namespace u, Name u) = newNamespacedNameForStatefulSet storedDc ''r1''
          \<and> Replicas u = Some 3 | _ \<Rightarrow> False) cs"
proof -
  have "list_ex (\<lambda>c. case c of UpdateSts u \<Rightarrow> (Namespace u, Name u) = newNamespacedNameForStatefulSet storedDc ''r1''
      \<and> Replicas u = Some 3 | _ \<Rightarrow> False) (log (snd (CheckRackPodTemplate sampleEnv upgradeWorld)))"
    by code_simp
  moreover have "log upgradeWorld = []" by (simp add: upgradeWorld_def sampleWorld_def)
  ultimately show ?thesis
    using template_change_keeps_replicas [OF prod.collapse [symmetric], of sampleEnv upgradeWorld] by simp
qed

section \<open>A rolling restart ends\<close>

abbreviation outdated :: "world \<Rightarrow> nat \<Rightarrow> bool" where
  "outdated s i \<equiv> CreationTimestamp (podStore s ! i) < LastRollingRestart (Status (Datacenter s))"

definition outdatedPods :: "world \<Rightarrow> nat list" where
  "outdatedPods s = filter (outdated s) (dcPods s)"

definition restartTurn :: "env \<Rightarrow> int \<Rightarrow> nat \<Rightarrow> (world, ReconcileResult option) op" where
  "restartTurn E since = (\<lambda>i. bindM (getPod i) (\<lambda>pod.
     if CreationTimestamp pod < since then
       bindM (Eventf NormalEvent ''RestartingCassandra'' (''Restarting Cassandra for pod '' @ Name pod)) (\<lambda>_.
       bindM (attempt (CallDrainEndpoint E pod)) (\<lambda>_.
       bindM (orError (perform (e_unit E) (DeletePod pod)) (\<lambda>_. ret Done)) (\<lambda>res.
       ret (Some res))))
     else ret None))"

lemma forM_turn:
  "f x s = (Return None, t) \<Longrightarrow> forM (x # xs) f s = forM xs f t"
  "f x s = (Return (Some v), t) \<Longrightarrow> forM (x # xs) f s = (Return (Some v), t)"
  by (simp_all add: bindM_def ret_run)

lemma CallDrainEndpoint_run:
  obtains r cs k where "CallDrainEndpoint E pod s = (r, s\<lparr>log := log s @ cs, ticks := k\<rparr>)" "r \<noteq> Panic"
proof -
  obtain r t where drain: "CallDrainEndpoint E pod s = (r, t)" by fastforce
  have "quiet (\<lambda>_. True) (CallDrainEndpoint E pod)" by (rule quiet_CallDrainEndpoint) simp
  from quietD [OF this drain] obtain cs k where "t = s\<lparr>log := log s @ cs, ticks := k\<rparr>" by blast
  moreover have "r \<noteq> Panic"
    using drain by (auto simp: CallDrainEndpoint_def callNodeMgmtEndpoint_def BuildPodHostFromPod_def rc_eval Let_def
      of_sum_def split: if_splits sum.splits responseBody.splits)
  ultimately show thesis using that drain by blast
qed

lemma restartTurn_current:
  "\<not> CreationTimestamp (podStore s ! i) < since \<Longrightarrow> restartTurn E since i s = (Return None, s)"
  by (simp add: restartTurn_def getPod_def rc_eval)

lemma restartTurn_outdated:
  assumes "CreationTimestamp (podStore s ! i) < since"
  obtains res cs k where "restartTurn E since i s =
    (Return (Some res), s\<lparr>log := log s @ cs @ [DeletePod (podStore s ! i)], ticks := k\<rparr>)" "Completed res"
proof -
  let ?pod = "podStore s ! i"
  let ?u = "s\<lparr>log := log s @ [Event NormalEvent ''RestartingCassandra'' (''Restarting Cassandra for pod '' @ Name ?pod)]\<rparr>"
  obtain r cs k where "CallDrainEndpoint E ?pod ?u = (r, ?u\<lparr>log := log ?u @ cs, ticks := k\<rparr>)" "r \<noteq> Panic"
    by (rule CallDrainEndpoint_run)
  then obtain res where "restartTurn E since i s =
    (Return (Some res), s\<lparr>log := log s @ (Event NormalEvent ''RestartingCassandra'' (''Restarting Cassandra for pod '' @ Name ?pod)
       # cs) @ [DeletePod ?pod], ticks := k\<rparr>)" "Completed res"
    using assms by (cases r; cases "e_unit E (log ?u @ cs) (DeletePod ?pod)")
      (auto simp: restartTurn_def getPod_def rc_eval orError_def of_sum_def)
  then show thesis by (rule that)
qed

lemma restartTurns:
  assumes "since = LastRollingRestart (Status (Datacenter s))"
  shows "(filter (outdated s) idxs = [] \<longrightarrow> forM idxs (restartTurn E since) s = (Return None, s)) \<and>
    (filter (outdated s) idxs \<noteq> [] \<longrightarrow> (\<exists>res cs k. forM idxs (restartTurn E since) s = (Return (Some res),
       s\<lparr>log := log s @ cs @ [DeletePod (podStore s ! hd (filter (outdated s) idxs))], ticks := k\<rparr>) \<and> Completed res))"
proof (induction idxs)
  case (Cons i idxs)
  show ?case
  proof (cases "outdated s i")
    case True
    then have "CreationTimestamp (podStore s ! i) < since" using assms by simp
    from restartTurn_outdated [OF this, of E] obtain res cs k where "restartTurn E since i s =
      (Return (Some res), s\<lparr>log := log s @ cs @ [DeletePod (podStore s ! i)], ticks := k\<rparr>)" "Completed res" .
    with True show ?thesis using forM_turn(2) by fastforce
  next
    case False
    then have "restartTurn E since i s = (Return None, s)" using assms by (intro restartTurn_current) simp
    then show ?thesis using Cons.IH False by (simp only: forM_turn(1) filter.simps if_False)
  qed
qed (simp add: ret_run)

lemma returning_run:
  "loop s = (Return None, t) \<Longrightarrow> returning loop rest s = rest t"
  "loop s = (Return (Some v), t) \<Longrightarrow> returning loop rest s = (Return v, t)"
  by (simp_all add: returning_def bindM_def ret_run)

text \<open>With no new request, the step looks at the pods of the datacenter in order.\<close>

lemma CheckRollingRestart_cases:
  assumes "\<not> RollingRestartRequested (Spec (Datacenter s))"
  shows "outdatedPods s = [] \<Longrightarrow> CheckRollingRestart E s = (Return Continue, s)"
    "outdatedPods s \<noteq> [] \<Longrightarrow> \<exists>res cs k. CheckRollingRestart E s =
       (Return res, s\<lparr>log := log s @ cs @ [DeletePod (podStore s ! hd (outdatedPods s))], ticks := k\<rparr>) \<and> Completed res"
proof -
  let ?since = "LastRollingRestart (Status (Datacenter s))"
  have step: "CheckRollingRestart E s = returning (forM (dcPods s) (restartTurn E ?since)) (ret Continue) s"
    using assms by (simp add: CheckRollingRestart_def restartTurn_def bindM_def orError_def attempt_def getDc_def gets_def ret_run)
  note turns = restartTurns [OF refl, of s "dcPods s" E, folded outdatedPods_def]
  show "CheckRollingRestart E s = (Return Continue, s)" if "outdatedPods s = []"
    unfolding step using turns that by (simp add: returning_run ret_run)
  show "\<exists>res cs k. CheckRollingRestart E s =
      (Return res, s\<lparr>log := log s @ cs @ [DeletePod (podStore s ! hd (outdatedPods s))], ticks := k\<rparr>) \<and> Completed res"
    if "outdatedPods s \<noteq> []"
  proof -
    from turns that obtain res cs k where "forM (dcPods s) (restartTurn E ?since) s = (Return (Some res),
       s\<lparr>log := log s @ cs @ [DeletePod (podStore s ! hd (outdatedPods s))], ticks := k\<rparr>)" "Completed res" by blast
    then show ?thesis unfolding step by (metis returning_run(2))
  qed
qed

text \<open>
  A pass of a rolling restart together with what the cluster does about it: the step deletes a
  pod, and its stateful set starts a new one in its place, created after the restart was asked for.
\<close>

inductive restarted :: "env \<Rightarrow> world \<Rightarrow> world \<Rightarrow> bool" for E where
  pass: "CheckRollingRestart E s = (Return Done, t) \<Longrightarrow> last (log t) = DeletePod (podStore s ! i) \<Longrightarrow> i \<in> set (dcPods s) \<Longrightarrow>
     LastRollingRestart (Status (Datacenter s)) \<le> CreationTimestamp fresh \<Longrightarrow>
     restarted E s (t\<lparr>podStore := (podStore t)[i := fresh]\<rparr>)"

definition restarting :: "world \<Rightarrow> bool" where
  "restarting s \<longleftrightarrow> \<not> RollingRestartRequested (Spec (Datacenter s)) \<and> distinct (dcPods s)
     \<and> list_all (\<lambda>i. i < length (podStore s)) (dcPods s)"

lemma length_filter_but_one:
  assumes "distinct xs" "i \<in> set xs" "P i" "\<And>j. j \<in> set xs \<Longrightarrow> Q j \<longleftrightarrow> P j \<and> j \<noteq> i"
  shows "length (filter P xs) = Suc (length (filter Q xs))"
proof -
  have "set (filter P xs) = insert i (set (filter Q xs))" "i \<notin> set (filter Q xs)" using assms by auto
  then have "card (set (filter P xs)) = Suc (card (set (filter Q xs)))" by simp
  then show ?thesis using assms(1) by (simp only: distinct_card distinct_filter)
qed

lemma restarted_decreases:
  assumes "restarted E s s'" "restarting s"
  shows "restarting s'" "length (outdatedPods s) = Suc (length (outdatedPods s'))"
  using assms
proof (atomize (full), induction rule: restarted.cases)
  case (pass s t i fresh)
  then have ne: "outdatedPods s \<noteq> []" and req: "\<not> RollingRestartRequested (Spec (Datacenter s))"
    using CheckRollingRestart_cases(1) by (auto simp: restarting_def)
  from CheckRollingRestart_cases(2) [OF req ne, of E] pass obtain cs k where
    t: "t = s\<lparr>log := log s @ cs @ [DeletePod (podStore s ! hd (outdatedPods s))], ticks := k\<rparr>" by auto
  with pass have same: "podStore s ! i = podStore s ! hd (outdatedPods s)" by simp
  have "hd (outdatedPods s) \<in> set (outdatedPods s)" using ne by simp
  then have "outdated s (hd (outdatedPods s))" by (simp add: outdatedPods_def)
  then have "outdated s i" using same by simp
  moreover have "j < length (podStore s)" if "j \<in> set (dcPods s)" for j
    using pass that by (simp add: restarting_def list_all_iff)
  ultimately have "length (filter (outdated s) (dcPods s)) =
      Suc (length (filter (outdated (t\<lparr>podStore := (podStore t)[i := fresh]\<rparr>)) (dcPods s)))"
    using pass by (intro length_filter_but_one) (auto simp: restarting_def t nth_list_update)
  then show ?case using pass by (auto simp: restarting_def t outdatedPods_def)
qed

text \<open>
  C9. A rolling restart ends after as many passes as there are pods created before it was asked
  for: every pass that deletes a pod leaves one such pod less, provided that the replacements are
  created later. While one is left the step deletes the first of them and ends the pass; when
  none is left it goes on without a call.
\<close>

theorem rolling_restart_terminates:
  assumes "(restarted E ^^ n) s s'" "restarting s"
  shows "length (outdatedPods s') + n = length (outdatedPods s)
    \<and> (if outdatedPods s' = [] then CheckRollingRestart E s' = (Return Continue, s')
       else \<exists>res t. CheckRollingRestart E s' = (Return res, t) \<and> Completed res
         \<and> last (log t) = DeletePod (podStore s' ! hd (outdatedPods s')))"
proof -
  have "restarting s' \<and> length (outdatedPods s') + n = length (outdatedPods s)"
    using assms
  proof (induction n arbitrary: s')
    case (Suc n)
    then obtain u where "(restarted E ^^ n) s u" "restarted E u s'" by auto
    then show ?case using Suc.IH [of u] Suc.prems(2) restarted_decreases [of E u s'] by simp
  qed simp
  moreover from this have "\<not> RollingRestartRequested (Spec (Datacenter s'))" by (simp add: restarting_def)
  note CheckRollingRestart_cases [OF this, of E]
  ultimately show ?thesis by fastforce
qed

definition restartWorld :: world where
  "restartWorld = sampleWorld\<lparr>
     Datacenter := sampleDc\<lparr>Status := sampleStatus\<lparr>LastRollingRestart := 500\<rparr>\<rparr>,
     podStore := [(samplePod ''pod-0'' [] ''node'')\<lparr>CreationTimestamp := 100\<rparr>], dcPods := [0]\<rparr>"

theorem rolling_restart_terminates_witness:
  "\<exists>s'. (restarted sampleEnv ^^ 1) restartWorld s' \<and> CheckRollingRestart sampleEnv s' = (Return Continue, s')"
proof -
  have old: "outdatedPods restartWorld = [0]" and ok: "restarting restartWorld" by code_simp+
  then have req: "\<not> RollingRestartRequested (Spec (Datacenter restartWorld))" by (simp add: restarting_def)
  obtain res cs k where run: "CheckRollingRestart sampleEnv restartWorld = (Return res,
      restartWorld\<lparr>log := log restartWorld @ cs @ [DeletePod (podStore restartWorld ! 0)], ticks := k\<rparr>)"
    using CheckRollingRestart_cases(2) [OF req, of sampleEnv] old by auto
  have "fst (CheckRollingRestart sampleEnv restartWorld) = Return Done" by code_simp
  then have "restarted sampleEnv restartWorld ((snd (CheckRollingRestart sampleEnv restartWorld))\<lparr>podStore :=
      (podStore (snd (CheckRollingRestart sampleEnv restartWorld)))[0 := samplePod ''pod-0'' [] ''node'' \<lparr>CreationTimestamp := 600\<rparr>]\<rparr>)"
    using run by (intro restarted.pass) (auto simp: restartWorld_def sampleStatus_def sampleDc_def ObjectMeta.defs)
  then obtain s' where step: "(restarted sampleEnv ^^ 1) restartWorld s'" by auto
  show ?thesis using rolling_restart_terminates [OF step ok] step old by auto
qed

end
