(* ===== verification/Records.thy ===== *)
theory Records
  imports Upgrades
begin

text \<open>
  The two records with one entry per key that the operator keeps: the conditions of a datacenter
  by type, and the health of the instances by name and namespace. Both promise the same: an entry
  is what was last put under its key, and there is one entry per key.
\<close>

section \<open>The interface\<close>

locale keyed_record =
  fixes key :: "'v \<Rightarrow> 'k" and view :: "'v \<Rightarrow> 'w" and look :: "'s \<Rightarrow> 'k \<Rightarrow> 'w option" and put :: "'s \<Rightarrow> 'v \<Rightarrow> 's"
    and one_each :: "'s \<Rightarrow> bool"
  assumes look_put: "look (put s v) k = (if k = key v then Some (view v) else look s k)"
    and put_one_each: "one_each s \<Longrightarrow> one_each (put s v)"
begin

text \<open>The last value put under the key, or what was there before.\<close>

lemma look_puts:
  "look (foldl put s vs) k =
     (case find (\<lambda>v. key v = k) (rev vs) of None \<Rightarrow> look s k | Some v \<Rightarrow> Some (view v))"
  by (induction vs rule: rev_induct) (auto simp: look_put)

lemma puts_one_each: "one_each s \<Longrightarrow> one_each (foldl put s vs)"
  by (induction vs rule: rev_induct) (auto simp: put_one_each)

lemma look_puts_kept: "k \<notin> key ` set vs \<Longrightarrow> look (foldl put s vs) k = look s k"
  by (induction vs rule: rev_induct) (auto simp: look_put)

end

section \<open>Conditions\<close>

lemma GetCondition_SetCondition:
  "GetCondition (SetCondition dc c) k = (if k = cond_Type c then Some c else GetCondition dc k)"
  by (simp add: GetCondition_def SetCondition_def find_Conditions_SetCondition)

interpretation cond: keyed_record cond_Type "\<lambda>c. c" GetCondition SetCondition "\<lambda>dc. condTypesDistinct (Status dc)"
  by unfold_locales (simp_all add: GetCondition_SetCondition, simp add: SetCondition_def condTypesDistinct_SetCondition)

text \<open>What \<^const>\<open>setCondition\<close> does with the datacenter: a condition whose status is the same is left alone.\<close>

definition changeCondition :: "CassandraDatacenter \<Rightarrow> DatacenterCondition \<Rightarrow> CassandraDatacenter" where
  "changeCondition dc c = (if GetConditionStatus dc (cond_Type c) \<noteq> cond_Status c then SetCondition dc c else dc)"

interpretation status: keyed_record cond_Type cond_Status "\<lambda>dc k. Some (GetConditionStatus dc k)" changeCondition
  "\<lambda>dc. condTypesDistinct (Status dc)"
  by unfold_locales (auto simp: changeCondition_def cond.put_one_each)

lemma setCondition_run:
  "setCondition E c s = (Return (GetConditionStatus (Datacenter s) (cond_Type c) \<noteq> cond_Status c),
     if GetConditionStatus (Datacenter s) (cond_Type c) \<noteq> cond_Status c
     then s\<lparr>Datacenter := changeCondition (Datacenter s) (c\<lparr>LastTransitionTime := e_now E (ticks s)\<rparr>), ticks := Suc (ticks s)\<rparr>
     else s)"
  by (simp add: setCondition_def changeCondition_def rc_eval)

lemma setConditions_run:
  "\<exists>b' cs k. setConditions E conds b s = (Return b', s\<lparr>Datacenter := foldl changeCondition (Datacenter s) cs, ticks := k\<rparr>)
     \<and> map (\<lambda>c. (cond_Type c, cond_Status c)) cs = conds
     \<and> (\<not> b' \<longrightarrow> \<not> b \<and> foldl changeCondition (Datacenter s) cs = Datacenter s)"
proof (induction conds arbitrary: b s)
  case Nil
  have "s = s\<lparr>Datacenter := Datacenter s, ticks := ticks s\<rparr>" by simp
  then show ?case by (auto simp: setConditions_def ret_run intro!: exI [of _ "ticks s"])
next
  case (Cons x conds)
  obtain ty st where x: "x = (ty, st)" by fastforce
  let ?c = "(NewDatacenterCondition ty st)\<lparr>LastTransitionTime := e_now E (ticks s)\<rparr>"
  let ?differs = "GetConditionStatus (Datacenter s) ty \<noteq> st"
  let ?u = "s\<lparr>Datacenter := changeCondition (Datacenter s) ?c, ticks := (if ?differs then Suc (ticks s) else ticks s)\<rparr>"
  have same: "changeCondition (Datacenter s) ?c = Datacenter s" if "\<not> ?differs"
    using that by (simp add: changeCondition_def NewDatacenterCondition_def)
  have "setCondition E (NewDatacenterCondition ty st) s = (Return ?differs, ?u)"
    using same by (auto simp: setCondition_run NewDatacenterCondition_def)
  then have first: "setConditions E (x # conds) b s = setConditions E conds (?differs \<or> b) ?u"
    by (simp add: setConditions_def x bindM_def ret_run)
  from Cons.IH [of "?differs \<or> b" ?u] obtain b' cs k where
    "setConditions E conds (?differs \<or> b) ?u =
       (Return b', ?u\<lparr>Datacenter := foldl changeCondition (Datacenter ?u) cs, ticks := k\<rparr>)"
    and cs: "map (\<lambda>c. (cond_Type c, cond_Status c)) cs = conds"
    and b': "\<not> b' \<longrightarrow> \<not> (?differs \<or> b) \<and> foldl changeCondition (Datacenter ?u) cs = Datacenter ?u" by blast
  then have "setConditions E (x # conds) b s =
      (Return b', s\<lparr>Datacenter := foldl changeCondition (Datacenter s) (?c # cs), ticks := k\<rparr>)"
    unfolding first by simp
  moreover have "map (\<lambda>c. (cond_Type c, cond_Status c)) (?c # cs) = x # conds"
    using cs x by (simp add: NewDatacenterCondition_def)
  moreover have "\<not> b' \<longrightarrow> \<not> b \<and> foldl changeCondition (Datacenter s) (?c # cs) = Datacenter s"
    using b' same by auto
  ultimately show ?case by (intro exI [of _ b'] exI [of _ "?c # cs"] exI [of _ k]) simp
qed

text \<open>
  C23. A list of conditions that the operator sets is afterwards what the datacenter reports: the
  status of a type is that of its last entry in the list, the others are as before, and no type
  has two conditions if none had. When the answer says that nothing changed, so that no patch
  is sent, the datacenter is the same.
\<close>

theorem conditions_report_last_set:
  assumes "setConditions E conds b s = (r, t)" "condTypesDistinct (Status (Datacenter s))"
  shows "\<exists>b'. r = Return b' \<and> (\<not> b' \<longrightarrow> Datacenter t = Datacenter s) \<and> condTypesDistinct (Status (Datacenter t))
    \<and> GetConditionStatus (Datacenter t) ty =
      (case map_of (rev conds) ty of None \<Rightarrow> GetConditionStatus (Datacenter s) ty | Some st \<Rightarrow> st)"
proof -
  obtain b' cs k where run: "setConditions E conds b s =
      (Return b', s\<lparr>Datacenter := foldl changeCondition (Datacenter s) cs, ticks := k\<rparr>)"
    and cs: "map (\<lambda>c. (cond_Type c, cond_Status c)) cs = conds"
    and b': "\<not> b' \<longrightarrow> foldl changeCondition (Datacenter s) cs = Datacenter s"
    using setConditions_run [of E conds b s] by blast
  from run assms(1) have r: "r = Return b'" and t: "Datacenter t = foldl changeCondition (Datacenter s) cs" by auto
  have "map_of (map (\<lambda>c. (cond_Type c, cond_Status c)) xs) ty = map_option cond_Status (find (\<lambda>c. cond_Type c = ty) xs)" for xs
    by (induction xs) auto
  then have "map_of (rev conds) ty = map_option cond_Status (find (\<lambda>c. cond_Type c = ty) (rev cs))"
    unfolding cs [symmetric] rev_map .
  moreover have "Some (GetConditionStatus (Datacenter t) ty) =
    (case find (\<lambda>c. cond_Type c = ty) (rev cs) of
       None \<Rightarrow> Some (GetConditionStatus (Datacenter s) ty) | Some c \<Rightarrow> Some (cond_Status c))"
    unfolding t by (rule status.look_puts)
  ultimately have "GetConditionStatus (Datacenter t) ty =
      (case map_of (rev conds) ty of None \<Rightarrow> GetConditionStatus (Datacenter s) ty | Some st \<Rightarrow> st)"
    by (simp split: option.splits)
  with r b' status.puts_one_each [OF assms(2), of cs] show ?thesis unfolding t by blast
qed

theorem conditions_report_last_set_witness:
  "GetConditionStatus (Datacenter (snd (setConditions sampleEnv
     [(DatacenterStopped, ConditionTrue), (DatacenterReady, ConditionFalse)] False sampleWorld))) DatacenterReady = ConditionFalse"
proof -
  have "condTypesDistinct (Status (Datacenter sampleWorld))" by code_simp
  from conditions_report_last_set [OF prod.collapse [symmetric] this, of sampleEnv
      "[(DatacenterStopped, ConditionTrue), (DatacenterReady, ConditionFalse)]" False DatacenterReady]
  show ?thesis by auto
qed

section \<open>Health of instances\<close>

lemma find_upsert:
  "find (\<lambda>x. f x = k) (case firstIndex (\<lambda>x. f x = f c) xs of Some i \<Rightarrow> xs[i := c] | None \<Rightarrow> xs @ [c]) =
     (if k = f c then Some c else find (\<lambda>x. f x = k) xs)"
  by (induction xs) (auto split: option.splits)

lemma distinct_upsert:
  assumes "distinct (map f xs)"
  shows "distinct (map f (case firstIndex (\<lambda>x. f x = f c) xs of Some i \<Rightarrow> xs[i := c] | None \<Rightarrow> xs @ [c]))"
proof (cases "firstIndex (\<lambda>x. f x = f c) xs")
  case (Some i)
  then have "map f (xs[i := c]) = map f xs"
    using firstIndex_Some [OF Some] by (metis list_update_id map_update nth_map)
  then show ?thesis using Some assms by simp
next
  case None
  then have "f c \<notin> f ` set xs" unfolding firstIndex_None_iff by force
  then show ?thesis using None assms by simp
qed

definition healthKey :: "InstanceHealth \<Rightarrow> string \<times> string" where
  "healthKey h = (ih_Instance h, ih_Namespace h)"

definition healthOf :: "Health \<Rightarrow> string \<times> string \<Rightarrow> InstanceHealth option" where
  "healthOf health k = find (\<lambda>h. healthKey h = k) (h_InstanceHealth health)"

lemma healthKey_createInstanceHealth: "healthKey (createInstanceHealth dc) = (Name dc, Namespace dc)"
  by (simp add: healthKey_def createInstanceHealth_def Let_def)

lemma updateHealth_eq:
  "h_InstanceHealth (updateHealth health dc) =
     (case firstIndex (\<lambda>h. healthKey h = healthKey (createInstanceHealth dc)) (h_InstanceHealth health) of
        Some i \<Rightarrow> (h_InstanceHealth health)[i := createInstanceHealth dc]
      | None \<Rightarrow> h_InstanceHealth health @ [createInstanceHealth dc])"
  unfolding healthKey_createInstanceHealth by (simp add: updateHealth_def healthKey_def Let_def)

interpretation health: keyed_record "\<lambda>dc. (Name dc, Namespace dc)" createInstanceHealth healthOf updateHealth
  "\<lambda>health. distinct (map healthKey (h_InstanceHealth health))"
proof
  show "healthOf (updateHealth s v) k = (if k = (Name v, Namespace v) then Some (createInstanceHealth v) else healthOf s k)" for s v k
    unfolding healthOf_def updateHealth_eq find_upsert by (simp add: healthKey_createInstanceHealth)
  show "distinct (map healthKey (h_InstanceHealth (updateHealth s v)))"
    if "distinct (map healthKey (h_InstanceHealth s))" for s v
    unfolding updateHealth_eq by (rule distinct_upsert [OF that])
qed

text \<open>
  C24. The health data lists every datacenter once: after updates for any sequence of datacenters,
  the entry of a name and namespace is computed from the last datacenter of the sequence that
  has them, an entry of another is kept, and no name and namespace has two entries.
\<close>

theorem health_lists_each_datacenter_once:
  assumes "distinct (map healthKey (h_InstanceHealth health))"
  shows "distinct (map healthKey (h_InstanceHealth (foldl updateHealth health dcs)))
    \<and> healthOf (foldl updateHealth health dcs) k =
      (case find (\<lambda>dc. (Name dc, Namespace dc) = k) (rev dcs) of
         None \<Rightarrow> healthOf health k | Some dc \<Rightarrow> Some (createInstanceHealth dc))"
  using health.puts_one_each [OF assms] health.look_puts by blast

theorem health_lists_each_datacenter_once_witness:
  "distinct (map healthKey (h_InstanceHealth emptyHealth))
   \<and> healthOf (foldl updateHealth emptyHealth [sampleDc, sampleGrownDc]) (''dc1'', ''ns'') = Some (createInstanceHealth sampleGrownDc)"
proof -
  have one: "distinct (map healthKey (h_InstanceHealth emptyHealth))" by (simp add: emptyHealth_def)
  have "Name sampleGrownDc = ''dc1''" "Namespace sampleGrownDc = ''ns''" by (simp_all add: sample_defs)
  then show ?thesis
    using health_lists_each_datacenter_once [OF one, of "[sampleDc, sampleGrownDc]" "(''dc1'', ''ns'')"] one by simp
qed

end
