(* ===== verification/Failures.thy ===== *)
theory Failures
  imports Records
begin

text \<open>
  Paths that end in an error or a panic, what is not read back after it was written, and what a
  request to the management API says.
\<close>

section \<open>A datacenter that is not valid\<close>

text \<open>
  C32. A datacenter whose condition Valid is false is not reconciled: the pass makes no call, does
  not change the context and ends with an error, whatever the specification says by then.
\<close>

theorem invalid_datacenter_not_reconciled:
  assumes "GetConditionStatus (Datacenter s) DatacenterValid = ConditionFalse"
  shows "\<exists>res e. ReconcileAllRacks E s = (Return (res, Some e), s)"
proof -
  obtain c where "GetCondition (Datacenter s) DatacenterValid = Some c" "cond_Status c = ConditionFalse"
    using assms by (auto simp: GetConditionStatus_def status_GetConditionStatus_def GetCondition_def split: option.splits)
  then show ?thesis
    by (auto simp: ReconcileAllRacks_def check_def CheckForInvalidState_def rc_eval)
qed

definition invalidWorld :: world where
  "invalidWorld = sampleWorld\<lparr>Datacenter :=
     SetCondition sampleDc (NewDatacenterConditionWithReason DatacenterValid ConditionFalse ''reason'' ''message'')\<rparr>"

theorem invalid_datacenter_not_reconciled_witness:
  "\<exists>res e. ReconcileAllRacks sampleEnv invalidWorld = (Return (res, Some e), invalidWorld)"
  by (rule invalid_datacenter_not_reconciled) (simp add: invalidWorld_def NewDatacenterConditionWithReason_def)

section \<open>A watched secret that does not exist\<close>

text \<open>
  The API server answers reads of secrets from a store, and a read of a secret that is not in it
  with the error that it is not found.
\<close>

definition servesSecrets :: "env \<Rightarrow> (NamespacedName \<Rightarrow> Secret option) \<Rightarrow> bool" where
  "servesSecrets E store \<longleftrightarrow> (\<forall>h n. case store n of
     None \<Rightarrow> \<exists>m. e_secret E h (GetSecret n) = Inl (NotFound m) | Some x \<Rightarrow> e_secret E h (GetSecret n) = Inr x)"

lemma getWatched_served:
  assumes "servesSecrets E store"
  shows "store n = None \<Longrightarrow> \<exists>m. getWatched E n s = (Fail (NotFound m), s\<lparr>log := log s @ [GetSecret n]\<rparr>)"
    "store n = Some x \<Longrightarrow> getWatched E n s = (Return x, s\<lparr>log := log s @ [GetSecret n]\<rparr>)"
  using assms [unfolded servesSecrets_def, THEN spec, THEN spec, of "log s" n]
  by (auto simp: getWatched_def perform_def of_sum_def)

text \<open>The loop over the secrets to watch: it reads until the first one that is missing.\<close>

lemma addWatches_served:
  assumes served: "servesSecrets E store"
  shows "\<exists>r cs. addWatches E watcher updates names s = (r, s\<lparr>log := log s @ cs\<rparr>) \<and> list_all isRead cs
    \<and> (if \<exists>n\<in>set names. store n = None then r = Panic else \<exists>updates'. r = Return updates')"
proof (induction names arbitrary: updates s)
  case Nil
  show ?case by (rule exI [of _ "Return updates"], rule exI [of _ "[]"]) (simp add: addWatches_def ret_run)
next
  case (Cons n names)
  let ?u = "s\<lparr>log := log s @ [GetSecret n]\<rparr>"
  show ?case
  proof (cases "store n")
    case None
    from getWatched_served(1) [OF served None] obtain m where "getWatched E n s = (Fail (NotFound m), ?u)" by blast
    then have "addWatches E watcher updates (n # names) s = (Panic, ?u)" by (simp add: addWatches_def rc_eval)
    then show ?thesis using None by (intro exI [of _ Panic] exI [of _ "[GetSecret n]"]) simp
  next
    case (Some x)
    define updates' where "updates' = (if fst (addWatcher E x watcher) then updates @ [(x, snd (addWatcher E x watcher))] else updates)"
    have step: "addWatches E watcher updates (n # names) s = addWatches E watcher updates' names ?u"
      using getWatched_served(2) [OF served Some, of s]
      by (simp add: addWatches_def updates'_def bindM_def attempt_def ret_run split_beta)
    from Cons.IH [of updates' ?u] obtain r cs where run: "addWatches E watcher updates' names ?u = (r, ?u\<lparr>log := log ?u @ cs\<rparr>)"
      "list_all isRead cs" "if \<exists>n\<in>set names. store n = None then r = Panic else \<exists>updates'. r = Return updates'" by blast
    then show ?thesis using Some unfolding step by (intro exI [of _ r] exI [of _ "GetSecret n # cs"]) simp
  qed
qed

lemma persistWatches_no_panic: "fst (persistWatches E updates s) \<noteq> Panic"
proof -
  let ?patch = "\<lambda>errs (base, item). bindM (attempt (perform (e_secret E) (PatchSecret base item))) (\<lambda>r.
    case r of Inl e \<Rightarrow> ret (errs @ [e]) | Inr _ \<Rightarrow> ret errs)"
  have "\<exists>errs' t. foldM ?patch errs updates s = (Return errs', t)" for errs
  proof (induction updates arbitrary: errs s)
    case (Cons p updates)
    obtain base item where p: "p = (base, item)" by fastforce
    obtain errs' u where "?patch errs p s = (Return errs', u)"
      unfolding p by (cases "e_secret E (log s) (PatchSecret base item)") (auto simp: rc_eval of_sum_def)
    then show ?case using Cons.IH [of errs' u] by (simp add: bindM_def)
  qed (simp add: ret_run)
  then obtain errs t where "foldM ?patch [] updates s = (Return errs, t)" by blast
  then show ?thesis by (cases errs) (simp_all add: persistWatches_def bindM_def ret_run fail_run)
qed

text \<open>
  C34. Watching a secret that does not exist panics. When the watched secrets can be listed and the
  API server answers reads from a store, the update of the watches of a datacenter panics exactly
  when one of the secrets to watch, at any place of the list, is missing from the store; it has
  then only read, so none of the other secrets gets its watch either.
\<close>

theorem missing_watched_secret_panics:
  assumes "e_secrets E (log s) (ListSecrets (fst watcher) (mapOf [(WatchedLabel, ''true'')])) = Inr items"
    and "servesSecrets E store" "UpdateWatch E watcher names s = (r, t)"
  shows "(r = Panic \<longleftrightarrow> (\<exists>n\<in>set names. store n = None))
    \<and> (r = Panic \<longrightarrow> (\<exists>cs. log t = log s @ cs \<and> list_all isRead cs))"
proof -
  let ?L = "ListSecrets (fst watcher) (mapOf [(WatchedLabel, ''true'')])" and ?w = "namespacedNameToString watcher"
  let ?u = "s\<lparr>log := log s @ [?L]\<rparr>"
  obtain q cs where add: "addWatches E ?w (staleUpdates E ?w (namespacedNamesToStringArray names) items) names ?u
      = (q, ?u\<lparr>log := log ?u @ cs\<rparr>)" "list_all isRead cs"
    "if \<exists>n\<in>set names. store n = None then q = Panic else \<exists>updates. q = Return updates"
    using addWatches_served [OF assms(2)] by blast
  have run: "UpdateWatch E watcher names s = bindM (addWatches E ?w (staleUpdates E ?w (namespacedNamesToStringArray names) items) names)
      (persistWatches E) ?u"
    using assms(1) by (simp add: UpdateWatch_def listAllWatched_def rc_eval)
  show ?thesis
  proof (cases "\<exists>n\<in>set names. store n = None")
    case True
    then have "r = Panic" "log t = log s @ ?L # cs" using add run assms(3) by (auto simp: bindM_def)
    then show ?thesis using True add(2) by (simp add: exI [of _ "?L # cs"])
  next
    case False
    then obtain updates where "q = Return updates" using add(3) by (auto simp only: if_False)
    then have "fst (persistWatches E updates (?u\<lparr>log := log ?u @ cs\<rparr>)) = r" using add(1) run assms(3) by (simp add: bindM_def) (metis fst_conv)
    then have "r \<noteq> Panic" using persistWatches_no_panic by metis
    then show ?thesis using False by blast
  qed
qed

text \<open>The first secret exists, the second one does not.\<close>

definition userStore :: "NamespacedName \<Rightarrow> Secret option" where
  "userStore n = (if n = (''ns'', ''user1'') then Some (newSecret n None) else None)"

definition userEnv :: env where
  "userEnv = sampleEnv\<lparr>e_secret := \<lambda>h c. case c of
     GetSecret n \<Rightarrow> (case userStore n of None \<Rightarrow> Inl (NotFound (snd n)) | Some x \<Rightarrow> Inr x) | _ \<Rightarrow> Inl (Errorf ''unused'')\<rparr>"

theorem missing_watched_secret_panics_witness:
  "fst (UpdateWatch userEnv (''ns'', ''dc1'') [(''ns'', ''user1''), (''ns'', ''user2'')] sampleWorld) = Panic"
proof -
  have "servesSecrets userEnv userStore" by (auto simp: servesSecrets_def userEnv_def split: option.splits)
  moreover have "e_secrets userEnv (log sampleWorld) (ListSecrets (fst (''ns'', ''dc1'')) (mapOf [(WatchedLabel, ''true'')])) = Inr []"
    by (simp add: userEnv_def sampleEnv_def)
  ultimately show ?thesis using missing_watched_secret_panics [OF _ _ prod.collapse [symmetric]]
    by (auto simp: userStore_def)
qed

section \<open>A certificate secret without a certificate\<close>

text \<open>
  C35. A TLS secret whose certificate entry has no block of type CERTIFICATE panics the validation
  of the management API settings, instead of being reported as one of its errors. It holds for the
  client secret and for the server secret, whatever the other one contains, of a datacenter with
  manual authentication only and without the option to skip the validation of the secrets, when
  both secrets can be loaded.
\<close>

theorem secret_without_certificate_panics:
  assumes "Manual (ManagementApiAuth (Spec dc)) = Some config" "\<not> Insecure (ManagementApiAuth (Spec dc))"
    "\<not> SkipSecretValidation config"
    "e_secret E (log s) (GetSecret (Namespace dc, ClientSecretName config)) = Inr client"
    "e_secret E (log s @ [GetSecret (Namespace dc, ClientSecretName config)])
       (GetSecret (Namespace dc, ServerSecretName config)) = Inr server"
    and bad: "bad \<in> {client, server}"
      "list_all (\<lambda>b. fst b \<noteq> ''CERTIFICATE'') (x_pemBlocks (e_x509 E) (mget (Data bad) ''tls.crt''))"
  shows "fst (ValidateManagementApiConfig E dc s) = Panic"
proof -
  have "validatePeerACertificateSignedByPeerBCa (e_x509 E) (mget (Data bad) ''tls.crt'') ca ca' = Panic" for ca ca'
    by (rule validatePeer_no_certificate) (use bad(2) in \<open>simp add: list_all_iff\<close>)
  then have "signingErrors (e_x509 E) bad peer key = Panic" for peer key
    by (simp add: signingErrors_def)
  moreover have "signingErrors X peerA peerB key \<noteq> Fail e" for X peerA peerB key e
    by (auto simp: signingErrors_def split: outcome.splits)
  ultimately show ?thesis
    using assms(1-5) bad(1)
    by (cases "signingErrors (e_x509 E) client server ''.managementApiAuth.manual.clientSecretName''")
      (auto simp: ValidateManagementApiConfig_def BuildManagmenetApiSecurityProvider_cases validateManualConfig_def
        loadSecret_def rc_eval Let_def)
qed

text \<open>Both secrets of the sample lack a certificate; either one is enough.\<close>

theorem secret_without_certificate_panics_witness:
  "fst (ValidateManagementApiConfig (sampleEnv\<lparr>e_secret := \<lambda>h c. Inr (newSecret (''ns'', ''client'') None)\<rparr>) securedDc sampleWorld)
     = Panic"
  by (rule secret_without_certificate_panics [where client = "newSecret (''ns'', ''client'') None"
        and server = "newSecret (''ns'', ''client'') None" and bad = "newSecret (''ns'', ''client'') None"
        and config = "\<lparr>ClientSecretName = ''client'', ServerSecretName = ''server'', SkipSecretValidation = False\<rparr>"])
    (simp_all add: securedDc_def sample_defs newSecret_def mget_def)

section \<open>Health data is not read back\<close>

text \<open>
  C39. The health data that the operator stores is never read back: it is written into the text
  entries of the config map and looked for among the binary ones, so reading the config map that
  was built for any health answers the empty health, and the entries of the other datacenters are lost.
\<close>

theorem health_data_not_read_back:
  assumes "createHealthCheckConfigMap E health (healthChecksNamespacedName ns) = Return stored"
    "e_configmap E (log s) (GetConfigMap (healthChecksNamespacedName ns)) = Inr stored"
  shows "GetHealthData E ns s = (Return emptyHealth, s\<lparr>log := log s @ [GetConfigMap (healthChecksNamespacedName ns)]\<rparr>)"
proof -
  have "cm_BinaryData stored = Some fmempty"
    using assms(1) by (auto simp: createHealthCheckConfigMap_def labelledAndHashed_def Let_def obind_eq_Return_iff
      saveHealthCheckToConfigMap_def newConfigMap_def AddHashAnnotation_def ObjectMeta.defs split: sum.splits)
  then have "loadHealthFromConfigMap E stored = Return emptyHealth" by (simp add: loadHealthFromConfigMap_def)
  then show ?thesis using assms(2) by (simp add: GetHealthData_def getConfigMap_def rc_eval)
qed

theorem health_data_not_read_back_witness:
  "\<exists>stored. createHealthCheckConfigMap sampleEnv (updateHealth emptyHealth sampleDc) (healthChecksNamespacedName ''ns'') = Return stored
     \<and> fst (GetHealthData (sampleEnv\<lparr>e_configmap := \<lambda>h c. Inr stored\<rparr>) ''ns'' sampleWorld) = Return emptyHealth"
proof -
  obtain stored where stored: "createHealthCheckConfigMap sampleEnv (updateHealth emptyHealth sampleDc)
      (healthChecksNamespacedName ''ns'') = Return stored"
    unfolding createHealthCheckConfigMap_def labelledAndHashed_def Let_def MergeMap_Some by simp
  have "createHealthCheckConfigMap (sampleEnv\<lparr>e_configmap := \<lambda>h c. Inr stored\<rparr>) (updateHealth emptyHealth sampleDc)
      (healthChecksNamespacedName ''ns'') = Return stored"
    using stored by (simp add: createHealthCheckConfigMap_def labelledAndHashed_def saveHealthCheckToConfigMap_def)
  from health_data_not_read_back [OF this, of sampleWorld] stored show ?thesis by auto
qed

section \<open>A changed configuration\<close>

fun updatesNoSecret :: "call \<Rightarrow> bool" where
  "updatesNoSecret (UpdateSecret x) = False"
| "updatesNoSecret c = True"

text \<open>
  How a run ends that updates a secret: the update is refused and its error reported, or the
  answered secret is created next, which is refused, and that error is reported. Nothing follows.
\<close>

definition endsInUpdate :: "env \<Rightarrow> world \<Rightarrow> ReconcileResult outcome \<Rightarrow> world \<Rightarrow> bool" where
  "endsInUpdate E s r t \<longleftrightarrow> (\<exists>cs x e. list_all updatesNoSecret cs \<and> r = Return (ErrorOut e)
     \<and> (e_secret E (log s @ cs) (UpdateSecret x) = Inl e \<and> log t = log s @ cs @ [UpdateSecret x]
       \<or> (\<exists>y. e_secret E (log s @ cs) (UpdateSecret x) = Inr y
           \<and> e_secret E (log s @ cs @ [UpdateSecret x]) (CreateSecret y) = Inl e
           \<and> log t = log s @ cs @ [UpdateSecret x, CreateSecret y])))"

definition updateErrs :: "env \<Rightarrow> (world, ReconcileResult) op \<Rightarrow> bool" where
  "updateErrs E m \<longleftrightarrow> (\<forall>s r t. m s = (r, t) \<longrightarrow> logsOnly updatesNoSecret s t \<or> endsInUpdate E s r t)"

lemma updateErrs_emits: "emits updatesNoSecret m \<Longrightarrow> updateErrs E m"
  by (auto simp: updateErrs_def emits_def logsOnly_def)

lemma endsInUpdate_later:
  assumes "logsOnly updatesNoSecret s u" "endsInUpdate E u r t"
  shows "endsInUpdate E s r t"
proof -
  obtain ds where ds: "log u = log s @ ds" "list_all updatesNoSecret ds" using assms(1) by (auto simp: logsOnly_def)
  from assms(2) obtain cs x e where "list_all updatesNoSecret cs" "r = Return (ErrorOut e)"
    "e_secret E (log u @ cs) (UpdateSecret x) = Inl e \<and> log t = log u @ cs @ [UpdateSecret x]
       \<or> (\<exists>y. e_secret E (log u @ cs) (UpdateSecret x) = Inr y
           \<and> e_secret E (log u @ cs @ [UpdateSecret x]) (CreateSecret y) = Inl e
           \<and> log t = log u @ cs @ [UpdateSecret x, CreateSecret y])"
    unfolding endsInUpdate_def by blast
  with ds show ?thesis unfolding endsInUpdate_def by (intro exI [of _ "ds @ cs"] exI [of _ x] exI [of _ e]) simp
qed

lemma updateErrs_bindM:
  assumes "emits updatesNoSecret m" "\<And>a. updateErrs E (k a)"
  shows "updateErrs E (bindM m k)"
  unfolding updateErrs_def
proof (intro allI impI)
  fix s r t
  assume eq: "bindM m k s = (r, t)"
  obtain ra u where m: "m s = (ra, u)" by fastforce
  then have u: "logsOnly updatesNoSecret s u" using assms(1) by (auto simp: emits_def logsOnly_def)
  show "logsOnly updatesNoSecret s t \<or> endsInUpdate E s r t"
  proof (cases ra)
    case (Return a)
    then have "k a u = (r, t)" using eq m by (simp add: bindM_def)
    then have "logsOnly updatesNoSecret u t \<or> endsInUpdate E u r t" using assms(2) [of a] unfolding updateErrs_def by blast
    then show ?thesis using u logsOnly_trans endsInUpdate_later by blast
  qed (use eq m u in \<open>auto simp: bindM_def\<close>)
qed

lemma updateErrs_orError:
  assumes "emits updatesNoSecret m" "\<And>a. updateErrs E (k a)"
  shows "updateErrs E (orError m k)"
  unfolding orError_def
proof (rule updateErrs_bindM)
  show "updateErrs E (case r of Inl e \<Rightarrow> ret (ErrorOut e) | Inr a \<Rightarrow> k a)" for r
    using assms(2) by (cases r) (auto intro: updateErrs_emits emits_intros)
qed (intro emits_intros assms(1))

text \<open>
  What the API server does: right after it has answered an update with a secret, that secret
  exists, so it refuses to create it. (Nobody else deletes the secret between the two calls.)
\<close>

definition refusesToRecreate :: "env \<Rightarrow> bool" where
  "refusesToRecreate E \<longleftrightarrow> (\<forall>h x y. e_secret E h (UpdateSecret x) = Inr y \<longrightarrow>
     (\<exists>e. e_secret E (h @ [UpdateSecret x]) (CreateSecret y) = Inl e))"

lemma update_then_create:
  assumes "refusesToRecreate E"
  shows "updateErrs E (orError (perform (e_secret E) (UpdateSecret x)) (\<lambda>y. orError (perform (e_secret E) (CreateSecret y)) k))"
  unfolding updateErrs_def
proof (intro allI impI disjI2)
  fix s r t
  assume eq: "orError (perform (e_secret E) (UpdateSecret x)) (\<lambda>y. orError (perform (e_secret E) (CreateSecret y)) k) s = (r, t)"
  show "endsInUpdate E s r t"
  proof (cases "e_secret E (log s) (UpdateSecret x)")
    case (Inl e)
    with eq have "r = Return (ErrorOut e)" "log t = log s @ [UpdateSecret x]" by (auto simp: orError_def rc_eval of_sum_def)
    with Inl show ?thesis
      unfolding endsInUpdate_def by (intro exI [of _ "[]"] exI [of _ x] exI [of _ e]) simp
  next
    case (Inr y)
    then obtain e where e: "e_secret E (log s @ [UpdateSecret x]) (CreateSecret y) = Inl e"
      using assms unfolding refusesToRecreate_def by blast
    with Inr eq have "r = Return (ErrorOut e)" "log t = log s @ [UpdateSecret x, CreateSecret y]"
      by (auto simp: orError_def rc_eval of_sum_def)
    with Inr e show ?thesis
      unfolding endsInUpdate_def by (intro exI [of _ "[]"] exI [of _ x] exI [of _ e]) simp
  qed
qed

lemma updateErrs_CheckConfigSecret:
  assumes "refusesToRecreate E"
  shows "updateErrs E (CheckConfigSecret E)"
proof -
  have parts: "emits updatesNoSecret (checkDatacenterNameAnnotation E x)" "emits updatesNoSecret (getDatacenterConfigSecret E n)"
    "emits updatesNoSecret (updateConfigHashAnnotation E x)" "emits updatesNoSecret (retrieveSecret E nn)" for x n nn
    unfolding checkDatacenterNameAnnotation_def getDatacenterConfigSecret_def updateConfigHashAnnotation_def
      retrieveSecret_def Let_def
    by (auto intro!: emits_intros)
  have sent: "updateErrs E (orError (if b then perform (e_secret E) (UpdateSecret x) else ret x) (\<lambda>y.
      orError (perform (e_secret E) (CreateSecret y)) (\<lambda>_. ret Continue)))" for b x
    using update_then_create [OF assms]
    by (cases b) (auto intro!: updateErrs_orError updateErrs_emits emits_intros)
  have stored: "updateErrs E (if c then ret Continue else orError (updateConfigHashAnnotation E d) (\<lambda>_.
      bindM (lift r) (\<lambda>data. orError (if b then perform (e_secret E) (UpdateSecret (d\<lparr>Data := data\<rparr>)) else ret (d\<lparr>Data := data\<rparr>))
        (\<lambda>y. orError (perform (e_secret E) (CreateSecret y)) (\<lambda>_. ret Continue)))))" for c d r b
    by (cases c) (auto intro: updateErrs_emits emits_intros updateErrs_orError [OF parts(3)] updateErrs_bindM sent)
  have asked: "updateErrs E (if c then ret Continue else orError (retrieveSecret E nn) k)" if "\<And>x. updateErrs E (k x)" for c nn k
    using that by (cases c) (auto intro: updateErrs_emits emits_intros updateErrs_orError [OF parts(4)])
  show ?thesis
    unfolding CheckConfigSecret_def
    by (intro updateErrs_bindM [OF emits_dc_pod(1)] asked updateErrs_bindM [OF parts(1)] updateErrs_orError [OF emits_lift]
      updateErrs_orError [OF parts(2)]) (simp only: split_beta stored)+
qed

text \<open>
  C36. A changed configuration secret is never rolled out without an error. A run of the step that
  sends an update of its own copy of the configuration ends with an error, after at most one more
  call: when the API server refuses the update, the error is that one and nothing
  follows; when it answers the update, the step goes on to create the secret of that answer, which
  exists, so the API server refuses that too, and its error is what the step ends with.
\<close>

theorem config_update_ends_in_error:
  assumes "refusesToRecreate E" "CheckConfigSecret E s = (r, t)" "log t = log s @ cs @ UpdateSecret x # ds"
  shows "\<exists>e. r = Return (ErrorOut e)
    \<and> (e_secret E (log s @ cs) (UpdateSecret x) = Inl e \<and> ds = []
      \<or> (\<exists>y. e_secret E (log s @ cs) (UpdateSecret x) = Inr y \<and> ds = [CreateSecret y]
          \<and> e_secret E (log s @ cs @ [UpdateSecret x]) (CreateSecret y) = Inl e))"
proof -
  have "\<not> logsOnly updatesNoSecret s t" using assms(3) by (auto simp: logsOnly_def)
  then have "endsInUpdate E s r t" using assms(2) updateErrs_CheckConfigSecret [OF assms(1)] unfolding updateErrs_def by blast
  then obtain cs' x' e where run: "list_all updatesNoSecret cs'" "r = Return (ErrorOut e)"
    "e_secret E (log s @ cs') (UpdateSecret x') = Inl e \<and> log t = log s @ cs' @ [UpdateSecret x']
       \<or> (\<exists>y. e_secret E (log s @ cs') (UpdateSecret x') = Inr y
           \<and> e_secret E (log s @ cs' @ [UpdateSecret x']) (CreateSecret y) = Inl e
           \<and> log t = log s @ cs' @ [UpdateSecret x', CreateSecret y])"
    unfolding endsInUpdate_def by blast
  have only: "cs = cs' \<and> x = x' \<and> ds = ds'"
    if "cs @ UpdateSecret x # ds = cs' @ UpdateSecret x' # ds'" "list_all updatesNoSecret ds'" for ds'
    using that run(1) by (auto simp: append_eq_append_conv2 Cons_eq_append_conv append_eq_Cons_conv)
  show ?thesis using run(2,3) assms(3) only [of "[]"] only [of "[CreateSecret _]"] by auto
qed

definition configuredDc :: CassandraDatacenter where
  "configuredDc = sampleDc\<lparr>Annotations := Some fmempty, Spec := sampleSpec\<lparr>ConfigSecret := ''config''\<rparr>\<rparr>"

definition configuredWorld :: world where
  "configuredWorld = sampleWorld\<lparr>Datacenter := configuredDc\<rparr>"

definition storedConfig :: Secret where
  "storedConfig = (newSecret (''ns'', ''config'') (mapOf [(''config'', ''old'')]))\<lparr>
     Annotations := mapOf [(DatacenterAnnotation, ''dc1'')]\<rparr>"

text \<open>An API server that has every secret and refuses to create any.\<close>

definition secretEnv :: env where
  "secretEnv = sampleEnv\<lparr>e_secret := \<lambda>h c. case c of
     GetSecret n \<Rightarrow> Inr storedConfig | UpdateSecret x \<Rightarrow> Inr x | _ \<Rightarrow> Inl (Errorf ''already exists'')\<rparr>"

theorem config_update_ends_in_error_witness:
  "\<exists>cs x e. log (snd (CheckConfigSecret secretEnv configuredWorld)) = cs @ [UpdateSecret x, CreateSecret x]
     \<and> fst (CheckConfigSecret secretEnv configuredWorld) = Return (ErrorOut e)"
proof -
  have "list_ex (\<lambda>c. \<not> updatesNoSecret c) (log (snd (CheckConfigSecret secretEnv configuredWorld)))" by code_simp
  then obtain c where c: "c \<in> set (log (snd (CheckConfigSecret secretEnv configuredWorld)))" "\<not> updatesNoSecret c"
    by (auto simp: list_ex_iff)
  from c(2) obtain x where "c = UpdateSecret x" by (cases c) auto
  with c(1) obtain cs ds where sent: "log (snd (CheckConfigSecret secretEnv configuredWorld)) = cs @ UpdateSecret x # ds"
    by (auto simp: in_set_conv_decomp)
  moreover have "log configuredWorld = []" by (simp add: configuredWorld_def sampleWorld_def)
  moreover have "refusesToRecreate secretEnv" "\<And>h. e_secret secretEnv h (UpdateSecret x) = Inr x"
    by (simp_all add: refusesToRecreate_def secretEnv_def)
  ultimately show ?thesis
    using config_update_ends_in_error [OF _ prod.collapse [symmetric], of secretEnv configuredWorld cs x ds] by auto
qed

section \<open>Creating a role\<close>

text \<open>The inverse of the escaping, for texts that it produces.\<close>

definition unhex :: "char \<Rightarrow> nat" where
  "unhex c = (let n = of_char c in if n < 58 then n - 48 else n - 55)"

fun unescape :: "string \<Rightarrow> string" where
  "unescape [] = []"
| "unescape (c # s) =
     (if c = CHR ''%'' then char_of (16 * unhex (hd s) + unhex (hd (tl s))) # unescape (drop 2 s)
      else if c = CHR ''+'' then CHR '' '' # unescape s
      else c # unescape s)"

definition escaped :: "char \<Rightarrow> string" where
  "escaped c = (if unreserved c then [c] else if c = CHR '' '' then ''+''
     else let n = of_char c in [CHR ''%'', upperhex (n div 16), upperhex (n mod 16)])"

lemma QueryEscape_eq: "QueryEscape s = concat (map escaped s)"
  by (simp add: QueryEscape_def escaped_def [abs_def])

lemma unhex_upperhex: "d < 16 \<Longrightarrow> unhex (upperhex d) = d"
  by (auto simp: unhex_def upperhex_def Let_def of_char_of)

lemma unreserved_special: "\<not> unreserved (CHR ''%'')" "\<not> unreserved (CHR ''+'')" "\<not> unreserved (CHR ''&'')"
  "unreserved (CHR ''t'')"
  by code_simp+

lemma unreserved_upperhex: "d < 16 \<Longrightarrow> unreserved (upperhex d)"
  by (auto simp: unreserved_def upperhex_def Let_def of_char_of)

lemma char_div_16: "of_char (c :: char) div 16 < (16 :: nat)"
proof -
  have "of_char c < (256 :: nat)" by simp
  then show ?thesis by linarith
qed

lemma unescape_escaped: "unescape (escaped c @ s) = c # unescape s"
proof (cases "unreserved c \<or> c = CHR '' ''")
  case False
  have "16 * unhex (upperhex (of_char c div 16)) + unhex (upperhex (of_char c mod 16)) = of_char c"
    using char_div_16 [of c] by (simp add: unhex_upperhex)
  then show ?thesis using False by (simp add: escaped_def Let_def)
qed (use unreserved_special in \<open>auto simp: escaped_def\<close>)

lemma unescape_QueryEscape: "unescape (QueryEscape s) = s"
  unfolding QueryEscape_eq by (induction s) (simp_all add: unescape_escaped)

lemma QueryEscape_inject: "QueryEscape s = QueryEscape t \<longleftrightarrow> s = t"
  by (metis unescape_QueryEscape)

lemma QueryEscape_no_ampersand: "CHR ''&'' \<notin> set (QueryEscape s)"
proof -
  have "CHR ''&'' \<notin> set (escaped c)" for c
    using unreserved_special char_div_16 [of c] unreserved_upperhex [of "of_char c mod 16"]
      unreserved_upperhex [of "of_char c div 16"]
    by (auto simp: escaped_def Let_def)
  then show ?thesis unfolding QueryEscape_eq by auto
qed

lemma append_separator_inject:
  "x \<notin> set xs \<Longrightarrow> x \<notin> set ys \<Longrightarrow> xs @ x # zs = ys @ x # ws \<longleftrightarrow> xs = ys \<and> zs = ws"
proof (induction xs arbitrary: ys)
  case Nil
  then show ?case by (cases ys) auto
next
  case (Cons a xs)
  then show ?case by (cases ys) auto
qed

lemma Encode_role:
  "Encode [(''username'', u), (''password'', p), (''can_login'', ''true''), (''is_superuser'', b)] =
     ''can_login=true&is_superuser='' @ QueryEscape b @ ''&password='' @ QueryEscape p @ ''&username='' @ QueryEscape u"
proof -
  have "sort_key fst [(''username'', u), (''password'', p), (''can_login'', ''true''), (''is_superuser'', b)] =
    [(''can_login'', ''true''), (''is_superuser'', b), (''password'', p), (''username'', u)]"
    by (simp add: less_eq_char_def)
  moreover have "QueryEscape ''can_login'' = ''can_login''" "QueryEscape ''is_superuser'' = ''is_superuser''"
    "QueryEscape ''password'' = ''password''" "QueryEscape ''username'' = ''username''" "QueryEscape ''true'' = ''true''"
    by code_simp+
  ultimately show ?thesis by (simp add: Encode_def)
qed

lemma Encode_role_inject:
  assumes "Encode [(''username'', u), (''password'', p), (''can_login'', ''true''), (''is_superuser'', b)] =
    Encode [(''username'', u'), (''password'', p'), (''can_login'', ''true''), (''is_superuser'', b')]"
  shows "u = u' \<and> p = p' \<and> b = b'"
  using assms unfolding Encode_role
  by (simp add: append_separator_inject QueryEscape_no_ampersand QueryEscape_inject)

text \<open>
  C29. The request that creates a role says which one: two calls for the same pod that put the same
  request on the wire are for the same user name, the same password and the same superuser flag,
  whatever characters the name and the password contain.
\<close>

theorem role_request_determines_user:
  assumes "PodIP pod \<noteq> []"
    "log (snd (CallCreateRoleEndpoint E pod u p su s)) = log (snd (CallCreateRoleEndpoint E pod u' p' su' s))"
  shows "u = u' \<and> p = p' \<and> su = su'"
proof -
  have "log (snd (CallCreateRoleEndpoint E pod u p su s)) = log s @ [Http (Protocol s @ ''://'' @ PodIP pod @ '':8080'' @
      ''/api/v0/ops/auth/role?'' @ Encode [(''username'', u), (''password'', p), (''can_login'', ''true''),
        (''is_superuser'', if su then ''true'' else ''false'')])
      ((simpleRequest (''/api/v0/ops/auth/role?'' @ Encode [(''username'', u), (''password'', p), (''can_login'', ''true''),
        (''is_superuser'', if su then ''true'' else ''false'')]) (PodIP pod) ''POST'' 0)\<lparr>rq_timeout := 60 * Second\<rparr>) []]"
    for u p su
    using assms(1)
    by (simp add: CallCreateRoleEndpoint_def BuildPodHostFromPod_def callNodeMgmtEndpoint_def simpleRequest_def rc_eval
      Let_def of_sum_def split: sum.split responseBody.split)
  with assms(2) have "Encode [(''username'', u), (''password'', p), (''can_login'', ''true''),
        (''is_superuser'', if su then ''true'' else ''false'')] =
      Encode [(''username'', u'), (''password'', p'), (''can_login'', ''true''),
        (''is_superuser'', if su' then ''true'' else ''false'')]" by simp
  from Encode_role_inject [OF this] show ?thesis by (auto split: if_splits)
qed

theorem role_request_determines_user_witness:
  "log (snd (CallCreateRoleEndpoint sampleEnv (samplePod ''p'' [] ''n'') ''a&b'' ''c='' True sampleWorld))
   \<noteq> log (snd (CallCreateRoleEndpoint sampleEnv (samplePod ''p'' [] ''n'') ''a'' ''b&c='' True sampleWorld))"
  using role_request_determines_user [of "samplePod ''p'' [] ''n''" sampleEnv "''a&b''" "''c=''" True sampleWorld "''a''" "''b&c=''" True]
  by (auto simp: samplePod_def ObjectMeta.defs)

end
