(* ===== verification/Encodings.thy ===== *)
theory Encodings
  imports Watch Samples
begin

text \<open>
  Properties of the encodings: passwords, names in annotations, and the record of watchers.
\<close>

section \<open>Passwords\<close>

lemma alphabet_length: "length base64UrlAlphabet = 64"
  by (simp add: base64UrlAlphabet_def)

lemma alphabet_distinct: "distinct base64UrlAlphabet"
  by (simp add: base64UrlAlphabet_def)

lemma alphabet_ascii: "c \<in> set base64UrlAlphabet \<Longrightarrow> byte c < 128"
  by (auto simp: base64UrlAlphabet_def)

lemma sextet_inject: "sextet u = sextet v \<longleftrightarrow> u mod 64 = v mod 64"
  using alphabet_distinct by (simp add: sextet_def nth_eq_iff_index_eq alphabet_length)

lemma byte_sextet: "byte (sextet v) < 128"
  by (simp add: sextet_def alphabet_ascii alphabet_length)

lemma length_EncodeToString: "length (EncodeToString s) = (4 * length s + 2) div 3"
  by (induction s rule: EncodeToString.induct) (simp_all add: Let_def)

lemma EncodeToString_ascii: "c \<in> set (EncodeToString s) \<Longrightarrow> byte c < 128"
  by (induction s rule: EncodeToString.induct) (auto simp: Let_def byte_sextet)

lemma utf8_Valid_ascii: "(\<And>c. c \<in> set s \<Longrightarrow> byte c < 128) \<Longrightarrow> utf8_Valid s"
  by (induction s) (simp_all add: Let_def)

text \<open>A valid string starts with a character: what follows it may be exchanged for any valid string.\<close>

lemma utf8_Valid_Cons:
  assumes valid: "utf8_Valid (a # rest)"
  shows "\<exists>p r. rest = p @ r \<and> utf8_Valid r \<and> (\<forall>t. utf8_Valid t \<longrightarrow> utf8_Valid (a # p @ t))"
proof -
  have range: "byte a < 128 \<or> 194 \<le> byte a \<and> byte a \<le> 223 \<or> 224 \<le> byte a \<and> byte a \<le> 239
    \<or> 240 \<le> byte a \<and> byte a \<le> 244"
  proof (rule ccontr)
    assume "\<not> ?thesis"
    then have "\<not> byte a < 128" "byte a < 194 \<or> 244 < byte a" by linarith+
    then show False using valid by auto
  qed
  have step: ?thesis if "rest = p @ r" "utf8_Valid r" "\<And>t. utf8_Valid t \<Longrightarrow> utf8_Valid (a # p @ t)" for p r
    using that by blast
  from range consider "byte a < 128" | "194 \<le> byte a" "byte a \<le> 223" | "224 \<le> byte a" "byte a \<le> 239"
    | "240 \<le> byte a" "byte a \<le> 244" by blast
  then show ?thesis
  proof cases
    case 1
    then show ?thesis by (intro step [of "[]" rest]) (use valid in simp_all)
  next
    case 2
    show ?thesis
    proof (cases rest)
      case (Cons b r)
      then show ?thesis by (intro step [of "[b]" r]) (use 2 valid in simp_all)
    qed (use 2 valid in simp)
  next
    case 3
    show ?thesis
    proof (cases rest rule: remdups_adj.cases)
      case (3 b c r)
      then show ?thesis
        by (intro step [of "[b, c]" r]) (use \<open>224 \<le> byte a\<close> \<open>byte a \<le> 239\<close> valid in \<open>simp_all add: Let_def split: if_splits\<close>)
    qed (use 3 valid in simp_all)
  next
    case 4
    have "\<exists>b c d r. rest = b # c # d # r"
    proof (cases rest rule: EncodeToString.cases)
    qed (use 4 valid in \<open>simp_all add: Let_def split: if_splits\<close>)
    then obtain b c d r where "rest = b # c # d # r" by blast
    then show ?thesis by (intro step [of "[b, c, d]" r]) (use 4 valid in \<open>simp_all add: Let_def split: if_splits\<close>)
  qed
qed

lemma utf8_Valid_append: "utf8_Valid s \<Longrightarrow> utf8_Valid t \<Longrightarrow> utf8_Valid (s @ t)"
proof (induction "length s" arbitrary: s rule: less_induct)
  case less
  show ?case
  proof (cases s)
    case (Cons a rest)
    then obtain p r where "rest = p @ r" "utf8_Valid r" "\<forall>t. utf8_Valid t \<longrightarrow> utf8_Valid (a # p @ t)"
      using utf8_Valid_Cons less.prems(1) by blast
    with less.hyps [of r] less.prems(2) show ?thesis by (simp add: Cons)
  qed (use less.prems in simp)
qed

lemma digits_inject:
  fixes v w :: nat
  assumes "v < 16777216" "w < 16777216" "v div 262144 mod 64 = w div 262144 mod 64"
    "v div 4096 mod 64 = w div 4096 mod 64" "v div 64 mod 64 = w div 64 mod 64" "v mod 64 = w mod 64"
  shows "v = w"
proof -
  have digits: "x = x div 262144 mod 64 * 262144 + x div 4096 mod 64 * 4096 + x div 64 mod 64 * 64 + x mod 64"
    if "x < 16777216" for x :: nat
  proof -
    define y z w where "y = x div 64" and "z = y div 64" and "w = z div 64"
    have "x = 64 * y + x mod 64" "y = 64 * z + y mod 64" "z = 64 * w + z mod 64"
      by (simp_all add: y_def z_def w_def)
    then have "x = w * 262144 + z mod 64 * 4096 + y mod 64 * 64 + x mod 64" by linarith
    moreover have "x div 4096 = z" "x div 262144 = w" by (simp_all add: y_def z_def w_def div_mult2_eq [symmetric])
    moreover have "w mod 64 = w" using that by (simp add: y_def z_def w_def div_mult2_eq [symmetric])
    ultimately show ?thesis by (simp add: y_def)
  qed
  show ?thesis using digits [OF assms(1)] digits [OF assms(2)] assms(3-6) by simp
qed

lemma byte_inject: "(byte a :: nat) = byte b \<longleftrightarrow> a = b"
  by (simp add: of_char_eq_iff)

lemma bytes_inject:
  fixes a b c a' b' c' :: char
  assumes "byte a * 65536 + byte b * 256 + byte c = (byte a' * 65536 + byte b' * 256 + byte c' :: nat)"
  shows "a = a' \<and> b = b' \<and> c = c'"
proof -
  have lt: "byte x < (256 :: nat)" for x :: char by simp
  note bounds = lt [of a] lt [of b] lt [of c] lt [of a'] lt [of b'] lt [of c']
  have a: "byte a = (byte a' :: nat)" using assms bounds by linarith
  have b: "byte b = (byte b' :: nat)" using assms bounds a by linarith
  have "byte c = (byte c' :: nat)" using assms a b by linarith
  with a b show ?thesis by (simp add: byte_inject)
qed

lemma byte_group_less: "byte a * 65536 + byte b * 256 + byte c < (16777216 :: nat)"
proof -
  have lt: "byte x < (256 :: nat)" for x :: char by simp
  show ?thesis using lt [of a] lt [of b] lt [of c] by linarith
qed

definition group :: "char \<Rightarrow> char \<Rightarrow> char \<Rightarrow> nat" where
  "group a b c = byte a * 65536 + byte b * 256 + byte c"

lemma group_inject:
  assumes "sextet (group a b c div 262144) = sextet (group a' b' c' div 262144)"
    "sextet (group a b c div 4096) = sextet (group a' b' c' div 4096)"
    "sextet (group a b c div 64) = sextet (group a' b' c' div 64)"
    "sextet (group a b c) = sextet (group a' b' c')"
  shows "a = a'" "b = b'" "c = c'"
proof -
  have "group a b c = group a' b' c'"
    by (rule digits_inject [OF _ _ assms [unfolded sextet_inject]]) (simp_all only: group_def byte_group_less)
  then have "a = a' \<and> b = b' \<and> c = c'" unfolding group_def by (rule bytes_inject)
  then show "a = a'" "b = b'" "c = c'" by simp_all
qed

lemma group_one: "group a (CHR 0x00) (CHR 0x00) div 262144 = byte a div 4"
  "group a (CHR 0x00) (CHR 0x00) div 4096 = byte a * 16"
  "sextet (group a (CHR 0x00) (CHR 0x00) div 64) = sextet 0"
proof -
  have eq: "group a (CHR 0x00) (CHR 0x00) = byte a * 65536" by (simp add: group_def)
  have "byte a * 65536 div 64 = byte a * 16 * (64 :: nat)" by simp
  then show "sextet (group a (CHR 0x00) (CHR 0x00) div 64) = sextet 0" unfolding eq sextet_inject by simp
  show "group a (CHR 0x00) (CHR 0x00) div 262144 = byte a div 4"
    "group a (CHR 0x00) (CHR 0x00) div 4096 = byte a * 16" unfolding eq by simp_all
qed

lemma group_two: "group a b (CHR 0x00) div 262144 = (byte a * 256 + byte b) div 1024"
  "group a b (CHR 0x00) div 4096 = (byte a * 256 + byte b) div 16"
  "group a b (CHR 0x00) div 64 = (byte a * 256 + byte b) * 4"
  "sextet (group a b (CHR 0x00)) = sextet 0"
proof -
  have eq: "group a b (CHR 0x00) = (byte a * 256 + byte b) * 256" by (simp add: group_def)
  have "(byte a * 256 + byte b) * 256 = (byte a * 256 + byte b) * 4 * (64 :: nat)" by simp
  then show "sextet (group a b (CHR 0x00)) = sextet 0" unfolding eq sextet_inject by simp
  show "group a b (CHR 0x00) div 262144 = (byte a * 256 + byte b) div 1024"
    "group a b (CHR 0x00) div 4096 = (byte a * 256 + byte b) div 16"
    "group a b (CHR 0x00) div 64 = (byte a * 256 + byte b) * 4" unfolding eq by simp_all
qed

lemma encoded_inject:
  "EncodeToString [a] = EncodeToString [a'] \<Longrightarrow> a = a'"
  "EncodeToString [a, b] = EncodeToString [a', b'] \<Longrightarrow> a = a' \<and> b = b'"
  "EncodeToString (a # b # c # s) = EncodeToString (a' # b' # c' # s')
     \<Longrightarrow> a = a' \<and> b = b' \<and> c = c' \<and> EncodeToString s = EncodeToString s'"
proof -
  show "a = a'" if "EncodeToString [a] = EncodeToString [a']"
    by (rule group_inject(1) [of a "CHR 0x00" "CHR 0x00" a' "CHR 0x00" "CHR 0x00"])
      (use that in \<open>simp_all only: group_one group_two(4) EncodeToString.simps list.inject\<close>)
  show "a = a' \<and> b = b'" if "EncodeToString [a, b] = EncodeToString [a', b']"
    using group_inject(1,2) [of a b "CHR 0x00" a' b' "CHR 0x00"] that
    by (simp only: group_two EncodeToString.simps Let_def list.inject)
  show "a = a' \<and> b = b' \<and> c = c' \<and> EncodeToString s = EncodeToString s'"
    if "EncodeToString (a # b # c # s) = EncodeToString (a' # b' # c' # s')"
    using group_inject [of a b c a' b' c'] that
    by (simp only: group_def EncodeToString.simps Let_def list.inject append.simps)
qed

text \<open>No two strings of bytes of one length have the same encoding.\<close>

lemma EncodeToString_inject:
  "EncodeToString s = EncodeToString t \<Longrightarrow> length s = length t \<Longrightarrow> s = t"
proof (induction s arbitrary: t rule: EncodeToString.induct)
  case (2 a)
  from 2(2) obtain b where t: "t = [b]" by (cases t) auto
  then show ?case using encoded_inject(1) [of a b] 2(1) by simp
next
  case (3 a b)
  from 3(2) obtain c d where t: "t = [c, d]" by (cases t; cases "tl t") auto
  then show ?case using encoded_inject(2) 3(1) by blast
next
  case (4 a b c s)
  from 4(3) obtain a' b' c' s' where t: "t = a' # b' # c' # s'"
    by (cases t; cases "tl t"; cases "tl (tl t)") auto
  have "a = a' \<and> b = b' \<and> c = c' \<and> EncodeToString s = EncodeToString s'"
    using 4(2) unfolding t by (rule encoded_inject(3))
  then show ?case using t 4(3) 4(1) [OF refl] by simp
qed simp

text \<open>The password is the encoding of forty bytes.\<close>

lemma generateUtf8Password_run:
  "generateUtf8Password E s =
     (case e_rand E (ticks s) of
        Inl e \<Rightarrow> (Fail (Wrapf ''Failed to generate password'' e), s\<lparr>ticks := Suc (ticks s)\<rparr>)
      | Inr bytes \<Rightarrow> (Return (EncodeToString (take 40 (bytes @ replicate 40 (CHR 0x00)))),
          s\<lparr>ticks := Suc (ticks s)\<rparr>))"
  by (simp add: generateUtf8Password_def wrapping_def rc_eval split: sum.split)

lemma buildDefaultSuperuserSecret_Some:
  assumes "buildDefaultSuperuserSecret E dc s = (Return (Some secret), t)"
  shows "\<exists>bytes. length bytes = 40 \<and> secret = newSecret (GetSuperuserSecretNamespacedName dc)
    (mapOf [(''username'', ClusterName (Spec dc) @ ''-superuser''), (''password'', EncodeToString bytes)])"
proof -
  obtain bytes where bytes: "e_rand E (ticks s) = Inr bytes" "ShouldGenerateSuperuserSecret dc"
    using assms by (cases "e_rand E (ticks s)")
      (auto simp: buildDefaultSuperuserSecret_def wrapping_def rc_eval generateUtf8Password_run split: if_splits)
  with assms show ?thesis
    by (intro exI [of _ "take 40 (bytes @ replicate 40 (CHR 0x00))"])
      (auto simp: buildDefaultSuperuserSecret_def wrapping_def rc_eval generateUtf8Password_run)
qed

text \<open>
  C25. The superuser secret that the operator generates passes the operator's own validation of
  user secrets whenever the cluster name is valid UTF-8. It carries the name the datacenter
  refers to, and its password has 54 characters, below the 55 that bcrypt reads.
\<close>

theorem default_superuser_secret_valid:
  assumes built: "buildDefaultSuperuserSecret E dc s = (Return (Some secret), t)"
    and name: "utf8_Valid (ClusterName (Spec dc))"
  shows "validateCassandraUserSecretContent (Some secret) = []
    \<and> namespacedNameOf secret = GetSuperuserSecretNamespacedName dc
    \<and> (\<exists>p. mfind (Data secret) ''password'' = Some p \<and> length p = 54)"
proof -
  obtain bytes where len: "length bytes = 40" and secret: "secret = newSecret (GetSuperuserSecretNamespacedName dc)
    (mapOf [(''username'', ClusterName (Spec dc) @ ''-superuser''), (''password'', EncodeToString bytes)])"
    using buildDefaultSuperuserSecret_Some [OF built] by blast
  have "utf8_Valid (EncodeToString bytes)" by (rule utf8_Valid_ascii) (rule EncodeToString_ascii)
  moreover have "utf8_Valid (ClusterName (Spec dc) @ ''-superuser'')"
    by (rule utf8_Valid_append [OF name utf8_Valid_ascii]) auto
  moreover have "length (EncodeToString bytes) = 54" by (simp add: length_EncodeToString len)
  ultimately show ?thesis
    by (simp add: secret validateCassandraUserSecretContent_def newSecret_def mfind_def mapOf_def
        namespacedNameOf_def ObjectMeta.defs)
qed

theorem default_superuser_secret_valid_witness:
  "\<exists>secret t. buildDefaultSuperuserSecret sampleEnv sampleDc sampleWorld = (Return (Some secret), t)
     \<and> validateCassandraUserSecretContent (Some secret) = []"
proof -
  obtain secret t where built: "buildDefaultSuperuserSecret sampleEnv sampleDc sampleWorld = (Return (Some secret), t)"
    by (simp add: buildDefaultSuperuserSecret_def wrapping_def rc_eval generateUtf8Password_run
        ShouldGenerateSuperuserSecret_def sample_defs)
  moreover have "utf8_Valid (ClusterName (Spec sampleDc))" by (simp add: sample_defs)
  ultimately show ?thesis using default_superuser_secret_valid [OF built] by blast
qed

text \<open>
  C28. The password keeps all of its randomness: two different answers of forty bytes from the
  random source give two different passwords.
\<close>

theorem passwords_keep_randomness:
  assumes "e_rand E (ticks s) = Inr a" "e_rand E (ticks s') = Inr b" "length a = 40" "length b = 40" "a \<noteq> b"
  shows "\<exists>p q. fst (generateUtf8Password E s) = Return p \<and> fst (generateUtf8Password E s') = Return q \<and> p \<noteq> q"
proof -
  have "EncodeToString a \<noteq> EncodeToString b" using EncodeToString_inject assms(3-5) by fastforce
  with assms show ?thesis by (simp add: generateUtf8Password_run)
qed

theorem passwords_keep_randomness_witness:
  "let E = sampleEnv\<lparr>e_rand := \<lambda>n. Inr (replicate 40 (if n = 0 then CHR ''x'' else CHR ''y''))\<rparr>
   in \<exists>p q. fst (generateUtf8Password E sampleWorld) = Return p
     \<and> fst (generateUtf8Password E (sampleWorld\<lparr>ticks := 1\<rparr>)) = Return q \<and> p \<noteq> q"
  unfolding Let_def
  by (rule passwords_keep_randomness [where a = "replicate 40 (CHR ''x'')" and b = "replicate 40 (CHR ''y'')"])
     (simp_all add: sampleWorld_def)

section \<open>Names in annotations\<close>

lemma TrimRightChar_snoc: "c \<notin> set s \<Longrightarrow> TrimRightChar (s @ [c]) c = s"
  by (cases s rule: rev_cases) (auto simp: TrimRightChar_def)

lemma namespacedName_roundtrip:
  assumes "CHR ''/'' \<notin> set (fst n)" "CHR ''/'' \<notin> set (snd n)"
  shows "namespacedNameFromString (namespacedNameToString n) = n"
proof -
  have "last (Split (namespacedNameToString n) (CHR ''/'')) = snd n"
    using assms by (simp add: namespacedNameToString_def last_Split_append_sep)
  moreover have "TrimSuffix (namespacedNameToString n) (snd n) = fst n @ ''/''"
    using TrimSuffix_append [of "fst n @ ''/''" "snd n"] by (simp add: namespacedNameToString_def)
  ultimately show ?thesis
    using assms by (simp add: namespacedNameFromString_def TrimRightChar_snoc)
qed

section \<open>The record of watchers\<close>

text \<open>
  What the operations on watchers rely on: an object records a list of names, and reading after an
  update gives the list that was written, for the lists that the encoding keeps.
\<close>

locale watch_record =
  fixes names :: "'o \<Rightarrow> string list" and update :: "'o \<Rightarrow> string list \<Rightarrow> 'o" and keeps :: "string list \<Rightarrow> bool"
  assumes names_update: "ns = [] \<or> keeps ns \<Longrightarrow> names (update w ns) = ns"
begin

lemma names_add:
  "keeps (AppendValuesToStringArrayIfNotPresent (names w) [x]) \<Longrightarrow>
   set (names (update w (AppendValuesToStringArrayIfNotPresent (names w) [x]))) = insert x (set (names w))"
  by (simp only: names_update simp_thms AppendValues_set) simp

lemma names_remove:
  assumes "distinct (names w)" "keeps (remove1 x (names w)) \<or> remove1 x (names w) = []"
  shows "set (names (update w (RemoveValueFromStringArray (names w) x))) = set (names w) - {x}"
  using assms by (simp only: RemoveValue_remove1 names_update disj_commute set_remove1_eq)

lemma remove_after_add:
  assumes "x \<notin> set (names w)" "keeps (names w @ [x])" "names w = [] \<or> keeps (names w)"
  shows "names (update (update w (names w @ [x])) (RemoveValueFromStringArray (names w @ [x]) x)) = names w"
  using assms by (simp add: names_update RemoveValue_remove1 remove1_append)

end

text \<open>\<open>encoding/json\<close> gives back a list of names that it has written.\<close>

definition jsonKeeps :: "env \<Rightarrow> string list \<Rightarrow> bool" where
  "jsonKeeps E ns \<longleftrightarrow> marshalStrings E ns \<noteq> []
     \<and> e_parseJson E (marshalStrings E ns) = Inr (JArray (map JString ns))"

lemma jsonStrings_JString: "jsonStrings (map JString ns) = Some ns"
  by (induction ns) auto

interpretation wr: watch_record "\<lambda>w. elems (getWatcherNames E w)" "\<lambda>w ns. snd (updateWatcherNames E w ns)"
  "jsonKeeps E" for E
  by unfold_locales
    (auto simp: updateWatcherNames_def getWatcherNames_def getAnnotationsOrEmptyMap_def contents_def
      jsonKeeps_def jsonStrings_JString Let_def)

lemma hasWatchedLabel_update:
  "hasWatchedLabel (snd (updateWatcherNames E w ns)) \<longleftrightarrow> ns \<noteq> []"
  by (auto simp: updateWatcherNames_def hasWatchedLabel_def getLabelsOrEmptyMap_def contents_def Let_def)

lemma Append_one_nonempty: "AppendValuesToStringArrayIfNotPresent xs [x] \<noteq> []"
  using AppendValues_set [of xs "[x]"] by (metis Un_insert_right insert_not_empty list.set(1) list.simps(15))

text \<open>
  C26. Recording a datacenter as a watcher of a secret is undone by nothing but its removal. After
  \<open>addWatcher\<close> the datacenter is among the watchers that \<open>FindWatchers\<close> reads back, every earlier
  watcher still is, nobody else is, and the secret carries the label by which it is listed. The
  names are Kubernetes names (no slash), and the JSON library reads back what it wrote.
\<close>

theorem addWatcher_found:
  assumes names: "CHR ''/'' \<notin> set (fst dc)" "CHR ''/'' \<notin> set (snd dc)"
    and json: "jsonKeeps E (AppendValuesToStringArrayIfNotPresent (elems (getWatcherNames E w))
      [namespacedNameToString dc])"
  shows "set (FindWatchers E (snd (addWatcher E w (namespacedNameToString dc)))) = insert dc (set (FindWatchers E w))
    \<and> hasWatchedLabel (snd (addWatcher E w (namespacedNameToString dc)))"
proof -
  have "namespacedNameFromString ` set (elems (getWatcherNames E (snd (addWatcher E w (namespacedNameToString dc)))))
      = namespacedNameFromString ` insert (namespacedNameToString dc) (set (elems (getWatcherNames E w)))"
    using wr.names_add [OF json] by (simp only: addWatcher_def)
  then show ?thesis
    by (simp add: FindWatchers_def namespacedNamesFromStringArray_def namespacedName_roundtrip [OF names]
        addWatcher_def hasWatchedLabel_update Append_one_nonempty
        del: AppendValuesToStringArrayIfNotPresent.simps)
qed

theorem addWatcher_found_witness:
  "let E = sampleEnv\<lparr>e_marshal := \<lambda>j. ''json'', e_parseJson := \<lambda>t. Inr (JArray [JString ''ns/dc1''])\<rparr>
   in set (FindWatchers E (snd (addWatcher E (sampleMeta ''secret'') (namespacedNameToString (''ns'', ''dc1'')))))
     = {(''ns'', ''dc1'')}"
proof -
  let ?E = "sampleEnv\<lparr>e_marshal := \<lambda>j. ''json'', e_parseJson := \<lambda>t. Inr (JArray [JString ''ns/dc1''])\<rparr>"
  have none: "getWatcherNames ?E (sampleMeta ''secret'') = Some []"
    by (simp add: getWatcherNames_def getAnnotationsOrEmptyMap_def contents_def sample_defs)
  have "jsonKeeps ?E (AppendValuesToStringArrayIfNotPresent (elems (getWatcherNames ?E (sampleMeta ''secret'')))
      [namespacedNameToString (''ns'', ''dc1'')])"
    by (simp add: none jsonKeeps_def marshalStrings_def namespacedNameToString_def)
  from addWatcher_found [OF _ _ this]
  show ?thesis by (simp add: Let_def FindWatchers_def none namespacedNamesFromStringArray_def)
qed

text \<open>
  C27. Watching and then no longer watching leaves the watchers as they were: \<open>removeWatcher\<close> after
  \<open>addWatcher\<close> of a new watcher gives back the list of watchers, and when the watcher was the only
  one the object loses the label by which watched secrets are listed.
\<close>

theorem removeWatcher_addWatcher:
  assumes new: "x \<notin> set (elems (getWatcherNames E w))"
    and json: "jsonKeeps E (elems (getWatcherNames E w) @ [x])"
      "elems (getWatcherNames E w) = [] \<or> jsonKeeps E (elems (getWatcherNames E w))"
  shows "let w' = snd (removeWatcher E (snd (addWatcher E w x)) x)
    in elems (getWatcherNames E w') = elems (getWatcherNames E w)
      \<and> (hasWatchedLabel w' \<longleftrightarrow> elems (getWatcherNames E w) \<noteq> [])"
proof -
  let ?ns = "elems (getWatcherNames E w)" and ?added = "snd (addWatcher E w x)"
  have added: "?added = snd (updateWatcherNames E w (?ns @ [x]))"
    using new by (simp add: addWatcher_def)
  have "elems (getWatcherNames E ?added) = ?ns @ [x]"
    unfolding added by (rule wr.names_update) (simp add: json(1))
  then have w': "snd (removeWatcher E ?added x) = snd (updateWatcherNames E ?added (RemoveValueFromStringArray (?ns @ [x]) x))"
    by (simp add: removeWatcher_def)
  have "RemoveValueFromStringArray (?ns @ [x]) x = ?ns"
    using new by (auto simp: RemoveValue_remove1 remove1_append)
  with w' show ?thesis using wr.remove_after_add [OF new json]
    by (simp add: Let_def added hasWatchedLabel_update)
qed

theorem removeWatcher_addWatcher_witness:
  "let E = sampleEnv\<lparr>e_marshal := \<lambda>j. ''json'', e_parseJson := \<lambda>t. Inr (JArray [JString ''ns/dc1''])\<rparr>;
       w' = snd (removeWatcher E (snd (addWatcher E (sampleMeta ''secret'') ''ns/dc1'')) ''ns/dc1'')
   in elems (getWatcherNames E w') = [] \<and> \<not> hasWatchedLabel w'"
proof -
  let ?E = "sampleEnv\<lparr>e_marshal := \<lambda>j. ''json'', e_parseJson := \<lambda>t. Inr (JArray [JString ''ns/dc1''])\<rparr>"
  have none: "getWatcherNames ?E (sampleMeta ''secret'') = Some []"
    by (simp add: getWatcherNames_def getAnnotationsOrEmptyMap_def contents_def sample_defs)
  show ?thesis
    using removeWatcher_addWatcher [of "''ns/dc1''" ?E "sampleMeta ''secret''"]
    by (simp add: none Let_def jsonKeeps_def marshalStrings_def)
qed

end
