(* ===== verification/GoOs.thy ===== *)
theory GoOs
  imports GoLib
begin

text \<open>
  What the start-up code and the build tooling use of \<open>os\<close>, \<open>path/filepath\<close>, \<open>strconv\<close> and
  \<open>encoding/base64\<close>: environment variables, paths, truth values and padded Base64. A process
  environment maps a name to its value, \<open>None\<close> for a variable that is not set.
\<close>

type_synonym environment = "string \<Rightarrow> string option"

section \<open>Paths\<close>

text \<open>
  \<open>filepath.Clean\<close>: empty and dot elements are dropped, and a parent element removes the element
  before it, or is itself dropped at the root. The stack holds the elements kept so far, last first.
\<close>

fun cleanElems :: "bool \<Rightarrow> string list \<Rightarrow> string list \<Rightarrow> string list" where
  "cleanElems rooted stack [] = rev stack"
| "cleanElems rooted stack (p # ps) =
     (if p = [] \<or> p = ''.'' then cleanElems rooted stack ps
      else if p = ''..'' then
        (case stack of
           x # xs \<Rightarrow> if x = ''..'' then cleanElems rooted (p # stack) ps else cleanElems rooted xs ps
         | [] \<Rightarrow> if rooted then cleanElems rooted [] ps else cleanElems rooted [p] ps)
      else cleanElems rooted (p # stack) ps)"

definition Clean :: "string \<Rightarrow> string" where
  "Clean path =
     (let rooted = HasPrefix path ''/'';
          body = Join (cleanElems rooted [] (Split path (CHR ''/''))) ''/''
      in if rooted then ''/'' @ body else if body = [] then ''.'' else body)"

text \<open>\<open>filepath.Join\<close> starts at the first element that is not empty.\<close>

definition joinPath :: "string list \<Rightarrow> string" where
  "joinPath elems =
     (case dropWhile (\<lambda>e. e = []) elems of [] \<Rightarrow> [] | es \<Rightarrow> Clean (Join es ''/''))"

definition TempDir :: "environment \<Rightarrow> string" where
  "TempDir env = (case env ''TMPDIR'' of Some d \<Rightarrow> if d = [] then ''/tmp'' else d | None \<Rightarrow> ''/tmp'')"

section \<open>Truth values\<close>

definition ParseBool :: "string \<Rightarrow> bool outcome" where
  "ParseBool s =
     (if s \<in> {''1'', ''t'', ''T'', ''true'', ''TRUE'', ''True''} then Return True
      else if s \<in> {''0'', ''f'', ''F'', ''false'', ''FALSE'', ''False''} then Return False
      else Fail (Errorf (''strconv.ParseBool: parsing '' @ s @ '': invalid syntax'')))"

section \<open>Base64\<close>

definition base64StdAlphabet :: string where
  "base64StdAlphabet = ''ABCDEFGHIJKLMNOPQRSTUVWXYZabcdefghijklmnopqrstuvwxyz0123456789+/''"

definition stdSextet :: "nat \<Rightarrow> char" where
  "stdSextet v = base64StdAlphabet ! (v mod 64)"

text \<open>
  \<open>base64.StdEncoding.EncodeToString\<close>: the 24 bits of three bytes as four digits of six bits, with the
  last group padded.
\<close>

fun StdEncodeToString :: "string \<Rightarrow> string" where
  "StdEncodeToString [] = []"
| "StdEncodeToString [a] =
     (let x = of_char a in [stdSextet (x div 4), stdSextet (x mod 4 * 16), CHR ''='', CHR ''=''])"
| "StdEncodeToString [a, b] =
     (let x = of_char a; y = of_char b
      in [stdSextet (x div 4), stdSextet (x mod 4 * 16 + y div 16), stdSextet (y mod 16 * 4), CHR ''=''])"
| "StdEncodeToString (a # b # c # rest) =
     (let x = of_char a; y = of_char b; z = of_char c
      in [stdSextet (x div 4), stdSextet (x mod 4 * 16 + y div 16), stdSextet (y mod 16 * 4 + z div 64), stdSextet (z mod 64)]
         @ StdEncodeToString rest)"

section \<open>Laws\<close>

lemma Join_append_nonempty: "xs \<noteq> [] \<Longrightarrow> ys \<noteq> [] \<Longrightarrow> Join (xs @ ys) sep = Join xs sep @ sep @ Join ys sep"
proof (induction xs sep rule: Join.induct)
  case (2 x sep)
  then show ?case by (cases ys) auto
qed auto

text \<open>An element of a path that is already clean.\<close>

definition plainElem :: "string \<Rightarrow> bool" where
  "plainElem p \<longleftrightarrow> p \<noteq> [] \<and> p \<noteq> ''.'' \<and> p \<noteq> ''..'' \<and> CHR ''/'' \<notin> set p"

lemma cleanElems_plain: "list_all plainElem ps \<Longrightarrow> cleanElems r st ps = rev st @ ps"
  by (induction ps arbitrary: st) (auto simp: plainElem_def)

lemma Split_Join:
  "xs \<noteq> [] \<Longrightarrow> \<forall>x\<in>set xs. c \<notin> set x \<Longrightarrow> Split (Join xs [c]) c = xs"
  by (induction xs "[c]" rule: Join.induct) (auto simp: Split_no_sep Split_append_sep)

text \<open>A rooted path of plain elements is clean, and joining plain elements to it appends them.\<close>

lemma Clean_rooted:
  assumes "ps \<noteq> []" "list_all plainElem ps"
  shows "Clean (''/'' @ Join ps ''/'') = ''/'' @ Join ps ''/''"
proof -
  have "Split (''/'' @ Join ps ''/'') (CHR ''/'') = [] # ps"
    using assms Split_Join [of ps "CHR ''/''"] by (simp add: list_all_iff plainElem_def)
  then show ?thesis using cleanElems_plain [OF assms(2), of True "[]"] by (simp add: Clean_def HasPrefix_def)
qed

end
