(* ===== verification/AdmissionWebhook.thy ===== *)
theory AdmissionWebhook
  imports Crypto GoOs
begin

text \<open>
  The certificate of the webhook server (\<open>pkg/admissionwebhook/webhook.go\<close>), and the state in which
  the operator starts: the process environment, the calls made so far, each with whether it
  succeeded, and the count of draws and clock readings. What a call answers is given by \<open>bootenv\<close>,
  as a function of the calls before it.
\<close>

section \<open>Calls and state of a start\<close>

record ManagerOptions =
  mo_Namespace :: string
  mo_MetricsBindAddress :: string
  mo_CertDir :: string
  mo_Port :: int
  mo_NewCache :: "string list option"

text \<open>
  A watch is named after its source; those of the last five kinds are narrowed by the predicates
  and mapped by the functions of the controller.
\<close>

datatype watchSource =
    WatchDatacenters | WatchStatefulSets | WatchDisruptionBudgets | WatchServices
  | WatchConfigSecrets | WatchNodes | WatchClaims | WatchSecrets

datatype bootCall =
    ReadFile string | WriteFile string string | StatFile string
  | NewClient
  | GetWebhookConfig string | UpdateWebhookConfig json
  | GetWebhookSecret NamespacedName | UpdateWebhookSecret Secret "string gomap"
  | GetOperatorPod string
  | ParseFlags | GetConfig | SetReady | UnsetReady | BecomeLeader string
  | NewManager ManagerOptions | AddToScheme | NewController string | WatchSource watchSource
  | CompleteWebhook | StartManager
  | GetGVKs | GetNamespacesForMetrics string | ServeCRMetrics "string list" string int
  | CreateMetricsService "ServicePort list" | CreateServiceMonitors string "Service option list"

record boot =
  environ :: environment
  bootTicks :: nat
  bootLog :: "(bootCall \<times> bool) list"

text \<open>
  The library \<open>unstructured\<close>: the string or the slice at a path and whether there is one, and the
  object with the value at a path set.
\<close>

record unstructuredLib =
  u_NestedString :: "json \<Rightarrow> string list \<Rightarrow> error + (string \<times> bool)"
  u_NestedSlice :: "json \<Rightarrow> string list \<Rightarrow> error + (json list \<times> bool)"
  u_SetNestedField :: "json \<Rightarrow> json \<Rightarrow> string list \<Rightarrow> error + json"
  u_SetNestedSlice :: "json \<Rightarrow> json list \<Rightarrow> string list \<Rightarrow> error + json"

text \<open>
  Besides the answers: the namespace to watch, which the SDK reads from the process environment,
  whether an error says that the operator runs outside a cluster, the port names of the metrics
  library, the certificates of the system, and the verification of a certificate for a name against a pool.
\<close>

record bootenv =
  b_env :: env
  b_unstructured :: unstructuredLib
  b_watchNamespace :: "environment \<Rightarrow> error + string"
  b_isRunLocal :: "error \<Rightarrow> bool"
  b_OperatorPortName :: string
  b_CRPortName :: string
  b_SystemCertPool :: "error + Certificate list"
  b_verify :: "Certificate \<Rightarrow> string \<Rightarrow> Certificate list \<Rightarrow> error option"
  b_text :: "(bootCall \<times> bool) list \<Rightarrow> bootCall \<Rightarrow> error + string"
  b_isDir :: "(bootCall \<times> bool) list \<Rightarrow> bootCall \<Rightarrow> error + bool"
  b_json :: "(bootCall \<times> bool) list \<Rightarrow> bootCall \<Rightarrow> error + json"
  b_secret :: "(bootCall \<times> bool) list \<Rightarrow> bootCall \<Rightarrow> error + Secret"
  b_pod :: "(bootCall \<times> bool) list \<Rightarrow> bootCall \<Rightarrow> error + Pod"
  b_service :: "(bootCall \<times> bool) list \<Rightarrow> bootCall \<Rightarrow> error + Service"
  b_names :: "(bootCall \<times> bool) list \<Rightarrow> bootCall \<Rightarrow> error + string list"
  b_unit :: "(bootCall \<times> bool) list \<Rightarrow> bootCall \<Rightarrow> error + unit"

definition ask :: "((bootCall \<times> bool) list \<Rightarrow> bootCall \<Rightarrow> error + 'a) \<Rightarrow> bootCall \<Rightarrow> (boot, 'a) op" where
  "ask answer c = (\<lambda>s. let a = answer (bootLog s) c
     in (of_sum a, s\<lparr>bootLog := bootLog s @ [(c, case a of Inl _ \<Rightarrow> False | Inr _ \<Rightarrow> True)]\<rparr>))"

definition bootTicking :: "(nat, 'a) op \<Rightarrow> (boot, 'a) op" where
  "bootTicking m = (\<lambda>s. case m (bootTicks s) of (r, n) \<Rightarrow> (r, s\<lparr>bootTicks := n\<rparr>))"

section \<open>Files\<close>

definition altCertDir :: "environment \<Rightarrow> string" where
  "altCertDir env = joinPath [TempDir env]"

definition serverCertFile :: "environment \<Rightarrow> string" where
  "serverCertFile env = joinPath [TempDir env, ''k8s-webhook-server'', ''serving-certs'', ''tls.crt'']"

definition altServerCertFile :: "environment \<Rightarrow> string" where
  "altServerCertFile env = joinPath [altCertDir env, ''tls.crt'']"

definition altServerKeyFile :: "environment \<Rightarrow> string" where
  "altServerKeyFile env = joinPath [altCertDir env, ''tls.key'']"

section \<open>The registration of the webhook\<close>

definition serviceNamespacePath :: "string list" where
  "serviceNamespacePath = [''clientConfig'', ''service'', ''namespace'']"

definition caBundlePath :: "string list" where
  "caBundlePath = [''clientConfig'', ''caBundle'']"

text \<open>The namespace that a failed lookup leaves is the empty one.\<close>

definition webhookNamespace :: "bootenv \<Rightarrow> json \<Rightarrow> string" where
  "webhookNamespace B webhook =
     (case u_NestedString (b_unstructured B) webhook serviceNamespacePath of Inl _ \<Rightarrow> [] | Inr (v, _) \<Rightarrow> v)"

text \<open>The first entry that is an object and is for the namespace, with its index.\<close>

definition isObject :: "json \<Rightarrow> bool" where
  "isObject j = (case j of JObject _ \<Rightarrow> True | _ \<Rightarrow> False)"

fun findWebhook :: "bootenv \<Rightarrow> string \<Rightarrow> nat \<Rightarrow> json list \<Rightarrow> (json \<times> nat) option" where
  "findWebhook B namespace i [] = None"
| "findWebhook B namespace i (webhook # rest) =
     (if isObject webhook \<and> webhookNamespace B webhook = namespace then Some (webhook, i)
      else findWebhook B namespace (Suc i) rest)"

definition fetchWebhookForNamespace :: "bootenv \<Rightarrow> string \<Rightarrow> (boot, json \<times> json \<times> nat) op" where
  "fetchWebhookForNamespace B namespace =
     bindM (ask (b_json B) (GetWebhookConfig ''cassandradatacenter-webhook-registration'')) (\<lambda>webhook_config.
     bindM (lift (of_sum (u_NestedSlice (b_unstructured B) webhook_config [''webhooks'']))) (\<lambda>(webhook_list, present).
       case (if present then findWebhook B namespace 0 webhook_list else None) of
         Some (webhook, webhook_index) \<Rightarrow> ret (webhook_config, webhook, webhook_index)
       | None \<Rightarrow> fail (Errorf ''Webhook not found for namespace'')))"

text \<open>When the list of webhooks is no longer there, nothing is written and no error is returned.\<close>

definition updateWebhook :: "bootenv \<Rightarrow> string \<Rightarrow> string \<Rightarrow> (boot, unit) op" where
  "updateWebhook B cert namespace =
     (let U = b_unstructured B in
      bindM (fetchWebhookForNamespace B namespace) (\<lambda>(webhook_config, webhook, webhook_index).
      bindM (lift (of_sum (u_SetNestedField U webhook (JString namespace) serviceNamespacePath))) (\<lambda>webhook.
      bindM (lift (of_sum (u_SetNestedField U webhook (JString (StdEncodeToString cert)) caBundlePath))) (\<lambda>webhook.
      bindM (lift (of_sum (u_NestedSlice U webhook_config [''webhooks'']))) (\<lambda>(webhook_slice, present).
        if present then
          if webhook_index < length webhook_slice then
            bindM (lift (of_sum (u_SetNestedSlice U webhook_config (webhook_slice[webhook_index := webhook]) [''webhooks''])))
              (\<lambda>webhook_config. ask (b_unit B) (UpdateWebhookConfig webhook_config))
          else panic
        else ret ())))))"

text \<open>
  The directory that is returned is the alternative one once the files are written, also when the
  update of the registration then fails; before, it is empty.
\<close>

definition webhookSecretName :: string where
  "webhookSecretName = ''cass-operator-webhook-config''"

definition writeCertificates :: "bootenv \<Rightarrow> string \<Rightarrow> (boot, string) op" where
  "writeCertificates B namespace =
     bindM (bootTicking (GetNewCAandKey (b_env B) webhookSecretName namespace)) (\<lambda>(key, cert).
     bindM (ask (b_unit B) NewClient) (\<lambda>_.
     bindM (ask (b_secret B) (GetWebhookSecret (namespace, webhookSecretName))) (\<lambda>secret.
     bindM (ask (b_unit B) (UpdateWebhookSecret secret (mapOf [(''tls.key'', key), (''tls.crt'', cert)]))) (\<lambda>_.
     bindM (gets environ) (\<lambda>env.
     bindM (ask (b_unit B) (WriteFile (altServerCertFile env) cert)) (\<lambda>_.
     bindM (ask (b_unit B) (WriteFile (altServerKeyFile env) key)) (\<lambda>_.
     ret cert)))))))"

definition updateSecretAndWebhook :: "bootenv \<Rightarrow> string \<Rightarrow> (boot, string \<times> error option) op" where
  "updateSecretAndWebhook B namespace =
     bindM (attempt (writeCertificates B namespace)) (\<lambda>r.
       case r of
         Inl e \<Rightarrow> ret ([], Some e)
       | Inr cert \<Rightarrow>
           bindM (gets environ) (\<lambda>env.
           bindM (attempt (updateWebhook B cert namespace)) (\<lambda>r.
           ret (altCertDir env, case r of Inl e \<Rightarrow> Some e | Inr _ \<Rightarrow> None))))"

text \<open>
  Whether the mounted certificate is the registered one and valid for the name of the service. An
  error of the pool of the system is not reset after a new pool is made, so that the validation is
  then skipped.
\<close>

definition certificateValid :: "bootenv \<Rightarrow> string \<Rightarrow> string \<Rightarrow> json \<Rightarrow> bool" where
  "certificateValid B namespace content webhook =
     (case u_NestedString (b_unstructured B) webhook caBundlePath of
        Inl _ \<Rightarrow> False
      | Inr (bundled, _) \<Rightarrow>
          StdEncodeToString content = bundled
          \<and> (case b_SystemCertPool B of
               Inl _ \<Rightarrow> False
             | Inr certpool \<Rightarrow>
                 (case x_pemBlocks (e_x509 (b_env B)) content of
                    [] \<Rightarrow> False
                  | (_, bytes) # _ \<Rightarrow>
                      (case c_ParseCertificate (e_crypto (b_env B)) bytes of
                         Inl _ \<Rightarrow> False
                       | Inr cert \<Rightarrow>
                           b_verify B cert (''cassandradatacenter-webhook-service.'' @ namespace @ ''.svc'')
                             (certpool @ [cert]) = None))))"

text \<open>
  The result \<open>certDir\<close> of the function hides the variable of the package, so that the directory
  returned for a valid certificate is the empty string.
\<close>

definition EnsureWebhookCertificate :: "bootenv \<Rightarrow> (boot, string \<times> error option) op" where
  "EnsureWebhookCertificate B =
     (case e_operatorNs (b_env B) of
        Inl e \<Rightarrow> ret ([], Some e)
      | Inr namespace \<Rightarrow>
          bindM (gets environ) (\<lambda>env.
          bindM (attempt (ask (b_text B) (ReadFile (serverCertFile env)))) (\<lambda>r.
            case r of
              Inl _ \<Rightarrow> updateSecretAndWebhook B namespace
            | Inr content \<Rightarrow>
                if length content > 0 then
                  bindM (attempt (bindM (ask (b_unit B) NewClient) (\<lambda>_. fetchWebhookForNamespace B namespace))) (\<lambda>r.
                    case r of
                      Inl _ \<Rightarrow> updateSecretAndWebhook B namespace
                    | Inr (_, webhook, _) \<Rightarrow>
                        if certificateValid B namespace content webhook then ret ([], None)
                        else updateSecretAndWebhook B namespace)
                else updateSecretAndWebhook B namespace)))"

text \<open>
  The first component is the status of a process that ends here, the second an error.
\<close>

definition EnsureWebhookConfigVolume :: "bootenv \<Rightarrow> (boot, int option \<times> error option) op" where
  "EnsureWebhookConfigVolume B =
     (case e_operatorNs (b_env B) of
        Inl e \<Rightarrow> ret (None, Some e)
      | Inr namespace \<Rightarrow>
          bindM (attempt (bindM (ask (b_unit B) NewClient) (\<lambda>_. ask (b_pod B) (GetOperatorPod namespace)))) (\<lambda>r.
            case r of
              Inl e \<Rightarrow> ret (None, Some e)
            | Inr pod \<Rightarrow>
                if \<exists>volume\<in>set (Volumes pod). v_Name volume = ''cass-operator-certs-volume'' then ret (None, None)
                else ret (Some 1, None)))"

end
