(* ===== verification/Manager.thy ===== *)
theory Manager
  imports AdmissionWebhook Images
begin

text \<open>
  The process of the operator (\<open>cmd/manager/main.go\<close>), with the registration of the schemes
  (\<open>pkg/apis\<close>) and of the controller with its watches (\<open>pkg/controller\<close>). A run ends with
  \<open>Some c\<close> when it calls \<open>os.Exit(c)\<close>, which does not run deferred calls, and with \<open>None\<close> when
  \<open>main\<close> returns. Logging is left out.
\<close>

section \<open>Control\<close>

definition orExit :: "(boot, 'a) op \<Rightarrow> ('a \<Rightarrow> (boot, int option) op) \<Rightarrow> (boot, int option) op" where
  "orExit m k = bindM (attempt m) (\<lambda>r. case r of Inl _ \<Rightarrow> ret (Some 1) | Inr a \<Rightarrow> k a)"

text \<open>A deferred call whose error is dropped: it runs when the function returns or panics.\<close>

definition deferring :: "(boot, unit) op \<Rightarrow> (boot, int option) op \<Rightarrow> (boot, int option) op" where
  "deferring d m = (\<lambda>s. case m s of
      (Return (Some c), t) \<Rightarrow> (Return (Some c), t)
    | (r, t) \<Rightarrow> (r, snd (d t)))"

definition setenv :: "string \<Rightarrow> string \<Rightarrow> (boot, unit) op" where
  "setenv k v = modify (\<lambda>s. s\<lparr>environ := (environ s)(k := Some v)\<rparr>)"

section \<open>Registration\<close>

text \<open>
  \<open>add\<close> registers the watches in this order; those of nodes and claims only for vSphere. The
  reconciler is the one made by \<open>NewReconciler\<close>, so that the test of its type succeeds.
\<close>

definition registerWatches :: "bootenv \<Rightarrow> watchSource list \<Rightarrow> (boot, unit) op" where
  "registerWatches B ws = foldM (\<lambda>_ w. ask (b_unit B) (WatchSource w)) () ws"

definition controllerWatches :: "environment \<Rightarrow> watchSource list" where
  "controllerWatches env =
     [WatchDatacenters, WatchStatefulSets, WatchDisruptionBudgets, WatchServices, WatchConfigSecrets]
     @ (if IsPSPEnabled env then [WatchNodes] else [])
     @ (if IsPSPEnabled env then [WatchClaims] else [])
     @ [WatchSecrets]"

definition add :: "bootenv \<Rightarrow> (boot, unit) op" where
  "add B =
     bindM (ask (b_unit B) (NewController ''cassandradatacenter-controller'')) (\<lambda>_.
     bindM (gets environ) (\<lambda>env. registerWatches B (controllerWatches env)))"

definition AddToManagerFuncs :: "bootenv \<Rightarrow> (boot, unit) op list" where
  "AddToManagerFuncs B = [add B]"

definition AddToManager :: "bootenv \<Rightarrow> (boot, unit) op" where
  "AddToManager B = foldM (\<lambda>_ f. f) () (AddToManagerFuncs B)"

section \<open>Metrics\<close>

definition metricsHost :: string where "metricsHost = ''0.0.0.0''"
definition metricsPort :: int where "metricsPort = 8383"
definition operatorMetricsPort :: int where "operatorMetricsPort = 8686"

definition serveCRMetrics :: "bootenv \<Rightarrow> string \<Rightarrow> (boot, unit) op" where
  "serveCRMetrics B operatorNs =
     bindM (ask (b_unit B) GetGVKs) (\<lambda>_.
     bindM (ask (b_names B) (GetNamespacesForMetrics operatorNs)) (\<lambda>ns.
     ask (b_unit B) (ServeCRMetrics ns metricsHost operatorMetricsPort)))"

definition metricsServicePorts :: "bootenv \<Rightarrow> ServicePort list" where
  "metricsServicePorts B =
     map (\<lambda>(name, port). \<lparr>sp_Name = name, sp_Port = port, sp_TargetPort = port, sp_NodePort = 0\<rparr>)
       [(b_OperatorPortName B, metricsPort), (b_CRPortName B, operatorMetricsPort)]"

definition addMetrics :: "bootenv \<Rightarrow> (boot, unit) op" where
  "addMetrics B =
     (let operatorNs = (case e_operatorNs (b_env B) of Inl _ \<Rightarrow> [] | Inr ns \<Rightarrow> ns) in
      if (case e_operatorNs (b_env B) of Inl e \<Rightarrow> b_isRunLocal B e | Inr _ \<Rightarrow> False) then ret ()
      else
        bindM (attempt (serveCRMetrics B operatorNs)) (\<lambda>_.
        bindM (attempt (ask (b_service B) (CreateMetricsService (metricsServicePorts B)))) (\<lambda>r.
        let service = (case r of Inl _ \<Rightarrow> None | Inr s \<Rightarrow> Some s)
        in bindM (attempt (ask (b_unit B) (CreateServiceMonitors operatorNs [service]))) (\<lambda>_.
           ret ()))))"

section \<open>The base image\<close>

definition baseOsArgFilePath :: string where
  "baseOsArgFilePath = ''/var/lib/cass-operator/base_os''"

text \<open>An error of \<open>os.Stat\<close> other than a missing file leaves \<open>info\<close> nil.\<close>

definition readBaseOsIntoEnv :: "bootenv \<Rightarrow> (boot, unit) op" where
  "readBaseOsIntoEnv B =
     bindM (attempt (ask (b_isDir B) (StatFile baseOsArgFilePath))) (\<lambda>r.
       case r of
         Inl e \<Rightarrow>
           if IsNotFound e
           then fail (Wrapf (''Could not locate base OS arg file at '' @ baseOsArgFilePath @ ''. '') e)
           else panic
       | Inr isDir \<Rightarrow>
           if isDir then fail (Errorf (''Base OS arg path is a directory not a file: '' @ baseOsArgFilePath @ ''. <nil>''))
           else
             bindM (attempt (ask (b_text B) (ReadFile baseOsArgFilePath))) (\<lambda>r.
               case r of
                 Inl e \<Rightarrow> fail (Wrapf (''Failed to read base OS arg file at '' @ baseOsArgFilePath @ ''. '') e)
               | Inr rawVal \<Rightarrow> setenv ''BASE_IMAGE_OS'' (TrimSpace rawVal)))"

section \<open>The process\<close>

text \<open>A star stands for all namespaces, which the library expects as the empty string.\<close>

definition rewriteWatchNamespace :: "(boot, unit) op" where
  "rewriteWatchNamespace =
     bindM (gets environ) (\<lambda>env.
       if env ''WATCH_NAMESPACE'' = Some ''*'' then setenv ''WATCH_NAMESPACE'' [] else ret ())"

definition managerOptions :: "string \<Rightarrow> string \<Rightarrow> ManagerOptions" where
  "managerOptions namespace certDir =
     (let options = \<lparr>mo_Namespace = namespace,
          mo_MetricsBindAddress = metricsHost @ '':'' @ showInt metricsPort,
          mo_CertDir = certDir, mo_Port = 8443, mo_NewCache = None\<rparr>
      in if CHR '','' \<in> set namespace
         then options\<lparr>mo_Namespace := [], mo_NewCache := Some (Split namespace (CHR '',''))\<rparr>
         else options)"

definition skipWebhookEnvVal :: "environment \<Rightarrow> string" where
  "skipWebhookEnvVal env =
     (let v = Getenv env ''SKIP_VALIDATING_WEBHOOK'' in if v = [] then ''FALSE'' else v)"

definition runManager :: "bootenv \<Rightarrow> string \<Rightarrow> string \<Rightarrow> (boot, int option) op" where
  "runManager B namespace certDir =
     orExit (ask (b_unit B) (NewManager (managerOptions namespace certDir))) (\<lambda>_.
     orExit (ask (b_unit B) AddToScheme) (\<lambda>_.
     orExit (AddToManager B) (\<lambda>_.
     bindM (gets environ) (\<lambda>env.
     orExit (lift (ParseBool (skipWebhookEnvVal env))) (\<lambda>skipWebhook.
     orExit (if \<not> skipWebhook then ask (b_unit B) CompleteWebhook else ret ()) (\<lambda>_.
     bindM (addMetrics B) (\<lambda>_.
     orExit (ask (b_unit B) StartManager) (\<lambda>_. ret None))))))))"

definition runAsLeader :: "bootenv \<Rightarrow> string \<Rightarrow> (boot, int option) op" where
  "runAsLeader B namespace =
     orExit (ask (b_unit B) (BecomeLeader ''cass-operator-lock'')) (\<lambda>_.
     bindM (EnsureWebhookConfigVolume B) (\<lambda>(exited, _).
       case exited of
         Some c \<Rightarrow> ret (Some c)
       | None \<Rightarrow>
           bindM (EnsureWebhookCertificate B) (\<lambda>(certDir, _).
           bindM (attempt (readBaseOsIntoEnv B)) (\<lambda>_.
           runManager B namespace certDir))))"

text \<open>A command line that cannot be parsed ends the process with status 2.\<close>

definition main :: "bootenv \<Rightarrow> (boot, int option) op" where
  "main B =
     bindM rewriteWatchNamespace (\<lambda>_.
     bindM (attempt (ask (b_unit B) ParseFlags)) (\<lambda>r.
       case r of
         Inl _ \<Rightarrow> ret (Some 2)
       | Inr _ \<Rightarrow>
           bindM (gets environ) (\<lambda>env.
           orExit (lift (of_sum (b_watchNamespace B env))) (\<lambda>namespace.
           orExit (ask (b_unit B) GetConfig) (\<lambda>_.
           orExit (ask (b_unit B) SetReady) (\<lambda>_.
           deferring (bindM (attempt (ask (b_unit B) UnsetReady)) (\<lambda>_. ret ()))
             (runAsLeader B namespace)))))))"

end
