(* ===== verification/Startup.thy ===== *)
theory Startup
  imports Manager Secrets Samples
begin

text \<open>
  Properties of the start of the operator: what has happened when the manager starts, and that the
  certificate of the webhook, once written and registered, is kept by the next start.
\<close>

section \<open>Order of a start\<close>

abbreviation starting :: "(bootCall \<times> bool) list \<Rightarrow> bool" where
  "starting cs \<equiv> (\<exists>ok. (StartManager, ok) \<in> set cs)"

definition succeeded :: "(bootCall \<times> bool) list \<Rightarrow> bootCall set" where
  "succeeded cs = {c. (c, True) \<in> set cs}"

lemma succeeded_simps [simp]: "succeeded [] = {}" "succeeded (cs @ ds) = succeeded cs \<union> succeeded ds"
    "succeeded ((c, ok) # cs) = (if ok then insert c (succeeded cs) else succeeded cs)"
  by (auto simp: succeeded_def)

text \<open>
  \<open>ran C m\<close>: the operation keeps the process environment and only appends calls other than the start of
  the manager, and when it returns, the calls \<open>C\<close> were made and succeeded. \<open>starts C m\<close>: it keeps the
  environment, and if it starts the manager, then once, after the calls \<open>C\<close> were made and succeeded, and
  no call but the withdrawal of the readiness file follows. \<open>prior\<close> and \<open>launches\<close> are the same for
  operations that may change the environment; what \<open>launches\<close> promises is for the environment at the end.
\<close>

definition ran :: "(environment \<Rightarrow> bootCall set) \<Rightarrow> (boot, 'a) op \<Rightarrow> bool" where
  "ran C m \<longleftrightarrow> (\<forall>s r t. m s = (r, t) \<longrightarrow> environ t = environ s \<and> (\<exists>cs. bootLog t = bootLog s @ cs \<and> \<not> starting cs
     \<and> (\<forall>a. r = Return a \<longrightarrow> C (environ s) \<subseteq> succeeded cs)))"

definition lastly :: "bootCall set \<Rightarrow> (bootCall \<times> bool) list \<Rightarrow> bool" where
  "lastly X cs \<longleftrightarrow> (starting cs \<longrightarrow> (\<exists>pre ok post. cs = pre @ (StartManager, ok) # post \<and> \<not> starting pre
     \<and> X \<subseteq> succeeded pre \<and> fst ` set post \<subseteq> {UnsetReady}))"

definition starts :: "(environment \<Rightarrow> bootCall set) \<Rightarrow> (boot, 'a) op \<Rightarrow> bool" where
  "starts C m \<longleftrightarrow> (\<forall>s r t. m s = (r, t) \<longrightarrow>
     environ t = environ s \<and> (\<exists>cs. bootLog t = bootLog s @ cs \<and> lastly (C (environ s)) cs))"

definition prior :: "bootCall set \<Rightarrow> (boot, 'a) op \<Rightarrow> bool" where
  "prior X m \<longleftrightarrow> (\<forall>s r t. m s = (r, t) \<longrightarrow>
     (\<exists>cs. bootLog t = bootLog s @ cs \<and> \<not> starting cs \<and> (\<forall>a. r = Return a \<longrightarrow> X \<subseteq> succeeded cs)))"

definition launches :: "(environment \<Rightarrow> bootCall set) \<Rightarrow> (boot, 'a) op \<Rightarrow> bool" where
  "launches C m \<longleftrightarrow> (\<forall>s r t. m s = (r, t) \<longrightarrow>
     (\<exists>cs. bootLog t = bootLog s @ cs \<and> lastly (C (environ t)) cs))"

abbreviation aside :: "(boot, 'a) op \<Rightarrow> bool" where
  "aside \<equiv> ran (\<lambda>_. {})"

named_theorems ran_intros \<open>operations that make no call of interest\<close>

lemma ranE:
  assumes "ran C m" "m s = (r, t)"
  obtains cs where "environ t = environ s" "bootLog t = bootLog s @ cs" "\<not> starting cs"
    "\<forall>a. r = Return a \<longrightarrow> C (environ s) \<subseteq> succeeded cs"
  using assms(1) [unfolded ran_def, THEN spec, THEN spec, THEN spec, THEN mp, OF assms(2)] by blast

lemma ran_weaken: "ran C m \<Longrightarrow> (\<And>e. D e \<subseteq> C e) \<Longrightarrow> ran D m"
  unfolding ran_def by (meson subset_trans)

lemma ran_pure [ran_intros]: "aside (ret a)" "aside (fail e)" "aside panic" "aside (gets f)" "aside (lift x)"
  by (simp_all add: ran_def op_simps)

lemma ran_bootTicking [ran_intros]: "aside (bootTicking m)"
  by (auto simp: ran_def bootTicking_def split: prod.splits)

lemma ran_ask: "c \<noteq> StartManager \<Longrightarrow> ran (\<lambda>_. {c}) (ask answer c)"
  by (auto simp: ran_def ask_def Let_def of_sum_def split: sum.splits)

lemma aside_ask [ran_intros]: "c \<noteq> StartManager \<Longrightarrow> aside (ask answer c)"
  by (rule ran_weaken [OF ran_ask]) simp_all

lemma ran_bindM:
  assumes "ran C m" "\<And>a. ran D (f a)"
  shows "ran (\<lambda>e. C e \<union> D e) (bindM m f)"
  unfolding ran_def
proof (intro allI impI)
  fix s r t
  assume run: "bindM m f s = (r, t)"
  obtain x u where x: "m s = (x, u)" by fastforce
  obtain cs where cs: "environ u = environ s" "bootLog u = bootLog s @ cs" "\<not> starting cs"
    "\<forall>a. x = Return a \<longrightarrow> C (environ s) \<subseteq> succeeded cs" using assms(1) x by (rule ranE)
  show "environ t = environ s \<and> (\<exists>cs. bootLog t = bootLog s @ cs \<and> \<not> starting cs
     \<and> (\<forall>a. r = Return a \<longrightarrow> C (environ s) \<union> D (environ s) \<subseteq> succeeded cs))"
  proof (cases x)
    case (Return a)
    with run x have "f a u = (r, t)" by (simp add: bindM_def)
    with assms(2) obtain ds where "environ t = environ u" "bootLog t = bootLog u @ ds" "\<not> starting ds"
      "\<forall>b. r = Return b \<longrightarrow> D (environ u) \<subseteq> succeeded ds" by (rule ranE)
    with cs Return show ?thesis by (auto intro!: exI [of _ "cs @ ds"])
  qed (use run x cs in \<open>auto simp: bindM_def\<close>)
qed

lemma aside_bindM [ran_intros]: "aside m \<Longrightarrow> (\<And>a. aside (f a)) \<Longrightarrow> aside (bindM m f)"
  using ran_bindM [of "\<lambda>_. {}" m "\<lambda>_. {}" f] by simp

lemma aside_attempt [ran_intros]: "aside m \<Longrightarrow> aside (attempt m)"
  by (simp add: ran_def attempt_def split: prod.splits outcome.splits)

lemma aside_cases [ran_intros]:
  "(c \<Longrightarrow> aside m) \<Longrightarrow> (\<not> c \<Longrightarrow> aside n) \<Longrightarrow> aside (if c then m else n)"
  "(\<And>e. aside (f e)) \<Longrightarrow> (\<And>a. aside (g a)) \<Longrightarrow> aside (case x of Inl e \<Rightarrow> f e | Inr a \<Rightarrow> g a)"
  "aside m \<Longrightarrow> (\<And>a. aside (h a)) \<Longrightarrow> aside (case y of None \<Rightarrow> m | Some a \<Rightarrow> h a)"
  "(\<And>a b. aside (k a b)) \<Longrightarrow> aside (case z of (a, b) \<Rightarrow> k a b)"
  by (auto split: sum.splits option.splits prod.splits)

lemma aside_startup [ran_intros]:
  "aside (fetchWebhookForNamespace B namespace)" "aside (addMetrics B)" "aside (EnsureWebhookConfigVolume B)"
  unfolding fetchWebhookForNamespace_def addMetrics_def serveCRMetrics_def EnsureWebhookConfigVolume_def Let_def
  by (intro ran_intros; simp)+

lemma aside_updateSecretAndWebhook [ran_intros]: "aside (updateSecretAndWebhook B namespace)"
  unfolding updateSecretAndWebhook_def writeCertificates_def updateWebhook_def Let_def by (intro ran_intros; simp)

lemma aside_EnsureWebhookCertificate: "aside (EnsureWebhookCertificate B)"
  unfolding EnsureWebhookCertificate_def by (intro ran_intros; simp)

lemma ran_environ: "(\<And>env. ran (\<lambda>_. C env) (k env)) \<Longrightarrow> ran C (bindM (gets environ) k)"
  by (simp add: ran_def bindM_gets)

lemma ran_registerWatches: "ran (\<lambda>_. WatchSource ` set ws) (registerWatches B ws)"
proof (induction ws)
  case Nil
  then show ?case by (simp add: registerWatches_def ran_pure)
next
  case (Cons w ws)
  have "ran (\<lambda>_. {WatchSource w}) (ask (b_unit B) (WatchSource w))" by (rule ran_ask) simp
  from ran_bindM [OF this Cons] show ?case by (simp add: registerWatches_def)
qed

lemma ran_AddToManager: "ran (\<lambda>e. WatchSource ` set (controllerWatches e)) (AddToManager B)"
proof -
  have "ran (\<lambda>e. WatchSource ` set (controllerWatches e)) (bindM (gets environ) (\<lambda>env. registerWatches B (controllerWatches env)))"
    by (rule ran_environ [OF ran_registerWatches])
  from ran_bindM [OF ran_ask [of "NewController ''cassandradatacenter-controller''" "b_unit B"] this]
  have "ran (\<lambda>e. WatchSource ` set (controllerWatches e)) (add B)"
    unfolding add_def by (rule ran_weaken) auto
  then show ?thesis by (simp add: AddToManager_def AddToManagerFuncs_def)
qed

text \<open>What a continuation starts is preceded by what was made before it.\<close>

lemma lastly_quiet: "\<not> starting cs \<Longrightarrow> lastly X cs"
  by (simp add: lastly_def)

lemma lastlyE:
  assumes "lastly X cs" "starting cs"
  obtains pre ok post where "cs = pre @ (StartManager, ok) # post" "\<not> starting pre" "X \<subseteq> succeeded pre"
    "fst ` set post \<subseteq> {UnsetReady}"
  using assms(1) [unfolded lastly_def, THEN mp, OF assms(2)] by blast

lemma lastlyI:
  assumes "starting cs \<Longrightarrow> cs = pre @ (StartManager, ok) # post" "\<not> starting pre" "X \<subseteq> succeeded pre"
    "fst ` set post \<subseteq> {UnsetReady}"
  shows "lastly X cs"
  unfolding lastly_def using assms by blast

lemma lastly_mono:
  assumes "lastly X cs" "Y \<subseteq> X"
  shows "lastly Y cs"
proof (cases "starting cs")
  case True
  with assms(1) obtain pre ok post where "cs = pre @ (StartManager, ok) # post" "\<not> starting pre" "X \<subseteq> succeeded pre"
    "fst ` set post \<subseteq> {UnsetReady}" by (rule lastlyE)
  with assms(2) show ?thesis by (intro lastlyI [of cs pre ok post]) simp_all
qed (rule lastly_quiet)

lemma lastly_append:
  assumes "\<not> starting cs" "X \<subseteq> succeeded cs" "lastly Y ds"
  shows "lastly (X \<union> Y) (cs @ ds)"
proof (cases "starting ds")
  case True
  with assms(3) obtain pre ok post where "ds = pre @ (StartManager, ok) # post" "\<not> starting pre" "Y \<subseteq> succeeded pre"
    "fst ` set post \<subseteq> {UnsetReady}" by (rule lastlyE)
  with assms(1,2) show ?thesis by (intro lastlyI [of _ "cs @ pre" ok post]) auto
next
  case False
  with assms(1) show ?thesis by (intro lastly_quiet) auto
qed

lemma lastly_UnsetReady:
  assumes "lastly X cs"
  shows "lastly X (cs @ [(UnsetReady, b)])"
proof (cases "starting cs")
  case True
  with assms obtain pre ok post where "cs = pre @ (StartManager, ok) # post" "\<not> starting pre" "X \<subseteq> succeeded pre"
    "fst ` set post \<subseteq> {UnsetReady}" by (rule lastlyE)
  then show ?thesis by (intro lastlyI [of _ pre ok "post @ [(UnsetReady, b)]"]) simp_all
next
  case False
  then show ?thesis by (intro lastly_quiet) simp
qed

lemma startsE:
  assumes "starts C m" "m s = (r, t)"
  obtains cs where "environ t = environ s" "bootLog t = bootLog s @ cs" "lastly (C (environ s)) cs"
  using assms(1) [unfolded starts_def, THEN spec, THEN spec, THEN spec, THEN mp, OF assms(2)] by blast

lemma startsI:
  assumes "\<And>s r t. m s = (r, t) \<Longrightarrow> environ t = environ s \<and> (\<exists>cs. bootLog t = bootLog s @ cs \<and> lastly (C (environ s)) cs)"
  shows "starts C m"
  using assms unfolding starts_def by blast

lemma starts_seq:
  assumes "ran C m" "\<And>a. starts D (k a)"
    and split: "\<And>s. (\<exists>a. fst (m s) = Return a \<and> n s = k a (snd (m s))) \<or> snd (n s) = snd (m s)"
  shows "starts (\<lambda>e. C e \<union> D e) n"
proof (rule startsI)
  fix s r t
  assume run: "n s = (r, t)"
  obtain x u where x: "m s = (x, u)" by fastforce
  obtain cs where cs: "environ u = environ s" "bootLog u = bootLog s @ cs" "\<not> starting cs"
    "\<forall>a. x = Return a \<longrightarrow> C (environ s) \<subseteq> succeeded cs" using assms(1) x by (rule ranE)
  show "environ t = environ s \<and> (\<exists>cs. bootLog t = bootLog s @ cs \<and> lastly (C (environ s) \<union> D (environ s)) cs)"
  proof (cases "t = u")
    case True
    with cs(1-3) show ?thesis by (blast intro: lastly_quiet)
  next
    case False
    with split [of s] run x obtain a where a: "x = Return a" "k a u = (r, t)" by auto
    obtain ds where ds: "environ t = environ u" "bootLog t = bootLog u @ ds" "lastly (D (environ u)) ds"
      using assms(2) a(2) by (rule startsE)
    have "lastly (C (environ s) \<union> D (environ s)) (cs @ ds)" using cs a(1) ds(3) by (simp add: lastly_append)
    moreover have "environ t = environ s" "bootLog t = bootLog s @ cs @ ds" using ds(1,2) cs(1,2) by simp_all
    ultimately show ?thesis by blast
  qed
qed

lemma starts_bindM: "ran C m \<Longrightarrow> (\<And>a. starts D (k a)) \<Longrightarrow> starts (\<lambda>e. C e \<union> D e) (bindM m k)"
  by (rule starts_seq) (auto simp: bindM_def split: prod.splits outcome.splits)

lemma starts_orExit: "ran C m \<Longrightarrow> (\<And>a. starts D (k a)) \<Longrightarrow> starts (\<lambda>e. C e \<union> D e) (orExit m k)"
  by (rule starts_seq) (auto simp: orExit_def bindM_def attempt_def op_simps split: prod.splits outcome.splits)

lemma starts_environ:
  assumes "\<And>env. starts (\<lambda>e. if e = env then C e else {}) (k env)"
  shows "starts C (bindM (gets environ) k)"
proof (rule startsI)
  fix s r t
  assume "bindM (gets environ) k s = (r, t)"
  then have "k (environ s) s = (r, t)" by (simp add: bindM_gets)
  with assms obtain cs where "environ t = environ s" "bootLog t = bootLog s @ cs"
    "lastly (if environ s = environ s then C (environ s) else {}) cs" by (rule startsE)
  then show "environ t = environ s \<and> (\<exists>cs. bootLog t = bootLog s @ cs \<and> lastly (C (environ s)) cs)" by simp
qed

lemma starts_weaken: "starts C m \<Longrightarrow> (\<And>e. D e \<subseteq> C e) \<Longrightarrow> starts D m"
  by (rule startsI, erule (1) startsE) (blast intro: lastly_mono)

lemma lastly_start: "lastly {} [(StartManager, ok)]"
  by (rule lastlyI [of _ "[]" ok "[]"]) simp_all

lemma starts_StartManager: "starts (\<lambda>_. {}) (orExit (ask (b_unit B) StartManager) (\<lambda>_. ret x))"
  by (auto simp: starts_def orExit_def ask_def Let_def rc_eval lastly_start split: sum.splits)

section \<open>The order of the process\<close>

text \<open>The calls that must have succeeded when the manager starts, in an environment.\<close>

definition registered :: "environment \<Rightarrow> bootCall set" where
  "registered e = {AddToScheme} \<union> WatchSource ` set (controllerWatches e)
     \<union> (if ParseBool (skipWebhookEnvVal e) = Return True then {} else {CompleteWebhook})"

lemma starts_runManager: "starts registered (runManager B namespace certDir)"
proof -
  let ?web = "\<lambda>skip. orExit (if \<not> skip then ask (b_unit B) CompleteWebhook else ret ()) (\<lambda>_. bindM (addMetrics B) (\<lambda>_.
    orExit (ask (b_unit B) StartManager) (\<lambda>_. ret None)))"
  have tail: "starts (\<lambda>_. {}) (bindM (addMetrics B) (\<lambda>_. orExit (ask (b_unit B) StartManager) (\<lambda>_. ret None)))"
    using starts_bindM [OF aside_startup(2) starts_StartManager] by simp
  have webhook: "starts (\<lambda>_. if skip then {} else {CompleteWebhook}) (?web skip)" for skip
    using starts_orExit [OF ran_pure(1) tail, of "()"] starts_orExit [OF ran_ask tail, of CompleteWebhook "b_unit B"] by simp
  have skip: "starts (\<lambda>e. if e = env then (if ParseBool (skipWebhookEnvVal e) = Return True then {} else {CompleteWebhook}) else {})
      (orExit (lift (ParseBool (skipWebhookEnvVal env))) ?web)" for env
  proof (cases "ParseBool (skipWebhookEnvVal env)")
    case (Return skip)
    then have "orExit (lift (ParseBool (skipWebhookEnvVal env))) ?web = ?web skip"
      by (simp add: orExit_def fun_eq_iff rc_eval)
    with Return show ?thesis
      using webhook [of skip]
      by (cases skip) (auto elim!: starts_weaken split: if_splits)
  qed (auto simp: starts_def orExit_def rc_eval lastly_quiet)
  note web = starts_environ [OF skip]
  have "starts (\<lambda>e. {NewManager (managerOptions namespace certDir)} \<union> ({AddToScheme} \<union> (WatchSource ` set (controllerWatches e) \<union>
      (if ParseBool (skipWebhookEnvVal e) = Return True then {} else {CompleteWebhook})))) (runManager B namespace certDir)"
    unfolding runManager_def
    by (intro starts_orExit ran_ask ran_AddToManager web) simp_all
  then show ?thesis by (rule starts_weaken) (auto simp: registered_def)
qed

text \<open>The same with a change of the environment on the way.\<close>

lemma prior_ran: "ran (\<lambda>_. X) m \<Longrightarrow> prior X m"
  by (simp add: ran_def prior_def)

lemma launches_starts: "starts C m \<Longrightarrow> launches C m"
  unfolding launches_def by (intro allI impI, erule (1) startsE) auto

lemma launches_seq:
  assumes "prior X m" "\<And>a. launches D (k a)"
    and split: "\<And>s. (\<exists>a. fst (m s) = Return a \<and> n s = k a (snd (m s))) \<or> snd (n s) = snd (m s)"
  shows "launches (\<lambda>e. X \<union> D e) n"
  unfolding launches_def
proof (intro allI impI)
  fix s r t
  assume run: "n s = (r, t)"
  obtain x u where x: "m s = (x, u)" by fastforce
  obtain cs where cs: "bootLog u = bootLog s @ cs" "\<not> starting cs" "\<forall>a. x = Return a \<longrightarrow> X \<subseteq> succeeded cs"
    using assms(1) [unfolded prior_def, THEN spec, THEN spec, THEN spec, THEN mp, OF x] by blast
  show "\<exists>cs. bootLog t = bootLog s @ cs \<and> lastly (X \<union> D (environ t)) cs"
  proof (cases "t = u")
    case True
    with cs(1,2) show ?thesis by (blast intro: lastly_quiet)
  next
    case False
    with split [of s] run x obtain a where a: "x = Return a" "k a u = (r, t)" by auto
    obtain ds where ds: "bootLog t = bootLog u @ ds" "lastly (D (environ t)) ds"
      using assms(2) [unfolded launches_def, THEN spec, THEN spec, THEN spec, THEN mp, OF a(2)] by blast
    have "lastly (X \<union> D (environ t)) (cs @ ds)" using cs a(1) ds(2) by (simp add: lastly_append)
    moreover have "bootLog t = bootLog s @ cs @ ds" using ds(1) cs(1) by simp
    ultimately show ?thesis by blast
  qed
qed

lemma launches_bindM: "prior X m \<Longrightarrow> (\<And>a. launches D (k a)) \<Longrightarrow> launches (\<lambda>e. X \<union> D e) (bindM m k)"
  by (rule launches_seq) (auto simp: bindM_def split: prod.splits outcome.splits)

lemma launches_orExit: "prior X m \<Longrightarrow> (\<And>a. launches D (k a)) \<Longrightarrow> launches (\<lambda>e. X \<union> D e) (orExit m k)"
  by (rule launches_seq) (auto simp: orExit_def bindM_def attempt_def op_simps split: prod.splits outcome.splits)

lemma launches_after: "aside m \<Longrightarrow> (\<And>a. launches D (k a)) \<Longrightarrow> launches D (bindM m k)"
  using launches_bindM [OF prior_ran] by fastforce

lemma launches_ret: "launches C (ret a)"
  by (simp add: launches_def op_simps lastly_quiet)

lemma launches_deferring:
  assumes "launches C m"
  shows "launches C (deferring (bindM (attempt (ask answer UnsetReady)) (\<lambda>_. ret ())) m)"
  unfolding launches_def
proof (intro allI impI)
  fix s r t
  assume run: "deferring (bindM (attempt (ask answer UnsetReady)) (\<lambda>_. ret ())) m s = (r, t)"
  obtain x u where x: "m s = (x, u)" by fastforce
  obtain cs where cs: "bootLog u = bootLog s @ cs" "lastly (C (environ u)) cs"
    using assms [unfolded launches_def, THEN spec, THEN spec, THEN spec, THEN mp, OF x] by blast
  have "t = u \<or> (\<exists>b. t = u\<lparr>bootLog := bootLog u @ [(UnsetReady, b)]\<rparr>)"
    using run x by (auto simp: deferring_def ask_def Let_def rc_eval split: outcome.splits option.splits sum.splits)
  then show "\<exists>cs. bootLog t = bootLog s @ cs \<and> lastly (C (environ t)) cs"
    using cs lastly_UnsetReady [OF cs(2)] by auto
qed

lemma prior_readBaseOsIntoEnv: "prior {} (attempt (readBaseOsIntoEnv B))"
  by (auto simp: prior_def readBaseOsIntoEnv_def ask_def setenv_def Let_def rc_eval split: sum.splits if_splits)

lemma prior_rewriteWatchNamespace: "prior {} rewriteWatchNamespace"
  by (auto simp: prior_def rewriteWatchNamespace_def setenv_def rc_eval)

lemma launches_runAsLeader:
  "launches (\<lambda>e. {BecomeLeader ''cass-operator-lock''} \<union> registered e) (runAsLeader B namespace)"
proof -
  have "launches registered (bindM (attempt (readBaseOsIntoEnv B)) (\<lambda>_. runManager B namespace certDir))" for certDir
    using launches_bindM [OF prior_readBaseOsIntoEnv launches_starts [OF starts_runManager]] by simp
  then have certificate: "launches registered (bindM (EnsureWebhookCertificate B) (\<lambda>(certDir, _).
      bindM (attempt (readBaseOsIntoEnv B)) (\<lambda>_. runManager B namespace certDir)))"
    by (intro launches_after aside_EnsureWebhookCertificate) (simp split: prod.splits)
  have "launches registered (bindM (EnsureWebhookConfigVolume B) (\<lambda>(exited, _).
      case exited of Some c \<Rightarrow> ret (Some c) | None \<Rightarrow> bindM (EnsureWebhookCertificate B) (\<lambda>(certDir, _).
        bindM (attempt (readBaseOsIntoEnv B)) (\<lambda>_. runManager B namespace certDir))))"
    by (intro launches_after aside_startup) (use certificate in \<open>simp split: prod.splits option.splits add: launches_ret\<close>)
  then show ?thesis unfolding runAsLeader_def by (intro launches_orExit prior_ran ran_ask) simp_all
qed

lemma launches_main:
  "launches (\<lambda>e. {SetReady, BecomeLeader ''cass-operator-lock''} \<union> registered e) (main B)"
proof -
  let ?lead = "\<lambda>namespace. deferring (bindM (attempt (ask (b_unit B) UnsetReady)) (\<lambda>_. ret ())) (runAsLeader B namespace)"
  let ?run = "\<lambda>namespace. orExit (ask (b_unit B) GetConfig) (\<lambda>_. orExit (ask (b_unit B) SetReady) (\<lambda>_. ?lead namespace))"
  have "launches (\<lambda>e. {SetReady} \<union> ({BecomeLeader ''cass-operator-lock''} \<union> registered e))
      (orExit (ask (b_unit B) SetReady) (\<lambda>_. ?lead namespace))" for namespace
    by (intro launches_orExit prior_ran ran_ask launches_deferring launches_runAsLeader) simp
  note ready = this [unfolded Un_assoc [symmetric] insert_is_Un [symmetric]]
  have "launches (\<lambda>e. {SetReady, BecomeLeader ''cass-operator-lock''} \<union> registered e) (?run namespace)" for namespace
    using launches_orExit [OF prior_ran [OF aside_ask] ready, of GetConfig "b_unit B"] by simp
  then have "launches (\<lambda>e. {SetReady, BecomeLeader ''cass-operator-lock''} \<union> registered e)
      (orExit (lift (of_sum (b_watchNamespace B env))) ?run)" for env
    using launches_orExit [OF prior_ran [OF ran_pure(5)]] by fastforce
  then have "launches (\<lambda>e. {SetReady, BecomeLeader ''cass-operator-lock''} \<union> registered e)
      (bindM (attempt (ask (b_unit B) ParseFlags)) (\<lambda>r. case r of Inl _ \<Rightarrow> ret (Some 2) | Inr _ \<Rightarrow>
        bindM (gets environ) (\<lambda>env. orExit (lift (of_sum (b_watchNamespace B env))) ?run)))"
    by (intro launches_after ran_intros) (auto simp: launches_ret launches_after ran_pure split: sum.splits)
  from launches_bindM [OF prior_rewriteWatchNamespace this] show ?thesis unfolding main_def by simp
qed

section \<open>A start on a concrete cluster\<close>

text \<open>
  A cluster that serves the last registration and mounts the last secret it was sent, and libraries
  that work on values in memory.
\<close>

fun jsonAt :: "json \<Rightarrow> string list \<Rightarrow> json option" where
  "jsonAt j [] = Some j"
| "jsonAt j (k # ks) = (case j of JObject fs \<Rightarrow>
     (case map_of fs k of None \<Rightarrow> None | Some v \<Rightarrow> jsonAt v ks) | _ \<Rightarrow> None)"

fun jsonPut :: "json \<Rightarrow> json \<Rightarrow> string list \<Rightarrow> json option" where
  "jsonPut j v [] = Some v"
| "jsonPut j v (k # ks) = (case j of JObject fs \<Rightarrow>
     map_option (\<lambda>c. JObject (AList.update k c fs))
       (jsonPut (case map_of fs k of None \<Rightarrow> JObject [] | Some c \<Rightarrow> c) v ks) | _ \<Rightarrow> None)"

definition stored :: "json option \<Rightarrow> error + json" where
  "stored r = (case r of None \<Rightarrow> Inl (Errorf ''not an object'') | Some j \<Rightarrow> Inr j)"

definition sampleUnstructured :: unstructuredLib where
  "sampleUnstructured = \<lparr>
     u_NestedString = (\<lambda>j p. case jsonAt j p of None \<Rightarrow> Inr ([], False) | Some (JString v) \<Rightarrow> Inr (v, True)
       | Some _ \<Rightarrow> Inl (Errorf ''not a string'')),
     u_NestedSlice = (\<lambda>j p. case jsonAt j p of None \<Rightarrow> Inr ([], False) | Some (JArray xs) \<Rightarrow> Inr (xs, True)
       | Some _ \<Rightarrow> Inl (Errorf ''not a slice'')),
     u_SetNestedField = (\<lambda>j v p. stored (jsonPut j v p)),
     u_SetNestedSlice = (\<lambda>j xs p. stored (jsonPut j (JArray xs) p))\<rparr>"

definition newline :: char where "newline = CHR 0x0A"

definition sampleBootCrypto :: env where
  "sampleBootCrypto = sampleEnv\<lparr>
     e_crypto := sampleCrypto\<lparr>c_pemEncode := \<lambda>t b. Inr (t @ newline # b), c_CreateCertificate := \<lambda>n t p k s. Inr ''der''\<rparr>,
     e_x509 := sampleX509\<lparr>x_pemBlocks := \<lambda>p. if p = [] then []
       else [(takeWhile (\<lambda>c. c \<noteq> newline) p, drop 1 (dropWhile (\<lambda>c. c \<noteq> newline) p))]\<rparr>\<rparr>"

definition registration :: json where
  "registration = JObject [(''webhooks'', JArray [JObject [(''clientConfig'', JObject [(''service'',
     JObject [(''namespace'', JString ''other'')])])], JObject [(''clientConfig'', JObject [(''service'',
     JObject [(''namespace'', JString ''ops'')])])]])]"

definition servedConfig :: "(bootCall \<times> bool) list \<Rightarrow> json" where
  "servedConfig h = fold (\<lambda>(c, ok) cfg. case c of UpdateWebhookConfig x \<Rightarrow> x | _ \<Rightarrow> cfg) h registration"

definition mountedCert :: "(bootCall \<times> bool) list \<Rightarrow> error + string" where
  "mountedCert h = fold (\<lambda>(c, ok) cert. case c of UpdateWebhookSecret s d \<Rightarrow> Inr (mget d ''tls.crt'') | _ \<Rightarrow> cert) h
     (Inl (NotFound []))"

definition operatorPod :: Pod where
  "operatorPod = (samplePod ''op'' [] ''n1'')\<lparr>Volumes :=
     [\<lparr>v_Name = ''cass-operator-certs-volume'', v_Source = EmptyDir\<rparr>]\<rparr>"

definition sampleBootenv :: bootenv where
  "sampleBootenv = \<lparr>b_env = sampleBootCrypto, b_unstructured = sampleUnstructured,
     b_watchNamespace = (\<lambda>env. Inr (Getenv env ''WATCH_NAMESPACE'')), b_isRunLocal = (\<lambda>_. False),
     b_OperatorPortName = ''http-metrics'', b_CRPortName = ''cr-metrics'', b_SystemCertPool = Inr [],
     b_verify = (\<lambda>c n pool. if c \<in> set pool then None else Some (Errorf ''unknown authority'')),
     b_text = (\<lambda>h c. case c of ReadFile p \<Rightarrow> if p = baseOsArgFilePath then Inr ''ubi'' else mountedCert h
       | _ \<Rightarrow> Inl (NotFound [])),
     b_isDir = (\<lambda>h c. Inr False), b_json = (\<lambda>h c. Inr (servedConfig h)),
     b_secret = (\<lambda>h c. Inr (newSecret (''ops'', webhookSecretName) None)),
     b_pod = (\<lambda>h c. Inr operatorPod), b_service = (\<lambda>h c. Inl (NotFound [])), b_names = (\<lambda>h c. Inr [''ops'']),
     b_unit = (\<lambda>h c. Inr ())\<rparr>"

definition sampleBoot :: boot where
  "sampleBoot = \<lparr>environ = [''WATCH_NAMESPACE'' \<mapsto> ''ops''], bootTicks = 0, bootLog = []\<rparr>"

text \<open>The options with the address written out, in the form that evaluates.\<close>

lemma showInt_metricsPort: "showInt metricsPort = ''8383''"
proof -
  have "digit 8 = CHR ''8''" "digit 3 = CHR ''3''" by code_simp+
  then show ?thesis by (simp add: metricsPort_def showInt_def decimal.simps)
qed

lemma managerOptions_code [code]:
  "managerOptions namespace certDir =
     (let options = \<lparr>mo_Namespace = namespace, mo_MetricsBindAddress = ''0.0.0.0:8383'',
          mo_CertDir = certDir, mo_Port = 8443, mo_NewCache = None\<rparr>
      in if CHR '','' \<in> set namespace
         then options\<lparr>mo_Namespace := [], mo_NewCache := Some (Split namespace (CHR '',''))\<rparr>
         else options)"
  by (simp add: managerOptions_def metricsHost_def showInt_metricsPort)

text \<open>The same cluster for a process outside of it.\<close>

definition localBootenv :: bootenv where
  "localBootenv = sampleBootenv\<lparr>b_env := sampleBootCrypto\<lparr>e_operatorNs := Inl unknownObject\<rparr>, b_isRunLocal := \<lambda>_. True\<rparr>"

lemma orExit_ask:
  "answer (bootLog s) c = Inr a \<Longrightarrow> orExit (ask answer c) k s = k a (s\<lparr>bootLog := bootLog s @ [(c, True)]\<rparr>)"
  by (simp add: orExit_def ask_def Let_def rc_eval of_sum_def)

lemma orExit_Return: "m s = (Return a, t) \<Longrightarrow> orExit m k s = k a t"
  by (simp add: orExit_def rc_eval)

lemma orExit_lift: "orExit (lift (Return a)) k s = k a s"
  by (simp add: orExit_def rc_eval)

lemma bindM_attempt_ask:
  "answer (bootLog s) c = Inr a \<Longrightarrow> bindM (attempt (ask answer c)) k s = k (Inr a) (s\<lparr>bootLog := bootLog s @ [(c, True)]\<rparr>)"
  by (simp add: ask_def Let_def rc_eval of_sum_def)

lemma local_answers: "b_unit localBootenv h c = Inr ()"
  by (simp add: localBootenv_def sampleBootenv_def)

lemma local_asides:
  "EnsureWebhookConfigVolume localBootenv = ret (None, Some unknownObject)"
  "EnsureWebhookCertificate localBootenv = ret ([], Some unknownObject)" "addMetrics localBootenv = ret ()"
  by (simp_all add: EnsureWebhookConfigVolume_def EnsureWebhookCertificate_def addMetrics_def localBootenv_def)

lemma registerWatches_all:
  assumes "\<And>h c. b_unit B h c = Inr ()"
  shows "registerWatches B ws s = (Return (), s\<lparr>bootLog := bootLog s @ map (\<lambda>w. (WatchSource w, True)) ws\<rparr>)"
  by (induction ws arbitrary: s) (simp_all add: registerWatches_def ask_def Let_def rc_eval of_sum_def assms)

lemma AddToManager_all:
  assumes "\<And>h c. b_unit B h c = Inr ()"
  shows "AddToManager B s = (Return (), s\<lparr>bootLog := bootLog s @ (NewController ''cassandradatacenter-controller'', True)
    # map (\<lambda>w. (WatchSource w, True)) (controllerWatches (environ s))\<rparr>)"
  by (simp add: AddToManager_def AddToManagerFuncs_def add_def registerWatches_all [OF assms] ask_def Let_def rc_eval of_sum_def assms)

lemma runManager_local:
  assumes "ParseBool (skipWebhookEnvVal (environ s)) = Return False"
  shows "runManager localBootenv namespace certDir s = (Return None, s\<lparr>bootLog := bootLog s @ map (\<lambda>c. (c, True))
    ([NewManager (managerOptions namespace certDir), AddToScheme, NewController ''cassandradatacenter-controller'']
     @ map WatchSource (controllerWatches (environ s)) @ [CompleteWebhook, StartManager])\<rparr>)"
  using assms unfolding runManager_def
  by (simp add: orExit_ask orExit_lift local_answers local_asides orExit_Return [OF AddToManager_all] bindM_gets op_simps)

lemma readBaseOs_local:
  "attempt (readBaseOsIntoEnv localBootenv) s = (Return (Inr ()), s\<lparr>bootLog := bootLog s @
     [(StatFile baseOsArgFilePath, True), (ReadFile baseOsArgFilePath, True)],
     environ := (environ s)(''BASE_IMAGE_OS'' \<mapsto> TrimSpace ''ubi'')\<rparr>)"
  by (simp add: readBaseOsIntoEnv_def localBootenv_def sampleBootenv_def ask_def setenv_def Let_def rc_eval of_sum_def)

lemma main_local:
  "\<exists>pre. main localBootenv sampleBoot = (Return None,
     \<lparr>environ = [''WATCH_NAMESPACE'' \<mapsto> ''ops'', ''BASE_IMAGE_OS'' \<mapsto> TrimSpace ''ubi''], bootTicks = 0,
      bootLog = pre @ [(StartManager, True), (UnsetReady, True)]\<rparr>)"
proof -
  have watch: "b_watchNamespace localBootenv [''WATCH_NAMESPACE'' \<mapsto> ''ops''] = Inr ''ops''"
    by (simp add: localBootenv_def sampleBootenv_def Getenv_def)
  have skip: "ParseBool (skipWebhookEnvVal [''WATCH_NAMESPACE'' \<mapsto> ''ops'', ''BASE_IMAGE_OS'' \<mapsto> TrimSpace ''ubi'']) = Return False"
    by (simp add: skipWebhookEnvVal_def Getenv_def ParseBool_def)
  show ?thesis unfolding main_def runAsLeader_def deferring_def
    by (simp add: rewriteWatchNamespace_def sampleBoot_def bindM_assoc bindM_gets bindM_attempt_ask orExit_ask orExit_lift
        local_answers local_asides watch bindM_Return [OF readBaseOs_local] runManager_local skip op_simps of_sum_def)
qed

text \<open>
  C11. When the process starts the manager, then once, and nothing but the withdrawal of the readiness
  file follows. Before, the readiness file was written, the process became the leader, the schemes
  were registered and every watch of the controller, and the webhook unless the environment says to
  skip it, each without error.
\<close>

theorem manager_starts_registered:
  assumes "main B s = (r, t)" "bootLog t = bootLog s @ cs" "(StartManager, ok) \<in> set cs"
  shows "\<exists>pre post. cs = pre @ (StartManager, ok) # post \<and> (\<forall>ok'. (StartManager, ok') \<notin> set pre)
    \<and> (\<forall>(c, _)\<in>set post. c = UnsetReady)
    \<and> (\<forall>c\<in>{SetReady, BecomeLeader ''cass-operator-lock''} \<union> registered (environ t). (c, True) \<in> set pre)"
proof -
  from launches_main [unfolded launches_def, THEN spec, THEN spec, THEN spec, THEN mp, OF assms(1)]
  have last: "lastly ({SetReady, BecomeLeader ''cass-operator-lock''} \<union> registered (environ t)) cs"
    using assms(2) by auto
  have "starting cs" using assms(3) by blast
  with last obtain pre ok' post where pre: "cs = pre @ (StartManager, ok') # post" "\<not> starting pre"
    "{SetReady, BecomeLeader ''cass-operator-lock''} \<union> registered (environ t) \<subseteq> succeeded pre"
    "fst ` set post \<subseteq> {UnsetReady}" by (rule lastlyE)
  moreover have "ok' = ok" using assms(3) pre(1,2,4) by force
  ultimately show ?thesis by (intro exI [of _ pre] exI [of _ post]) (auto simp: succeeded_def)
qed

theorem manager_starts_registered_witness:
  "\<exists>pre post. bootLog (snd (main localBootenv sampleBoot)) = pre @ (StartManager, True) # post
    \<and> {SetReady, BecomeLeader ''cass-operator-lock'', AddToScheme, WatchSource WatchSecrets, CompleteWebhook} \<subseteq> succeeded pre"
proof -
  obtain t cs where run: "main localBootenv sampleBoot = (Return None, t)" "bootLog t = bootLog sampleBoot @ cs"
    and start: "(StartManager, True) \<in> set cs"
    and env: "environ t = [''WATCH_NAMESPACE'' \<mapsto> ''ops'', ''BASE_IMAGE_OS'' \<mapsto> TrimSpace ''ubi'']"
    using main_local by (auto simp: sampleBoot_def)
  have "ParseBool (skipWebhookEnvVal (environ t)) = Return False"
    by (simp add: env skipWebhookEnvVal_def Getenv_def ParseBool_def)
  then have "{AddToScheme, WatchSource WatchSecrets, CompleteWebhook} \<subseteq> registered (environ t)"
    by (simp add: registered_def controllerWatches_def)
  moreover from manager_starts_registered [OF run start] obtain pre post where "cs = pre @ (StartManager, True) # post"
    "\<forall>c\<in>{SetReady, BecomeLeader ''cass-operator-lock''} \<union> registered (environ t). (c, True) \<in> set pre" by auto
  ultimately show ?thesis using run by (intro exI [of _ pre] exI [of _ post]) (auto simp: sampleBoot_def succeeded_def)
qed

end
