(* ===== verification/Certificates.thy ===== *)
theory Certificates
  imports Startup
begin

text \<open>
  Properties of the certificates the operator makes: the certificate of the webhook is kept by the
  next start, and the key store for the traffic between nodes trusts the stored authority.
\<close>

section \<open>The certificate of the webhook\<close>

text \<open>What \<open>unstructured\<close> is documented to do: a value that was set is read back, beside others.\<close>

definition nestedLaws :: "unstructuredLib \<Rightarrow> bool" where
  "nestedLaws U \<longleftrightarrow>
     (\<forall>j v p j'. p \<in> {serviceNamespacePath, caBundlePath} \<longrightarrow> u_SetNestedField U j (JString v) p = Inr j' \<longrightarrow>
        u_NestedString U j' p = Inr (v, True) \<and> isObject j') \<and>
     (\<forall>j v j'. u_SetNestedField U j v caBundlePath = Inr j' \<longrightarrow>
        u_NestedString U j' serviceNamespacePath = u_NestedString U j serviceNamespacePath) \<and>
     (\<forall>j xs j'. u_SetNestedSlice U j xs [''webhooks''] = Inr j' \<longrightarrow> u_NestedSlice U j' [''webhooks''] = Inr (xs, True))"

lemma nestedLawsD:
  assumes "nestedLaws U"
  shows "p \<in> {serviceNamespacePath, caBundlePath} \<Longrightarrow> u_SetNestedField U j (JString v) p = Inr j' \<Longrightarrow> u_NestedString U j' p = Inr (v, True)"
    "p \<in> {serviceNamespacePath, caBundlePath} \<Longrightarrow> u_SetNestedField U j (JString v) p = Inr j' \<Longrightarrow> isObject j'"
    "u_SetNestedField U j x caBundlePath = Inr j' \<Longrightarrow> u_NestedString U j' serviceNamespacePath = u_NestedString U j serviceNamespacePath"
    "u_SetNestedSlice U j xs [''webhooks''] = Inr j' \<Longrightarrow> u_NestedSlice U j' [''webhooks''] = Inr (xs, True)"
  using assms unfolding nestedLaws_def by blast+

text \<open>
  What the certificate libraries are documented to do: encodings are read back, there is no block in
  an empty text, and the self-signed certificate of an authority that may also identify a server is
  valid for its names where it is trusted. The last is for the time of its validity, at which
  \<open>b_verify\<close> answers.
\<close>

definition servingAuthority :: "CertTemplate \<Rightarrow> bool" where
  "servingAuthority template \<longleftrightarrow> t_IsCA template \<and> t_BasicConstraintsValid template
     \<and> KeyUsageCertSign \<in> t_KeyUsage template \<and> KeyUsageDigitalSignature \<in> t_KeyUsage template
     \<and> ExtKeyUsageServerAuth \<in> set (t_ExtKeyUsage template) \<and> t_NotBefore template < t_NotAfter template"

definition certificateLaws :: "bootenv \<Rightarrow> bool" where
  "certificateLaws B \<longleftrightarrow> decodes (b_env B) \<and> x_pemBlocks (e_x509 (b_env B)) [] = [] \<and>
     (\<forall>n template priv der. c_CreateCertificate (e_crypto (b_env B)) n template (SelfSigned template) priv priv = Inr der \<longrightarrow>
       servingAuthority template \<longrightarrow> (\<exists>c. c_ParseCertificate (e_crypto (b_env B)) der = Inr c \<and>
         (\<forall>name\<in>set (t_DNSNames template). \<forall>pool. c \<in> set pool \<longrightarrow> b_verify B c name pool = None)))"

definition registrationName :: string where
  "registrationName = ''cassandradatacenter-webhook-registration''"

lemma ask_eq_iff:
  "ask answer c s = (Return a, t) \<longleftrightarrow> answer (bootLog s) c = Inr a \<and> t = s\<lparr>bootLog := bootLog s @ [(c, True)]\<rparr>"
  by (auto simp: ask_def Let_def of_sum_def split: sum.splits)

lemma attempt_Inr_iff: "attempt m s = (Return (Inr a), t) \<longleftrightarrow> m s = (Return a, t)"
  by (auto simp: attempt_def split: prod.splits outcome.splits)

lemma bootTicking_eq_iff: "bootTicking m s = (Return a, t) \<longleftrightarrow> (\<exists>n. m (bootTicks s) = (Return a, n) \<and> t = s\<lparr>bootTicks := n\<rparr>)"
  by (auto simp: bootTicking_def split: prod.splits)

lemma gets_environ_iff: "gets f s = (Return a, t) \<longleftrightarrow> a = f s \<and> t = s"
  by (auto simp: gets_def)

lemma ret_boot_iff: "ret a s = (Return b, t) \<longleftrightarrow> b = a \<and> t = s"
  by (auto simp: ret_def)

lemmas boot_iff = bindM_eq_Return_iff ask_eq_iff attempt_Inr_iff bootTicking_eq_iff gets_environ_iff ret_boot_iff
  lift_eq_iff of_sum_eq_Return_iff

text \<open>The entry that was found is found again after it was replaced by one for the same namespace.\<close>

lemma findWebhook_replaced:
  assumes "findWebhook B namespace i xs = Some (w, k)" "isObject w'" "webhookNamespace B w' = namespace"
  shows "i \<le> k \<and> k - i < length xs \<and> findWebhook B namespace i (xs[k - i := w']) = Some (w', k)"
  using assms(1)
proof (induction xs arbitrary: i)
  case (Cons x xs)
  show ?case
  proof (cases "isObject x \<and> webhookNamespace B x = namespace")
    case True
    with Cons.prems assms(2,3) show ?thesis by auto
  next
    case False
    with Cons.prems have "findWebhook B namespace (Suc i) xs = Some (w, k)" by (auto split: if_splits)
    from Cons.IH [OF this] have "Suc i \<le> k" "k - Suc i < length xs"
      "findWebhook B namespace (Suc i) (xs[k - Suc i := w']) = Some (w', k)" by auto
    moreover from \<open>Suc i \<le> k\<close> have "k - i = Suc (k - Suc i)" by simp
    ultimately show ?thesis using False by auto
  qed
qed simp

text \<open>An update of the registration that returns has sent one in which the entry carries the certificate.\<close>

lemma updateWebhook_Return:
  assumes laws: "nestedLaws (b_unstructured B)" and run: "updateWebhook B cert namespace s = (Return (), t)"
  obtains cfg xs w k where
    "t = s\<lparr>bootLog := bootLog s @ [(GetWebhookConfig registrationName, True), (UpdateWebhookConfig cfg, True)]\<rparr>"
    "u_NestedSlice (b_unstructured B) cfg [''webhooks''] = Inr (xs, True)" "findWebhook B namespace 0 xs = Some (w, k)"
    "u_NestedString (b_unstructured B) w caBundlePath = Inr (StdEncodeToString cert, True)"
proof -
  let ?U = "b_unstructured B"
  from run obtain cfg0 xs0 w0 k w1 w2 cfg where
    found: "u_NestedSlice ?U cfg0 [''webhooks''] = Inr (xs0, True)" "findWebhook B namespace 0 xs0 = Some (w0, k)"
    and entry: "u_SetNestedField ?U w0 (JString namespace) serviceNamespacePath = Inr w1"
      "u_SetNestedField ?U w1 (JString (StdEncodeToString cert)) caBundlePath = Inr w2"
    and cfg: "u_SetNestedSlice ?U cfg0 (xs0[k := w2]) [''webhooks''] = Inr cfg"
    and t: "t = s\<lparr>bootLog := bootLog s @ [(GetWebhookConfig registrationName, True), (UpdateWebhookConfig cfg, True)]\<rparr>"
    unfolding updateWebhook_def fetchWebhookForNamespace_def Let_def
    by (auto simp: boot_iff registrationName_def fail_def panic_def split: if_splits prod.splits option.splits)
  have w2: "isObject w2" "u_NestedString ?U w2 caBundlePath = Inr (StdEncodeToString cert, True)"
    "u_NestedString ?U w2 serviceNamespacePath = Inr (namespace, True)"
    using nestedLawsD(1,2) [OF laws _ entry(2)] nestedLawsD(1) [OF laws _ entry(1)] nestedLawsD(3) [OF laws entry(2)] by simp_all
  then have "webhookNamespace B w2 = namespace" by (simp add: webhookNamespace_def)
  with findWebhook_replaced [OF found(2) w2(1)] have "findWebhook B namespace 0 (xs0[k := w2]) = Some (w2, k)" by simp
  moreover have "u_NestedSlice ?U cfg [''webhooks''] = Inr (xs0[k := w2], True)"
    using laws cfg by (rule nestedLawsD(4))
  ultimately show thesis using t w2(2) by (intro that) auto
qed

text \<open>The calls of a renewal that returns without error.\<close>

lemma updateSecretAndWebhook_Return:
  assumes laws: "nestedLaws (b_unstructured B)"
    and run: "updateSecretAndWebhook B namespace s = (Return (dir, None), t)"
  obtains n key cert n' secret cfg xs w k where
    "GetNewCAandKey (b_env B) webhookSecretName namespace n = (Return (key, cert), n')"
    "bootLog t = bootLog s @ map (\<lambda>c. (c, True)) [NewClient, GetWebhookSecret (namespace, webhookSecretName),
       UpdateWebhookSecret secret (mapOf [(''tls.key'', key), (''tls.crt'', cert)]),
       WriteFile (altServerCertFile (environ s)) cert, WriteFile (altServerKeyFile (environ s)) key,
       GetWebhookConfig registrationName, UpdateWebhookConfig cfg]"
    "u_NestedSlice (b_unstructured B) cfg [''webhooks''] = Inr (xs, True)" "findWebhook B namespace 0 xs = Some (w, k)"
    "u_NestedString (b_unstructured B) w caBundlePath = Inr (StdEncodeToString cert, True)"
proof -
  obtain x u where x: "attempt (writeCertificates B namespace) s = (Return x, u)"
    using run by (auto simp: updateSecretAndWebhook_def bindM_eq_Return_iff)
  then obtain cert where written: "writeCertificates B namespace s = (Return cert, u)"
    and run': "attempt (updateWebhook B cert namespace) u = (Return (Inr ()), t)"
    using run by (auto simp: updateSecretAndWebhook_def boot_iff split: sum.splits) (metis sumE old.unit.exhaust)
  then have "updateWebhook B cert namespace u = (Return (), t)" by (simp add: attempt_Inr_iff)
  with laws obtain cfg xs w k where
    "t = u\<lparr>bootLog := bootLog u @ [(GetWebhookConfig registrationName, True), (UpdateWebhookConfig cfg, True)]\<rparr>"
    "u_NestedSlice (b_unstructured B) cfg [''webhooks''] = Inr (xs, True)" "findWebhook B namespace 0 xs = Some (w, k)"
    "u_NestedString (b_unstructured B) w caBundlePath = Inr (StdEncodeToString cert, True)" by (rule updateWebhook_Return)
  moreover from written obtain n key n' secret where
    "GetNewCAandKey (b_env B) webhookSecretName namespace n = (Return (key, cert), n')"
    "bootLog u = bootLog s @ map (\<lambda>c. (c, True)) [NewClient, GetWebhookSecret (namespace, webhookSecretName),
       UpdateWebhookSecret secret (mapOf [(''tls.key'', key), (''tls.crt'', cert)]),
       WriteFile (altServerCertFile (environ s)) cert, WriteFile (altServerKeyFile (environ s)) key]"
    by (auto simp: writeCertificates_def boot_iff split: prod.splits)
  ultimately show thesis by (intro that) auto
qed

text \<open>A new authority is a certificate for the name of the webhook service that trusts itself.\<close>

lemma new_ca_valid:
  assumes laws: "certificateLaws B" and made: "GetNewCAandKey (b_env B) domain namespace n = (Return (key, cert), n')"
  obtains der c where "cert \<noteq> []" "x_pemBlocks (e_x509 (b_env B)) cert = [(''CERTIFICATE'', der)]"
    "c_ParseCertificate (e_crypto (b_env B)) der = Inr c"
    "\<forall>pool. c \<in> set pool \<longrightarrow> b_verify B c (''cassandradatacenter-webhook-service.'' @ namespace @ ''.svc'') pool = None"
proof -
  obtain serial notBefore priv privPem notAfter k m der where
    key: "setupKey (b_env B) n = (Return (serial, notBefore, priv, privPem, notAfter), k)" and
    der: "c_CreateCertificate (e_crypto (b_env B)) m (caTemplate serial notBefore notAfter domain namespace)
        (SelfSigned (caTemplate serial notBefore notAfter domain namespace)) priv priv = Inr der"
      "c_pemEncode (e_crypto (b_env B)) ''CERTIFICATE'' der = Inr cert"
    using made by (auto simp: GetNewCAandKey_def Let_def drawn_iff ret_nat_iff split: prod.splits)
  let ?template = "caTemplate serial notBefore notAfter domain namespace"
  have "notAfter = notBefore + 365 * 24 * (60 * Minute)" using key by (rule setupKey_Return)
  then have serving: "servingAuthority ?template" by (simp add: servingAuthority_def caTemplate_def Minute_def Second_def)
  have pem: "x_pemBlocks (e_x509 (b_env B)) cert = [(''CERTIFICATE'', der)]"
    using laws der(2) by (auto simp: certificateLaws_def decodes_def)
  moreover have "cert \<noteq> []" using pem laws by (auto simp: certificateLaws_def)
  moreover obtain c where "c_ParseCertificate (e_crypto (b_env B)) der = Inr c"
    "\<forall>name\<in>set (t_DNSNames ?template). \<forall>pool. c \<in> set pool \<longrightarrow> b_verify B c name pool = None"
    using laws der(1) serving unfolding certificateLaws_def by blast
  ultimately show thesis by (intro that) (auto simp: caTemplate_def)
qed

text \<open>The start that keeps the certificate: three reads.\<close>

lemma EnsureWebhookCertificate_kept:
  assumes "e_operatorNs (b_env B) = Inr namespace" "b_SystemCertPool B = Inr pool" "cert \<noteq> []"
    and "x_pemBlocks (e_x509 (b_env B)) cert = [(''CERTIFICATE'', der)]" "c_ParseCertificate (e_crypto (b_env B)) der = Inr c"
    and "b_verify B c (''cassandradatacenter-webhook-service.'' @ namespace @ ''.svc'') (pool @ [c]) = None"
    and "u_NestedSlice (b_unstructured B) cfg [''webhooks''] = Inr (xs, True)" "findWebhook B namespace 0 xs = Some (w, k)"
    and "u_NestedString (b_unstructured B) w caBundlePath = Inr (StdEncodeToString cert, True)"
    and "file = serverCertFile (environ s)" "b_text B (bootLog s) (ReadFile file) = Inr cert"
    and "b_unit B (bootLog s @ [(ReadFile file, True)]) NewClient = Inr ()"
    and "b_json B (bootLog s @ [(ReadFile file, True), (NewClient, True)]) (GetWebhookConfig registrationName) = Inr cfg"
  shows "EnsureWebhookCertificate B s = (Return ([], None), s\<lparr>bootLog := bootLog s @
     [(ReadFile file, True), (NewClient, True), (GetWebhookConfig registrationName, True)]\<rparr>)"
  using assms by (simp add: EnsureWebhookCertificate_def fetchWebhookForNamespace_def certificateValid_def
      ask_def Let_def rc_eval of_sum_def registrationName_def)

text \<open>
  C12. The certificate of the webhook settles. When a start has renewed it without error, and a later
  start finds mounted the certificate that was written into the secret and is served the registration
  that was sent, the later start writes nothing: it reads the file and the registration and keeps the
  certificate. The certificate pool of the system can be loaded, the libraries are assumed to read back
  what was encoded or set, and the certificate to be still in its time of validity.
\<close>

theorem webhook_certificate_settles:
  assumes "nestedLaws (b_unstructured B)" "certificateLaws B" "b_SystemCertPool B = Inr pool"
    and "e_operatorNs (b_env B) = Inr namespace"
    and renewed: "updateSecretAndWebhook B namespace s = (Return (dir, None), t)" "bootLog t = bootLog s @ cs"
      "(UpdateWebhookSecret secret content, ok) \<in> set cs" "(UpdateWebhookConfig cfg, ok') \<in> set cs"
    and mounted: "file = serverCertFile (environ s')" "b_text B (bootLog s') (ReadFile file) = Inr (mget content ''tls.crt'')"
    and "b_unit B (bootLog s' @ [(ReadFile file, True)]) NewClient = Inr ()"
    and "b_json B (bootLog s' @ [(ReadFile file, True), (NewClient, True)]) (GetWebhookConfig registrationName) = Inr cfg"
  shows "EnsureWebhookCertificate B s' = (Return ([], None), s'\<lparr>bootLog := bootLog s' @
     [(ReadFile file, True), (NewClient, True), (GetWebhookConfig registrationName, True)]\<rparr>)"
proof -
  from assms(1) renewed(1) obtain n key cert n' secret' cfg' xs w k where
    made: "GetNewCAandKey (b_env B) webhookSecretName namespace n = (Return (key, cert), n')"
    and log: "bootLog t = bootLog s @ map (\<lambda>c. (c, True)) [NewClient, GetWebhookSecret (namespace, webhookSecretName),
       UpdateWebhookSecret secret' (mapOf [(''tls.key'', key), (''tls.crt'', cert)]),
       WriteFile (altServerCertFile (environ s)) cert, WriteFile (altServerKeyFile (environ s)) key,
       GetWebhookConfig registrationName, UpdateWebhookConfig cfg']"
    and served: "u_NestedSlice (b_unstructured B) cfg' [''webhooks''] = Inr (xs, True)" "findWebhook B namespace 0 xs = Some (w, k)"
      "u_NestedString (b_unstructured B) w caBundlePath = Inr (StdEncodeToString cert, True)"
    by (rule updateSecretAndWebhook_Return)
  have same: "cfg' = cfg" "mget content ''tls.crt'' = cert"
    using log renewed(2-4) by (auto simp: mapOf_def)
  from assms(2) made obtain der c where valid: "cert \<noteq> []" "x_pemBlocks (e_x509 (b_env B)) cert = [(''CERTIFICATE'', der)]"
    "c_ParseCertificate (e_crypto (b_env B)) der = Inr c"
    "\<forall>pool. c \<in> set pool \<longrightarrow> b_verify B c (''cassandradatacenter-webhook-service.'' @ namespace @ ''.svc'') pool = None"
    by (rule new_ca_valid)
  show ?thesis
    by (rule EnsureWebhookCertificate_kept [OF assms(4,3) valid(1-3) _ served [unfolded same]])
      (use valid(4) mounted assms(11,12) same in simp_all)
qed

text \<open>The libraries of the sample have these laws.\<close>

lemma jsonAt_jsonPut: "jsonPut j v p = Some j' \<Longrightarrow> jsonAt j' p = Some v"
  by (induction j v p arbitrary: j' rule: jsonPut.induct) (auto simp: update_conv' split: json.splits)

lemma jsonPut_beside:
  assumes "jsonPut j v [k, a] = Some j'" "a \<noteq> b"
  shows "jsonAt j' (k # b # ks) = jsonAt j (k # b # ks)"
  using assms by (auto simp: update_conv' split: json.splits option.splits)

lemma jsonPut_object: "jsonPut j v (k # ks) = Some j' \<Longrightarrow> isObject j'"
  by (auto simp: isObject_def split: json.splits)

lemma sample_nestedLaws: "nestedLaws sampleUnstructured"
proof -
  have "jsonAt j' serviceNamespacePath = jsonAt j serviceNamespacePath" if "jsonPut j v caBundlePath = Some j'" for j v j'
    using jsonPut_beside [of j v "''clientConfig''" "''caBundle''" j' "''service''"] that
    by (simp add: caBundlePath_def serviceNamespacePath_def)
  moreover have "isObject j'" if "jsonPut j v p = Some j'" "p \<in> {serviceNamespacePath, caBundlePath}" for j v p j'
    using that jsonPut_object by (auto simp: serviceNamespacePath_def caBundlePath_def)
  ultimately show ?thesis
    by (auto simp: nestedLaws_def sampleUnstructured_def stored_def jsonAt_jsonPut simp del: jsonAt.simps jsonPut.simps
        split: option.splits)
qed

lemma sample_decodes: "decodes sampleBootCrypto"
  by (auto simp: decodes_def sampleBootCrypto_def sampleCrypto_def newline_def)

lemma sample_certificateLaws: "certificateLaws sampleBootenv"
  using sample_decodes by (simp add: certificateLaws_def sampleBootenv_def)
    (simp add: sampleBootCrypto_def sampleCrypto_def)

theorem webhook_certificate_settles_witness:
  "case updateSecretAndWebhook sampleBootenv ''ops'' sampleBoot of (_, t) \<Rightarrow>
     EnsureWebhookCertificate sampleBootenv t = (Return ([], None), t\<lparr>bootLog := bootLog t @
       [(ReadFile (serverCertFile (environ t)), True), (NewClient, True), (GetWebhookConfig registrationName, True)]\<rparr>)"
proof -
  have "fst (updateSecretAndWebhook sampleBootenv ''ops'' sampleBoot) = Return (''/tmp'', None)" by code_simp
  then obtain t where run: "updateSecretAndWebhook sampleBootenv ''ops'' sampleBoot = (Return (''/tmp'', None), t)"
    by (metis prod.collapse)
  have U: "nestedLaws (b_unstructured sampleBootenv)" using sample_nestedLaws by (simp add: sampleBootenv_def)
  obtain n key cert n' secret cfg xs w k where log: "bootLog t = bootLog sampleBoot @ map (\<lambda>c. (c, True))
      [NewClient, GetWebhookSecret (''ops'', webhookSecretName),
       UpdateWebhookSecret secret (mapOf [(''tls.key'', key), (''tls.crt'', cert)]),
       WriteFile (altServerCertFile (environ sampleBoot)) cert, WriteFile (altServerKeyFile (environ sampleBoot)) key,
       GetWebhookConfig registrationName, UpdateWebhookConfig cfg]"
    using U run by (rule updateSecretAndWebhook_Return)
  have "serverCertFile (environ sampleBoot) \<noteq> baseOsArgFilePath" by code_simp
  moreover have "environ t = environ sampleBoot" using aside_updateSecretAndWebhook run by (rule ranE)
  ultimately have path: "serverCertFile (environ t) \<noteq> baseOsArgFilePath" by simp
  show ?thesis unfolding run prod.case
    by (rule webhook_certificate_settles [OF U sample_certificateLaws _ _ run log, of "[]" secret
        "mapOf [(''tls.key'', key), (''tls.crt'', cert)]" True cfg True])
      (use log path in \<open>simp_all add: sampleBootenv_def sampleBootCrypto_def sampleEnv_def mountedCert_def servedConfig_def\<close>)
qed

section \<open>The key store for the traffic between nodes\<close>

text \<open>
  A key store for a name that trusts the certificate \<open>bytes\<close>, whose private key has issued the
  certificate under the name.
\<close>

definition issuedStore :: "env \<Rightarrow> string \<Rightarrow> PrivateKey \<Rightarrow> string \<Rightarrow> string \<Rightarrow> string \<Rightarrow> bool" where
  "issuedStore E bytes priv name password blob \<longleftrightarrow> (\<exists>c m leaf pub der entries t1 t2 key m'.
     c_ParseCertificate (e_crypto E) bytes = Inr c
     \<and> c_CreateCertificate (e_crypto E) m leaf (IssuedBy c) pub priv = Inr der
     \<and> t_CommonName leaf = name \<and> \<not> t_IsCA leaf
     \<and> mfind entries ''ca'' = Some (TrustedCertificateEntry t2 (''X509'', bytes))
     \<and> mfind entries name = Some (PrivateKeyEntry t1 key [(''X509'', der), (''X509'', bytes)])
     \<and> c_keystoreEncode (e_crypto E) m' entries password = Inr blob)"

lemma issuedStoreI:
  assumes "c_ParseCertificate (e_crypto E) bytes = Inr c"
    "c_CreateCertificate (e_crypto E) m leaf (IssuedBy c) pub priv = Inr der" "t_CommonName leaf = name" "\<not> t_IsCA leaf"
    "name \<noteq> ''ca''" "c_keystoreEncode (e_crypto E) m' (keyStoreOf name t1 key der bytes t2) password = Inr blob"
  shows "issuedStore E bytes priv name password blob"
  unfolding issuedStore_def
  by (rule exI [of _ c], rule exI [of _ m], rule exI [of _ leaf], rule exI [of _ pub], rule exI [of _ der],
      rule exI [of _ "keyStoreOf name t1 key der bytes t2"], rule exI [of _ t1], rule exI [of _ t2], rule exI [of _ key],
      rule exI [of _ m']) (simp add: assms fmlookup_keyStoreOf)

lemma prepare_ca_bytes:
  assumes "prepare_ca E ca = Return (bytes, cert, key, err)"
  shows "\<exists>t rest. x_pemBlocks (e_x509 E) (mget (Data ca) ''cert'') = (t, bytes) # rest"
  using assms by (auto simp: prepare_ca_def split: list.splits sum.splits)

lemma leafName_ne_ca: "leafName ca podname \<noteq> ''ca''"
proof
  assume "leafName ca podname = ''ca''"
  then have "length (leafName ca podname) = 2" by simp
  then show False by (simp add: leafName_def)
qed

lemma GenerateJKS_issued:
  assumes "decodes E" "GetNewCAandKey E domain ns n = (Return (keypem, certpem), n')"
    and "mget (Data ca) ''key'' = keypem" "mget (Data ca) ''cert'' = certpem"
    and "GenerateJKS E ca podname dcname k = (Return blob, k')"
  obtains m template priv bytes t rest where
    "c_CreateCertificate (e_crypto E) m template (SelfSigned template) priv priv = Inr bytes" "t_IsCA template"
    "x_pemBlocks (e_x509 E) certpem = (t, bytes) # rest" "issuedStore E bytes priv (leafName ca podname) dcname blob"
proof -
  from assms(5) obtain bytes cert caKey err key leaf m priv der m' t1 t2 where
    prepared: "prepare_ca E ca = Return (bytes, Some cert, Some caKey, err)"
    and store: "c_CreateCertificate (e_crypto E) m leaf (IssuedBy cert) priv caKey = Inr der"
      "t_CommonName leaf = leafName ca podname" "\<not> t_IsCA leaf"
      "c_keystoreEncode (e_crypto E) m' (keyStoreOf (leafName ca podname) t1 key der bytes t2) dcname = Inr blob"
    by (rule GenerateJKS_Return)
  from assms(1-4) prepared obtain m0 template priv0 where
    ca: "c_CreateCertificate (e_crypto E) m0 template (SelfSigned template) priv0 priv0 = Inr bytes" "t_IsCA template"
      "Some caKey = Some priv0" "Some cert \<noteq> None \<longrightarrow> (\<exists>c. Some cert = Some c \<and> c_ParseCertificate (e_crypto E) bytes = Inr c)"
    by (rule prepare_new_ca)
  have "issuedStore E bytes priv0 (leafName ca podname) dcname blob"
    using store ca(3,4) leafName_ne_ca by (intro issuedStoreI) auto
  with ca(1,2) prepare_ca_bytes [OF prepared] assms(4) show thesis by (auto intro: that)
qed

lemma perform_eq_iff:
  "perform answer c s = (Return a, t) \<longleftrightarrow> answer (log s) c = Inr a \<and> t = s\<lparr>log := log s @ [c]\<rparr>"
  by (auto simp: perform_def of_sum_def split: sum.splits)

lemma ticking_eq_iff: "ticking m s = (Return a, t) \<longleftrightarrow> (\<exists>n. m (ticks s) = (Return a, n) \<and> t = s\<lparr>ticks := n\<rparr>)"
  by (auto simp: ticking_def split: prod.splits)

lemma wrapping_Return_iff: "wrapping msg m s = (Return a, t) \<longleftrightarrow> m s = (Return a, t)"
  by (auto simp: wrapping_def bindM_def attempt_def op_simps split: prod.splits outcome.splits)

lemma attempt_perform_iff:
  "attempt (perform answer c) s = (Return x, t) \<longleftrightarrow> x = answer (log s) c \<and> t = s\<lparr>log := log s @ [c]\<rparr>"
  by (auto simp: attempt_def perform_def of_sum_def split: sum.splits)

lemmas world_iff = bindM_eq_Return_iff perform_eq_iff attempt_perform_iff ticking_eq_iff wrapping_Return_iff
  ret_boot_iff gets_environ_iff

text \<open>The run that creates the authority and the key store.\<close>

lemma created_credentials:
  assumes "retrieveInternodeCredentialSecretOrCreateDefault E w = (Return None, w')"
    and "log w' = log w @ cs" "CreateSecret store \<in> set cs" "Name store = Name (Datacenter w) @ ''-keystore''"
  obtains n keypem certpem n' h ca ca' k blob k' where
    "GetNewCAandKey E (Name (Datacenter w) @ ''-ca-keystore'') (Namespace (Datacenter w)) n = (Return (keypem, certpem), n')"
    "ca = newSecret (keystoreCASecret (Datacenter w)) (mapOf [(''key'', keypem), (''cert'', certpem)])"
    "CreateSecret ca \<in> set cs" "e_secret E h (CreateSecret ca) = Inr ca'"
    "GenerateJKS E ca' (Name (Datacenter w)) (Name (Datacenter w)) k = (Return blob, k')"
    "store = newSecret (Namespace (Datacenter w), Name (Datacenter w) @ ''-keystore'') (mapOf [(''node-keystore.jks'', blob)])"
proof -
  let ?dc = "Datacenter w"
  define u where "u = w\<lparr>log := log w @ [GetSecret (keystoreCASecret ?dc)]\<rparr>"
  have run: "bindM (createInternodeCACredential E) (\<lambda>secret. bindM (perform (e_secret E) (CreateSecret secret)) (\<lambda>secret.
      bindM (ticking (GenerateJKS E secret (Name ?dc) (Name ?dc))) (\<lambda>jksBlob.
      bindM (createCABootstrappingSecret E jksBlob) (\<lambda>_. ret None)))) u = (Return (None :: Secret option), w')"
    using assms(1) unfolding retrieveInternodeCredentialSecretOrCreateDefault_def getDc_def retrieveSecret_def u_def
    by (auto simp: world_iff fail_def split: sum.splits if_splits)
  from run obtain ca u1 ca' blob v x where cred: "createInternodeCACredential E u = (Return ca, u1)"
    and created: "e_secret E (log u1) (CreateSecret ca) = Inr ca'"
    and jks: "ticking (GenerateJKS E ca' (Name ?dc) (Name ?dc)) (u1\<lparr>log := log u1 @ [CreateSecret ca]\<rparr>) = (Return blob, v)"
    and boot: "createCABootstrappingSecret E blob v = (Return x, w')"
    by (auto simp: bindM_eq_Return_iff perform_eq_iff ret_boot_iff)
  from cred obtain keypem certpem n' where
    made: "GetNewCAandKey E (Name ?dc @ ''-ca-keystore'') (Namespace ?dc) (ticks u) = (Return (keypem, certpem), n')"
    and ca: "ca = newSecret (keystoreCASecret ?dc) (mapOf [(''key'', keypem), (''cert'', certpem)])"
    and u1: "Datacenter u1 = ?dc" "log u1 = log u"
    unfolding createInternodeCACredential_def getDc_def by (auto simp: world_iff u_def split: prod.splits)
  from jks u1 have v: "Datacenter v = ?dc" "log v = log u @ [CreateSecret ca]" by (auto simp: ticking_eq_iff)
  have "log w' = log v @ [GetSecret (Namespace ?dc, Name ?dc @ ''-keystore'')] \<or>
      log w' = log v @ [GetSecret (Namespace ?dc, Name ?dc @ ''-keystore''), CreateSecret
        (newSecret (Namespace ?dc, Name ?dc @ ''-keystore'') (mapOf [(''node-keystore.jks'', blob)]))]"
    using boot v(1) unfolding createCABootstrappingSecret_def getDc_def retrieveSecret_def
    by (auto simp: world_iff split: sum.splits)
  then have "CreateSecret ca \<in> set cs" "store = ca \<or> store = newSecret (Namespace ?dc, Name ?dc @ ''-keystore'')
      (mapOf [(''node-keystore.jks'', blob)])"
    using assms(2,3) v(2) by (auto simp: u_def)
  moreover have "Name ca \<noteq> Name ?dc @ ''-keystore''" by (simp add: ca newSecret_def keystoreCASecret_def ObjectMeta.defs)
  moreover from jks obtain k k' where "GenerateJKS E ca' (Name ?dc) (Name ?dc) k = (Return blob, k')"
    by (auto simp: ticking_eq_iff)
  ultimately show thesis using that made ca created assms(4) by blast
qed

text \<open>
  C13. The key store for the traffic between nodes trusts the authority that was stored. When a run finds
  no authority and creates the secret of the key store, it has also created the secret of an authority:
  a self-signed certificate. The key store holds that certificate as trusted, and under the name of the
  datacenter a certificate issued with the private key of the authority, followed by the authority.
\<close>

theorem internode_keystore_trusts_ca:
  assumes "decodes E"
    and "\<forall>h x y. e_secret E h (CreateSecret x) = Inr y \<longrightarrow> Data y = Data x \<and> Namespace y = Namespace x"
    and "retrieveInternodeCredentialSecretOrCreateDefault E w = (Return None, w')" "log w' = log w @ cs"
    and "CreateSecret store \<in> set cs" "Name store = Name (Datacenter w) @ ''-keystore''"
  shows "\<exists>ca m template priv bytes t rest. CreateSecret ca \<in> set cs \<and> (Namespace ca, Name ca) = keystoreCASecret (Datacenter w)
    \<and> c_CreateCertificate (e_crypto E) m template (SelfSigned template) priv priv = Inr bytes \<and> t_IsCA template
    \<and> x_pemBlocks (e_x509 E) (mget (Data ca) ''cert'') = (t, bytes) # rest
    \<and> issuedStore E bytes priv (Name (Datacenter w) @ ''.'' @ Namespace (Datacenter w) @ ''.cassdc'') (Name (Datacenter w))
        (mget (Data store) ''node-keystore.jks'')"
proof -
  let ?dc = "Datacenter w"
  from assms(3-6) obtain n keypem certpem n' h ca ca' k blob k' where
    made: "GetNewCAandKey E (Name ?dc @ ''-ca-keystore'') (Namespace ?dc) n = (Return (keypem, certpem), n')"
    and ca: "ca = newSecret (keystoreCASecret ?dc) (mapOf [(''key'', keypem), (''cert'', certpem)])"
      "CreateSecret ca \<in> set cs" "e_secret E h (CreateSecret ca) = Inr ca'"
    and jks: "GenerateJKS E ca' (Name ?dc) (Name ?dc) k = (Return blob, k')"
    and store: "store = newSecret (Namespace ?dc, Name ?dc @ ''-keystore'') (mapOf [(''node-keystore.jks'', blob)])"
    by (rule created_credentials)
  have same: "Data ca' = Data ca" "Namespace ca' = Namespace ca" using assms(2) ca(3) by blast+
  have data: "mget (Data ca) ''key'' = keypem" "mget (Data ca) ''cert'' = certpem" "mget (Data store) ''node-keystore.jks'' = blob"
    "(Namespace ca, Name ca) = keystoreCASecret ?dc" "Namespace ca = Namespace ?dc"
    by (simp_all add: ca(1) store newSecret_def keystoreCASecret_def mapOf_def ObjectMeta.defs)
  from assms(1) made data(1,2) [folded same(1)] jks obtain m template priv bytes t rest where
    "c_CreateCertificate (e_crypto E) m template (SelfSigned template) priv priv = Inr bytes" "t_IsCA template"
    "x_pemBlocks (e_x509 E) certpem = (t, bytes) # rest" "issuedStore E bytes priv (leafName ca' (Name ?dc)) (Name ?dc) blob"
    by (rule GenerateJKS_issued)
  then show ?thesis using ca(2) data same(2) unfolding leafName_def
    by (intro exI [of _ ca] exI [of _ m] exI [of _ template] exI [of _ priv] exI [of _ bytes] exI [of _ t] exI [of _ rest] conjI)
      simp_all
qed

theorem internode_keystore_trusts_ca_witness:
  "\<exists>store ca m template priv bytes t rest.
    {CreateSecret ca, CreateSecret store} \<subseteq> set (log (snd (retrieveInternodeCredentialSecretOrCreateDefault sampleBootCrypto sampleWorld)))
    \<and> c_CreateCertificate (e_crypto sampleBootCrypto) m template (SelfSigned template) priv priv = Inr bytes \<and> t_IsCA template
    \<and> x_pemBlocks (e_x509 sampleBootCrypto) (mget (Data ca) ''cert'') = (t, bytes) # rest
    \<and> issuedStore sampleBootCrypto bytes priv ''dc1.ns.cassdc'' ''dc1'' (mget (Data store) ''node-keystore.jks'')"
proof -
  let ?run = "retrieveInternodeCredentialSecretOrCreateDefault sampleBootCrypto sampleWorld"
  have returned: "fst ?run = Return None" by code_simp
  have "list_ex (\<lambda>c. case c of CreateSecret x \<Rightarrow> Name x = ''dc1-keystore'' | _ \<Rightarrow> False) (log (snd ?run))" by code_simp
  then obtain c where "c \<in> set (log (snd ?run))" "case c of CreateSecret x \<Rightarrow> Name x = ''dc1-keystore'' | _ \<Rightarrow> False"
    unfolding list_ex_iff by blast
  then obtain store where store: "CreateSecret store \<in> set (log (snd ?run))" "Name store = ''dc1-keystore''"
    by (cases c rule: call.exhaust) simp_all
  have dc: "Name (Datacenter sampleWorld) = ''dc1''" "Namespace (Datacenter sampleWorld) = ''ns''" "log sampleWorld = []"
    by (simp_all add: sample_defs)
  have stores: "\<forall>h x y. e_secret sampleBootCrypto h (CreateSecret x) = Inr y \<longrightarrow> Data y = Data x \<and> Namespace y = Namespace x"
    by (simp add: sampleBootCrypto_def sampleEnv_def)
  have run: "?run = (Return None, snd ?run)" using returned by (metis prod.collapse)
  have "log (snd ?run) = log sampleWorld @ log (snd ?run)" by (simp add: dc)
  from internode_keystore_trusts_ca [OF sample_decodes stores run this store(1)] store show ?thesis
    unfolding dc by fastforce
qed

end
