(* ===== verification/Shell.thy ===== *)
theory Shell
  imports GoOs
begin

text \<open>
  The state in which the build targets of \<open>mage\<close> run, and the packages every target uses:
  \<open>mage/sh\<close> (running commands) and \<open>mage/util\<close> (environment variables, panics). Each command and
  each access to the file system or to a server is appended to a log; what it answers is given by
  \<open>tools\<close>, as a function of the log before it. Output to the terminal is left out.
\<close>

section \<open>Calls and state\<close>

text \<open>
  Where the standard output of a command goes, and its environment: the variables of the process
  with some added, or exactly the given ones.
\<close>

datatype sink = ToTerminal | WhenVerbose | Captured | CapturedAndTerminal
datatype procEnv = Inherit "string gomap" | Exactly "string list"

datatype shCall =
    RunCmd sink procEnv string "string list" "string option"
  | ChangeDir string | MakeDir string | MakeDirAll string | ChangeMode string | RemoveTree string
  | CreateFile string | StatPath string
  | ReadTextFile string | WriteTextFile string string | ReadDirectory string
  | WaitFor int
  | HttpRequest string string "string \<times> string" "string option"

record shell =
  sh_env :: environment
  sh_cwd :: string
  sh_done :: "string list"
  sh_log :: "shCall list"

text \<open>
  A command answers its standard output, its standard error and an error. The other answers: a
  failure or success, a text, the entries of a directory with whether they are directories, a
  status with a body, the user (home directory, user and group), the clock as the code formats it,
  random numbers below a bound, and the order in which a map is traversed.
\<close>

record tools =
  q_exec :: "shCall list \<Rightarrow> shCall \<Rightarrow> string \<times> string \<times> error option"
  q_unit :: "shCall list \<Rightarrow> shCall \<Rightarrow> error + unit"
  q_text :: "shCall list \<Rightarrow> shCall \<Rightarrow> error + string"
  q_dir :: "shCall list \<Rightarrow> shCall \<Rightarrow> error + (string \<times> bool) list"
  q_http :: "shCall list \<Rightarrow> shCall \<Rightarrow> error + (int \<times> (error + string))"
  q_user :: "error + (string \<times> string \<times> string)"
  q_time :: "shCall list \<Rightarrow> string \<Rightarrow> string"
  q_rand :: "shCall list \<Rightarrow> nat \<Rightarrow> nat \<Rightarrow> nat"
  q_order :: "string set \<Rightarrow> string list"

definition logged :: "shCall \<Rightarrow> 'a shell_scheme \<Rightarrow> 'a shell_scheme" where
  "logged c s = s\<lparr>sh_log := sh_log s @ [c]\<rparr>"

definition tell :: "(shCall list \<Rightarrow> shCall \<Rightarrow> error + 'b) \<Rightarrow> shCall \<Rightarrow> ('a shell_scheme, 'b) op" where
  "tell answer c = (\<lambda>s. (of_sum (answer (sh_log s) c), logged c s))"

text \<open>A command: its standard output, standard error and error.\<close>

definition execute ::
    "tools \<Rightarrow> sink \<Rightarrow> procEnv \<Rightarrow> string \<Rightarrow> string list \<Rightarrow> string option \<Rightarrow> ('a shell_scheme, string \<times> string \<times> error option) op" where
  "execute Q out env cmd args input =
     (\<lambda>s. let c = RunCmd out env cmd args input in (Return (q_exec Q (sh_log s) c), logged c s))"

definition getenvOp :: "string \<Rightarrow> ('a shell_scheme, string) op" where
  "getenvOp k = gets (\<lambda>s. case sh_env s k of None \<Rightarrow> [] | Some v \<Rightarrow> v)"

definition lookupEnvOp :: "string \<Rightarrow> ('a shell_scheme, string option) op" where
  "lookupEnvOp k = gets (\<lambda>s. sh_env s k)"

definition setenvOp :: "string \<Rightarrow> string \<Rightarrow> ('a shell_scheme, unit) op" where
  "setenvOp k v = modify (\<lambda>s. s\<lparr>sh_env := (sh_env s)(k := Some v)\<rparr>)"

text \<open>The working directory is the argument of the last change that succeeded.\<close>

definition chdir :: "tools \<Rightarrow> string \<Rightarrow> ('a shell_scheme, unit) op" where
  "chdir Q d =
     bindM (tell (q_unit Q) (ChangeDir d)) (\<lambda>_.
     modify (\<lambda>s. s\<lparr>sh_cwd := (if HasPrefix d ''/'' then Clean d else joinPath [sh_cwd s, d])\<rparr>))"

definition ignoring :: "('s, 'b) op \<Rightarrow> ('s, unit) op" where
  "ignoring m = bindM (attempt m) (\<lambda>_. ret ())"

section \<open>mage/util\<close>

text \<open>An operation whose error is turned into a panic.\<close>

definition PanicOnError :: "('s, 'b) op \<Rightarrow> ('s, 'b) op" where
  "PanicOnError m = bindM (attempt m) (\<lambda>r. case r of Inl _ \<Rightarrow> panic | Inr a \<Rightarrow> ret a)"

definition EnsureDir :: "tools \<Rightarrow> string \<Rightarrow> ('a shell_scheme, unit) op" where
  "EnsureDir Q dir =
     bindM (ignoring (tell (q_unit Q) (MakeDir dir))) (\<lambda>_.
     ignoring (tell (q_unit Q) (ChangeMode dir)))"

definition RequireEnv :: "string \<Rightarrow> ('a shell_scheme, string) op" where
  "RequireEnv key = bindM (getenvOp key) (\<lambda>val. if val = [] then panic else ret val)"

definition FromEnvOrDefault :: "string \<Rightarrow> string \<Rightarrow> ('a shell_scheme, string) op" where
  "FromEnvOrDefault key def =
     bindM (lookupEnvOp key) (\<lambda>v. ret (case v of Some v \<Rightarrow> v | None \<Rightarrow> def))"

definition FromEnvOrF :: "string \<Rightarrow> ('a shell_scheme, string) op \<Rightarrow> ('a shell_scheme, string) op" where
  "FromEnvOrF key fallback =
     bindM (lookupEnvOp key) (\<lambda>v. case v of Some v \<Rightarrow> ret v | None \<Rightarrow> fallback)"

definition EnvOrDefault :: "string \<Rightarrow> string \<Rightarrow> ('a shell_scheme, string) op" where
  "EnvOrDefault key def = bindM (getenvOp key) (\<lambda>val. ret (if val = [] then def else val))"

definition hexRunes :: string where "hexRunes = ''0123456789ABCDEF''"

definition RandomHex :: "tools \<Rightarrow> nat \<Rightarrow> ('a shell_scheme, string) op" where
  "RandomHex Q len =
     gets (\<lambda>s. map (\<lambda>i. hexRunes ! (q_rand Q (sh_log s) i (length hexRunes))) [0..<len])"

section \<open>mage/sh\<close>

text \<open>The result of a command of which only the error is looked at.\<close>

definition failing :: "('s, string \<times> string \<times> error option) op \<Rightarrow> ('s, unit) op" where
  "failing m = bindM m (\<lambda>(_, _, err). case err of None \<Rightarrow> ret () | Some e \<Rightarrow> fail e)"

definition RunWithEnv :: "tools \<Rightarrow> string gomap \<Rightarrow> string \<Rightarrow> string list \<Rightarrow> ('a shell_scheme, unit) op" where
  "RunWithEnv Q env cmd args = failing (execute Q WhenVerbose (Inherit env) cmd args None)"

definition Run :: "tools \<Rightarrow> string \<Rightarrow> string list \<Rightarrow> ('a shell_scheme, unit) op" where
  "Run Q cmd args = RunWithEnv Q None cmd args"

definition RunPanic :: "tools \<Rightarrow> string \<Rightarrow> string list \<Rightarrow> ('a shell_scheme, unit) op" where
  "RunPanic Q cmd args = PanicOnError (Run Q cmd args)"

definition RunVWithEnv :: "tools \<Rightarrow> string gomap \<Rightarrow> string \<Rightarrow> string list \<Rightarrow> ('a shell_scheme, unit) op" where
  "RunVWithEnv Q env cmd args = failing (execute Q ToTerminal (Inherit env) cmd args None)"

definition RunV :: "tools \<Rightarrow> string \<Rightarrow> string list \<Rightarrow> ('a shell_scheme, unit) op" where
  "RunV Q cmd args = RunVWithEnv Q None cmd args"

definition RunVPanicWithEnv :: "tools \<Rightarrow> string gomap \<Rightarrow> string \<Rightarrow> string list \<Rightarrow> ('a shell_scheme, unit) op" where
  "RunVPanicWithEnv Q env cmd args = PanicOnError (RunVWithEnv Q env cmd args)"

definition RunVPanic :: "tools \<Rightarrow> string \<Rightarrow> string list \<Rightarrow> ('a shell_scheme, unit) op" where
  "RunVPanic Q cmd args = RunVPanicWithEnv Q None cmd args"

definition RunVCapture ::
    "tools \<Rightarrow> string \<Rightarrow> string list \<Rightarrow> ('a shell_scheme, string \<times> string \<times> error option) op" where
  "RunVCapture Q cmd args = execute Q CapturedAndTerminal (Inherit None) cmd args None"

definition OutputWithEnv ::
    "tools \<Rightarrow> string gomap \<Rightarrow> string \<Rightarrow> string list \<Rightarrow> ('a shell_scheme, string \<times> error option) op" where
  "OutputWithEnv Q env cmd args =
     bindM (execute Q Captured (Inherit env) cmd args None) (\<lambda>(out, _, err).
     ret (TrimSuffix out [CHR 0x0A], err))"

definition shOutput :: "tools \<Rightarrow> string \<Rightarrow> string list \<Rightarrow> ('a shell_scheme, string \<times> error option) op" where
  "shOutput Q cmd args = OutputWithEnv Q None cmd args"

definition shOutputPanic :: "tools \<Rightarrow> string \<Rightarrow> string list \<Rightarrow> ('a shell_scheme, string) op" where
  "shOutputPanic Q cmd args =
     bindM (shOutput Q cmd args) (\<lambda>(out, err). case err of None \<Rightarrow> ret out | Some _ \<Rightarrow> panic)"

text \<open>
  The environment of a command with input is a list that is never nil, so that the command does
  not get the variables of the process.
\<close>

definition envArray :: "tools \<Rightarrow> string gomap \<Rightarrow> string list" where
  "envArray Q env = map (\<lambda>k. k @ ''='' @ mget env k) (q_order Q (fset (fmdom (contents env))))"

definition cmdWithStdIn ::
    "tools \<Rightarrow> sink \<Rightarrow> string gomap \<Rightarrow> string \<Rightarrow> string \<Rightarrow> string list \<Rightarrow> ('a shell_scheme, string \<times> string \<times> error option) op" where
  "cmdWithStdIn Q out env cmd input args = execute Q out (Exactly (envArray Q env)) cmd args (Some input)"

text \<open>The variables that are given to this function are not passed on.\<close>

definition RunWithEnvWithInput ::
    "tools \<Rightarrow> string gomap \<Rightarrow> string \<Rightarrow> string \<Rightarrow> string list \<Rightarrow> ('a shell_scheme, unit) op" where
  "RunWithEnvWithInput Q env cmd input args = failing (cmdWithStdIn Q WhenVerbose None cmd input args)"

definition RunWithInput :: "tools \<Rightarrow> string \<Rightarrow> string \<Rightarrow> string list \<Rightarrow> ('a shell_scheme, unit) op" where
  "RunWithInput Q cmd input args = RunWithEnvWithInput Q None cmd input args"

definition RunVWithEnvWithInput ::
    "tools \<Rightarrow> string gomap \<Rightarrow> string \<Rightarrow> string \<Rightarrow> string list \<Rightarrow> ('a shell_scheme, unit) op" where
  "RunVWithEnvWithInput Q env cmd input args = failing (cmdWithStdIn Q ToTerminal env cmd input args)"

definition RunVWithInput :: "tools \<Rightarrow> string \<Rightarrow> string \<Rightarrow> string list \<Rightarrow> ('a shell_scheme, unit) op" where
  "RunVWithInput Q cmd input args = RunVWithEnvWithInput Q None cmd input args"

text \<open>Here the output keeps its last newline.\<close>

definition OutputWithEnvWithInput ::
    "tools \<Rightarrow> string gomap \<Rightarrow> string \<Rightarrow> string \<Rightarrow> string list \<Rightarrow> ('a shell_scheme, string \<times> error option) op" where
  "OutputWithEnvWithInput Q env cmd input args =
     bindM (execute Q Captured (Exactly (envArray Q env)) cmd args (Some input)) (\<lambda>(out, _, err).
     ret (out, err))"

definition OutputWithInput ::
    "tools \<Rightarrow> string \<Rightarrow> string \<Rightarrow> string list \<Rightarrow> ('a shell_scheme, string \<times> error option) op" where
  "OutputWithInput Q cmd input args = OutputWithEnvWithInput Q None cmd input args"

section \<open>Targets that others depend on\<close>

text \<open>\<open>mg.Deps\<close> runs a target once in a run of \<open>mage\<close>; a target whose run panics ends the run.\<close>

definition Deps :: "string \<Rightarrow> ('a shell_scheme, unit) op \<Rightarrow> ('a shell_scheme, unit) op" where
  "Deps name target =
     bindM (gets sh_done) (\<lambda>d.
       if name \<in> set d then ret ()
       else bindM (modify (\<lambda>s. s\<lparr>sh_done := name # sh_done s\<rparr>)) (\<lambda>_. target))"

section \<open>Evaluation\<close>

lemma tell_run [op_simps]: "tell answer c s = (of_sum (answer (sh_log s) c), logged c s)"
  and execute_run [op_simps]: "execute Q out env cmd args input s =
    (Return (q_exec Q (sh_log s) (RunCmd out env cmd args input)), logged (RunCmd out env cmd args input) s)"
  and getenvOp_run [op_simps]: "getenvOp k s = (Return (case sh_env s k of None \<Rightarrow> [] | Some v \<Rightarrow> v), s)"
  and lookupEnvOp_run [op_simps]: "lookupEnvOp k s = (Return (sh_env s k), s)"
  and setenvOp_run [op_simps]: "setenvOp k v s = (Return (), s\<lparr>sh_env := (sh_env s)(k := Some v)\<rparr>)"
  by (simp_all add: tell_def execute_def getenvOp_def lookupEnvOp_def setenvOp_def op_simps Let_def)

lemma logged_simps [simp]: "sh_log (logged c s) = sh_log s @ [c]" "sh_env (logged c s) = sh_env s"
    "sh_cwd (logged c s) = sh_cwd s" "sh_done (logged c s) = sh_done s" "shell.more (logged c s) = shell.more s"
  by (simp_all add: logged_def)

lemma of_sum_not_Panic [simp]: "of_sum x \<noteq> Panic"
  by (simp add: of_sum_def split: sum.split)

lemma ignoring_tell [op_simps]: "ignoring (tell answer c) s = (Return (), logged c s)"
  by (auto simp: ignoring_def op_simps bindM_def attempt_def split: prod.splits outcome.splits)

lemmas rc_sh = op_simps bindM_def thenM_def attempt_def returning_def

lemma PanicOnError_cases: "PanicOnError m s = (case m s of (Fail e, t) \<Rightarrow> (Panic, t) | rt \<Rightarrow> rt)"
  by (auto simp: PanicOnError_def bindM_def attempt_def op_simps split: prod.splits outcome.splits)

lemma snd_PanicOnError: "snd (PanicOnError m s) = snd (m s)"
  by (auto simp: PanicOnError_cases split: prod.splits outcome.splits)

text \<open>A target that is a dependency runs at most once.\<close>

lemma Deps_twice:
  assumes "Deps name target s = (Return (), t)" "\<And>u v r. target u = (r, v) \<Longrightarrow> set (sh_done u) \<subseteq> set (sh_done v)"
  shows "Deps name target t = (Return (), t)"
proof -
  have "name \<in> set (sh_done t)"
    using assms(1) assms(2) [of "s\<lparr>sh_done := name # sh_done s\<rparr>"]
    by (auto simp: Deps_def bindM_def op_simps split: if_splits)
  then show ?thesis by (simp add: Deps_def bindM_def op_simps)
qed

end
