(* ===== verification/Docker.thy ===== *)
theory Docker
  imports Shell
begin

text \<open>
  The package \<open>mage/docker\<close>: commands of \<open>docker\<close> as values, how they are printed and run. Reading the
  JSON of a container is a parameter of the functions that need it.
\<close>

record DockerCmd =
  d_Args :: "string list"
  d_ConfigDir :: string
  d_Input :: string
  d_Env :: "string gomap"

definition docker_ToCliArgs :: "DockerCmd \<Rightarrow> string list" where
  "docker_ToCliArgs cmd = (if d_ConfigDir cmd \<noteq> [] then [''--config'', d_ConfigDir cmd] else []) @ d_Args cmd"

definition WithCfg :: "DockerCmd \<Rightarrow> string \<Rightarrow> DockerCmd" where
  "WithCfg cmd cfgDir = cmd\<lparr>d_ConfigDir := cfgDir\<rparr>"

definition WithInput :: "DockerCmd \<Rightarrow> string \<Rightarrow> DockerCmd" where
  "WithInput cmd input = cmd\<lparr>d_Input := input\<rparr>"

definition FromArgs :: "string list \<Rightarrow> DockerCmd" where
  "FromArgs args = \<lparr>d_Args = args, d_ConfigDir = [], d_Input = [], d_Env = None\<rparr>"

definition FromArgsInput :: "string list \<Rightarrow> string \<Rightarrow> DockerCmd" where
  "FromArgsInput args input = (FromArgs args)\<lparr>d_Input := input\<rparr>"

section \<open>Running\<close>

definition docker_exec :: "DockerCmd
    \<Rightarrow> (string gomap \<Rightarrow> string \<Rightarrow> string \<Rightarrow> string list \<Rightarrow> ('s, 'b) op)
    \<Rightarrow> (string gomap \<Rightarrow> string \<Rightarrow> string list \<Rightarrow> ('s, 'b) op) \<Rightarrow> ('s, 'b) op" where
  "docker_exec cmd withInput withoutInput =
     (let args = docker_ToCliArgs cmd
      in if d_Input cmd \<noteq> [] then withInput (d_Env cmd) ''docker'' (d_Input cmd) args
         else withoutInput (d_Env cmd) ''docker'' args)"

definition docker_output :: "DockerCmd
    \<Rightarrow> (string gomap \<Rightarrow> string \<Rightarrow> string \<Rightarrow> string list \<Rightarrow> ('s, string \<times> error option) op)
    \<Rightarrow> (string gomap \<Rightarrow> string \<Rightarrow> string list \<Rightarrow> ('s, string \<times> error option) op) \<Rightarrow> ('s, string \<times> error option) op" where
  "docker_output cmd withInput withoutInput =
     (let args = docker_ToCliArgs cmd
      in if d_Input cmd \<noteq> [] then withInput (d_Env cmd) ''docker'' (d_Input cmd) args
         else withoutInput (d_Env cmd) ''docker'' args)"

definition docker_Exec :: "tools \<Rightarrow> DockerCmd \<Rightarrow> ('a shell_scheme, unit) op" where
  "docker_Exec Q cmd = docker_exec cmd (RunWithEnvWithInput Q) (RunWithEnv Q)"

definition docker_ExecV :: "tools \<Rightarrow> DockerCmd \<Rightarrow> ('a shell_scheme, unit) op" where
  "docker_ExecV Q cmd = docker_exec cmd (RunVWithEnvWithInput Q) (RunVWithEnv Q)"

definition docker_ExecVPanic :: "tools \<Rightarrow> DockerCmd \<Rightarrow> ('a shell_scheme, unit) op" where
  "docker_ExecVPanic Q cmd = PanicOnError (docker_exec cmd (RunVWithEnvWithInput Q) (RunVWithEnv Q))"

definition docker_Output :: "tools \<Rightarrow> DockerCmd \<Rightarrow> ('a shell_scheme, string \<times> error option) op" where
  "docker_Output Q cmd = docker_output cmd (OutputWithEnvWithInput Q) (OutputWithEnv Q)"

definition docker_OutputPanic :: "tools \<Rightarrow> DockerCmd \<Rightarrow> ('a shell_scheme, string) op" where
  "docker_OutputPanic Q cmd =
     bindM (docker_output cmd (OutputWithEnvWithInput Q) (OutputWithEnv Q)) (\<lambda>(out, err).
       case err of None \<Rightarrow> ret out | Some _ \<Rightarrow> panic)"

section \<open>Building commands\<close>

definition each :: "string \<Rightarrow> string list \<Rightarrow> string list" where
  "each option xs = concat (map (\<lambda>x. [option, x]) xs)"

definition dockerExec ::
    "string \<Rightarrow> string list \<Rightarrow> bool \<Rightarrow> string \<Rightarrow> string \<Rightarrow> string list \<Rightarrow> DockerCmd" where
  "dockerExec containerId env privileged user workDir exec =
     FromArgs ([''exec''] @ each ''--env'' env
       @ (if privileged then [''--privileged''] else [])
       @ (if user \<noteq> [] then [''--user'', user] else [])
       @ (if workDir \<noteq> [] then [''--workdir'', workDir] else [])
       @ [containerId] @ exec)"

definition dockerRun ::
    "string \<Rightarrow> string list \<Rightarrow> string list \<Rightarrow> string list \<Rightarrow> string list \<Rightarrow> string list \<Rightarrow> DockerCmd" where
  "dockerRun imageName volumes dnsAddrs env runArgs execArgs =
     FromArgs ([''run'', ''--rm''] @ each ''--env'' env @ each ''--dns'' dnsAddrs @ each ''-v'' volumes
       @ runArgs @ [imageName] @ execArgs)"

definition dockerBuild :: "string \<Rightarrow> string \<Rightarrow> string \<Rightarrow> string list \<Rightarrow> string list \<Rightarrow> DockerCmd" where
  "dockerBuild contextDir targetStage dockerFilePath namesAndTags buildArgs =
     (FromArgs ([''buildx'', ''build'', contextDir]
       @ (if targetStage \<noteq> [] then [''--target'', targetStage] else [])
       @ (if dockerFilePath \<noteq> [] then [''-f'', dockerFilePath] else [])
       @ each ''-t'' namesAndTags @ each ''--build-arg'' buildArgs
       @ [''--load'', ''--cache-from'', ''type=local,src=/tmp/.buildx-cache'',
          ''--cache-to'', ''type=local,dest=/tmp/.buildx-cache'']))\<lparr>d_Env := Some fmempty\<rparr>"

text \<open>The directory of the configuration is not used; the callers add it with \<open>WithCfg\<close>.\<close>

definition Login :: "string \<Rightarrow> string \<Rightarrow> string \<Rightarrow> string \<Rightarrow> DockerCmd" where
  "Login configDir user pw repo = FromArgsInput [''login'', ''-u'', user, ''--password-stdin'', repo] pw"

definition dockerPush :: "string \<Rightarrow> DockerCmd" where
  "dockerPush tag = FromArgs [''push'', tag]"

definition dockerTagCmd :: "string \<Rightarrow> string \<Rightarrow> DockerCmd" where
  "dockerTagCmd src target = FromArgs [''tag'', src, target]"

definition LsContainers :: "string \<Rightarrow> DockerCmd" where
  "LsContainers format = FromArgs [''container'', ''ls'', ''--format'', format, ''--no-trunc'']"

text \<open>A container, with the fields that are read; the others are texts that only the decoder sees.\<close>

record DockerContainer =
  dc_Id :: string
  dc_Image :: string

definition TrimChar :: "char \<Rightarrow> string \<Rightarrow> string" where
  "TrimChar c s = rev (dropWhile (\<lambda>x. x = c) (rev (dropWhile (\<lambda>x. x = c) s)))"

definition GetAllContainersPanic ::
    "tools \<Rightarrow> (string \<Rightarrow> error + DockerContainer) \<Rightarrow> ('a shell_scheme, DockerContainer list) op" where
  "GetAllContainersPanic Q decode =
     bindM (docker_OutputPanic Q (LsContainers ([CHR 0x22] @ ''{{json .}}'' @ [CHR 0x22]))) (\<lambda>rawJson.
     foldM (\<lambda>containers j.
       case decode (TrimSpace (TrimChar (CHR 0x22) j)) of
         Inl _ \<Rightarrow> panic
       | Inr c \<Rightarrow> ret (containers @ [c])) [] (Split rawJson (CHR 0x0A)))"

section \<open>Laws\<close>

text \<open>A password reaches the standard input of the command and never its arguments.\<close>

lemma Login_arguments: "docker_ToCliArgs (WithCfg (Login d user pw repo) cfg) =
    (if cfg \<noteq> [] then [''--config'', cfg] else []) @ [''login'', ''-u'', user, ''--password-stdin'', repo]"
  by (simp add: docker_ToCliArgs_def WithCfg_def Login_def FromArgsInput_def FromArgs_def)

lemma Login_run:
  assumes "pw \<noteq> []"
  shows "docker_ExecV Q (WithCfg (Login d user pw repo) cfg) s =
    failing (execute Q ToTerminal (Exactly (envArray Q None)) ''docker''
      ((if cfg \<noteq> [] then [''--config'', cfg] else []) @ [''login'', ''-u'', user, ''--password-stdin'', repo]) (Some pw)) s"
  using assms Login_arguments [of d user pw repo cfg]
  by (simp add: docker_ExecV_def docker_exec_def RunVWithEnvWithInput_def cmdWithStdIn_def WithCfg_def Login_def
      FromArgsInput_def FromArgs_def)

text \<open>The environment of a command with input is empty when none is given.\<close>

lemma envArray_None: "(\<And>S. set (q_order Q S) = S) \<Longrightarrow> envArray Q None = []"
  by (metis (no_types, lifting) bot_fset.rep_eq contents_def envArray_def fmdom_empty list.simps(8) option.simps(4) set_empty)

end
