(* ===== verification/Versions.thy ===== *)
theory Versions
  imports Shell
begin

text \<open>
  Versions and tags of the images of the operator: \<open>mage/config\<close>, \<open>mage/git\<close> and the version functions
  of \<open>mage/operator/lib.go\<close>. Strings are lists of bytes; the regular expression of the names works on
  characters, and a byte above 127 is part of a character that it replaces.
\<close>

section \<open>mage/config\<close>

record Version =
  Major :: int
  Minor :: int
  Patch :: int
  Prerelease :: string

text \<open>
  \<open>[^A-z0-9\-]\<close>: the range from \<open>A\<close> to \<open>z\<close> also holds the six characters between the upper and the
  lower case letters. A character of several bytes is replaced by one dash: its first byte is, and
  its continuation bytes are dropped. The text is valid UTF-8.
\<close>

definition alnumDash :: "char \<Rightarrow> bool" where
  "alnumDash c \<longleftrightarrow> (65 \<le> (of_char c :: nat) \<and> (of_char c :: nat) \<le> 122)
     \<or> (48 \<le> (of_char c :: nat) \<and> (of_char c :: nat) \<le> 57) \<or> c = CHR ''-''"

definition continuationByte :: "char \<Rightarrow> bool" where
  "continuationByte c \<longleftrightarrow> 128 \<le> (of_char c :: nat) \<and> (of_char c :: nat) < 192"

definition EnsureAlphaNumericDash :: "string \<Rightarrow> string" where
  "EnsureAlphaNumericDash str =
     map (\<lambda>c. if alnumDash c then c else CHR ''-'') (filter (\<lambda>c. \<not> continuationByte c) str)"

definition Version_String :: "Version \<Rightarrow> string" where
  "Version_String v =
     (let version = showInt (Major v) @ ''.'' @ showInt (Minor v) @ ''.'' @ showInt (Patch v)
      in if Prerelease v \<noteq> [] then version @ ''-'' @ EnsureAlphaNumericDash (Prerelease v) else version)"

record Dev =
  DseImages :: "string list"
  UbiDseImages :: "string list"
  OssImages :: "string list"
  UbiOssImages :: "string list"
  SharedImages :: "string list"

record BuildSettings =
  bs_Version :: Version
  bs_Plugins :: "string list"
  bs_Dev :: Dev

text \<open>The YAML library is a parameter.\<close>

definition ReadBuildSettings :: "tools \<Rightarrow> (string \<Rightarrow> error + BuildSettings) \<Rightarrow> ('a shell_scheme, BuildSettings) op" where
  "ReadBuildSettings Q unmarshal =
     bindM (PanicOnError (tell (q_text Q) (ReadTextFile ''buildsettings.yaml''))) (\<lambda>d.
     PanicOnError (lift (of_sum (unmarshal d))))"

definition GetOperatorImage :: "('a shell_scheme, string) op" where
  "GetOperatorImage =
     bindM (getenvOp ''M_OPERATOR_IMAGE'') (\<lambda>image.
     ret (if image = [] then ''k8ssandra/cass-operator:latest'' else image))"

section \<open>mage/git\<close>

definition GetUnstagedChanges :: "tools \<Rightarrow> ('a shell_scheme, string) op" where
  "GetUnstagedChanges Q =
     bindM (shOutputPanic Q ''git'' [''--no-pager'', ''diff'']) (\<lambda>out. ret (TrimSpace out))"

definition HasUnstagedChanges :: "tools \<Rightarrow> ('a shell_scheme, bool) op" where
  "HasUnstagedChanges Q =
     bindM (shOutputPanic Q ''git'' [''diff'']) (\<lambda>out. ret (TrimSpace out \<noteq> []))"

definition HasStagedChanges :: "tools \<Rightarrow> ('a shell_scheme, bool) op" where
  "HasStagedChanges Q =
     bindM (shOutputPanic Q ''git'' [''diff'', ''--staged'']) (\<lambda>out. ret (TrimSpace out \<noteq> []))"

definition GetBranch :: "tools \<Rightarrow> string \<Rightarrow> ('a shell_scheme, string) op" where
  "GetBranch Q env =
     bindM (FromEnvOrF env (shOutputPanic Q ''git'' [''rev-parse'', ''--abbrev-ref'', ''HEAD''])) (\<lambda>val.
     ret (TrimSpace val))"

definition GetLongHash :: "tools \<Rightarrow> string \<Rightarrow> ('a shell_scheme, string) op" where
  "GetLongHash Q env =
     bindM (FromEnvOrF env (shOutputPanic Q ''git'' [''rev-parse'', ''HEAD''])) (\<lambda>val. ret (TrimSpace val))"

definition GetShortHash :: "tools \<Rightarrow> string \<Rightarrow> ('a shell_scheme, string) op" where
  "GetShortHash Q env =
     bindM (FromEnvOrF env (shOutputPanic Q ''git'' [''rev-parse'', ''--short=8'', ''HEAD''])) (\<lambda>val.
     ret (TrimSpace val))"

section \<open>Versions of a build\<close>

record GitData =
  Branch :: string
  LongHash :: string
  HasUncommittedChanges :: bool
  ShortHash :: string

text \<open>The unstaged changes are looked for only when there are no staged ones.\<close>

definition getGitData :: "tools \<Rightarrow> ('a shell_scheme, GitData) op" where
  "getGitData Q =
     bindM (GetBranch Q ''MO_BRANCH'') (\<lambda>branch.
     bindM (HasStagedChanges Q) (\<lambda>staged.
     bindM (if staged then ret True else HasUnstagedChanges Q) (\<lambda>uncommitted.
     bindM (GetLongHash Q ''MO_HASH'') (\<lambda>long.
     bindM (GetShortHash Q ''MO_HASH'') (\<lambda>short.
     ret \<lparr>Branch = branch, LongHash = long, HasUncommittedChanges = uncommitted, ShortHash = short\<rparr>)))))"

record FullVersion =
  fv_Core :: Version
  fv_Branch :: string
  fv_Uncommitted :: bool
  fv_Hash :: string

definition FullVersion_String :: "FullVersion \<Rightarrow> string" where
  "FullVersion_String v =
     (let str = Version_String (fv_Core v) @ (if Prerelease (fv_Core v) \<noteq> [] then ''.'' else ''-'');
          str = (if fv_Branch v \<noteq> ''master'' then str @ EnsureAlphaNumericDash (fv_Branch v) @ ''.'' else str);
          str = (if fv_Uncommitted v then str @ ''uncommitted.'' else str)
      in str @ fv_Hash v)"

text \<open>A branch that is shorter than what is to be cut off makes the slice expression panic.\<close>

definition trimFullVersionBranch :: "FullVersion \<Rightarrow> FullVersion outcome" where
  "trimFullVersionBranch v =
     (let overflow = int (length (FullVersion_String v)) - 128
      in if overflow > 0 then
           if overflow \<le> int (length (fv_Branch v))
           then Return (v\<lparr>fv_Branch := take (length (fv_Branch v) - nat overflow) (fv_Branch v)\<rparr>)
           else Panic
         else Return v)"

definition calcFullVersion :: "BuildSettings \<Rightarrow> GitData \<Rightarrow> FullVersion" where
  "calcFullVersion settings git =
     \<lparr>fv_Core = bs_Version settings, fv_Branch = Branch git, fv_Uncommitted = HasUncommittedChanges git,
      fv_Hash = ShortHash git\<rparr>"

definition calcVersionAndTags :: "FullVersion \<Rightarrow> bool \<Rightarrow> string list" where
  "calcVersionAndTags version ubiBase =
     (let repoPath = ''k8ssandra/cass-operator''
      in if ubiBase then [repoPath @ '':'' @ fv_Hash version @ ''-ubi'', repoPath @ '':latest-ubi'']
         else [repoPath @ '':'' @ fv_Hash version, repoPath @ '':latest''])"

section \<open>Laws\<close>

definition asciiText :: "string \<Rightarrow> bool" where
  "asciiText s \<longleftrightarrow> (\<forall>c\<in>set s. (of_char c :: nat) < 128)"

lemma EnsureAlphaNumericDash_ascii: "asciiText s \<Longrightarrow> length (EnsureAlphaNumericDash s) = length s"
  by (induction s) (auto simp: EnsureAlphaNumericDash_def continuationByte_def asciiText_def)

lemma EnsureAlphaNumericDash_legal: "c \<in> set (EnsureAlphaNumericDash s) \<Longrightarrow> alnumDash c"
  by (auto simp: EnsureAlphaNumericDash_def alnumDash_def split: if_splits)

lemma EnsureAlphaNumericDash_idem: "EnsureAlphaNumericDash (EnsureAlphaNumericDash s) = EnsureAlphaNumericDash s"
proof -
  have "alnumDash c \<Longrightarrow> \<not> continuationByte c" for c by (auto simp: alnumDash_def continuationByte_def)
  then have "filter (\<lambda>c. \<not> continuationByte c) (EnsureAlphaNumericDash s) = EnsureAlphaNumericDash s"
    by (auto intro!: filter_True dest: EnsureAlphaNumericDash_legal)
  then show ?thesis
    by (subst EnsureAlphaNumericDash_def) (auto intro!: map_idI dest: EnsureAlphaNumericDash_legal)
qed

text \<open>
  Cutting a branch of ASCII characters makes the version exactly as long as a tag may be, unless
  what is left of the branch is the name that is left out of versions.
\<close>

lemma length_FullVersion_String:
  assumes "asciiText b" "b \<noteq> ''master''"
  shows "length (FullVersion_String (v\<lparr>fv_Branch := b\<rparr>)) = length b +
    length (FullVersion_String (v\<lparr>fv_Branch := []\<rparr>))"
  using assms EnsureAlphaNumericDash_ascii [of b]
  by (simp add: FullVersion_String_def Let_def EnsureAlphaNumericDash_def)

lemma trimFullVersionBranch_length:
  assumes "asciiText (fv_Branch v)" "fv_Branch v \<noteq> ''master''"
    "trimFullVersionBranch v = Return v'" "fv_Branch v' \<noteq> ''master''"
  shows "length (FullVersion_String v') = min 128 (length (FullVersion_String v))"
proof (cases "length (FullVersion_String v) \<le> 128")
  case True
  with assms(3) show ?thesis by (simp add: trimFullVersionBranch_def Let_def)
next
  case False
  let ?b = "take (length (fv_Branch v) - (length (FullVersion_String v) - 128)) (fv_Branch v)"
  from False assms(3) have v': "v' = v\<lparr>fv_Branch := ?b\<rparr>" and le: "length (FullVersion_String v) - 128 \<le> length (fv_Branch v)"
    by (auto simp: trimFullVersionBranch_def Let_def nat_diff_distrib split: if_splits)
  have "length (FullVersion_String v') = length ?b + length (FullVersion_String (v\<lparr>fv_Branch := []\<rparr>))"
    unfolding v' by (rule length_FullVersion_String) (use assms(1,4) v' in \<open>auto simp: asciiText_def dest: in_set_takeD\<close>)
  moreover have "length (FullVersion_String v) = length (fv_Branch v) + length (FullVersion_String (v\<lparr>fv_Branch := []\<rparr>))"
    using length_FullVersion_String [of "fv_Branch v" v] assms(1,2) by simp
  ultimately show ?thesis using False le by simp
qed

text \<open>The four tags of a build are different, as long as the hash is not the word of the moving tag.\<close>

lemma calcVersionAndTags_distinct:
  assumes "fv_Hash v \<noteq> ''latest''" "fv_Hash v \<noteq> ''latest-ubi''" "fv_Hash v @ ''-ubi'' \<noteq> ''latest''"
  shows "distinct (calcVersionAndTags v False @ calcVersionAndTags v True)"
  using assms by (auto simp: calcVersionAndTags_def)

end
