(* ===== verification/Builds.thy ===== *)
theory Builds
  imports Docker Versions
begin

text \<open>
  The targets of \<open>mage/operator\<close>: the generated resource definition and its changes, the images
  of the operator, and their upload. A YAML document is a value whose maps are association lists;
  reading and printing YAML are parameters.
\<close>

section \<open>Changes of a document\<close>

datatype yaml =
    YMap "(string \<times> yaml) list"
  | YBool bool
  | YOther string

text \<open>
  The walker of the code holds a pointer to an inner map of the document. Here it holds the path to
  that map, so that a change of the map is a change of the document.
\<close>

record yamlWalker =
  y_doc :: "(string \<times> yaml) list"
  y_path :: "string list"
  y_err :: "string option"
  y_editsMade :: bool

fun mapAt :: "(string \<times> yaml) list \<Rightarrow> string list \<Rightarrow> (string \<times> yaml) list option" where
  "mapAt m [] = Some m"
| "mapAt m (k # ks) = (case map_of m k of Some (YMap n) \<Rightarrow> mapAt n ks | _ \<Rightarrow> None)"

text \<open>The association list with the entry of a key changed, or dropped for \<open>None\<close>.\<close>

fun assocSet :: "string \<Rightarrow> yaml \<Rightarrow> (string \<times> yaml) list \<Rightarrow> (string \<times> yaml) list" where
  "assocSet k v [] = [(k, v)]"
| "assocSet k v ((k', v') # m) = (if k' = k then (k, v) # m else (k', v') # assocSet k v m)"

definition assocDrop :: "string \<Rightarrow> (string \<times> yaml) list \<Rightarrow> (string \<times> yaml) list" where
  "assocDrop k m = filter (\<lambda>(k', _). k' \<noteq> k) m"

fun changeAt ::
    "((string \<times> yaml) list \<Rightarrow> (string \<times> yaml) list) \<Rightarrow> (string \<times> yaml) list \<Rightarrow> string list \<Rightarrow> (string \<times> yaml) list" where
  "changeAt f m [] = f m"
| "changeAt f m (k # ks) = (case map_of m k of Some (YMap n) \<Rightarrow> assocSet k (YMap (changeAt f n ks)) m | _ \<Rightarrow> m)"

definition current :: "yamlWalker \<Rightarrow> (string \<times> yaml) list" where
  "current y = (case mapAt (y_doc y) (y_path y) of Some m \<Rightarrow> m | None \<Rightarrow> [])"

text \<open>A value that is not a map makes the type assertion panic.\<close>

definition walk :: "yamlWalker \<Rightarrow> string \<Rightarrow> yamlWalker outcome" where
  "walk y key =
     (if y_err y \<noteq> None then Return y
      else case map_of (current y) key of
          None \<Rightarrow> Return (y\<lparr>y_err := Some (''walk failed on '' @ key)\<rparr>)
        | Some (YMap _) \<Rightarrow> Return (y\<lparr>y_path := y_path y @ [key]\<rparr>)
        | Some _ \<Rightarrow> Panic)"

definition yamlRemove :: "yamlWalker \<Rightarrow> string \<Rightarrow> yamlWalker" where
  "yamlRemove y key =
     (if y_err y \<noteq> None then y
      else y\<lparr>y_doc := changeAt (assocDrop key) (y_doc y) (y_path y), y_editsMade := True\<rparr>)"

definition yamlUpdate :: "yamlWalker \<Rightarrow> string \<Rightarrow> yaml \<Rightarrow> yamlWalker" where
  "yamlUpdate y key val =
     (if y_err y \<noteq> None then y
      else y\<lparr>y_doc := changeAt (assocSet key val) (y_doc y) (y_path y), y_editsMade := True\<rparr>)"

definition yamlGet :: "yamlWalker \<Rightarrow> string \<Rightarrow> yaml option" where
  "yamlGet y key = map_of (current y) key"

fun walkAll :: "yamlWalker \<Rightarrow> string list \<Rightarrow> yamlWalker outcome" where
  "walkAll y [] = Return y"
| "walkAll y (k # ks) = obind (walk y k) (\<lambda>y. walkAll y ks)"

definition newWalker :: "(string \<times> yaml) list \<Rightarrow> yamlWalker" where
  "newWalker data = \<lparr>y_doc = data, y_path = [], y_err = None, y_editsMade = False\<rparr>"

definition ensurePreserveUnknownFields :: "(string \<times> yaml) list \<Rightarrow> yamlWalker outcome" where
  "ensurePreserveUnknownFields data =
     (let preserve = ''x-kubernetes-preserve-unknown-fields''
      in obind (walkAll (newWalker data) [''spec'', ''validation'', ''openAPIV3Schema'']) (\<lambda>walker.
         Return (if yamlGet walker preserve \<noteq> Some (YBool True) then yamlUpdate walker preserve (YBool True) else walker)))"

definition removeConfigSection :: "(string \<times> yaml) list \<Rightarrow> yamlWalker outcome" where
  "removeConfigSection data =
     obind (walkAll (newWalker data)
       [''spec'', ''validation'', ''openAPIV3Schema'', ''properties'', ''spec'', ''properties'']) (\<lambda>walker.
     Return (if yamlGet walker ''config'' \<noteq> None then yamlRemove walker ''config'' else walker))"

definition generatedDseDataCentersCrd :: string where
  "generatedDseDataCentersCrd = ''operator/deploy/crds/cassandra.datastax.com_cassandradatacenters_crd.yaml''"

definition helmChartCrd :: string where
  "helmChartCrd = ''charts/cass-operator-chart/templates/customresourcedefinition.yaml''"

text \<open>The document after both changes, and whether one was made.\<close>

definition processedCrd :: "(string \<times> yaml) list \<Rightarrow> ((string \<times> yaml) list \<times> bool) outcome" where
  "processedCrd data =
     obind (ensurePreserveUnknownFields data) (\<lambda>w1.
       if y_err w1 \<noteq> None then Panic
       else obind (removeConfigSection (y_doc w1)) (\<lambda>w2.
         if y_err w2 \<noteq> None then Panic
         else Return (y_doc w2, y_editsMade w1 \<or> y_editsMade w2)))"

definition postProcessCrd ::
    "tools \<Rightarrow> (string \<Rightarrow> error + (string \<times> yaml) list) \<Rightarrow> ((string \<times> yaml) list \<Rightarrow> error + string)
      \<Rightarrow> ('a shell_scheme, unit) op" where
  "postProcessCrd Q unmarshal marshal =
     bindM (PanicOnError (tell (q_text Q) (ReadTextFile generatedDseDataCentersCrd))) (\<lambda>d.
     bindM (PanicOnError (lift (of_sum (unmarshal d)))) (\<lambda>data.
     bindM (lift (processedCrd data)) (\<lambda>(data, edited).
       if edited then
         bindM (PanicOnError (lift (of_sum (marshal data)))) (\<lambda>updated.
         PanicOnError (tell (q_unit Q) (WriteTextFile generatedDseDataCentersCrd updated)))
       else ret ())))"

section \<open>Generated files\<close>

definition checkForUnstagedChanges :: "tools \<Rightarrow> ('a shell_scheme, unit) op" where
  "checkForUnstagedChanges Q =
     bindM (GetUnstagedChanges Q) (\<lambda>unstagedChanges. if unstagedChanges \<noteq> [] then panic else ret ())"

definition rootBuildDir :: string where "rootBuildDir = ''./build''"
definition sdkBuildDir :: string where "sdkBuildDir = ''operator/build''"

definition writeBuildFile :: "tools \<Rightarrow> string \<Rightarrow> string \<Rightarrow> ('a shell_scheme, unit) op" where
  "writeBuildFile Q fileName content =
     bindM (EnsureDir Q rootBuildDir) (\<lambda>_.
     PanicOnError (tell (q_unit Q) (WriteTextFile (joinPath [rootBuildDir, fileName]) content)))"

definition runGoModVendor :: "tools \<Rightarrow> ('a shell_scheme, unit) op" where
  "runGoModVendor Q =
     bindM (setenvOp ''GO111MODULE'' ''on'') (\<lambda>_.
     bindM (RunVPanic Q ''go'' [''mod'', ''tidy'']) (\<lambda>_.
     bindM (RunVPanic Q ''go'' [''mod'', ''download'']) (\<lambda>_.
     RunVPanic Q ''go'' [''mod'', ''vendor''])))"

definition operatorSdkImage :: string where "operatorSdkImage = ''operator-sdk-binary''"
definition testSdkImage :: string where "testSdkImage = ''operator-sdk-binary-tester''"
definition genClientImage :: string where "genClientImage = ''operator-gen-client''"
definition mermaidJsImage :: string where "mermaidJsImage = ''operator-mermaid-js''"

definition createSdkDockerImage :: "tools \<Rightarrow> ('a shell_scheme, unit) op" where
  "createSdkDockerImage Q = docker_ExecVPanic Q
     (dockerBuild ''./'' ''install-operator-sdk'' ''tools/operator-sdk/Dockerfile'' [operatorSdkImage] [])"

definition createTestSdkDockerImage :: "tools \<Rightarrow> ('a shell_scheme, unit) op" where
  "createTestSdkDockerImage Q = docker_ExecVPanic Q
     (dockerBuild ''./'' ''test-operator-sdk'' ''tools/operator-sdk/Dockerfile'' [testSdkImage] [])"

definition generateK8sAndOpenApi :: "tools \<Rightarrow> ('a shell_scheme, unit) op" where
  "generateK8sAndOpenApi Q =
     bindM (gets sh_cwd) (\<lambda>cwd.
     let repoPath = ''/go/src/github.com/k8ssandra/cass-operator'';
         execArgs = [''/bin/bash'', ''-c'',
           ''set -eufx; export GO111MODULE=on; cd '' @ repoPath @
           ''/operator && operator-sdk generate k8s && operator-sdk generate crds && rm -rf build'']
     in docker_ExecVPanic Q
          (dockerRun operatorSdkImage [cwd @ '':'' @ repoPath] [] [] [''-t'', ''--rm''] execArgs))"

definition cpCrdToChart :: "tools \<Rightarrow> ('a shell_scheme, unit) op" where
  "cpCrdToChart Q =
     bindM (PanicOnError (tell (q_text Q) (ReadTextFile generatedDseDataCentersCrd))) (\<lambda>crd.
     PanicOnError (tell (q_unit Q) (WriteTextFile helmChartCrd crd)))"

definition patchCrdToTemplate :: "tools \<Rightarrow> ('a shell_scheme, unit) op" where
  "patchCrdToTemplate Q =
     RunVPanic Q ''patch'' [generatedDseDataCentersCrd, ''mage/operator/crd.patch'', ''-o'', helmChartCrd]"

definition doSdkGenerate ::
    "tools \<Rightarrow> (string \<Rightarrow> error + (string \<times> yaml) list) \<Rightarrow> ((string \<times> yaml) list \<Rightarrow> error + string)
      \<Rightarrow> ('a shell_scheme, unit) op" where
  "doSdkGenerate Q unmarshal marshal =
     bindM (gets sh_cwd) (\<lambda>cwd.
     bindM (ignoring (chdir Q ''operator'')) (\<lambda>_.
     bindM (runGoModVendor Q) (\<lambda>_.
     bindM (ignoring (chdir Q cwd)) (\<lambda>_.
     bindM (ignoring (tell (q_unit Q) (MakeDirAll sdkBuildDir))) (\<lambda>_.
     bindM (RunVPanic Q ''touch'' [sdkBuildDir @ ''/Dockerfile'']) (\<lambda>_.
     bindM (generateK8sAndOpenApi Q) (\<lambda>_.
     bindM (postProcessCrd Q unmarshal marshal) (\<lambda>_.
     patchCrdToTemplate Q))))))))"

definition SdkGenerate ::
    "tools \<Rightarrow> (string \<Rightarrow> error + (string \<times> yaml) list) \<Rightarrow> ((string \<times> yaml) list \<Rightarrow> error + string)
      \<Rightarrow> ('a shell_scheme, unit) op" where
  "SdkGenerate Q unmarshal marshal =
     bindM (createSdkDockerImage Q) (\<lambda>_. doSdkGenerate Q unmarshal marshal)"

definition TestSdkGenerate ::
    "tools \<Rightarrow> (string \<Rightarrow> error + (string \<times> yaml) list) \<Rightarrow> ((string \<times> yaml) list \<Rightarrow> error + string)
      \<Rightarrow> ('a shell_scheme, unit) op" where
  "TestSdkGenerate Q unmarshal marshal =
     bindM (checkForUnstagedChanges Q) (\<lambda>_.
     bindM (createSdkDockerImage Q) (\<lambda>_.
     bindM (doSdkGenerate Q unmarshal marshal) (\<lambda>_.
     checkForUnstagedChanges Q)))"

definition TestSdk :: "tools \<Rightarrow> ('a shell_scheme, unit) op" where
  "TestSdk Q = bindM (createSdkDockerImage Q) (\<lambda>_. createTestSdkDockerImage Q)"

section \<open>Binaries and images\<close>

definition runDockerBuild :: "tools \<Rightarrow> string list \<Rightarrow> string list \<Rightarrow> string \<Rightarrow> ('a shell_scheme, unit) op" where
  "runDockerBuild Q dockerTags extraBuildArgs target = docker_ExecVPanic Q
     (dockerBuild ''.'' target ''./operator/docker/base/Dockerfile'' dockerTags extraBuildArgs)"

text \<open>The platform of the build is a parameter.\<close>

definition runGoBuild :: "tools \<Rightarrow> string \<Rightarrow> string \<Rightarrow> string \<Rightarrow> ('a shell_scheme, unit) op" where
  "runGoBuild Q goos goarch version =
     bindM (ignoring (chdir Q ''./operator'')) (\<lambda>_.
     bindM (setenvOp ''CGO_ENABLED'' ''0'') (\<lambda>_.
     bindM (RunVPanic Q ''go'' [''build'', ''-o'', ''../build/bin/cass-operator-'' @ goos @ ''-'' @ goarch,
       ''-ldflags'', ''-X main.version='' @ version,
       ''github.com/k8ssandra/cass-operator/operator/cmd/manager'']) (\<lambda>_.
     ignoring (chdir Q ''..''))))"

definition buildsClean :: "tools \<Rightarrow> ('a shell_scheme, unit) op" where
  "buildsClean Q =
     bindM (ignoring (tell (q_unit Q) (RemoveTree sdkBuildDir))) (\<lambda>_.
     ignoring (tell (q_unit Q) (RemoveTree rootBuildDir)))"

definition BuildGo :: "tools \<Rightarrow> string \<Rightarrow> string \<Rightarrow> ('a shell_scheme, unit) op" where
  "BuildGo Q goos goarch =
     bindM (Deps ''operator.Clean'' (buildsClean Q)) (\<lambda>_.
     bindM (EnvOrDefault ''MO_VERSION'' ''DEV'') (\<lambda>version.
     runGoBuild Q goos goarch version))"

definition TestGo :: "tools \<Rightarrow> ('a shell_scheme, unit) op" where
  "TestGo Q =
     bindM (ignoring (chdir Q ''./operator'')) (\<lambda>_.
     bindM (setenvOp ''CGO_ENABLED'' ''0'') (\<lambda>_.
     bindM (RunVPanic Q ''go'' [''test'', ''./...'', ''-v'']) (\<lambda>_.
     ignoring (chdir Q ''..''))))"

definition TestMage :: "tools \<Rightarrow> ('a shell_scheme, unit) op" where
  "TestMage Q =
     bindM (setenvOp ''CGO_ENABLED'' ''0'') (\<lambda>_.
     bindM (ignoring (chdir Q ''./mage/operator'')) (\<lambda>_.
     bindM (RunVPanic Q ''go'' [''test'']) (\<lambda>_.
     ignoring (chdir Q ''../../''))))"

definition BuildDocker :: "tools \<Rightarrow> (string \<Rightarrow> error + BuildSettings) \<Rightarrow> ('a shell_scheme, unit) op" where
  "BuildDocker Q unmarshal =
     bindM (ReadBuildSettings Q unmarshal) (\<lambda>settings.
     bindM (getGitData Q) (\<lambda>git.
     let version = calcFullVersion settings git; dockerTags = calcVersionAndTags version False
     in bindM (runDockerBuild Q dockerTags [] ''cass-operator'') (\<lambda>_.
        bindM (getenvOp ''MO_BASE_OS'') (\<lambda>baseOs.
        bindM (if baseOs \<noteq> [] then
            let ubiDockerTags = calcVersionAndTags version True
            in bindM (runDockerBuild Q ubiDockerTags [''BASE_OS='' @ baseOs] ''cass-operator-ubi'') (\<lambda>_.
               ret (dockerTags @ ubiDockerTags))
          else ret dockerTags) (\<lambda>dockerTags.
        writeBuildFile Q ''tagsToPush.txt'' (Join dockerTags ''|''))))))"

definition buildMermaidJsDockerImage :: "tools \<Rightarrow> ('a shell_scheme, unit) op" where
  "buildMermaidJsDockerImage Q = docker_ExecVPanic Q
     (dockerBuild ''./tools/mermaid-js'' [] ''./tools/mermaid-js/Dockerfile'' [mermaidJsImage] [])"

definition diagramsDir :: string where "diagramsDir = ''./docs/developer/diagrams''"

definition generateDocDiagram :: "tools \<Rightarrow> string \<Rightarrow> string \<Rightarrow> ('a shell_scheme, unit) op" where
  "generateDocDiagram Q src out =
     bindM (gets sh_cwd) (\<lambda>cwd.
     docker_ExecVPanic Q (dockerRun mermaidJsImage [joinPath [cwd, diagramsDir] @ '':/data''] [] [] []
       [''-i'', src, ''-o'', out]))"

definition doGenerateDocDiagrams :: "tools \<Rightarrow> ('a shell_scheme, unit) op" where
  "doGenerateDocDiagrams Q =
     bindM (PanicOnError (tell (q_dir Q) (ReadDirectory diagramsDir))) (\<lambda>files.
     foldM (\<lambda>_ (name, _).
       if HasSuffix name ''.mmd'' then generateDocDiagram Q name (TrimSuffix name ''.mmd'' @ ''.svg'')
       else ret ()) () files)"

text \<open>
  The text after the last blank of the first line that pins the code generator. The scanner drops a
  carriage return at the end of a line.
\<close>

fun hasPart :: "string \<Rightarrow> string \<Rightarrow> bool" where
  "hasPart [] part = (part = [])"
| "hasPart (c # s) part = (HasPrefix (c # s) part \<or> hasPart s part)"

definition pinnedGenerator :: "string \<Rightarrow> string" where
  "pinnedGenerator gomod =
     (case filter (\<lambda>line. hasPart line ''code-generator =>'')
         (map (\<lambda>line. TrimSuffix line [CHR 0x0D]) (Split gomod (CHR 0x0A))) of
        [] \<Rightarrow> []
      | line # _ \<Rightarrow> last (Split line (CHR '' '')))"

definition buildCodeGeneratorDockerImage :: "tools \<Rightarrow> ('a shell_scheme, unit) op" where
  "buildCodeGeneratorDockerImage Q =
     bindM (PanicOnError (tell (q_text Q) (ReadTextFile ''./go.mod''))) (\<lambda>gomod.
     docker_ExecVPanic Q (dockerBuild ''./'' [] ''./tools/k8s-code-generator/Dockerfile'' [genClientImage]
       [''CODEGEN_VERSION='' @ pinnedGenerator gomod]))"

definition doGenerateClient :: "tools \<Rightarrow> ('a shell_scheme, unit) op" where
  "doGenerateClient Q =
     bindM (gets sh_cwd) (\<lambda>cwd.
     bindM (PanicOnError (lift (of_sum (q_user Q)))) (\<lambda>(_, uid, gid).
     docker_ExecVPanic Q (dockerRun genClientImage [cwd @ '':/go/src/github.com/k8ssandra/cass-operator''] [] []
       [''-t'', ''--rm'', ''-u'', uid @ '':'' @ gid]
       [''client'', ''github.com/k8ssandra/cass-operator/operator/pkg/generated'',
        ''github.com/k8ssandra/cass-operator/operator/pkg/apis'', ''cassandra:v1beta1''])))"

definition GenerateDiagrams :: "tools \<Rightarrow> ('a shell_scheme, unit) op" where
  "GenerateDiagrams Q = bindM (buildMermaidJsDockerImage Q) (\<lambda>_. doGenerateDocDiagrams Q)"

definition GenerateClient :: "tools \<Rightarrow> ('a shell_scheme, unit) op" where
  "GenerateClient Q = bindM (buildCodeGeneratorDockerImage Q) (\<lambda>_. doGenerateClient Q)"

definition TestGenerateClient :: "tools \<Rightarrow> ('a shell_scheme, unit) op" where
  "TestGenerateClient Q =
     bindM (checkForUnstagedChanges Q) (\<lambda>_.
     bindM (buildCodeGeneratorDockerImage Q) (\<lambda>_.
     bindM (doGenerateClient Q) (\<lambda>_.
     checkForUnstagedChanges Q)))"

definition buildsBuild :: "tools \<Rightarrow> (string \<Rightarrow> error + BuildSettings) \<Rightarrow> ('a shell_scheme, unit) op" where
  "buildsBuild Q unmarshal = Deps ''operator.BuildDocker'' (BuildDocker Q unmarshal)"

definition buildsTest ::
    "tools \<Rightarrow> (string \<Rightarrow> error + (string \<times> yaml) list) \<Rightarrow> ((string \<times> yaml) list \<Rightarrow> error + string)
      \<Rightarrow> ('a shell_scheme, unit) op" where
  "buildsTest Q unmarshal marshal =
     bindM (Deps ''operator.TestMage'' (TestMage Q)) (\<lambda>_.
     bindM (Deps ''operator.TestGo'' (TestGo Q)) (\<lambda>_.
     bindM (Deps ''operator.TestSdk'' (TestSdk Q)) (\<lambda>_.
     bindM (Deps ''operator.TestSdkGenerate'' (TestSdkGenerate Q unmarshal marshal)) (\<lambda>_.
     Deps ''operator.TestGenerateClient'' (TestGenerateClient Q)))))"

definition TestAndBuild :: "tools \<Rightarrow> (string \<Rightarrow> error + BuildSettings) \<Rightarrow> ('a shell_scheme, unit) op" where
  "TestAndBuild Q unmarshal =
     bindM (Deps ''operator.TestGo'' (TestGo Q)) (\<lambda>_.
     Deps ''operator.BuildDocker'' (BuildDocker Q unmarshal))"

section \<open>Upload\<close>

definition dockerTag :: "tools \<Rightarrow> string \<Rightarrow> string \<Rightarrow> ('a shell_scheme, unit) op" where
  "dockerTag Q src target = docker_ExecVPanic Q (dockerTagCmd src target)"

definition retagLocalImageForRemotePush :: "tools \<Rightarrow> string \<Rightarrow> string \<Rightarrow> ('a shell_scheme, string) op" where
  "retagLocalImageForRemotePush Q localTag remoteUrl =
     (let newTag = remoteUrl @ ''/'' @ localTag
      in bindM (dockerTag Q localTag newTag) (\<lambda>_. ret newTag))"

definition retagAndPush :: "tools \<Rightarrow> string list \<Rightarrow> string \<Rightarrow> ('a shell_scheme, unit) op" where
  "retagAndPush Q tags remoteUrl =
     foldM (\<lambda>_ t.
       bindM (retagLocalImageForRemotePush Q (TrimSpace t) remoteUrl) (\<lambda>newTag.
       docker_ExecVPanic Q (WithCfg (dockerPush newTag) rootBuildDir))) () tags"

text \<open>
  \<open>.*\:\<close> replaced by the repository and a colon. The expression is greedy and a dot matches no newline,
  so in each line all up to the last colon is replaced. The name of a repository has no dollar
  sign, which the replacement would expand.
\<close>

definition replaceUpToColon :: "string \<Rightarrow> string \<Rightarrow> string" where
  "replaceUpToColon repo line =
     (if CHR '':'' \<in> set line then repo @ '':'' @ last (Split line (CHR '':'')) else line)"

definition githubTag :: "string \<Rightarrow> string \<Rightarrow> string" where
  "githubTag pkgRepo tag = Join (map (replaceUpToColon pkgRepo) (Split tag (CHR 0x0A))) [CHR 0x0A]"

definition retagAndPushForGH :: "tools \<Rightarrow> string list \<Rightarrow> ('a shell_scheme, unit) op" where
  "retagAndPushForGH Q tags =
     bindM (RequireEnv ''MO_GH_PKG_REPO'') (\<lambda>pkgRepo.
     foldM (\<lambda>_ t.
       let tag = TrimSpace t; fullGHTag = ''docker.pkg.github.com/'' @ TrimSpace (githubTag pkgRepo tag)
       in bindM (dockerTag Q tag fullGHTag) (\<lambda>_.
          docker_ExecVPanic Q (WithCfg (dockerPush fullGHTag) rootBuildDir))) () tags)"

definition awsDockerLogin :: "tools \<Rightarrow> string \<Rightarrow> string \<Rightarrow> ('a shell_scheme, unit) op" where
  "awsDockerLogin Q keyId keySecret =
     bindM (setenvOp ''AWS_ACCESS_KEY_ID'' keyId) (\<lambda>_.
     bindM (setenvOp ''AWS_SECRET_ACCESS_KEY'' keySecret) (\<lambda>_.
     bindM (shOutputPanic Q ''aws'' [''ecr'', ''get-login'', ''--no-include-email'', ''--region'', ''us-east-1'']) (\<lambda>loginStr.
     PanicOnError (docker_ExecV Q (WithCfg (FromArgs (tl (Split loginStr (CHR '' '')))) rootBuildDir)))))"

definition DeployToECR :: "tools \<Rightarrow> ('a shell_scheme, unit) op" where
  "DeployToECR Q =
     bindM (RequireEnv ''MO_ECR_REPO'') (\<lambda>ecrRepo.
     bindM (RequireEnv ''MO_ECR_ID'') (\<lambda>keyId.
     bindM (RequireEnv ''MO_ECR_SECRET'') (\<lambda>keySecret.
     bindM (awsDockerLogin Q keyId keySecret) (\<lambda>_.
     bindM (RequireEnv ''MO_TAGS'') (\<lambda>tags.
     retagAndPush Q (Split tags (CHR ''|'')) ecrRepo)))))"

definition DeployToArtifactory :: "tools \<Rightarrow> ('a shell_scheme, unit) op" where
  "DeployToArtifactory Q =
     bindM (RequireEnv ''MO_ART_REPO'') (\<lambda>artifactoryRepo.
     bindM (RequireEnv ''MO_ART_USR'') (\<lambda>user.
     bindM (RequireEnv ''MO_ART_PSW'') (\<lambda>pw.
     bindM (docker_ExecVPanic Q (WithCfg (Login rootBuildDir user pw artifactoryRepo) rootBuildDir)) (\<lambda>_.
     bindM (RequireEnv ''MO_TAGS'') (\<lambda>tags.
     retagAndPush Q (Split tags (CHR ''|'')) artifactoryRepo)))))"

definition DeployToGHPackages :: "tools \<Rightarrow> ('a shell_scheme, unit) op" where
  "DeployToGHPackages Q =
     bindM (RequireEnv ''MO_GH_USR'') (\<lambda>user.
     bindM (RequireEnv ''MO_GH_TOKEN'') (\<lambda>pw.
     bindM (docker_ExecVPanic Q (WithCfg (Login rootBuildDir user pw ''docker.pkg.github.com'') rootBuildDir)) (\<lambda>_.
     bindM (RequireEnv ''MO_TAGS'') (\<lambda>tags.
     retagAndPushForGH Q (Split tags (CHR ''|''))))))"

section \<open>Laws\<close>

lemma map_of_assocSet: "map_of (assocSet k v m) k' = (if k' = k then Some v else map_of m k')"
  by (induction m) auto

lemma map_of_assocDrop: "map_of (assocDrop k m) k' = (if k' = k then None else map_of m k')"
  by (induction m) (auto simp: assocDrop_def)

text \<open>A change at a path is seen at that path.\<close>

lemma mapAt_changeAt: "mapAt m ks = Some n \<Longrightarrow> mapAt (changeAt f m ks) ks = Some (f n)"
  by (induction f m ks rule: changeAt.induct) (auto simp: map_of_assocSet split: option.splits yaml.splits)

text \<open>The tags that a build writes for the deployment are read back by splitting at the bar.\<close>

lemma Split_Join_bar:
  "xs \<noteq> [] \<Longrightarrow> \<forall>x\<in>set xs. CHR ''|'' \<notin> set x \<Longrightarrow> Split (Join xs ''|'') (CHR ''|'') = xs"
  by (rule Split_Join)

end
