(* ===== verification/Kubectl.thy ===== *)
theory Kubectl
  imports Shell
begin

text \<open>
  The package \<open>mage/kubectl\<close>: commands of \<open>kubectl\<close> as values, how they are printed and run, and
  the wait for an output. A map of flags is a value here; in the code the map of a command is shared
  with the command it was made from, which no caller uses again.
\<close>

record KCmd =
  k_Command :: string
  k_Args :: "string list"
  k_Flags :: "string gomap"

definition kcmd :: "string \<Rightarrow> string list \<Rightarrow> KCmd" where
  "kcmd c args = \<lparr>k_Command = c, k_Args = args, k_Flags = None\<rparr>"

section \<open>Printing and running\<close>

definition flagArgs :: "tools \<Rightarrow> string gomap \<Rightarrow> string list" where
  "flagArgs Q flags = map (\<lambda>k. ''--'' @ k @ ''='' @ mget flags k) (q_order Q (fset (fmdom (contents flags))))"

definition kcmd_ToCliArgs :: "tools \<Rightarrow> KCmd \<Rightarrow> string list" where
  "kcmd_ToCliArgs Q k = flagArgs Q (k_Flags k) @ [k_Command k] @ k_Args k"

definition ExecVCapture :: "tools \<Rightarrow> KCmd \<Rightarrow> ('a shell_scheme, string \<times> string \<times> error option) op" where
  "ExecVCapture Q k = RunVCapture Q ''kubectl'' (kcmd_ToCliArgs Q k)"

definition ExecV :: "tools \<Rightarrow> KCmd \<Rightarrow> ('a shell_scheme, unit) op" where
  "ExecV Q k = RunV Q ''kubectl'' (kcmd_ToCliArgs Q k)"

definition ExecVPanic :: "tools \<Rightarrow> KCmd \<Rightarrow> ('a shell_scheme, unit) op" where
  "ExecVPanic Q k = RunVPanic Q ''kubectl'' (kcmd_ToCliArgs Q k)"

definition kcmd_Output :: "tools \<Rightarrow> KCmd \<Rightarrow> ('a shell_scheme, string \<times> error option) op" where
  "kcmd_Output Q k = shOutput Q ''kubectl'' (kcmd_ToCliArgs Q k)"

definition kcmd_OutputPanic :: "tools \<Rightarrow> KCmd \<Rightarrow> ('a shell_scheme, string) op" where
  "kcmd_OutputPanic Q k = shOutputPanic Q ''kubectl'' (kcmd_ToCliArgs Q k)"

definition WatchPods :: "tools \<Rightarrow> ('a shell_scheme, unit) op" where
  "WatchPods Q = ExecVPanic Q (kcmd ''get'' [''pods'', ''-w''])"

text \<open>The command is called \<open>watch\<close> here.\<close>

definition WatchPodsInNs :: "tools \<Rightarrow> string \<Rightarrow> ('a shell_scheme, unit) op" where
  "WatchPodsInNs Q namespace = ExecVPanic Q (kcmd ''watch'' [''pods'', ''--namespace'', namespace, ''-w''])"

section \<open>Building commands\<close>

definition WithFlag :: "KCmd \<Rightarrow> string \<Rightarrow> string \<Rightarrow> KCmd" where
  "WithFlag k name value = k\<lparr>k_Flags := Some (fmupd name value (contents (k_Flags k)))\<rparr>"

definition InNamespace :: "KCmd \<Rightarrow> string \<Rightarrow> KCmd" where
  "InNamespace k namespace = WithFlag k ''namespace'' namespace"

definition FormatOutput :: "KCmd \<Rightarrow> string \<Rightarrow> KCmd" where
  "FormatOutput k outputType = WithFlag k ''output'' outputType"

definition WithLabel :: "KCmd \<Rightarrow> string \<Rightarrow> KCmd" where
  "WithLabel k label = k\<lparr>k_Args := k_Args k @ [''-l'', label]\<rparr>"

definition ClusterInfoForContext :: "string \<Rightarrow> KCmd" where
  "ClusterInfoForContext ctxt = kcmd ''cluster-info'' [''--context'', ctxt]"

definition CreateNamespace :: "string \<Rightarrow> KCmd" where
  "CreateNamespace namespace = kcmd ''create'' [''namespace'', namespace]"

definition DeleteNamespace :: "string \<Rightarrow> KCmd" where
  "DeleteNamespace namespace = kcmd ''delete'' [''namespace'', namespace]"

definition CreateSecretLiteral :: "string \<Rightarrow> string \<Rightarrow> string \<Rightarrow> KCmd" where
  "CreateSecretLiteral name user pw =
     (kcmd ''create'' [''secret'', ''generic'', name])
       \<lparr>k_Flags := mapOf [(''from-literal=username'', user), (''from-literal=password'', pw)]\<rparr>"

definition kubectlLabel :: "string \<Rightarrow> string \<Rightarrow> string \<Rightarrow> KCmd" where
  "kubectlLabel nodes key value =
     kcmd ''label'' (map (\<lambda>t. ''nodes/'' @ t) (filter (\<lambda>t. t \<noteq> []) (Split nodes (CHR '' '')))
       @ [key @ ''='' @ value, ''--overwrite''])"

definition kubectlTaint :: "string \<Rightarrow> string \<Rightarrow> string \<Rightarrow> string \<Rightarrow> KCmd" where
  "kubectlTaint node key value effect =
     kcmd ''taint'' (if value \<noteq> [] then [''nodes'', node, key @ ''='' @ value @ '':'' @ effect]
       else [''nodes'', node, key @ '':'' @ effect])"

definition Annotate :: "string \<Rightarrow> string \<Rightarrow> string \<Rightarrow> string \<Rightarrow> KCmd" where
  "Annotate resource name key value = kcmd ''annotate'' [resource, name, key @ ''='' @ value]"

definition fileArgs :: "string list \<Rightarrow> string list" where
  "fileArgs paths = concat (map (\<lambda>p. [''-f'', p]) paths)"

definition CreateFromFiles :: "string list \<Rightarrow> KCmd" where
  "CreateFromFiles paths = kcmd ''create'' (fileArgs paths)"

definition Logs :: "string list \<Rightarrow> KCmd" where
  "Logs args = kcmd ''logs'' args"

definition kubectlGet :: "string list \<Rightarrow> KCmd" where
  "kubectlGet args = kcmd ''get'' args"

definition typeAndName :: "string \<Rightarrow> string list \<Rightarrow> string list" where
  "typeAndName resourceType names = map (\<lambda>n. resourceType @ ''/'' @ n) names"

definition GetByTypeAndName :: "string \<Rightarrow> string list \<Rightarrow> KCmd" where
  "GetByTypeAndName resourceType names = kcmd ''get'' (typeAndName resourceType names)"

definition GetByFiles :: "string list \<Rightarrow> KCmd" where
  "GetByFiles paths = kcmd ''get'' (fileArgs paths)"

definition DeleteFromFiles :: "string list \<Rightarrow> KCmd" where
  "DeleteFromFiles paths = kcmd ''delete'' (fileArgs paths)"

definition kubectlDelete :: "string list \<Rightarrow> KCmd" where
  "kubectlDelete args = kcmd ''delete'' args"

definition DeleteByTypeAndName :: "string \<Rightarrow> string list \<Rightarrow> KCmd" where
  "DeleteByTypeAndName resourceType names = kcmd ''delete'' (typeAndName resourceType names)"

definition ApplyFiles :: "string list \<Rightarrow> KCmd" where
  "ApplyFiles paths = kcmd ''apply'' (fileArgs paths)"

definition PatchMerge :: "string \<Rightarrow> string \<Rightarrow> KCmd" where
  "PatchMerge resource data = kcmd ''patch'' [resource, ''--patch'', data, ''--type'', ''merge'']"

definition PatchJson :: "string \<Rightarrow> string \<Rightarrow> KCmd" where
  "PatchJson resource data = kcmd ''patch'' [resource, ''--patch'', data, ''--type'', ''json'']"

definition dumpCmd :: "string list \<Rightarrow> string \<Rightarrow> KCmd" where
  "dumpCmd args path = (kcmd ''cluster-info'' args)\<lparr>k_Flags := mapOf [(''output-directory'', path)]\<rparr>"

definition DumpAllLogs :: "tools \<Rightarrow> string \<Rightarrow> ('a shell_scheme, KCmd) op" where
  "DumpAllLogs Q path =
     bindM (ignoring (tell (q_unit Q) (MakeDirAll path))) (\<lambda>_. ret (dumpCmd [''dump'', ''-A''] path))"

definition DumpLogs :: "tools \<Rightarrow> string \<Rightarrow> string \<Rightarrow> ('a shell_scheme, KCmd) op" where
  "DumpLogs Q path namespace =
     bindM (ignoring (tell (q_unit Q) (MakeDirAll path))) (\<lambda>_. ret (dumpCmd [''dump'', ''-n'', namespace] path))"

definition ExecOnPod :: "string \<Rightarrow> string list \<Rightarrow> KCmd" where
  "ExecOnPod podName args = kcmd ''exec'' (podName # args)"

definition GetNodes :: KCmd where
  "GetNodes = kcmd ''get'' [''nodes'', ''-o'', ''jsonpath={range .items[*]}{@.metadata.name} {end}'']"

definition GetNodeNameForPod :: "string \<Rightarrow> KCmd" where
  "GetNodeNameForPod podName = FormatOutput (kubectlGet [''pod/'' @ podName]) ''jsonpath={.spec.nodeName}''"

definition DockerCredentialsDefined :: "('a shell_scheme, bool) op" where
  "DockerCredentialsDefined = bindM (lookupEnvOp ''M_DOCKER_USERNAME'') (\<lambda>v. ret (v \<noteq> None))"

text \<open>The path of the configuration; with \<open>createDefault\<close> a missing default file is created.\<close>

definition GetKubeconfig :: "tools \<Rightarrow> bool \<Rightarrow> ('a shell_scheme, string) op" where
  "GetKubeconfig Q createDefault =
     (case q_user Q of
        Inl _ \<Rightarrow> panic
      | Inr (home, _) \<Rightarrow>
          bindM (getenvOp ''KUBECONFIG'') (\<lambda>kubeconfig.
            if kubeconfig \<noteq> [] then ret kubeconfig
            else
              let defaultDir = home @ ''/.kube/''; kubeconfig = defaultDir @ ''/config''
              in bindM (attempt (tell (q_unit Q) (StatPath kubeconfig))) (\<lambda>r.
                 bindM (if createDefault \<and> (case r of Inl (NotFound _) \<Rightarrow> True | _ \<Rightarrow> False) then
                     bindM (ignoring (tell (q_unit Q) (MakeDirAll defaultDir))) (\<lambda>_.
                     PanicOnError (tell (q_unit Q) (CreateFile kubeconfig)))
                   else ret ()) (\<lambda>_.
                 ret kubeconfig))))"

section \<open>Waiting for an output\<close>

text \<open>
  \<open>waitForOutputPattern\<close> runs the command in a second thread until the last output matches, and
  waits for that or for a timer. \<open>polls\<close> is the number of runs that end before the timer fires.
  The output is matched before the first run, when it is still empty. \<open>matches\<close> is the compiled
  pattern.
\<close>

fun pollOutput ::
    "tools \<Rightarrow> KCmd \<Rightarrow> (string \<Rightarrow> bool) \<Rightarrow> nat \<Rightarrow> string \<Rightarrow> error option \<Rightarrow> ('a shell_scheme, error option) op" where
  "pollOutput Q k matches polls actual err =
     (if matches actual then ret None
      else case polls of
          0 \<Rightarrow> ret (Some (case err of
              None \<Rightarrow> Errorf (''Timed out waiting for value. '' @ actual)
            | Some e \<Rightarrow> Wrapf (''Timed out waiting for value. '' @ actual) e))
        | Suc n \<Rightarrow>
            bindM (kcmd_Output Q k) (\<lambda>(actual, err).
            bindM (ignoring (tell (q_unit Q) (WaitFor 2))) (\<lambda>_.
            pollOutput Q k matches n actual err)))"

declare pollOutput.simps [simp del]

definition waitForOutputPattern ::
    "tools \<Rightarrow> (int \<Rightarrow> nat) \<Rightarrow> KCmd \<Rightarrow> (string \<Rightarrow> bool) \<Rightarrow> int \<Rightarrow> ('a shell_scheme, unit) op" where
  "waitForOutputPattern Q polls k matches seconds =
     bindM (pollOutput Q k matches (polls seconds) [] None) (\<lambda>err.
       case err of None \<Rightarrow> ret () | Some e \<Rightarrow> fail e)"

definition WaitForOutputPattern ::
    "tools \<Rightarrow> (int \<Rightarrow> nat) \<Rightarrow> (string \<Rightarrow> string \<Rightarrow> bool) \<Rightarrow> KCmd \<Rightarrow> string \<Rightarrow> int \<Rightarrow> ('a shell_scheme, unit) op" where
  "WaitForOutputPattern Q polls regexp k pattern seconds = waitForOutputPattern Q polls k (regexp pattern) seconds"

text \<open>The pattern between \<open>^\<close> and \<open>$\<close> with its special characters quoted is matched by itself only.\<close>

definition WaitForOutput ::
    "tools \<Rightarrow> (int \<Rightarrow> nat) \<Rightarrow> KCmd \<Rightarrow> string \<Rightarrow> int \<Rightarrow> ('a shell_scheme, unit) op" where
  "WaitForOutput Q polls k expected seconds = waitForOutputPattern Q polls k (\<lambda>out. out = expected) seconds"

fun containsText :: "string \<Rightarrow> string \<Rightarrow> bool" where
  "containsText [] part = (part = [])"
| "containsText (c # s) part = (HasPrefix (c # s) part \<or> containsText s part)"

definition WaitForOutputContains ::
    "tools \<Rightarrow> (int \<Rightarrow> nat) \<Rightarrow> KCmd \<Rightarrow> string \<Rightarrow> int \<Rightarrow> ('a shell_scheme, unit) op" where
  "WaitForOutputContains Q polls k expected seconds =
     waitForOutputPattern Q polls k (\<lambda>out. containsText out expected) seconds"

section \<open>Laws\<close>

text \<open>The flags come first, so that no argument, not even a double dash, can hide one.\<close>

lemma set_flagArgs:
  assumes "\<And>S. set (q_order Q S) = S"
  shows "set (flagArgs Q flags) = {''--'' @ k @ ''='' @ v | k v. mfind flags k = Some v}"
  using assms by (force simp: flagArgs_def mget_def mfind_def contents_def fmlookup_dom_iff image_iff split: option.splits)

lemma k_Flags_WithFlag:
  "mfind (k_Flags (WithFlag k name value)) n = (if n = name then Some value else mfind (k_Flags k) n)"
  by (simp add: WithFlag_def mfind_def contents_def split: option.splits)

lemma WithFlag_keeps: "k_Command (WithFlag k name value) = k_Command k" "k_Args (WithFlag k name value) = k_Args k"
  by (simp_all add: WithFlag_def)

lemma ExecVPanic_log: "sh_log (snd (ExecVPanic Q k s)) =
    sh_log s @ [RunCmd ToTerminal (Inherit None) ''kubectl'' (kcmd_ToCliArgs Q k) None]"
  by (auto simp: ExecVPanic_def RunVPanic_def RunVPanicWithEnv_def RunVWithEnv_def PanicOnError_cases failing_def rc_sh
      split: prod.splits outcome.splits option.splits)

text \<open>
  A wait succeeds without a single run of the command when the empty output matches; otherwise it
  succeeds only after a run whose output matches.
\<close>

lemma pollOutput_start: "matches actual \<Longrightarrow> pollOutput Q k matches n actual err s = (Return None, s)"
  by (subst pollOutput.simps) (simp add: op_simps)

lemma waitForOutputPattern_empty:
  "matches [] \<Longrightarrow> waitForOutputPattern Q polls k matches seconds s = (Return (), s)"
  by (simp add: waitForOutputPattern_def bindM_def pollOutput_start op_simps)

lemma pollOutput_None:
  assumes "pollOutput Q k matches n actual err s = (Return None, t)" "\<not> matches actual"
  shows "\<exists>h out. matches (TrimSuffix out [CHR 0x0A]) \<and> (\<exists>e1 e2.
    q_exec Q h (RunCmd Captured (Inherit None) ''kubectl'' (kcmd_ToCliArgs Q k) None) = (out, e1, e2))"
  using assms
proof (induction n arbitrary: actual err s)
  case 0
  then show ?case by (subst (asm) pollOutput.simps) (simp add: op_simps)
next
  case (Suc n)
  obtain out e1 e2 where out: "q_exec Q (sh_log s) (RunCmd Captured (Inherit None) ''kubectl'' (kcmd_ToCliArgs Q k) None) = (out, e1, e2)"
    by (metis prod_cases3)
  from Suc.prems have "\<exists>u. pollOutput Q k matches n (TrimSuffix out [CHR 0x0A]) e2 u = (Return None, t)"
    by (subst (asm) pollOutput.simps)
       (auto simp: out kcmd_Output_def shOutput_def OutputWithEnv_def ignoring_def rc_sh split: prod.splits outcome.splits)
  with Suc.IH out show ?case by blast
qed

end
