(* ===== verification/TestClusters.thy ===== *)
theory TestClusters
  imports Builds Kubectl
begin

text \<open>
  The clusters for development and integration tests: \<open>mage/kind\<close>, \<open>mage/k3d\<close>, \<open>mage/gcloud\<close>,
  \<open>mage/helm\<close>, \<open>mage/integ-tests\<close> and \<open>mage/linting\<close>. The actions on a cluster are a record of
  operations, with one value for each kind of cluster.
\<close>

record 's ClusterActions =
  ca_DeleteCluster :: "('s, unit) op"
  ca_ClusterExists :: "('s, bool) op"
  ca_CreateCluster :: "('s, unit) op"
  ca_LoadImage :: "string \<Rightarrow> ('s, unit) op"
  ca_InstallTool :: "('s, unit) op"
  ca_ReloadLocalImage :: "string \<Rightarrow> ('s, unit) op"
  ca_ApplyDefaultStorage :: "('s, unit) op"
  ca_SetupKubeconfig :: "('s, unit) op"
  ca_DescribeEnv :: "string gomap"

section \<open>Retries\<close>

text \<open>The creation is tried until it succeeds, at most as often as there are retries; the last error panics.\<close>

fun retrying :: "nat \<Rightarrow> error option \<Rightarrow> ('s, unit) op \<Rightarrow> ('s, unit) op" where
  "retrying 0 err m = (case err of None \<Rightarrow> ret () | Some _ \<Rightarrow> panic)"
| "retrying (Suc n) err m =
     bindM (attempt m) (\<lambda>r. case r of Inr _ \<Rightarrow> ret () | Inl e \<Rightarrow> retrying n (Some e) m)"

section \<open>kind\<close>

definition defaultStorage :: "tools \<Rightarrow> string \<Rightarrow> ('a shell_scheme, unit) op" where
  "defaultStorage Q file = ExecVPanic Q (ApplyFiles [file])"

definition kind_applyDefaultStorage :: "tools \<Rightarrow> ('a shell_scheme, unit) op" where
  "kind_applyDefaultStorage Q = defaultStorage Q ''operator/k8s-flavors/kind/rancher-local-path-storage.yaml''"

definition kind_setupKubeconfig :: "tools \<Rightarrow> ('a shell_scheme, unit) op" where
  "kind_setupKubeconfig Q = ExecVPanic Q (ClusterInfoForContext ''kind-kind'')"

definition kind_deleteCluster :: "tools \<Rightarrow> ('a shell_scheme, unit) op" where
  "kind_deleteCluster Q = RunV Q ''kind'' [''delete'', ''cluster'']"

definition kind_clusterExists :: "tools \<Rightarrow> ('a shell_scheme, bool) op" where
  "kind_clusterExists Q =
     bindM (shOutputPanic Q ''kind'' [''get'', ''clusters'']) (\<lambda>out. ret (TrimSpace out = ''kind''))"

definition kindImage :: string where
  "kindImage = ''kindest/node:v1.17.11@sha256:5240a7a2c34bf241afb54ac05669f8a46661912eab05705d660971eeb12f6555''"

definition kind_createCluster :: "tools \<Rightarrow> ('a shell_scheme, unit) op" where
  "kind_createCluster Q =
     bindM (FromEnvOrDefault ''M_KIND_CONFIG'' ''tests/testdata/kind/kind_config_6_workers.yaml'') (\<lambda>config.
     retrying 5 None (RunV Q ''kind'' [''create'', ''cluster'', ''--config'', config, ''--image'', kindImage,
       ''--wait'', ''600s'']))"

definition kind_loadImage :: "tools \<Rightarrow> string \<Rightarrow> ('a shell_scheme, unit) op" where
  "kind_loadImage Q img = RunVPanic Q ''kind'' [''load'', ''docker-image'', img]"

definition kind_install :: "tools \<Rightarrow> ('a shell_scheme, unit) op" where
  "kind_install Q =
     bindM (gets sh_cwd) (\<lambda>cwd.
     bindM (ignoring (chdir Q ''/tmp'')) (\<lambda>_.
     bindM (setenvOp ''GO111MODULE'' ''on'') (\<lambda>_.
     bindM (RunVPanic Q ''go'' [''get'', ''sigs.k8s.io/kind@v0.9.0'']) (\<lambda>_.
     ignoring (chdir Q cwd)))))"

text \<open>Both kinds of local cluster delete the old image in the containers of their nodes first.\<close>

definition dropOldImage ::
    "tools \<Rightarrow> (string \<Rightarrow> error + DockerContainer) \<Rightarrow> string \<Rightarrow> string \<Rightarrow> ('a shell_scheme, unit) op" where
  "dropOldImage Q decode prefix img =
     bindM (GetAllContainersPanic Q decode) (\<lambda>containers.
     foldM (\<lambda>_ c.
       if HasPrefix (dc_Image c) prefix
       then ignoring (docker_ExecV Q (dockerExec (dc_Id c) [] False [] [] [''crictl'', ''rmi'', ''docker.io/'' @ img]))
       else ret ()) () containers)"

definition kind_reloadLocalImage ::
    "tools \<Rightarrow> (string \<Rightarrow> error + DockerContainer) \<Rightarrow> string \<Rightarrow> ('a shell_scheme, unit) op" where
  "kind_reloadLocalImage Q decode img =
     bindM (dropOldImage Q decode ''kindest'' img) (\<lambda>_.
     RunVPanic Q ''kind'' [''load'', ''docker-image'', img])"

definition kind_ClusterActions ::
    "tools \<Rightarrow> (string \<Rightarrow> error + DockerContainer) \<Rightarrow> 'a shell_scheme ClusterActions" where
  "kind_ClusterActions Q decode = \<lparr>ca_DeleteCluster = kind_deleteCluster Q, ca_ClusterExists = kind_clusterExists Q,
     ca_CreateCluster = kind_createCluster Q, ca_LoadImage = kind_loadImage Q, ca_InstallTool = kind_install Q,
     ca_ReloadLocalImage = kind_reloadLocalImage Q decode, ca_ApplyDefaultStorage = kind_applyDefaultStorage Q,
     ca_SetupKubeconfig = kind_setupKubeconfig Q, ca_DescribeEnv = Some fmempty\<rparr>"

section \<open>k3d\<close>

definition k3dClusterName :: string where "k3dClusterName = ''k3s-default''"

definition k3d_deleteCluster :: "tools \<Rightarrow> ('a shell_scheme, unit) op" where
  "k3d_deleteCluster Q = RunV Q ''k3d'' [''cluster'', ''delete'', k3dClusterName]"

definition k3d_clusterExists :: "tools \<Rightarrow> ('a shell_scheme, bool) op" where
  "k3d_clusterExists Q =
     bindM (attempt (RunV Q ''k3d'' [''cluster'', ''ls'', k3dClusterName])) (\<lambda>r.
     ret (case r of Inl _ \<Rightarrow> False | Inr _ \<Rightarrow> True))"

definition k3d_createCluster :: "tools \<Rightarrow> ('a shell_scheme, unit) op" where
  "k3d_createCluster Q =
     retrying 5 None (RunV Q ''k3d'' [''cluster'', ''create'', ''-s'', ''6'', ''--image'', ''rancher/k3s:v1.17.6-k3s1''])"

definition k3d_loadImage :: "tools \<Rightarrow> string \<Rightarrow> ('a shell_scheme, unit) op" where
  "k3d_loadImage Q img = RunVPanic Q ''k3d'' [''image'', ''import'', img]"

definition k3d_install :: "tools \<Rightarrow> ('a shell_scheme, unit) op" where
  "k3d_install Q =
     bindM (gets sh_cwd) (\<lambda>cwd.
     bindM (ignoring (chdir Q ''/tmp'')) (\<lambda>_.
     bindM (RunVPanic Q ''curl'' [''https://raw.githubusercontent.com/rancher/k3d/main/install.sh'',
       ''-o'', ''k3d_install.sh'']) (\<lambda>_.
     bindM (setenvOp ''TAG'' ''v3.0.1'') (\<lambda>_.
     bindM (ignoring (tell (q_unit Q) (ChangeMode ''./k3d_install.sh''))) (\<lambda>_.
     bindM (RunVPanic Q ''./k3d_install.sh'' []) (\<lambda>_.
     ignoring (chdir Q cwd)))))))"

definition k3d_reloadLocalImage ::
    "tools \<Rightarrow> (string \<Rightarrow> error + DockerContainer) \<Rightarrow> string \<Rightarrow> ('a shell_scheme, unit) op" where
  "k3d_reloadLocalImage Q decode img =
     bindM (dropOldImage Q decode ''k3d-k3s'' img) (\<lambda>_.
     RunVPanic Q ''k3d'' [''image'', ''import'', img])"

text \<open>The new configuration stands before the current one, so that it wins in the merge.\<close>

definition k3d_setupKubeconfig :: "tools \<Rightarrow> ('a shell_scheme, unit) op" where
  "k3d_setupKubeconfig Q =
     bindM (GetKubeconfig Q True) (\<lambda>currentConfig.
     bindM (shOutputPanic Q ''k3d'' [''kubeconfig'', ''get'', k3dClusterName]) (\<lambda>k3dConfig.
     let tempK3dConfigFile = ''/tmp/k3d_temp_config''
     in bindM (ignoring (tell (q_unit Q) (WriteTextFile tempK3dConfigFile k3dConfig))) (\<lambda>_.
        bindM (ignoring (tell (q_unit Q) (ChangeMode tempK3dConfigFile))) (\<lambda>_.
        bindM (setenvOp ''KUBECONFIG'' (tempK3dConfigFile @ '':'' @ currentConfig)) (\<lambda>_.
        bindM (shOutputPanic Q ''kubectl'' [''config'', ''view'', ''--flatten'']) (\<lambda>merged.
        bindM (PanicOnError (tell (q_unit Q) (StatPath currentConfig))) (\<lambda>_.
        bindM (PanicOnError (tell (q_unit Q) (WriteTextFile currentConfig (merged @ [CHR 0x0A])))) (\<lambda>_.
        ExecVPanic Q (ClusterInfoForContext ''k3d-k3s-default'')))))))))"

definition k3d_ClusterActions ::
    "tools \<Rightarrow> (string \<Rightarrow> error + DockerContainer) \<Rightarrow> 'a shell_scheme ClusterActions" where
  "k3d_ClusterActions Q decode = \<lparr>ca_DeleteCluster = k3d_deleteCluster Q, ca_ClusterExists = k3d_clusterExists Q,
     ca_CreateCluster = k3d_createCluster Q, ca_LoadImage = k3d_loadImage Q, ca_InstallTool = k3d_install Q,
     ca_ReloadLocalImage = k3d_reloadLocalImage Q decode, ca_ApplyDefaultStorage = kind_applyDefaultStorage Q,
     ca_SetupKubeconfig = k3d_setupKubeconfig Q, ca_DescribeEnv = Some fmempty\<rparr>"

section \<open>gcloud\<close>

record ClusterConfig =
  Project :: string
  NumNodes :: string
  MachineType :: string
  ImageType :: string
  Region :: string
  ClusterVersion :: string
  BootDisk :: string
  BootSize :: string

text \<open>\<open>strconv.Atoi\<close>: an optional sign and digits, within the range of 64 bits.\<close>

definition Atoi :: "string \<Rightarrow> int option" where
  "Atoi s =
     (let digits = (if s \<noteq> [] \<and> hd s \<in> {CHR ''-'', CHR ''+''} then tl s else s);
          v = int (undecimal digits);
          i = (if s \<noteq> [] \<and> hd s = CHR ''-'' then - v else v)
      in if digits \<noteq> [] \<and> list_all (\<lambda>c. c \<in> set ''0123456789'') digits \<and> - (2 ^ 63) \<le> i \<and> i < 2 ^ 63
         then Some i else None)"

definition calculateNumNodes :: "('a shell_scheme, int) op" where
  "calculateNumNodes =
     bindM (EnvOrDefault ''M_GC_NODES'' ''9'') (\<lambda>numNodes.
       case Atoi numNodes of
         None \<Rightarrow> panic
       | Some numParsed \<Rightarrow>
           bindM (lift (goMod numParsed 3)) (\<lambda>m.
             if m \<noteq> 0 then panic else lift (goDiv numParsed 3)))"

definition buildClusterConfig :: "string \<Rightarrow> ('a shell_scheme, ClusterConfig) op" where
  "buildClusterConfig project =
     bindM (EnvOrDefault ''M_GC_VERSION'' []) (\<lambda>version.
     bindM calculateNumNodes (\<lambda>n.
     bindM (EnvOrDefault ''M_GC_MACHINE'' ''n1-standard-2'') (\<lambda>machine.
     bindM (EnvOrDefault ''M_GC_REGION'' ''us-central1'') (\<lambda>region.
     bindM (EnvOrDefault ''M_GC_BOOT_DISK'' ''pd-standard'') (\<lambda>disk.
     bindM (EnvOrDefault ''M_GC_BOOT_SIZE'' ''50'') (\<lambda>size.
     bindM (EnvOrDefault ''M_GC_IMAGE_TYPE'' ''COS'') (\<lambda>image.
     ret \<lparr>Project = project, NumNodes = showInt n, MachineType = machine, ImageType = image, Region = region,
       ClusterVersion = version, BootDisk = disk, BootSize = size\<rparr>)))))))"

definition config_ToCliArgs :: "ClusterConfig \<Rightarrow> string list" where
  "config_ToCliArgs cfg =
     [''--project'', Project cfg, ''--region'', Region cfg, ''--machine-type'', MachineType cfg,
      ''--image-type'', ImageType cfg, ''--disk-type'', BootDisk cfg, ''--disk-size'', BootSize cfg,
      ''--num-nodes'', NumNodes cfg]
     @ (if ClusterVersion cfg \<noteq> [] then [''--cluster-version'', ClusterVersion cfg]
        else [''--release-channel'', ''stable''])"

definition gke_createCluster :: "tools \<Rightarrow> ('a shell_scheme, unit) op" where
  "gke_createCluster Q =
     bindM (RequireEnv ''M_GC_PROJECT'') (\<lambda>proj.
     bindM (RequireEnv ''M_GC_CLUSTER_NAME'') (\<lambda>name.
     bindM (buildClusterConfig proj) (\<lambda>cfg.
     RunVPanic Q ''gcloud'' ([''beta'', ''container'', ''clusters'', ''create'', name,
       ''--no-enable-basic-auth'', ''--enable-stackdriver-kubernetes'', ''--enable-ip-alias'',
       ''--network'', ''projects/gcp-dmc/global/networks/default'',
       ''--subnetwork'', ''projects/gcp-dmc/regions/us-central1/subnetworks/default'',
       ''--default-max-pods-per-node'', ''110'', ''--no-enable-master-authorized-networks'',
       ''--addons'', ''HorizontalPodAutoscaling,HttpLoadBalancing'', ''--enable-autoupgrade'', ''--enable-autorepair'',
       ''--labels'', ''cass-operator-testing=true'', ''--node-labels'', ''cass-operator-testing=true'',
       ''--metadata'', ''disable-legacy-endpoints=true,cass-operator-testing=true''] @ config_ToCliArgs cfg))))"

definition gke_setupKubeconfig :: "tools \<Rightarrow> ('a shell_scheme, unit) op" where
  "gke_setupKubeconfig Q =
     bindM (RequireEnv ''M_GC_PROJECT'') (\<lambda>proj.
     bindM (RequireEnv ''M_GC_CLUSTER_NAME'') (\<lambda>name.
     bindM (buildClusterConfig proj) (\<lambda>cfg.
     RunVPanic Q ''gcloud'' [''container'', ''clusters'', ''get-credentials'', name,
       ''--region'', Region cfg, ''--project'', Project cfg])))"

definition gke_describeEnv :: "string gomap" where
  "gke_describeEnv = mapOf
     [(''M_GC_PROJECT'', ''GCP project name. No default, required.''),
      (''M_GC_NODES'', ''Number of worker nodes for the cluster. Must be divisible by 3. Defaults to 9''),
      (''M_GC_MACHINE'', ''Machine type for the nodes''),
      (''M_GC_REGION'', ''Region. Defaults to us-central1''),
      (''M_GC_VERSION'', ''k8s version. If not set, stable channel will be used.''),
      (''M_GC_BOOT_DISK'', ''Boot disk type. Defaults to pd-standard''),
      (''M_GC_BOOT_SIZE'', ''Boot disk size. Defaults to 50''),
      (''M_GC_IMAGE_TYPE'', ''Image type. Defaults to COS''),
      (''M_GC_CLUSTER_NAME'', ''Cluster name. No default, required.'')]"

text \<open>Deleting, looking for and loading images into such a cluster do nothing, installing the tool panics.\<close>

definition gke_ClusterActions :: "tools \<Rightarrow> 'a shell_scheme ClusterActions" where
  "gke_ClusterActions Q = \<lparr>ca_DeleteCluster = ret (), ca_ClusterExists = ret False,
     ca_CreateCluster = gke_createCluster Q, ca_LoadImage = (\<lambda>_. ret ()), ca_InstallTool = panic,
     ca_ReloadLocalImage = (\<lambda>_. ret ()), ca_ApplyDefaultStorage = defaultStorage Q ''./operator/k8s-flavors/gke/storage.yaml'',
     ca_SetupKubeconfig = gke_setupKubeconfig Q, ca_DescribeEnv = gke_describeEnv\<rparr>"

section \<open>helm\<close>

definition buildOverrideArgs :: "tools \<Rightarrow> string gomap \<Rightarrow> string list" where
  "buildOverrideArgs Q overrides =
     (if mlen overrides > 0 then
        [''--set'', Join (map (\<lambda>k. k @ ''='' @ mget overrides k) (q_order Q (fset (fmdom (contents overrides))))) '','']
      else [])"

definition helmRelease ::
    "tools \<Rightarrow> string \<Rightarrow> string \<Rightarrow> string \<Rightarrow> string \<Rightarrow> string gomap \<Rightarrow> ('a shell_scheme, unit) op" where
  "helmRelease Q action chartPath releaseName namespace overrides =
     RunV Q ''helm'' ([action, ''--namespace='' @ namespace] @ buildOverrideArgs Q overrides @ [releaseName, chartPath])"

definition helmInstall ::
    "tools \<Rightarrow> string \<Rightarrow> string \<Rightarrow> string \<Rightarrow> string gomap \<Rightarrow> ('a shell_scheme, unit) op" where
  "helmInstall Q = helmRelease Q ''install''"

definition helmUpgrade ::
    "tools \<Rightarrow> string \<Rightarrow> string \<Rightarrow> string \<Rightarrow> string gomap \<Rightarrow> ('a shell_scheme, unit) op" where
  "helmUpgrade Q = helmRelease Q ''upgrade''"

definition uninstallArgs :: "string \<Rightarrow> string \<Rightarrow> string list" where
  "uninstallArgs releaseName namespace = [''uninstall'', ''--namespace='' @ namespace, releaseName]"

definition helmUninstall :: "tools \<Rightarrow> string \<Rightarrow> string \<Rightarrow> ('a shell_scheme, unit) op" where
  "helmUninstall Q releaseName namespace = RunV Q ''helm'' (uninstallArgs releaseName namespace)"

definition UninstallCapture ::
    "tools \<Rightarrow> string \<Rightarrow> string \<Rightarrow> ('a shell_scheme, string \<times> string \<times> error option) op" where
  "UninstallCapture Q releaseName namespace = RunVCapture Q ''helm'' (uninstallArgs releaseName namespace)"

section \<open>Integration tests and linting\<close>

definition toLower :: "string \<Rightarrow> string" where
  "toLower s = map (\<lambda>c. if 65 \<le> (of_char c :: nat) \<and> (of_char c :: nat) \<le> 90 then char_of (of_char c + 32 :: nat) else c) s"

datatype testType = OSS | UBI_OSS | DSE | UBI_DSE

definition getTestType :: "string \<Rightarrow> testType" where
  "getTestType testDir =
     (let lower = toLower testDir;
          isOss = (\<not> (hasPart lower ''_dse'' \<or> hasPart lower ''dse_''));
          isUbi = (hasPart lower ''_ubi'' \<or> hasPart lower ''ubi_'')
      in if isOss \<and> isUbi then UBI_OSS else if isOss then OSS else if isUbi then UBI_DSE else DSE)"

definition getTestSuiteDirs :: "tools \<Rightarrow> ('a shell_scheme, string list) op" where
  "getTestSuiteDirs Q =
     bindM (PanicOnError (tell (q_dir Q) (ReadDirectory ''./tests''))) (\<lambda>contents.
     ret (map fst (filter (\<lambda>(name, isDir). isDir \<and> name \<noteq> ''testdata'') contents)))"

definition runGinkgoTestSuite :: "tools \<Rightarrow> string \<Rightarrow> ('a shell_scheme, unit) op" where
  "runGinkgoTestSuite Q path =
     bindM (setenvOp ''CGO_ENABLED'' ''0'') (\<lambda>_.
     bindM (getenvOp ''M_GINKGO_NOCOLOR'') (\<lambda>noColor.
     let args = [''test'', ''-timeout'', ''99999s'', ''-v'', ''--ginkgo.v'', ''--ginkgo.progress'']
         @ (if toLower noColor = ''true'' then [''--ginkgo.noColor''] else []) @ [path]
     in bindM (gets sh_cwd) (\<lambda>cwd.
        bindM (PanicOnError (chdir Q path)) (\<lambda>_.
        bindM (RunVPanic Q ''go'' args) (\<lambda>_.
        PanicOnError (chdir Q cwd))))))"

definition testImages :: "Dev \<Rightarrow> testType \<Rightarrow> string list" where
  "testImages dev t = SharedImages dev @
     (case t of DSE \<Rightarrow> DseImages dev | UBI_DSE \<Rightarrow> UbiDseImages dev | OSS \<Rightarrow> OssImages dev | UBI_OSS \<Rightarrow> UbiOssImages dev)"

definition pullAndLoad :: "tools \<Rightarrow> 'a shell_scheme ClusterActions \<Rightarrow> string list \<Rightarrow> ('a shell_scheme, unit) op" where
  "pullAndLoad Q ca images =
     foldM (\<lambda>_ img.
       bindM (ignoring (RunV Q ''docker'' [''pull'', img])) (\<lambda>_. ca_LoadImage ca img)) () images"

definition integClusterActions ::
    "tools \<Rightarrow> (string \<Rightarrow> error + DockerContainer) \<Rightarrow> ('a shell_scheme, 'a shell_scheme ClusterActions) op" where
  "integClusterActions Q decode =
     bindM (EnvOrDefault ''M_K8S_FLAVOR'' ''kind'') (\<lambda>clusterType.
       if clusterType = ''kind'' then ret (kind_ClusterActions Q decode)
       else if clusterType = ''k3d'' then ret (k3d_ClusterActions Q decode)
       else panic)"

definition loadImagesForTest ::
    "tools \<Rightarrow> (string \<Rightarrow> error + DockerContainer) \<Rightarrow> (string \<Rightarrow> error + BuildSettings) \<Rightarrow> string \<Rightarrow> ('a shell_scheme, unit) op" where
  "loadImagesForTest Q decode unmarshal testDir =
     bindM (integClusterActions Q decode) (\<lambda>clusterActions.
     bindM (ReadBuildSettings Q unmarshal) (\<lambda>buildSettings.
     pullAndLoad Q clusterActions (testImages (bs_Dev buildSettings) (getTestType testDir))))"

definition integRun ::
    "tools \<Rightarrow> (string \<Rightarrow> error + DockerContainer) \<Rightarrow> (string \<Rightarrow> error + BuildSettings) \<Rightarrow> ('a shell_scheme, unit) op" where
  "integRun Q decode unmarshal =
     bindM (getenvOp ''M_INTEG_DIR'') (\<lambda>integDir.
     bindM (if integDir \<noteq> [] then ret (Split integDir (CHR '','')) else getTestSuiteDirs Q) (\<lambda>testDirs.
     foldM (\<lambda>_ dir.
       bindM (getenvOp ''M_LOAD_TEST_IMAGES'') (\<lambda>loadTestImages.
       bindM (if toLower loadTestImages = ''true'' then loadImagesForTest Q decode unmarshal dir else ret ()) (\<lambda>_.
       runGinkgoTestSuite Q (''./tests/'' @ dir)))) () testDirs))"

definition runGolangCiLint :: "tools \<Rightarrow> string \<Rightarrow> ('a shell_scheme, error option) op" where
  "runGolangCiLint Q dir =
     bindM (gets sh_cwd) (\<lambda>cwd.
     bindM (PanicOnError (chdir Q dir)) (\<lambda>_.
     bindM (attempt (RunV Q ''golangci-lint'' [''run''])) (\<lambda>lintErr.
     bindM (PanicOnError (chdir Q cwd)) (\<lambda>_.
     ret (case lintErr of Inl e \<Rightarrow> Some e | Inr _ \<Rightarrow> None)))))"

text \<open>The errors of the linter are printed only.\<close>

definition lintRun :: "tools \<Rightarrow> ('a shell_scheme, unit) op" where
  "lintRun Q =
     bindM (setenvOp ''CGO_ENABLED'' ''0'') (\<lambda>_.
     bindM (getenvOp ''M_LINT_DIRS'') (\<lambda>envDirs.
     let lintDirs = (if envDirs \<noteq> [] then Split envDirs (CHR '','') else [''mage'', ''operator'', ''tests''])
     in foldM (\<lambda>_ dir. bindM (runGolangCiLint Q dir) (\<lambda>_. ret ())) () lintDirs))"

end
