(* ===== verification/ClusterTargets.thy ===== *)
theory ClusterTargets
  imports TestClusters
begin

text \<open>
  The helpers of the integration tests (\<open>mage/ginkgo\<close>) and the targets for clusters (\<open>mage/k8s\<close>).
  A failed expectation of the test library panics. The wrapper of a suite counts its steps, and
  the targets remember the chosen kind of cluster: both extend the state of the shell.
\<close>

section \<open>The wrapper of a test suite\<close>

record suite = shell +
  ns_Namespace :: string
  ns_LogDir :: string
  ns_stepCounter :: int

definition duplicate :: "string \<Rightarrow> int \<Rightarrow> string" where
  "duplicate value cnt = Join (replicate (nat cnt) value) '' ''"

text \<open>\<open>[\s\\\/\-\.,]\<close> replaced by an underscore.\<close>

definition sanitizeForLogDirs :: "string \<Rightarrow> string" where
  "sanitizeForLogDirs s =
     map (\<lambda>c. if c \<in> {CHR 0x09, CHR 0x0A, CHR 0x0C, CHR 0x0D, CHR '' '', CHR 0x5C, CHR ''/'', CHR ''-'', CHR ''.'', CHR '',''}
       then CHR ''_'' else c) s"

definition genSuiteLogDir :: "tools \<Rightarrow> string \<Rightarrow> ('a shell_scheme, string) op" where
  "genSuiteLogDir Q suiteName =
     gets (\<lambda>s. ''../../build/kubectl_dump/'' @ sanitizeForLogDirs suiteName @ ''/'' @
       q_time Q (sh_log s) ''2006-01-02_15-04-05'')"

definition NewWrapper :: "tools \<Rightarrow> string \<Rightarrow> string \<Rightarrow> ('a suite_scheme, unit) op" where
  "NewWrapper Q suiteName namespace =
     bindM (genSuiteLogDir Q suiteName) (\<lambda>dir.
     modify (\<lambda>s. s\<lparr>ns_Namespace := namespace, ns_LogDir := dir, ns_stepCounter := 1\<rparr>))"

text \<open>A command in the namespace of the suite.\<close>

definition inNs :: "KCmd \<Rightarrow> (KCmd \<Rightarrow> ('a suite_scheme, 'b) op) \<Rightarrow> ('a suite_scheme, 'b) op" where
  "inNs k run = bindM (gets ns_Namespace) (\<lambda>n. run (InNamespace k n))"

definition ns_ExecVCapture :: "tools \<Rightarrow> KCmd \<Rightarrow> ('a suite_scheme, string \<times> string \<times> error option) op" where
  "ns_ExecVCapture Q k = inNs k (ExecVCapture Q)"

definition ns_ExecV :: "tools \<Rightarrow> KCmd \<Rightarrow> ('a suite_scheme, unit) op" where
  "ns_ExecV Q k = inNs k (ExecV Q)"

definition ns_ExecVPanic :: "tools \<Rightarrow> KCmd \<Rightarrow> ('a suite_scheme, unit) op" where
  "ns_ExecVPanic Q k = PanicOnError (ns_ExecV Q k)"

definition ns_Output :: "tools \<Rightarrow> KCmd \<Rightarrow> ('a suite_scheme, string \<times> error option) op" where
  "ns_Output Q k = inNs k (kcmd_Output Q)"

definition ns_OutputPanic :: "tools \<Rightarrow> KCmd \<Rightarrow> ('a suite_scheme, string) op" where
  "ns_OutputPanic Q k =
     bindM (ns_Output Q k) (\<lambda>(out, err). case err of None \<Rightarrow> ret out | Some _ \<Rightarrow> panic)"

definition ns_WaitForOutput :: "tools \<Rightarrow> (int \<Rightarrow> nat) \<Rightarrow> KCmd \<Rightarrow> string \<Rightarrow> int \<Rightarrow> ('a suite_scheme, unit) op" where
  "ns_WaitForOutput Q polls k expected seconds = inNs k (\<lambda>k. WaitForOutput Q polls k expected seconds)"

definition ns_WaitForOutputContains :: "tools \<Rightarrow> (int \<Rightarrow> nat) \<Rightarrow> KCmd \<Rightarrow> string \<Rightarrow> int \<Rightarrow> ('a suite_scheme, unit) op" where
  "ns_WaitForOutputContains Q polls k expected seconds =
     inNs k (\<lambda>k. WaitForOutputContains Q polls k expected seconds)"

definition ns_WaitForOutputPanic :: "tools \<Rightarrow> (int \<Rightarrow> nat) \<Rightarrow> KCmd \<Rightarrow> string \<Rightarrow> int \<Rightarrow> ('a suite_scheme, unit) op" where
  "ns_WaitForOutputPanic Q polls k expected seconds =
     PanicOnError (inNs k (\<lambda>k. WaitForOutput Q polls k expected seconds))"

text \<open>This function waits for the exact output too.\<close>

definition ns_WaitForOutputContainsPanic ::
    "tools \<Rightarrow> (int \<Rightarrow> nat) \<Rightarrow> KCmd \<Rightarrow> string \<Rightarrow> int \<Rightarrow> ('a suite_scheme, unit) op" where
  "ns_WaitForOutputContainsPanic Q polls k expected seconds =
     PanicOnError (inNs k (\<lambda>k. WaitForOutput Q polls k expected seconds))"

definition ns_WaitForOutputPattern ::
    "tools \<Rightarrow> (int \<Rightarrow> nat) \<Rightarrow> (string \<Rightarrow> string \<Rightarrow> bool) \<Rightarrow> KCmd \<Rightarrow> string \<Rightarrow> int \<Rightarrow> ('a suite_scheme, unit) op" where
  "ns_WaitForOutputPattern Q polls regexp k pattern seconds =
     inNs k (\<lambda>k. WaitForOutputPattern Q polls regexp k pattern seconds)"

definition countStep :: "('a suite_scheme, int) op" where
  "countStep = (\<lambda>s. (Return (ns_stepCounter s), s\<lparr>ns_stepCounter := ns_stepCounter s + 1\<rparr>))"

text \<open>\<open>%02d\<close>\<close>

definition twoDigits :: "int \<Rightarrow> string" where
  "twoDigits n = (if length (showInt n) < 2 then ''0'' @ showInt n else showInt n)"

definition genTestLogDir :: "string \<Rightarrow> ('a suite_scheme, string) op" where
  "genTestLogDir description =
     bindM (gets ns_LogDir) (\<lambda>dir.
     bindM countStep (\<lambda>n.
     ret (dir @ ''/'' @ twoDigits n @ ''_'' @ sanitizeForLogDirs description)))"

text \<open>
  The logs are dumped when the function ends, also by a panic. The command for the dump is built
  before, which creates its directory and counts the step.
\<close>

definition finallyOp :: "('s, unit) op \<Rightarrow> ('s, 'b) op \<Rightarrow> ('s, 'b) op" where
  "finallyOp d m = (\<lambda>s. case m s of (r, t) \<Rightarrow> (case d t of (Return _, u) \<Rightarrow> (r, u) | (_, u) \<Rightarrow> (Panic, u)))"

definition loggingStep :: "tools \<Rightarrow> string \<Rightarrow> ('a suite_scheme, 'b) op \<Rightarrow> ('a suite_scheme, 'b) op" where
  "loggingStep Q description step =
     bindM (genTestLogDir description) (\<lambda>dir.
     bindM (gets ns_Namespace) (\<lambda>n.
     bindM (DumpLogs Q dir n) (\<lambda>dump.
     finallyOp (ExecVPanic Q dump) (PanicOnError step))))"

definition ExecAndLog :: "tools \<Rightarrow> string \<Rightarrow> KCmd \<Rightarrow> ('a suite_scheme, unit) op" where
  "ExecAndLog Q description k = loggingStep Q description (ns_ExecV Q k)"

definition ExecAndLogAndExpectErrorString :: "tools \<Rightarrow> string \<Rightarrow> KCmd \<Rightarrow> string \<Rightarrow> ('a suite_scheme, unit) op" where
  "ExecAndLogAndExpectErrorString Q description k expectedError =
     loggingStep Q description (bindM (ns_ExecVCapture Q k) (\<lambda>(_, captureErr, execErr).
       if execErr \<noteq> None \<and> containsText captureErr expectedError then ret () else panic))"

definition OutputAndLog :: "tools \<Rightarrow> string \<Rightarrow> KCmd \<Rightarrow> ('a suite_scheme, string) op" where
  "OutputAndLog Q description k =
     loggingStep Q description (bindM (ns_Output Q k) (\<lambda>(out, err).
       case err of None \<Rightarrow> ret out | Some e \<Rightarrow> fail e))"

definition WaitForOutputAndLog ::
    "tools \<Rightarrow> (int \<Rightarrow> nat) \<Rightarrow> string \<Rightarrow> KCmd \<Rightarrow> string \<Rightarrow> int \<Rightarrow> ('a suite_scheme, unit) op" where
  "WaitForOutputAndLog Q polls description k expected seconds =
     loggingStep Q description (ns_WaitForOutput Q polls k expected seconds)"

definition WaitForOutputPatternAndLog ::
    "tools \<Rightarrow> (int \<Rightarrow> nat) \<Rightarrow> (string \<Rightarrow> string \<Rightarrow> bool) \<Rightarrow> string \<Rightarrow> KCmd \<Rightarrow> string \<Rightarrow> int \<Rightarrow> ('a suite_scheme, unit) op" where
  "WaitForOutputPatternAndLog Q polls regexp description k expected seconds =
     loggingStep Q description (ns_WaitForOutputPattern Q polls regexp k expected seconds)"

definition WaitForOutputContainsAndLog ::
    "tools \<Rightarrow> (int \<Rightarrow> nat) \<Rightarrow> string \<Rightarrow> KCmd \<Rightarrow> string \<Rightarrow> int \<Rightarrow> ('a suite_scheme, unit) op" where
  "WaitForOutputContainsAndLog Q polls description k expected seconds =
     loggingStep Q description (ns_WaitForOutputContains Q polls k expected seconds)"

section \<open>The end of a suite\<close>

definition Terminate :: "tools \<Rightarrow> ('a suite_scheme, unit) op" where
  "Terminate Q =
     bindM (getenvOp ''M_NO_CLEANUP'') (\<lambda>noCleanup.
       if toLower noCleanup = ''true'' then ret ()
       else
         bindM (ns_ExecVCapture Q (kubectlDelete [''cassandradatacenter'', ''--all''])) (\<lambda>(_, _, dcErr).
         bindM (gets ns_Namespace) (\<lambda>n.
         bindM (UninstallCapture Q ''cass-operator'' n) (\<lambda>(_, _, helmErr).
         bindM (ExecVCapture Q (DeleteByTypeAndName ''namespace'' [n])) (\<lambda>(_, _, nsErr).
           if dcErr \<noteq> None \<or> helmErr \<noteq> None \<or> nsErr \<noteq> None then panic else ret ())))))"

section \<open>Steps of the suites\<close>

definition dcField :: "string \<Rightarrow> string \<Rightarrow> string \<Rightarrow> KCmd" where
  "dcField resource dcName json = FormatOutput (kubectlGet [resource, dcName]) json"

definition datacenterLabel :: "string \<Rightarrow> string" where
  "datacenterLabel dcName = ''cassandra.datastax.com/datacenter='' @ dcName"

definition WaitForDatacenterConditionWithTimeout ::
    "tools \<Rightarrow> (int \<Rightarrow> nat) \<Rightarrow> string \<Rightarrow> string \<Rightarrow> string \<Rightarrow> int \<Rightarrow> ('a suite_scheme, unit) op" where
  "WaitForDatacenterConditionWithTimeout Q polls dcName conditionType value seconds =
     WaitForOutputAndLog Q polls (''checking that dc condition '' @ conditionType @ '' has value '' @ value)
       (dcField ''cassandradatacenter'' dcName
         (''jsonpath={.status.conditions[?(.type=='' @ quoted conditionType @ '')].status}'')) value seconds"

definition WaitForDatacenterCondition ::
    "tools \<Rightarrow> (int \<Rightarrow> nat) \<Rightarrow> string \<Rightarrow> string \<Rightarrow> string \<Rightarrow> ('a suite_scheme, unit) op" where
  "WaitForDatacenterCondition Q polls dcName conditionType value =
     WaitForDatacenterConditionWithTimeout Q polls dcName conditionType value 600"

text \<open>The reason is not looked at.\<close>

definition WaitForDatacenterConditionWithReason ::
    "tools \<Rightarrow> (int \<Rightarrow> nat) \<Rightarrow> string \<Rightarrow> string \<Rightarrow> string \<Rightarrow> string \<Rightarrow> ('a suite_scheme, unit) op" where
  "WaitForDatacenterConditionWithReason Q polls dcName conditionType value reason =
     WaitForOutputAndLog Q polls (''checking that dc condition '' @ conditionType @ '' has value '' @ value)
       (dcField ''cassandradatacenter'' dcName
         (''jsonpath={.status.conditions[?(.type=='' @ quoted conditionType @ '')].status}'')) value 600"

definition WaitForDatacenterToHaveNoPods :: "tools \<Rightarrow> (int \<Rightarrow> nat) \<Rightarrow> string \<Rightarrow> ('a suite_scheme, unit) op" where
  "WaitForDatacenterToHaveNoPods Q polls dcName =
     WaitForOutputAndLog Q polls ''checking that no dc pods remain''
       (FormatOutput (WithLabel (kubectlGet [''pods'']) (datacenterLabel dcName)) ''jsonpath={.items}'') ''[]'' 300"

definition WaitForDatacenterOperatorProgress ::
    "tools \<Rightarrow> (int \<Rightarrow> nat) \<Rightarrow> string \<Rightarrow> string \<Rightarrow> int \<Rightarrow> ('a suite_scheme, unit) op" where
  "WaitForDatacenterOperatorProgress Q polls dcName progressValue timeout =
     WaitForOutputAndLog Q polls (''checking the cassandra operator progress status is set to '' @ progressValue)
       (dcField ''CassandraDatacenter'' dcName ''jsonpath={.status.cassandraOperatorProgress}'') progressValue timeout"

definition WaitForSuperUserUpserted ::
    "tools \<Rightarrow> (int \<Rightarrow> nat) \<Rightarrow> (string \<Rightarrow> string \<Rightarrow> bool) \<Rightarrow> string \<Rightarrow> int \<Rightarrow> ('a suite_scheme, unit) op" where
  "WaitForSuperUserUpserted Q polls regexp dcName timeout =
     PanicOnError (ns_WaitForOutputPattern Q polls regexp
       (dcField ''CassandraDatacenter'' dcName ''jsonpath={.status.superUserUpserted}'')
       (concat (map (\<lambda>p. if p = [] then [CHR 0x5C] else p)
         [[], ''d{4}-'', [], ''d{2}-'', [], ''d{2}T'', [], ''d{2}:'', [], ''d{2}:'', [], ''d{2}Z''])) timeout)"

definition GetNodeStatusesHostIds :: "tools \<Rightarrow> string \<Rightarrow> ('a suite_scheme, string list) op" where
  "GetNodeStatusesHostIds Q dcName =
     bindM (ns_OutputPanic Q (dcField ''CassandraDatacenter'' dcName
       (''jsonpath={.status.nodeStatuses['' @ quoted ''*'' @ ''].hostID}''))) (\<lambda>out.
     ret (Split out (CHR '' '')))"

definition WaitForDatacenterReadyPodCountWithTimeout ::
    "tools \<Rightarrow> (int \<Rightarrow> nat) \<Rightarrow> string \<Rightarrow> int \<Rightarrow> int \<Rightarrow> ('a suite_scheme, unit) op" where
  "WaitForDatacenterReadyPodCountWithTimeout Q polls dcName cnt podCountTimeout =
     WaitForOutputAndLog Q polls ''waiting for the node to become ready''
       (FormatOutput (WithFlag (WithLabel (kubectlGet [''pods'']) (datacenterLabel dcName))
          ''field-selector'' ''status.phase=Running'')
        ''jsonpath={.items[*].status.containerStatuses[0].ready}'')
       (duplicate ''true'' cnt) (cnt * podCountTimeout)"

definition WaitForDatacenterReadyPodCount :: "tools \<Rightarrow> (int \<Rightarrow> nat) \<Rightarrow> string \<Rightarrow> int \<Rightarrow> ('a suite_scheme, unit) op" where
  "WaitForDatacenterReadyPodCount Q polls dcName cnt =
     WaitForDatacenterReadyPodCountWithTimeout Q polls dcName cnt 400"

definition WaitForDatacenterReadyWithTimeouts ::
    "tools \<Rightarrow> (int \<Rightarrow> nat) \<Rightarrow> string \<Rightarrow> int \<Rightarrow> int \<Rightarrow> ('a suite_scheme, unit) op" where
  "WaitForDatacenterReadyWithTimeouts Q polls dcName podCountTimeout dcReadyTimeout =
     bindM (ns_OutputPanic Q (dcField ''CassandraDatacenter'' dcName ''jsonpath={.spec.size}'')) (\<lambda>sizeString.
       case Atoi sizeString of
         None \<Rightarrow> panic
       | Some n \<Rightarrow>
           bindM (WaitForDatacenterReadyPodCountWithTimeout Q polls dcName n podCountTimeout) (\<lambda>_.
           WaitForDatacenterOperatorProgress Q polls dcName ''Ready'' dcReadyTimeout))"

definition WaitForDatacenterReady :: "tools \<Rightarrow> (int \<Rightarrow> nat) \<Rightarrow> string \<Rightarrow> ('a suite_scheme, unit) op" where
  "WaitForDatacenterReady Q polls dcName = WaitForDatacenterReadyWithTimeouts Q polls dcName 400 30"

definition WaitForPodNotStarted :: "tools \<Rightarrow> (int \<Rightarrow> nat) \<Rightarrow> string \<Rightarrow> ('a suite_scheme, unit) op" where
  "WaitForPodNotStarted Q polls podName =
     WaitForOutputAndLog Q polls ''verify that the pod is no longer marked as started''
       (WithFlag (WithFlag (kubectlGet [''pod'']) ''field-selector'' (''metadata.name='' @ podName))
         ''selector'' ''cassandra.datastax.com/node-state=Started'') [] 60"

definition WaitForPodStarted :: "tools \<Rightarrow> (int \<Rightarrow> nat) \<Rightarrow> string \<Rightarrow> ('a suite_scheme, unit) op" where
  "WaitForPodStarted Q polls podName =
     WaitForOutputAndLog Q polls ''verify that the pod is marked as started''
       (FormatOutput (WithFlag (WithFlag (kubectlGet [''pod'']) ''field-selector'' (''metadata.name='' @ podName))
         ''selector'' ''cassandra.datastax.com/node-state=Started'') ''jsonpath={.items[*].metadata.name}'') podName 60"

definition cassandraImageJson :: string where
  "cassandraImageJson = ''jsonpath={.items[*].spec.containers[?(@.name == '' @ quoted ''cassandra'' @ '')].image}''"

definition dcPodsField :: "string \<Rightarrow> string \<Rightarrow> KCmd" where
  "dcPodsField dcName json = FormatOutput (WithFlag (kubectlGet [''pods'']) ''selector'' (datacenterLabel dcName)) json"

definition WaitForCassandraImages ::
    "tools \<Rightarrow> (int \<Rightarrow> nat) \<Rightarrow> string \<Rightarrow> string list \<Rightarrow> int \<Rightarrow> ('a suite_scheme, unit) op" where
  "WaitForCassandraImages Q polls dcName expectedImages timeout =
     WaitForOutputAndLog Q polls ''verify cassandra image updates'' (dcPodsField dcName cassandraImageJson)
       (Join expectedImages '' '') timeout"

definition nodetoolOnPod :: "tools \<Rightarrow> string \<Rightarrow> string \<Rightarrow> ('a suite_scheme, unit) op" where
  "nodetoolOnPod Q command podName =
     ns_ExecVPanic Q (ExecOnPod podName [''-c'', ''cassandra'', ''--'', ''bash'', ''-c'', command])"

definition DisableGossip :: "tools \<Rightarrow> string \<Rightarrow> ('a suite_scheme, unit) op" where
  "DisableGossip Q podName = nodetoolOnPod Q ''nodetool disablegossip'' podName"

definition EnableGossip :: "tools \<Rightarrow> string \<Rightarrow> ('a suite_scheme, unit) op" where
  "EnableGossip Q podName = nodetoolOnPod Q ''nodetool enablegossip'' podName"

definition DisableGossipWaitNotReady :: "tools \<Rightarrow> (int \<Rightarrow> nat) \<Rightarrow> string \<Rightarrow> ('a suite_scheme, unit) op" where
  "DisableGossipWaitNotReady Q polls podName =
     bindM (DisableGossip Q podName) (\<lambda>_. WaitForPodNotStarted Q polls podName)"

definition EnableGossipWaitReady :: "tools \<Rightarrow> (int \<Rightarrow> nat) \<Rightarrow> string \<Rightarrow> ('a suite_scheme, unit) op" where
  "EnableGossipWaitReady Q polls podName =
     bindM (EnableGossip Q podName) (\<lambda>_. WaitForPodStarted Q polls podName)"

definition sortedField :: "tools \<Rightarrow> string \<Rightarrow> string \<Rightarrow> ('a suite_scheme, string list) op" where
  "sortedField Q dcName json =
     bindM (ns_OutputPanic Q (dcPodsField dcName json)) (\<lambda>out. ret (sort (Split out (CHR '' ''))))"

definition GetDatacenterPodNames :: "tools \<Rightarrow> string \<Rightarrow> ('a suite_scheme, string list) op" where
  "GetDatacenterPodNames Q dcName = sortedField Q dcName ''jsonpath={.items[*].metadata.name}''"

definition GetDatacenterReadyPodNames :: "tools \<Rightarrow> string \<Rightarrow> ('a suite_scheme, string list) op" where
  "GetDatacenterReadyPodNames Q dcName = sortedField Q dcName
     ''jsonpath={.items[?(@.status.containerStatuses[0].ready==true)].metadata.name}''"

definition GetCassandraContainerImages :: "tools \<Rightarrow> string \<Rightarrow> ('a suite_scheme, string list) op" where
  "GetCassandraContainerImages Q dcName = sortedField Q dcName cassandraImageJson"

definition WaitForOperatorReady :: "tools \<Rightarrow> (int \<Rightarrow> nat) \<Rightarrow> ('a suite_scheme, unit) op" where
  "WaitForOperatorReady Q polls =
     WaitForOutputAndLog Q polls ''waiting for the operator to become ready''
       (FormatOutput (WithFlag (WithLabel (kubectlGet [''pods'']) ''name=cass-operator'')
          ''field-selector'' ''status.phase=Running'')
        ''jsonpath={.items[0].status.containerStatuses[0].ready}'') ''true'' 240"

definition ExpectDoneReconciling :: "tools \<Rightarrow> string \<Rightarrow> ('a suite_scheme, unit) op" where
  "ExpectDoneReconciling Q dcName =
     (let k = dcField ''CassandraDatacenter'' dcName ''jsonpath={.metadata.resourceVersion}''
      in bindM (ignoring (tell (q_unit Q) (WaitFor 60))) (\<lambda>_.
         bindM (ns_OutputPanic Q k) (\<lambda>resourceVersion.
         bindM (ignoring (tell (q_unit Q) (WaitFor 60))) (\<lambda>_.
         bindM (ns_OutputPanic Q k) (\<lambda>newResourceVersion.
           if newResourceVersion = resourceVersion then ret () else panic)))))"

definition CqlExecute :: "tools \<Rightarrow> string \<Rightarrow> string \<Rightarrow> string \<Rightarrow> string \<Rightarrow> ('a suite_scheme, unit) op" where
  "CqlExecute Q podName cql user pw =
     ns_ExecVPanic Q (WithFlag (ExecOnPod podName [''--'', ''cqlsh'', ''--user'', user, ''--password'', pw, ''-e'', cql])
       ''container'' ''cassandra'')"

section \<open>Installing the operator\<close>

definition ImagePullSecretName :: string where "ImagePullSecretName = ''imagepullsecret''"

definition CreateDockerRegistrySecret :: "tools \<Rightarrow> string \<Rightarrow> string \<Rightarrow> ('a shell_scheme, unit) op" where
  "CreateDockerRegistrySecret Q name namespace =
     bindM (getenvOp ''M_DOCKER_USERNAME'') (\<lambda>user.
     bindM (getenvOp ''M_DOCKER_PASSWORD'') (\<lambda>pw.
     bindM (getenvOp ''M_DOCKER_SERVER'') (\<lambda>server.
     bindM (ExecVCapture Q (InNamespace ((kcmd ''create'' [''secret'', ''docker-registry'', name])\<lparr>k_Flags :=
         mapOf [(''docker-username'', user), (''docker-password'', pw), (''docker-server'', server)]\<rparr>) namespace)) (\<lambda>_.
     ret ()))))"

text \<open>The overrides are a map that the caller has made, so that a write to it does not panic.\<close>

definition HelmInstallWithOverrides ::
    "tools \<Rightarrow> string \<Rightarrow> string \<Rightarrow> (string, string) fmap \<Rightarrow> ('a shell_scheme, unit) op" where
  "HelmInstallWithOverrides Q chartPath namespace overrides =
     bindM GetOperatorImage (\<lambda>img.
     let overrides = fmupd ''image'' img overrides
     in bindM DockerCredentialsDefined (\<lambda>defined.
        bindM (if defined then
            bindM (CreateDockerRegistrySecret Q ImagePullSecretName namespace) (\<lambda>_.
            ret (fmupd ''imagePullSecret'' ImagePullSecretName overrides))
          else ret overrides) (\<lambda>overrides.
        PanicOnError (helmInstall Q chartPath ''cass-operator'' namespace (Some overrides)))))"

definition HelmUpgradeWithOverrides ::
    "tools \<Rightarrow> string \<Rightarrow> string \<Rightarrow> (string, string) fmap \<Rightarrow> ('a shell_scheme, unit) op" where
  "HelmUpgradeWithOverrides Q chartPath namespace overrides =
     bindM GetOperatorImage (\<lambda>img.
     bindM DockerCredentialsDefined (\<lambda>defined.
     let overrides = fmupd ''image'' img overrides;
         overrides = (if defined then fmupd ''imagePullSecret'' ImagePullSecretName overrides else overrides)
     in PanicOnError (helmUpgrade Q chartPath ''cass-operator'' namespace (Some overrides))))"

text \<open>Keys and values follow one another; a last key without a value is dropped.\<close>

fun pairUp :: "string list \<Rightarrow> (string, string) fmap \<Rightarrow> (string, string) fmap" where
  "pairUp (k # v # rest) m = pairUp rest (fmupd k v m)"
| "pairUp _ m = m"

definition HelmInstall :: "tools \<Rightarrow> string \<Rightarrow> string list \<Rightarrow> ('a suite_scheme, unit) op" where
  "HelmInstall Q chartPath overrides =
     bindM (gets ns_Namespace) (\<lambda>n. HelmInstallWithOverrides Q chartPath n (pairUp overrides fmempty))"

definition HelmInstallWithPSPEnabled :: "tools \<Rightarrow> string \<Rightarrow> ('a suite_scheme, unit) op" where
  "HelmInstallWithPSPEnabled Q chartPath =
     bindM (gets ns_Namespace) (\<lambda>n.
     HelmInstallWithOverrides Q chartPath n (fmupd ''vmwarePSPEnabled'' ''true'' fmempty))"

section \<open>Targets\<close>

text \<open>The chosen kind of cluster and whether its actions are loaded.\<close>

record clusterState = shell +
  clusterType :: string
  clusterActions :: "string option"

definition supportedFlavors ::
    "tools \<Rightarrow> (string \<Rightarrow> error + DockerContainer) \<Rightarrow> string \<Rightarrow> 'a shell_scheme ClusterActions option" where
  "supportedFlavors Q decode flavor =
     map_of [(''kind'', kind_ClusterActions Q decode), (''k3d'', k3d_ClusterActions Q decode),
       (''gke'', gke_ClusterActions Q)] flavor"

definition loadClusterSettings ::
    "tools \<Rightarrow> (string \<Rightarrow> error + DockerContainer) \<Rightarrow> ('a clusterState_scheme, unit) op" where
  "loadClusterSettings Q decode =
     bindM (gets clusterType) (\<lambda>t.
     bindM (if t = [] then
         bindM (EnvOrDefault ''M_K8S_FLAVOR'' ''kind'') (\<lambda>t. modify (\<lambda>s. s\<lparr>clusterType := t\<rparr>))
       else ret ()) (\<lambda>_.
     bindM (gets clusterType) (\<lambda>t.
     bindM (gets clusterActions) (\<lambda>a.
       if a = None then
         if t \<in> {''kind'', ''k3d'', ''gke''} then modify (\<lambda>s. s\<lparr>clusterActions := Some t\<rparr>) else panic
       else ret ()))))"

text \<open>An action of the loaded kind; without one the pointer is nil.\<close>

definition acting ::
    "tools \<Rightarrow> (string \<Rightarrow> error + DockerContainer)
      \<Rightarrow> ('a clusterState_scheme ClusterActions \<Rightarrow> ('a clusterState_scheme, 'b) op) \<Rightarrow> ('a clusterState_scheme, 'b) op" where
  "acting Q decode f =
     bindM (gets clusterActions) (\<lambda>a.
       case Option.bind a (supportedFlavors Q decode) of None \<Rightarrow> panic | Some ca \<Rightarrow> f ca)"

definition k8sOperatorImage :: "('a shell_scheme, string) op" where
  "k8sOperatorImage =
     bindM (getenvOp ''MO_BASE_OS'') (\<lambda>baseOs.
     ret (if baseOs \<noteq> [] then ''k8ssandra/cass-operator:latest-ubi'' else ''k8ssandra/cass-operator:latest''))"

definition allDevImages :: "Dev \<Rightarrow> string list" where
  "allDevImages dev = DseImages dev @ UbiDseImages dev @ OssImages dev @ UbiOssImages dev @ SharedImages dev"

definition loadSettings ::
    "tools \<Rightarrow> (string \<Rightarrow> error + BuildSettings) \<Rightarrow> 'a shell_scheme ClusterActions \<Rightarrow> ('a shell_scheme, unit) op" where
  "loadSettings Q unmarshal cfg =
     bindM (getenvOp ''M_LOAD_DEV_IMAGES'') (\<lambda>loadDevImages.
       if toLower loadDevImages = ''true'' then
         bindM (ReadBuildSettings Q unmarshal) (\<lambda>settings. pullAndLoad Q cfg (allDevImages (bs_Dev settings)))
       else ret ())"

definition SetupEmptyCluster ::
    "tools \<Rightarrow> (string \<Rightarrow> error + DockerContainer) \<Rightarrow> (string \<Rightarrow> error + BuildSettings) \<Rightarrow> ('a clusterState_scheme, unit) op" where
  "SetupEmptyCluster Q decode unmarshal =
     bindM (loadClusterSettings Q decode) (\<lambda>_.
     acting Q decode (\<lambda>ca.
       bindM (ignoring (ca_DeleteCluster ca)) (\<lambda>_.
       bindM (ca_CreateCluster ca) (\<lambda>_.
       bindM (ignoring (tell (q_unit Q) (WaitFor 10))) (\<lambda>_.
       bindM (ca_SetupKubeconfig ca) (\<lambda>_.
       bindM (loadSettings Q unmarshal ca) (\<lambda>_.
       bindM (ca_ApplyDefaultStorage ca) (\<lambda>_.
       bindM (BuildDocker Q unmarshal) (\<lambda>_.
       bindM k8sOperatorImage (\<lambda>img.
       ca_LoadImage ca img))))))))))"

definition RunIntegTests ::
    "tools \<Rightarrow> (string \<Rightarrow> error + DockerContainer) \<Rightarrow> (string \<Rightarrow> error + BuildSettings) \<Rightarrow> ('a clusterState_scheme, unit) op" where
  "RunIntegTests Q decode unmarshal =
     bindM (loadClusterSettings Q decode) (\<lambda>_.
     bindM (Deps ''k8s.SetupEmptyCluster'' (SetupEmptyCluster Q decode unmarshal)) (\<lambda>_.
     bindM (integRun Q decode unmarshal) (\<lambda>_.
     bindM (getenvOp ''M_NO_CLEANUP'') (\<lambda>noCleanup.
       if toLower noCleanup \<noteq> ''true'' then acting Q decode (\<lambda>ca. PanicOnError (ca_DeleteCluster ca))
       else ret ()))))"

definition SetupExampleCluster ::
    "tools \<Rightarrow> (string \<Rightarrow> error + DockerContainer) \<Rightarrow> (string \<Rightarrow> error + BuildSettings) \<Rightarrow> ('a clusterState_scheme, unit) op" where
  "SetupExampleCluster Q decode unmarshal =
     bindM (Deps ''k8s.SetupEmptyCluster'' (SetupEmptyCluster Q decode unmarshal)) (\<lambda>_.
     bindM (ExecVPanic Q (CreateSecretLiteral ''cassandra-superuser-secret'' ''devuser'' ''devpass'')) (\<lambda>_.
     bindM (HelmInstallWithOverrides Q ''./charts/cass-operator-chart'' ''default'' fmempty) (\<lambda>_.
     ignoring (tell (q_unit Q) (WaitFor 15)))))"

definition exampleCluster ::
    "tools \<Rightarrow> (string \<Rightarrow> error + DockerContainer) \<Rightarrow> (string \<Rightarrow> error + BuildSettings) \<Rightarrow> string \<Rightarrow> ('a clusterState_scheme, unit) op" where
  "exampleCluster Q decode unmarshal file =
     bindM (Deps ''k8s.SetupExampleCluster'' (SetupExampleCluster Q decode unmarshal)) (\<lambda>_.
     bindM (ExecVPanic Q (ApplyFiles [file])) (\<lambda>_.
     WatchPods Q))"

definition SetupCassandraCluster ::
    "tools \<Rightarrow> (string \<Rightarrow> error + DockerContainer) \<Rightarrow> (string \<Rightarrow> error + BuildSettings) \<Rightarrow> ('a clusterState_scheme, unit) op" where
  "SetupCassandraCluster Q decode unmarshal =
     exampleCluster Q decode unmarshal ''operator/example-cassdc-yaml/cassandra-3.11.x/example-cassdc-minimal.yaml''"

definition SetupDSECluster ::
    "tools \<Rightarrow> (string \<Rightarrow> error + DockerContainer) \<Rightarrow> (string \<Rightarrow> error + BuildSettings) \<Rightarrow> ('a clusterState_scheme, unit) op" where
  "SetupDSECluster Q decode unmarshal =
     exampleCluster Q decode unmarshal ''operator/example-cassdc-yaml/dse-6.8.x/example-cassdc-minimal.yaml''"

definition k8sDeleteCluster ::
    "tools \<Rightarrow> (string \<Rightarrow> error + DockerContainer) \<Rightarrow> ('a clusterState_scheme, unit) op" where
  "k8sDeleteCluster Q decode =
     bindM (loadClusterSettings Q decode) (\<lambda>_.
     acting Q decode (\<lambda>ca. PanicOnError (ca_DeleteCluster ca)))"

definition cleanupLingeringHelmResources :: "tools \<Rightarrow> ('a shell_scheme, unit) op" where
  "cleanupLingeringHelmResources Q =
     foldM (\<lambda>_ (kind, name). ignoring (ExecV Q (DeleteByTypeAndName kind [name]))) ()
       [(''clusterrole'', ''cass-operator-cluster-role''), (''clusterrolebinding'', ''cass-operator''),
        (''validatingwebhookconfiguration'', ''cassandradatacenter-webhook-registration''),
        (''crd'', ''cassandradatacenters.cassandra.datastax.com'')]"

text \<open>The first field of a row; a row without fields makes the index panic.\<close>

definition firstField :: "string \<Rightarrow> string option" where
  "firstField row =
     (let w = takeWhile (\<lambda>c. \<not> isSpace c) (dropWhile isSpace row) in if w = [] then None else Some w)"

definition cleanupNamespace :: "tools \<Rightarrow> string \<Rightarrow> ('a shell_scheme, unit) op" where
  "cleanupNamespace Q row =
     (case firstField row of
        None \<Rightarrow> panic
      | Some name \<Rightarrow>
          if HasPrefix name ''test-'' then
            bindM (attempt (ExecV Q (InNamespace (kubectlGet [''cassdc'']) name))) (\<lambda>r.
            bindM (case r of
                Inl _ \<Rightarrow> ret ()
              | Inr _ \<Rightarrow> PanicOnError (ExecV Q (InNamespace (kubectlDelete [''cassdcs'', ''--all'']) name))) (\<lambda>_.
            ExecVPanic Q (DeleteByTypeAndName ''namespace'' [name])))
          else ret ())"

definition EnsureEmptyCluster ::
    "tools \<Rightarrow> (string \<Rightarrow> error + DockerContainer) \<Rightarrow> (string \<Rightarrow> error + BuildSettings) \<Rightarrow> ('a clusterState_scheme, unit) op" where
  "EnsureEmptyCluster Q decode unmarshal =
     bindM (loadClusterSettings Q decode) (\<lambda>_.
     bindM (acting Q decode ca_ClusterExists) (\<lambda>exists.
     bindM (if \<not> exists then SetupEmptyCluster Q decode unmarshal
       else acting Q decode (\<lambda>ca.
         bindM (loadSettings Q unmarshal ca) (\<lambda>_.
         bindM (ca_SetupKubeconfig ca) (\<lambda>_.
         bindM (ca_ApplyDefaultStorage ca) (\<lambda>_.
         bindM (BuildDocker Q unmarshal) (\<lambda>_.
         ca_ReloadLocalImage ca ''k8ssandra/cass-operator:latest'')))))) (\<lambda>_.
     bindM (kcmd_OutputPanic Q (kubectlGet [''namespaces''])) (\<lambda>out.
     bindM (foldM (\<lambda>_ row. cleanupNamespace Q row) () (Split out (CHR 0x0A))) (\<lambda>_.
     cleanupLingeringHelmResources Q)))))"

definition ReloadOperator ::
    "tools \<Rightarrow> (string \<Rightarrow> error + DockerContainer) \<Rightarrow> (string \<Rightarrow> error + BuildSettings) \<Rightarrow> ('a clusterState_scheme, unit) op" where
  "ReloadOperator Q decode unmarshal =
     bindM (loadClusterSettings Q decode) (\<lambda>_.
     bindM (BuildDocker Q unmarshal) (\<lambda>_.
     acting Q decode (\<lambda>ca. ca_ReloadLocalImage ca ''k8ssandra/cass-operator:latest'')))"

definition k8sInstallTool :: "tools \<Rightarrow> (string \<Rightarrow> error + DockerContainer) \<Rightarrow> ('a clusterState_scheme, unit) op" where
  "k8sInstallTool Q decode =
     bindM (loadClusterSettings Q decode) (\<lambda>_. acting Q decode ca_InstallTool)"

definition Kubeconfig :: "tools \<Rightarrow> (string \<Rightarrow> error + DockerContainer) \<Rightarrow> ('a clusterState_scheme, unit) op" where
  "Kubeconfig Q decode =
     bindM (loadClusterSettings Q decode) (\<lambda>_. acting Q decode ca_SetupKubeconfig)"

section \<open>Laws\<close>

lemma snd_finallyOp: "snd (finallyOp d m s) = snd (d (snd (m s)))"
  by (auto simp: finallyOp_def split: prod.splits outcome.splits)

text \<open>A logged step makes the calls of the step between the two that prepare and make the dump.\<close>

lemma loggingStep_log:
  assumes "\<And>u. ns_Namespace u = ns_Namespace s \<Longrightarrow> sh_log (snd (step u)) = sh_log u @ cs"
  shows "\<exists>dir. sh_log (snd (loggingStep Q description step s)) = sh_log s @ [MakeDirAll dir] @ cs @
    [RunCmd ToTerminal (Inherit None) ''kubectl'' (kcmd_ToCliArgs Q (dumpCmd [''dump'', ''-n'', ns_Namespace s] dir)) None]"
proof -
  let ?dir = "ns_LogDir s @ ''/'' @ twoDigits (ns_stepCounter s) @ ''_'' @ sanitizeForLogDirs description"
  let ?s = "logged (MakeDirAll ?dir) (s\<lparr>ns_stepCounter := ns_stepCounter s + 1\<rparr>)"
  have run: "loggingStep Q description step s = finallyOp (ExecVPanic Q (dumpCmd [''dump'', ''-n'', ns_Namespace s] ?dir))
      (PanicOnError step) ?s"
    by (simp add: loggingStep_def genTestLogDir_def countStep_def DumpLogs_def rc_sh)
  have "sh_log (snd (step ?s)) = sh_log ?s @ cs" using assms by (simp add: logged_def)
  then show ?thesis
    unfolding run snd_finallyOp snd_PanicOnError ExecVPanic_log by (auto intro!: exI [of _ ?dir])
qed

end
