(* ===== verification/JenkinsMaster.thy ===== *)
theory JenkinsMaster
  imports Builds
begin

text \<open>
  The maintenance of the build server (\<open>mage/jenkins\<close>): its configuration, plugins, jobs and system
  packages. Requests carry the name and the token of the user, from the environment. Reading JSON
  and printing YAML are parameters.
\<close>

record plugin =
  plugin_Name :: string
  plugin_Version :: string

definition jenkinsUrl :: string where
  "jenkinsUrl = ''https://jenkins-container-tooling.build.dsinternal.org/''"

definition jenkinsSshAddr :: string where
  "jenkinsSshAddr = ''jenkins-container-tooling-ssh.build.dsinternal.org''"

definition jobsDir :: string where "jobsDir = ''./jenkins/master/jobs''"
definition viewsDir :: string where "viewsDir = ''./jenkins/master/views''"
definition jenkinsBuildDir :: string where "jenkinsBuildDir = ''./jenkins/master/build''"

definition jenkinsRequest ::
    "tools \<Rightarrow> string \<Rightarrow> string \<Rightarrow> string option \<Rightarrow> ('a shell_scheme, int \<times> (error + string)) op" where
  "jenkinsRequest Q verb endpoint payload =
     bindM (RequireEnv ''MJ_USER'') (\<lambda>user.
     bindM (RequireEnv ''MJ_TOKEN'') (\<lambda>token.
     PanicOnError (tell (q_http Q) (HttpRequest verb (jenkinsUrl @ ''/'' @ endpoint) (user, token) payload))))"

definition getFromJenkins :: "tools \<Rightarrow> string \<Rightarrow> ('a shell_scheme, int \<times> (error + string)) op" where
  "getFromJenkins Q endpoint = jenkinsRequest Q ''GET'' endpoint None"

definition postToJenkins :: "tools \<Rightarrow> string \<Rightarrow> string option \<Rightarrow> ('a shell_scheme, int \<times> (error + string)) op" where
  "postToJenkins Q endpoint payload = jenkinsRequest Q ''POST'' endpoint payload"

definition validateAndGetBody :: "int \<times> (error + string) \<Rightarrow> ('a shell_scheme, string) op" where
  "validateAndGetBody res =
     (case snd res of
        Inl _ \<Rightarrow> panic
      | Inr b \<Rightarrow> if fst res \<noteq> 200 then panic else ret b)"

definition getPluginsWithUpdates ::
    "tools \<Rightarrow> (string \<Rightarrow> error + plugin list) \<Rightarrow> ('a shell_scheme, plugin list) op" where
  "getPluginsWithUpdates Q decode =
     bindM (getFromJenkins Q ''updateCenter/coreSource/api/json?tree=updates[name,version]'') (\<lambda>res.
     bindM (validateAndGetBody res) (\<lambda>b.
     PanicOnError (lift (of_sum (decode b)))))"

definition getPluginsFromConfig ::
    "tools \<Rightarrow> (string \<Rightarrow> error + BuildSettings) \<Rightarrow> ('a shell_scheme, plugin list) op" where
  "getPluginsFromConfig Q unmarshal =
     bindM (ReadBuildSettings Q unmarshal) (\<lambda>settings.
     ret (map (\<lambda>p. \<lparr>plugin_Name = p, plugin_Version = ''latest''\<rparr>) (bs_Plugins settings)))"

definition installPlugin :: "tools \<Rightarrow> plugin \<Rightarrow> ('a shell_scheme, unit) op" where
  "installPlugin Q p =
     bindM (postToJenkins Q ''pluginManager/installNecessaryPlugins''
       (Some (''<install plugin='' @ [CHR 0x22] @ plugin_Name p @ ''@'' @ plugin_Version p @ [CHR 0x22] @ '' />''))) (\<lambda>res.
     bindM (validateAndGetBody res) (\<lambda>_. ret ()))"

definition getJenkinsSshUser :: "('a shell_scheme, string) op" where
  "getJenkinsSshUser = EnvOrDefault ''MJ_SSHUSER'' ''ubuntu''"

definition execJenkinsSsh :: "tools \<Rightarrow> string \<Rightarrow> string \<Rightarrow> ('a shell_scheme, unit) op" where
  "execJenkinsSsh Q user command = RunVPanic Q ''ssh'' [user @ ''@'' @ jenkinsSshAddr, command]"

text \<open>The document with the one key \<open>jobs\<close>, a list of one script.\<close>

type_synonym jobsYaml = "(string \<times> (string \<times> string) list list) list"

definition formatJobForYaml :: "string \<Rightarrow> jobsYaml" where
  "formatJobForYaml job = [(''jobs'', [[(''script'', job)]])]"

definition listGroovyFiles :: "tools \<Rightarrow> string \<Rightarrow> ('a shell_scheme, string list) op" where
  "listGroovyFiles Q directory =
     bindM (PanicOnError (tell (q_dir Q) (ReadDirectory directory))) (\<lambda>contents.
     ret (map fst (filter (\<lambda>(name, isDir). \<not> isDir \<and> HasSuffix name ''.groovy'') contents)))"

definition discoverJobs :: "tools \<Rightarrow> ('a shell_scheme, string list) op" where
  "discoverJobs Q = listGroovyFiles Q jobsDir"

definition discoverViews :: "tools \<Rightarrow> ('a shell_scheme, string list) op" where
  "discoverViews Q = listGroovyFiles Q viewsDir"

definition postJobsToJenkins :: "tools \<Rightarrow> (jobsYaml \<Rightarrow> error + string) \<Rightarrow> jobsYaml \<Rightarrow> ('a shell_scheme, unit) op" where
  "postJobsToJenkins Q marshal job =
     bindM (PanicOnError (lift (of_sum (marshal job)))) (\<lambda>yml.
     bindM (postToJenkins Q ''configuration-as-code/apply'' (Some yml)) (\<lambda>res.
     bindM (validateAndGetBody res) (\<lambda>_. ret ())))"

section \<open>Targets\<close>

definition UpdateJcasc :: "tools \<Rightarrow> ('a shell_scheme, unit) op" where
  "UpdateJcasc Q =
     bindM (PanicOnError (tell (q_text Q) (ReadTextFile ''./jenkins/master/masterConfig.yaml''))) (\<lambda>file.
     bindM (postToJenkins Q ''configuration-as-code/apply'' (Some file)) (\<lambda>res.
     bindM (validateAndGetBody res) (\<lambda>_. ret ())))"

definition UpdateConfigFiles :: "tools \<Rightarrow> ('a shell_scheme, unit) op" where
  "UpdateConfigFiles Q =
     bindM (EnsureDir Q jenkinsBuildDir) (\<lambda>_.
     bindM getJenkinsSshUser (\<lambda>sshUser.
     bindM (gets (\<lambda>s. q_time Q (sh_log s) ''2006-01-02T15:04:05Z07:00'')) (\<lambda>now.
     bindM (RunVPanic Q ''scp'' [sshUser @ ''@'' @ jenkinsSshAddr @ '':/etc/default/jenkins'',
       jenkinsBuildDir @ ''/etc-default-jenkins.'' @ now]) (\<lambda>_.
     bindM (RandomHex Q 16) (\<lambda>hex.
     let tmpFile = ''.etc-default-jenkins.mage_tmp_'' @ hex
     in bindM (RunVPanic Q ''scp'' [''./jenkins/master/etc-default-jenkins.conf'',
          sshUser @ ''@'' @ jenkinsSshAddr @ '':'' @ tmpFile]) (\<lambda>_.
        execJenkinsSsh Q sshUser (''sudo mv '' @ tmpFile @ '' /etc/default/jenkins'')))))))"

definition UpdateSystem :: "tools \<Rightarrow> ('a shell_scheme, unit) op" where
  "UpdateSystem Q =
     bindM getJenkinsSshUser (\<lambda>sshUser.
     bindM (execJenkinsSsh Q sshUser ''sudo apt update -q'') (\<lambda>_.
     let noPrompt = Join [''-y'', ''-qq'', ''-o'', ''Dpkg::Options::=--force-confdef'', ''-o'',
         ''Dpkg::Options::=--force-confold''] '' ''
     in execJenkinsSsh Q sshUser (''DEBIAN_FRONTEND=noninteractive sudo apt upgrade '' @ noPrompt)))"

definition InstallPlugins :: "tools \<Rightarrow> (string \<Rightarrow> error + BuildSettings) \<Rightarrow> ('a shell_scheme, unit) op" where
  "InstallPlugins Q unmarshal =
     bindM (getPluginsFromConfig Q unmarshal) (\<lambda>plugins. foldM (\<lambda>_ p. installPlugin Q p) () plugins)"

definition UpdatePlugins :: "tools \<Rightarrow> (string \<Rightarrow> error + plugin list) \<Rightarrow> ('a shell_scheme, unit) op" where
  "UpdatePlugins Q decode =
     bindM (getPluginsWithUpdates Q decode) (\<lambda>plugins. foldM (\<lambda>_ p. installPlugin Q p) () plugins)"

definition postScripts ::
    "tools \<Rightarrow> (jobsYaml \<Rightarrow> error + string) \<Rightarrow> string \<Rightarrow> string list \<Rightarrow> ('a shell_scheme, unit) op" where
  "postScripts Q marshal dir names =
     foldM (\<lambda>_ name.
       bindM (PanicOnError (tell (q_text Q) (ReadTextFile (dir @ ''/'' @ name)))) (\<lambda>script.
       postJobsToJenkins Q marshal (formatJobForYaml script))) () names"

definition UpdateJobs :: "tools \<Rightarrow> (jobsYaml \<Rightarrow> error + string) \<Rightarrow> ('a shell_scheme, unit) op" where
  "UpdateJobs Q marshal = bindM (discoverJobs Q) (\<lambda>jobs. postScripts Q marshal jobsDir jobs)"

definition UpdateViews :: "tools \<Rightarrow> (jobsYaml \<Rightarrow> error + string) \<Rightarrow> ('a shell_scheme, unit) op" where
  "UpdateViews Q marshal = bindM (discoverViews Q) (\<lambda>views. postScripts Q marshal viewsDir views)"

text \<open>The answer of a restart is not looked at.\<close>

definition Restart :: "tools \<Rightarrow> ('a shell_scheme, unit) op" where
  "Restart Q = bindM (postToJenkins Q ''safeRestart'' None) (\<lambda>_. ret ())"

definition jenkinsClean :: "tools \<Rightarrow> ('a shell_scheme, unit) op" where
  "jenkinsClean Q = ignoring (tell (q_unit Q) (RemoveTree jenkinsBuildDir))"

definition UpdateAll ::
    "tools \<Rightarrow> (jobsYaml \<Rightarrow> error + string) \<Rightarrow> (string \<Rightarrow> error + BuildSettings) \<Rightarrow> (string \<Rightarrow> error + plugin list)
      \<Rightarrow> ('a shell_scheme, unit) op" where
  "UpdateAll Q marshal unmarshal decode =
     bindM (Deps ''jenkins.UpdateConfigFiles'' (UpdateConfigFiles Q)) (\<lambda>_.
     bindM (Deps ''jenkins.UpdateSystem'' (UpdateSystem Q)) (\<lambda>_.
     bindM (Deps ''jenkins.UpdateJcasc'' (UpdateJcasc Q)) (\<lambda>_.
     bindM (Deps ''jenkins.UpdateJobs'' (UpdateJobs Q marshal)) (\<lambda>_.
     bindM (Deps ''jenkins.UpdateViews'' (UpdateViews Q marshal)) (\<lambda>_.
     bindM (Deps ''jenkins.InstallPlugins'' (InstallPlugins Q unmarshal)) (\<lambda>_.
     Deps ''jenkins.UpdatePlugins'' (UpdatePlugins Q decode)))))))"

text \<open>The target of \<open>magefile.go\<close>.\<close>

definition mageClean :: "tools \<Rightarrow> ('a shell_scheme, unit) op" where
  "mageClean Q =
     bindM (Deps ''operator.Clean'' (buildsClean Q)) (\<lambda>_.
     Deps ''jenkins.Clean'' (jenkinsClean Q))"

end
