(* ===== verification/Tooling.thy ===== *)
theory Tooling
  imports ClusterTargets JenkinsMaster
begin

text \<open>
  Properties of the build and test tooling: the changes of the generated resource definition, what
  the waits of the integration tests look at, the retries of the cluster creation, and the kinds of
  test suites.
\<close>

section \<open>The generated resource definition\<close>

lemma mapAt_append: "mapAt m (p @ q) = Option.bind (mapAt m p) (\<lambda>n. mapAt n q)"
  by (induction m p rule: mapAt.induct) (auto split: option.splits yaml.splits)

lemma mapAt_changeAt_prefix: "mapAt d p = Some m \<Longrightarrow> mapAt (changeAt f d (p @ q)) p = Some (changeAt f m q)"
  by (induction d p rule: mapAt.induct) (auto simp: map_of_assocSet split: option.splits yaml.splits)

lemma changeAt_other: "k' \<noteq> k \<Longrightarrow> map_of (changeAt f m (k # ks)) k' = map_of m k'"
  by (auto simp: map_of_assocSet split: option.splits yaml.splits)

text \<open>A walk without an error has followed the path, and a path to a map can be walked.\<close>

lemma walkAll_Return:
  assumes "mapAt (y_doc y) (y_path y) \<noteq> None" "walkAll y ks = Return y'" "y_err y' = None"
  shows "y_err y = None \<and> y' = y\<lparr>y_path := y_path y @ ks\<rparr> \<and> mapAt (y_doc y) (y_path y @ ks) \<noteq> None"
  using assms
proof (induction ks arbitrary: y)
  case (Cons k ks)
  have stuck: "walkAll z ls = Return z' \<Longrightarrow> y_err z \<noteq> None \<Longrightarrow> z' = z" for z ls z'
    by (induction ls) (auto simp: walk_def)
  obtain m where m: "mapAt (y_doc y) (y_path y) = Some m" using Cons.prems(1) by blast
  obtain z where z: "walk y k = Return z" "walkAll z ks = Return y'"
    using Cons.prems(2) by (auto simp: obind_eq_Return_iff)
  have ok: "y_err z = None" using stuck [OF z(2)] Cons.prems(3) by blast
  then have err: "y_err y = None" using z(1) by (auto simp: walk_def split: if_splits)
  then obtain n where n: "map_of m k = Some (YMap n)" "z = y\<lparr>y_path := y_path y @ [k]\<rparr>"
    using z(1) ok m by (auto simp: walk_def current_def split: option.splits yaml.splits)
  then have "mapAt (y_doc z) (y_path z) \<noteq> None" using m by (simp add: mapAt_append)
  from Cons.IH [OF this z(2) Cons.prems(3)] n(2) err show ?case by simp
qed simp

lemma walkAll_path:
  "y_err y = None \<Longrightarrow> mapAt (y_doc y) (y_path y @ ks) \<noteq> None \<Longrightarrow> walkAll y ks = Return (y\<lparr>y_path := y_path y @ ks\<rparr>)"
proof (induction ks arbitrary: y)
  case (Cons k ks)
  obtain m n where "mapAt (y_doc y) (y_path y) = Some m" "map_of m k = Some (YMap n)"
    using Cons.prems(2) by (auto simp: mapAt_append split: option.splits yaml.splits bind_splits)
  then have "walk y k = Return (y\<lparr>y_path := y_path y @ [k]\<rparr>)" using Cons.prems(1) by (simp add: walk_def current_def)
  then show ?case using Cons.IH [of "y\<lparr>y_path := y_path y @ [k]\<rparr>"] Cons.prems by simp
qed simp

abbreviation schemaPath :: "string list" where
  "schemaPath \<equiv> [''spec'', ''validation'', ''openAPIV3Schema'']"

abbreviation propertiesPath :: "string list" where
  "propertiesPath \<equiv> [''spec'', ''validation'', ''openAPIV3Schema'', ''properties'', ''spec'', ''properties'']"

abbreviation preserveKey :: string where
  "preserveKey \<equiv> ''x-kubernetes-preserve-unknown-fields''"

text \<open>What each of the two changes does to a document whose path it can walk.\<close>

lemma ensurePreserveUnknownFields_Return:
  assumes "ensurePreserveUnknownFields d = Return w" "y_err w = None"
  obtains m where "mapAt d schemaPath = Some m" "y_editsMade w \<longleftrightarrow> map_of m preserveKey \<noteq> Some (YBool True)"
    "y_doc w = (if y_editsMade w then changeAt (assocSet preserveKey (YBool True)) d schemaPath else d)"
proof -
  obtain y where y: "walkAll (newWalker d) schemaPath = Return y"
    and w: "w = (if yamlGet y preserveKey \<noteq> Some (YBool True) then yamlUpdate y preserveKey (YBool True) else y)"
    using assms(1) by (auto simp: ensurePreserveUnknownFields_def obind_eq_Return_iff Let_def simp del: walkAll.simps)
  have "y_err y = None" using w assms(2) by (auto simp: yamlUpdate_def split: if_splits)
  with walkAll_Return [OF _ y] have "y = (newWalker d)\<lparr>y_path := schemaPath\<rparr>" "mapAt d schemaPath \<noteq> None"
    by (simp_all add: newWalker_def del: mapAt.simps(2))
  then obtain m where "mapAt d schemaPath = Some m" "current y = m" "y = (newWalker d)\<lparr>y_path := schemaPath\<rparr>"
    by (auto simp: current_def newWalker_def simp del: mapAt.simps(2))
  then show thesis using w by (intro that [of m]) (auto simp: yamlGet_def yamlUpdate_def newWalker_def simp del: changeAt.simps(2))
qed

lemma removeConfigSection_Return:
  assumes "removeConfigSection d = Return w" "y_err w = None"
  obtains m where "mapAt d propertiesPath = Some m" "y_editsMade w \<longleftrightarrow> map_of m ''config'' \<noteq> None"
    "y_doc w = (if y_editsMade w then changeAt (assocDrop ''config'') d propertiesPath else d)"
proof -
  obtain y where y: "walkAll (newWalker d) propertiesPath = Return y"
    and w: "w = (if yamlGet y ''config'' \<noteq> None then yamlRemove y ''config'' else y)"
    using assms(1) by (auto simp: removeConfigSection_def obind_eq_Return_iff simp del: walkAll.simps)
  have "y_err y = None" using w assms(2) by (auto simp: yamlRemove_def split: if_splits)
  with walkAll_Return [OF _ y] have "y = (newWalker d)\<lparr>y_path := propertiesPath\<rparr>" "mapAt d propertiesPath \<noteq> None"
    by (simp_all add: newWalker_def del: mapAt.simps(2))
  then obtain m where "mapAt d propertiesPath = Some m" "current y = m" "y = (newWalker d)\<lparr>y_path := propertiesPath\<rparr>"
    by (auto simp: current_def newWalker_def simp del: mapAt.simps(2))
  then show thesis using w by (intro that [of m]) (auto simp: yamlGet_def yamlRemove_def newWalker_def simp del: changeAt.simps(2))
qed

text \<open>A document with the flag and without the section is left as it is.\<close>

lemma processedCrd_fixed:
  assumes "mapAt d schemaPath = Some m" "map_of m preserveKey = Some (YBool True)"
    "mapAt d propertiesPath = Some n" "map_of n ''config'' = None"
  shows "processedCrd d = Return (d, False)"
proof -
  have "walkAll (newWalker d) schemaPath = Return ((newWalker d)\<lparr>y_path := schemaPath\<rparr>)"
    using walkAll_path [of "newWalker d" schemaPath] assms(1) by (simp add: newWalker_def del: mapAt.simps(2) walkAll.simps)
  moreover have "walkAll (newWalker d) propertiesPath = Return ((newWalker d)\<lparr>y_path := propertiesPath\<rparr>)"
    using walkAll_path [of "newWalker d" propertiesPath] assms(3) by (simp add: newWalker_def del: mapAt.simps(2) walkAll.simps)
  ultimately show ?thesis
    using assms by (simp add: processedCrd_def ensurePreserveUnknownFields_def removeConfigSection_def Let_def yamlGet_def
        current_def newWalker_def del: mapAt.simps(2) walkAll.simps)
qed

text \<open>
  C30. The processing of the generated resource definition is stable: when it succeeds, the schema
  of the result preserves unknown fields and the specification has no section for the
  configuration, it reports a change whenever it makes one, and processing the result again
  changes nothing and reports no change.
\<close>

theorem processed_crd_stable:
  assumes "processedCrd data = Return (doc, edited)"
  shows "\<exists>m n. mapAt doc [''spec'', ''validation'', ''openAPIV3Schema''] = Some m
    \<and> map_of m ''x-kubernetes-preserve-unknown-fields'' = Some (YBool True)
    \<and> mapAt doc [''spec'', ''validation'', ''openAPIV3Schema'', ''properties'', ''spec'', ''properties''] = Some n
    \<and> map_of n ''config'' = None
    \<and> (\<not> edited \<longrightarrow> doc = data) \<and> processedCrd doc = Return (doc, False)"
proof -
  obtain w1 w2 where w1: "ensurePreserveUnknownFields data = Return w1" "y_err w1 = None"
    and w2: "removeConfigSection (y_doc w1) = Return w2" "y_err w2 = None"
    and doc: "doc = y_doc w2" "edited \<longleftrightarrow> y_editsMade w1 \<or> y_editsMade w2"
    using assms by (auto simp: processedCrd_def obind_eq_Return_iff split: if_splits)
  obtain m0 where m0: "mapAt data schemaPath = Some m0" "y_editsMade w1 \<longleftrightarrow> map_of m0 preserveKey \<noteq> Some (YBool True)"
    "y_doc w1 = (if y_editsMade w1 then changeAt (assocSet preserveKey (YBool True)) data schemaPath else data)"
    using w1 by (rule ensurePreserveUnknownFields_Return)
  obtain n0 where n0: "mapAt (y_doc w1) propertiesPath = Some n0" "y_editsMade w2 \<longleftrightarrow> map_of n0 ''config'' \<noteq> None"
    "doc = (if y_editsMade w2 then changeAt (assocDrop ''config'') (y_doc w1) propertiesPath else y_doc w1)"
    using w2 doc(1) by (metis removeConfigSection_Return)
  obtain m1 where m1: "mapAt (y_doc w1) schemaPath = Some m1" "map_of m1 preserveKey = Some (YBool True)"
    using m0 mapAt_changeAt [OF m0(1)] by (metis map_of_assocSet)
  obtain m2 where m2: "mapAt doc schemaPath = Some m2" "map_of m2 preserveKey = Some (YBool True)"
    using m1 n0(3) mapAt_changeAt_prefix [OF m1(1), of "assocDrop ''config''" "[''properties'', ''spec'', ''properties'']"]
      changeAt_other [of preserveKey "''properties''" "assocDrop ''config''" m1 "[''spec'', ''properties'']"]
    by (cases "y_editsMade w2") (auto simp del: mapAt.simps changeAt.simps)
  obtain n2 where n2: "mapAt doc propertiesPath = Some n2" "map_of n2 ''config'' = None"
    using n0 mapAt_changeAt [OF n0(1), of "assocDrop ''config''"] by (metis map_of_assocDrop)
  have "\<not> edited \<longrightarrow> doc = data" using doc(2) n0(3) m0(3) by simp
  with m2 n2 processedCrd_fixed [OF m2 n2] show ?thesis by blast
qed

definition sampleCrd :: "(string \<times> yaml) list" where
  "sampleCrd = [(''spec'', YMap [(''validation'', YMap [(''openAPIV3Schema'', YMap [(''properties'',
     YMap [(''spec'', YMap [(''properties'', YMap [(''config'', YOther ''object''), (''size'', YOther ''int'')])])])])])])]"

theorem processed_crd_stable_witness:
  "\<exists>doc. processedCrd sampleCrd = Return (doc, True) \<and> doc \<noteq> sampleCrd \<and> processedCrd doc = Return (doc, False)"
proof -
  have "case processedCrd sampleCrd of Return (doc, edited) \<Rightarrow> edited \<and> doc \<noteq> sampleCrd | _ \<Rightarrow> False" by code_simp
  then obtain doc where "processedCrd sampleCrd = Return (doc, True)" "doc \<noteq> sampleCrd"
    by (auto split: outcome.splits prod.splits)
  with processed_crd_stable [OF this(1)] show ?thesis by blast
qed

section \<open>Waits of the integration tests\<close>

text \<open>
  C40. The step that should verify that a pod is no longer marked as started looks at nothing: it
  waits for an empty output, which the output before the first run of the command is. Whatever the
  state of the cluster, its only calls are those that dump the logs.
\<close>

theorem pod_not_started_unchecked:
  "\<exists>dir. sh_log (snd (WaitForPodNotStarted Q polls podName s)) = sh_log s @ [MakeDirAll dir,
    RunCmd ToTerminal (Inherit None) ''kubectl''
      (kcmd_ToCliArgs Q (dumpCmd [''dump'', ''-n'', ns_Namespace s] dir)) None]"
  using loggingStep_log [of s "ns_WaitForOutput Q polls k [] 60" "[]" for k]
  by (simp add: WaitForPodNotStarted_def WaitForOutputAndLog_def ns_WaitForOutput_def inNs_def WaitForOutput_def
      waitForOutputPattern_empty rc_sh)

section \<open>Retries\<close>

text \<open>
  A creation that is retried either succeeds, or panics after as many failed runs as there are
  retries.
\<close>

lemma retrying_fails:
  assumes "\<And>u. \<exists>e. m u = (Fail e, f u)" "0 < n"
  shows "retrying n err m s = (Panic, (f ^^ n) s)"
  using assms(2)
proof (induction n arbitrary: s err)
  case (Suc n)
  obtain e where "m s = (Fail e, f s)" using assms(1) by blast
  then have "retrying (Suc n) err m s = retrying n (Some e) m (f s)" by (simp add: rc_sh)
  with Suc.IH show ?case by (cases n) (simp_all add: op_simps funpow_swap1)
qed simp

lemma retrying_not_Fail: "(\<And>u t. m u \<noteq> (Panic, t)) \<Longrightarrow> retrying n err m s \<noteq> (Fail e, t)"
  by (induction n arbitrary: s err) (auto simp: rc_sh split: option.splits prod.splits outcome.splits)

section \<open>Kinds of test suites\<close>

text \<open>
  A suite whose name mentions no server is one for Cassandra; the unit test of the function expects
  one for DSE.
\<close>

lemma getTestType_plain: "getTestType ''some_test'' = OSS" "getTestType ''some_test_ubi'' = UBI_OSS"
  by code_simp+

end
