(* ===== verification/Spec2Isabelle.thy ===== *)
theory Spec2Isabelle
  imports Failures Encodings Certificates Tooling
begin

text \<open>
  A verification development of cass-operator, the Kubernetes operator for Apache Cassandra
  and DSE (Go sources under \<open>src/operator\<close>), and of its build and test tooling (\<open>src/mage\<close>).

  \<^bold>\<open>The program.\<close> The operator keeps the objects of a cluster (stateful sets, services, secrets,
  pods) and the Cassandra nodes in the pods in accordance with a custom resource, the
  \<open>CassandraDatacenter\<close>. The controller calls \<open>Reconcile\<close> (\<open>pkg/reconciliation/handler.go\<close>) for a
  datacenter whenever something it watches changes. One such \<^emph>\<open>pass\<close> reads the datacenter and its
  pods, runs a fixed sequence of steps, each of which may end the pass, and writes what differs. Nodes
  are started, drained and decommissioned through an HTTP management API in the pods. A validating
  webhook decides which datacenters and which changes of them are admitted. The process of the
  operator (\<open>cmd/manager/main.go\<close>) becomes the leader, renews the certificate of the webhook when it
  has to, registers the controller with its watches and the webhook, and starts the manager. The
  targets of \<open>mage\<close> build images, set up test clusters and run the integration tests.

  \<^bold>\<open>How the code is modelled.\<close> A method of the reconciliation context is an operation
  \<open>('s, 'a) op\<close> that takes the state to an outcome (\<open>Return\<close>, \<open>Fail\<close> with an error, \<open>Panic\<close>) and a
  new state; the combinators of \<open>Prelude\<close> are the sequencing, error handling and loops of Go. The
  state \<open>world\<close> (\<open>Cluster\<close>) is the Go struct \<open>ReconciliationContext\<close>: pods and stateful sets are shared
  through pointers there, so the model keeps them in a store and passes indices. Every call to the
  API server or to a pod is appended to a log. The answers come from a record \<open>env\<close> of functions of
  the history and the call, so that a theorem that does not restrict \<open>env\<close> holds whatever the
  cluster answers. The clock, random bytes, JSON, YAML, X.509, the hash function and the order in which Go iterates
  over a map are further fields of \<open>env\<close>. The start of the process and the tooling are modelled in the
  same way over states of their own, \<open>boot\<close> with the answers \<open>bootenv\<close> (\<open>AdmissionWebhook\<close>) and \<open>shell\<close>
  with the answers \<open>tools\<close> (\<open>Shell\<close>).

  \<^bold>\<open>The theories of the model.\<close>
    \<^item> \<open>Prelude\<close>, \<open>GoLib\<close>, \<open>Objects\<close>, \<open>Utilities\<close>: operations and outcomes; nil-able maps, strings and
      32-bit conversion of Go; the Kubernetes objects; \<open>pkg/utils\<close> and \<open>pkg/oplabels\<close>.
    \<^item> \<open>Datacenter\<close>, \<open>Images\<close>, \<open>Webhook\<close>: \<open>cassandradatacenter_types.go\<close>, \<open>pkg/images\<close>, \<open>webhook.go\<close>.
    \<^item> \<open>Cluster\<close>, \<open>Effects\<close>, \<open>Results\<close>: the state and the calls; the rules on what an operation may call; the
      results of steps (\<open>internal/result\<close>).
    \<^item> \<open>NodeMgmt\<close>, \<open>Security\<close>: \<open>pkg/httphelper/client.go\<close> and \<open>security.go\<close>.
    \<^item> \<open>RackInfo\<close>, \<open>PodState\<close>, \<open>PodsReady\<close>, \<open>Status\<close>, \<open>Racks\<close>: \<open>reconcile_racks.go\<close> and its helpers, in
      the groups of functions that belong together; \<open>ReconcileAllRacks\<close> composes them in the order of the code.
    \<^item> \<open>Decommission\<close>, \<open>CheckNodes\<close>, \<open>Emm\<close>: \<open>decommission_node.go\<close>, \<open>check_nodes.go\<close>, and the maintenance
      mode of \<open>pkg/psp/emm.go\<close> over the interface \<open>EMMSPI\<close>.
    \<^item> \<open>ConfigGen\<close>, \<open>Construct\<close>, \<open>Services\<close>, \<open>Secrets\<close>, \<open>Watch\<close>, \<open>PspStatus\<close>: \<open>pkg/serverconfig\<close>; the
      construction of pod templates, stateful sets and the disruption budget; services and endpoints; secrets;
      \<open>pkg/dynamicwatch\<close>; health data and network policies of \<open>pkg/psp\<close>.
    \<^item> \<open>Handler\<close>: \<open>handler.go\<close>, \<open>reconcile_datacenter.go\<close>, \<open>context.go\<close> and the controller's maps and predicates.
    \<^item> \<open>Crypto\<close>, \<open>GoOs\<close>, \<open>AdmissionWebhook\<close>, \<open>Manager\<close>: \<open>pkg/utils/crypto.go\<close>; paths, truth values and
      standard base64 of Go; \<open>pkg/admissionwebhook\<close>; \<open>cmd/manager/main.go\<close> and \<open>pkg/controller\<close>.
    \<^item> \<open>Shell\<close>, \<open>Kubectl\<close>, \<open>Docker\<close>, \<open>Versions\<close>, \<open>Builds\<close>, \<open>TestClusters\<close>, \<open>ClusterTargets\<close>, \<open>JenkinsMaster\<close>:
      \<open>mage/sh\<close> and \<open>util\<close>; \<open>kubectl\<close>; \<open>docker\<close>; \<open>config\<close> and \<open>git\<close>; \<open>operator\<close>; \<open>kind\<close>, \<open>k3d\<close>, \<open>gcloud\<close>,
      \<open>helm\<close>, \<open>integ-tests\<close> and \<open>linting\<close>; \<open>ginkgo\<close> and \<open>k8s\<close>; \<open>jenkins\<close>.

  \<^bold>\<open>The interfaces.\<close> Four locales state what one component promises to another, each interpreted on the
  definitions of the model: \<open>rack_split\<close> (the split of nodes over racks, used by the webhook and the
  rack information), \<open>emm_spi\<close> (what the maintenance mode may rely on of \<open>check_nodes.go\<close>),
  \<open>watch_record\<close> (the list of watchers kept in an annotation) and \<open>keyed_record\<close> (one entry per key,
  interpreted on the conditions, on the change of condition statuses, and on the health data).

  \<^bold>\<open>What is shown.\<close>
    \<^item> \<open>Steps\<close>, \<open>Passes\<close>: a whole \<open>Reconcile\<close> starts or decommissions at most one node, and only reads
      while it waits; \<open>Controller\<close>: the node map over all histories, the order of a deletion, the predicate on taints.
    \<^item> \<open>Seeds\<close>, \<open>Rollout\<close>: seeds, balance of the racks, replacement of nodes, when the pass goes on past the
      start of nodes, and what an evacuation removes.
    \<^item> \<open>Scaling\<close>, \<open>Upgrades\<close>: scaling up only raises replicas, scaling down does not stop early, the check for the
      controller of the stateful sets never waits, a template change keeps the replicas of the one rack whose set
      it updates, and a rolling restart terminates.
    \<^item> \<open>Manifests\<close>: a stateful set selects its own pods, services settle, names are legal and different, the disruption
      budget spares one pod.
    \<^item> \<open>Encodings\<close>, \<open>Records\<close>, \<open>Failures\<close>: passwords, watchers, conditions, health data, role requests; and
      the paths on which the code ends in an error or a panic, or does not do what it means to.
    \<^item> \<open>Startup\<close>, \<open>Certificates\<close>: what has been registered when the manager starts; that a renewed certificate of
      the webhook is kept by the next start; that the key store for the nodes trusts the stored authority.
    \<^item> \<open>Tooling\<close>: the processing of the resource definition is stable; a wait of the integration tests that
      checks nothing; retries.
    \<^item> This theory: what the webhook accepts keeps the racks and can be built.

  \<^bold>\<open>Witnesses and bounds.\<close> \<open>Samples\<close> and the definitions next to the witnesses are concrete datacenters and
  environments. Numbers of nodes are integers; where the code converts to \<open>int32\<close>, so does the
  model, and theorems that need it assume sizes below \<open>2 ^ 31\<close>. The loops of the operator are over
  finite lists, so its definitions are total functions and no fuel is used; that a restart needs
  finitely many passes is a theorem about the relation \<open>restarted\<close>. Of the tooling, the creation of a
  cluster is tried five times, as in the code, and a wait runs its command until a timer ends: how often that
  is, is the parameter \<open>polls\<close>, a function of the seconds, over which the theorem on waits is general.
  What the theorems on certificates rely on of the libraries are the hypotheses \<open>decodes\<close>,
  \<open>certificateLaws\<close> and \<open>nestedLaws\<close>; what some theorems rely on of the API server are hypotheses such as
  \<open>storesPodPatches\<close>, \<open>servesSecrets\<close> and \<open>refusesToRecreate\<close>. The witnesses have a concrete instance of each.

  \<^bold>\<open>Not modelled.\<close> Logging and output to the terminal; the recorder of events, which also logs
  (\<open>pkg/events\<close>: an event is a call in the log of the model); the registration of types with a scheme, one
  call of the start; generated code (deep copies, which are the identity here, the OpenAPI schema, the client
  set); mocks and test support; four helpers of \<open>mage/ginkgo\<close> that decode output for assertions; \<open>SearchMap\<close>
  of \<open>pkg/utils\<close>, which only tests use, while the generic filters there are the filter of HOL. Libraries
  (Kubernetes clients, cryptography, JSON, YAML, the controller library) are parameters. Two passes at the same
  time for one datacenter do not occur: the controller runs one worker per key. Objects that other programs change between two calls of a pass are covered by the arbitrary answers of \<open>env\<close>.
\<close>

section \<open>The webhook and the split of the nodes\<close>

text \<open>
  C2. An update that adds racks and that the webhook accepts never shrinks an existing rack:
  each rack that existed keeps its place, its name and its zone, and the number of nodes the
  operator will ask for in it does not decrease.
\<close>

theorem accepted_rack_addition_keeps_racks:
  assumes accepted: "ValidateDatacenterFieldChanges oldDc newDc = Return ()"
    and sizes: "0 \<le> Size (Spec oldDc)" "Size (Spec oldDc) < 2 ^ 31"
      "0 \<le> Size (Spec newDc)" "Size (Spec newDc) < 2 ^ 31"
    and added: "length (GetRacks oldDc) < length (GetRacks newDc)"
  shows "\<exists>t t'. SplitRacks (Size (Spec oldDc)) (int (length (GetRacks oldDc))) = Return t
    \<and> SplitRacks (Size (Spec newDc)) (int (length (GetRacks newDc))) = Return t'
    \<and> (\<forall>i<length (GetRacks oldDc).
         rack_Name (GetRacks newDc ! i) = rack_Name (GetRacks oldDc ! i)
       \<and> rack_Zone (GetRacks newDc ! i) = rack_Zone (GetRacks oldDc ! i)
       \<and> t ! i \<le> t' ! i)"
proof -
  let ?r = "int (length (GetRacks oldDc))" and ?r' = "int (length (GetRacks newDc))"
  obtain t where t: "SplitRacks (Size (Spec oldDc)) ?r = Return t"
    using sr.split_total [OF sizes(1) GetRacks_length_pos] by blast
  obtain t' where t': "SplitRacks (Size (Spec newDc)) ?r' = Return t'"
    using sr.split_total [OF sizes(3) GetRacks_length_pos] by blast
  have new: "checkNewRacks oldDc newDc = Return ()"
    and same: "checkRackChanges (GetRacks oldDc) (GetRacks newDc) = Return ()"
    using accepted by (simp_all add: ValidateDatacenterFieldChanges_Return)
  have "int32 (Size (Spec newDc) - Size (Spec oldDc)) = Size (Spec newDc) - Size (Spec oldDc)"
    using sizes by simp
  with checkNewRacks_Return(2) [OF new sizes(1) added t]
  have enough: "Size (Spec oldDc) + last t * (?r' - ?r) \<le> Size (Spec newDc)" by simp
  have len: "length t = length (GetRacks oldDc)"
    using sr.split_length [OF sizes(1) GetRacks_length_pos t] by simp
  have "t ! i \<le> t' ! i" if "i < length t" for i
    using sr.split_add_racks [OF sizes(1) GetRacks_length_pos _ t _ enough that] t' added by simp
  with t t' same len show ?thesis by (auto simp: checkRackChanges_Return)
qed

theorem accepted_rack_addition_keeps_racks_witness:
  "ValidateDatacenterFieldChanges sampleDc sampleGrownDc = Return () \<and>
   (\<exists>t t'. SplitRacks (Size (Spec sampleDc)) (int (length (GetRacks sampleDc))) = Return t
    \<and> SplitRacks (Size (Spec sampleGrownDc)) (int (length (GetRacks sampleGrownDc))) = Return t'
    \<and> (\<forall>i<length (GetRacks sampleDc).
         rack_Name (GetRacks sampleGrownDc ! i) = rack_Name (GetRacks sampleDc ! i)
       \<and> rack_Zone (GetRacks sampleGrownDc ! i) = rack_Zone (GetRacks sampleDc ! i)
       \<and> t ! i \<le> t' ! i))"
proof -
  have "ValidateDatacenterFieldChanges sampleDc sampleGrownDc = Return ()"
    by (simp add: ValidateDatacenterFieldChanges_def checkNewRacks_def SplitRacks_eq GetRacks_def
        sample_defs upt_rec)
  then show ?thesis
    by (intro conjI accepted_rack_addition_keeps_racks) (simp_all add: GetRacks_def sample_defs)
qed

section \<open>The webhook and the construction of stateful sets\<close>

lemma rackNodeAffinitylabels_Return:
  obtains aff racks where "rackNodeAffinitylabels dc rack = (Return aff, dc\<lparr>Spec := (Spec dc)\<lparr>Racks := racks\<rparr>\<rparr>)"
proof -
  obtain r dc' where run: "rackNodeAffinitylabels dc rack = (r, dc')" by fastforce
  then have "\<exists>aff. r = Return aff"
    unfolding rackNodeAffinitylabels_def emptyMapIfNil_eq MergeMap_Some Let_def by (auto split: option.splits)
  then obtain aff where r: "r = Return aff" ..
  have dc': "dc' = dc \<or> (\<exists>racks. dc' = dc\<lparr>Spec := (Spec dc)\<lparr>Racks := racks\<rparr>\<rparr>)"
    using run unfolding rackNodeAffinitylabels_def Let_def by (auto split: option.splits outcome.splits)
  have "dc = dc\<lparr>Spec := (Spec dc)\<lparr>Racks := Racks (Spec dc)\<rparr>\<rparr>" by simp
  with dc' obtain racks where "dc' = dc\<lparr>Spec := (Spec dc)\<lparr>Racks := racks\<rparr>\<rparr>" by metis
  with run r show thesis using that by simp
qed

lemma modelOf_racks: "modelOf (dc\<lparr>Spec := (Spec dc)\<lparr>Racks := racks\<rparr>\<rparr>) = modelOf dc"
  by (simp add: modelOf_def GetSeedServiceName_def GetAdditionalSeedsServiceName_def cong: option.case_cong)

lemma getConfigDataEnVars_racks:
  "getConfigDataEnVars E (dc\<lparr>Spec := (Spec dc)\<lparr>Racks := racks\<rparr>\<rparr>) = getConfigDataEnVars E dc"
  by (simp add: getConfigDataEnVars_def getDatacenterConfigSecretName_def GetConfigAsJSON_def modelOf_racks
    cong: option.case_cong)

lemma accepted_image:
  assumes "ValidateSingleDatacenter unmarshal dc = Return ()" "ServerType (Spec dc) \<in> {''dse'', ''cassandra''}"
  shows "\<exists>img. makeImage E dc = Return img"
proof -
  have "IsDseVersionSupported (ServerVersion (Spec dc))" if "ServerType (Spec dc) = ''dse''"
    by (rule ccontr) (use assms(1) that in \<open>simp add: ValidateSingleDatacenter_def Let_def\<close>)
  moreover have "IsOssVersionSupported (ServerVersion (Spec dc))" if "ServerType (Spec dc) = ''cassandra''"
    by (rule ccontr) (use assms(1) that in \<open>simp add: ValidateSingleDatacenter_def Let_def split: if_split_asm\<close>)
  ultimately have "\<exists>img. GetCassandraImage (e_getenv E) (ServerType (Spec dc)) (ServerVersion (Spec dc)) = Return img"
    using assms(2) unfolding GetCassandraImage_supported by auto
  then show ?thesis unfolding makeImage_def by auto
qed

lemma buildContainers_total:
  assumes "makeImage E dc = Return img" "BuildManagmenetApiSecurityProvider dc = Return provider"
  shows "\<exists>t'. buildContainers E dc t = Return t'"
proof -
  obtain ports where "GetContainerPorts dc = Return ports"
    by (cases "DseWorkloads (Spec dc)") (simp_all add: GetContainerPorts_def Let_def)
  then have "\<exists>c'. cassandraContainer E dc c = Return c'" for c
    using assms by (auto simp: cassandraContainer_def GetMgmtApiWgetPostAction_def Let_def split: option.splits)
  then show ?thesis unfolding buildContainers_def Let_def obind_eq_Return_iff by blast
qed

lemma buildPodTemplateSpec_total:
  assumes "makeImage E dc = Return img" "BuildManagmenetApiSecurityProvider dc = Return provider"
    "getConfigDataEnVars E dc = Return vars"
  shows "\<exists>t. buildPodTemplateSpec E dc aff rack = Return t"
proof -
  have "\<exists>t'. buildInitContainers E dc rack t = Return t'" for t
    using assms(3) by (auto simp: buildInitContainers_def Let_def split: option.splits)
  moreover note buildContainers_total [OF assms(1,2)]
  ultimately show ?thesis
    unfolding buildPodTemplateSpec_def AddManagedByLabel_def GetRackLabels_eq mput_Some obind_simps
      emptyMapIfNil_eq MergeMap_Some obind_eq_Return_iff by blast
qed

lemma AddServerSecurity_total:
  "AddManagementApiServerSecurity dc t \<noteq> Panic"
  by (cases "BuildManagmenetApiSecurityProvider dc")
    (auto simp: AddManagementApiServerSecurity_def BuildManagmenetApiSecurityProvider_cases
      split: option.splits if_splits)

lemma buildStatefulSet_total:
  assumes "buildPodTemplateSpec E dc aff rack = Return t"
    "CassandraDataVolumeClaimSpec (StorageConfig (Spec dc)) = Some claim"
  shows "\<exists>sts. buildStatefulSet E rack dc n defunct aff = Return sts"
proof -
  obtain t1 where t1: "(if mlen (NodeSelector (Spec dc)) > 0
      then obind (MergeMap (Some fmempty) [NodeSelector (Spec dc)]) (\<lambda>ns. Return (t\<lparr>ts_NodeSelector := ns\<rparr>))
      else Return t) = Return t1"
    unfolding MergeMap_Some by (cases "mlen (NodeSelector (Spec dc)) > 0") auto
  obtain t2 where "(case AddManagementApiServerSecurity dc t1 of Fail _ \<Rightarrow> Return t1 | r \<Rightarrow> r) = Return t2"
    using AddServerSecurity_total [of dc t1] by (cases "AddManagementApiServerSecurity dc t1") auto
  with t1 assms show ?thesis
    unfolding buildStatefulSet_def AddDefunctManagedByLabel_def AddManagedByLabel_def GetRackLabels_eq
    by (simp del: MergeMap.simps add: Let_def)
qed

text \<open>
  C5. A datacenter that the webhook accepts can be built: if its server type is one of the two
  of the resource definition, it has a data volume, it does not ask for two ways to secure the
  management API, and its configuration can be rendered, then the construction of the stateful
  set of any rack returns one, without an error and without a panic, for any pod template.
\<close>

theorem accepted_datacenter_builds:
  assumes "ValidateSingleDatacenter unmarshal dc = Return ()" "ServerType (Spec dc) \<in> {''dse'', ''cassandra''}"
    "CassandraDataVolumeClaimSpec (StorageConfig (Spec dc)) \<noteq> None"
    "Manual (ManagementApiAuth (Spec dc)) = None \<or> Insecure (ManagementApiAuth (Spec dc)) = False"
    "getConfigDataEnVars E dc = Return vars"
  shows "\<exists>sts. fst (newStatefulSetForCassandraDatacenterHelper E rack dc n defunct) = Return sts"
proof -
  obtain claim where claim: "CassandraDataVolumeClaimSpec (StorageConfig (Spec dc)) = Some claim" using assms(3) by blast
  obtain img where img: "makeImage E dc = Return img" using accepted_image [OF assms(1,2)] by blast
  obtain provider where provider: "BuildManagmenetApiSecurityProvider dc = Return provider"
    using assms(4) by (cases "Manual (ManagementApiAuth (Spec dc))") (auto simp: BuildManagmenetApiSecurityProvider_cases)
  obtain aff racks where aff: "rackNodeAffinitylabels dc rack = (Return aff, dc\<lparr>Spec := (Spec dc)\<lparr>Racks := racks\<rparr>\<rparr>)"
    by (rule rackNodeAffinitylabels_Return)
  let ?dc = "dc\<lparr>Spec := (Spec dc)\<lparr>Racks := racks\<rparr>\<rparr>"
  have "makeImage E ?dc = Return img" using img by (simp add: makeImage_def split: if_splits)
  moreover have "BuildManagmenetApiSecurityProvider ?dc = Return provider"
    using provider unfolding BuildManagmenetApiSecurityProvider_cases
    by (cases "Manual (ManagementApiAuth (Spec dc))") (simp_all split: if_splits)
  moreover have "getConfigDataEnVars E ?dc = Return vars"
    using assms(5) unfolding getConfigDataEnVars_racks .
  ultimately obtain t where "buildPodTemplateSpec E ?dc aff rack = Return t" using buildPodTemplateSpec_total by blast
  moreover have "CassandraDataVolumeClaimSpec (StorageConfig (Spec ?dc)) = Some claim" using claim by simp
  ultimately obtain sts where "buildStatefulSet E rack ?dc n defunct aff = Return sts" using buildStatefulSet_total by blast
  with aff show ?thesis by (simp add: newStatefulSetForCassandraDatacenterHelper_def)
qed

theorem accepted_datacenter_builds_witness:
  "\<exists>sts. fst (newStatefulSetForCassandraDatacenterHelper sampleEnv ''r2'' storedDc 1 True) = Return sts"
proof (rule accepted_datacenter_builds)
  show "ValidateSingleDatacenter (\<lambda>_. None) storedDc = Return ()" by code_simp
  show "getConfigDataEnVars sampleEnv storedDc = Return [plainEnv ''CONFIG_FILE_DATA'' ''{}'']" by code_simp
qed (simp_all add: storedDc_def sample_defs)

end
